(* ===== verification/Prelude.thy ===== *)
theory Prelude
  imports Main
begin

text \<open>
  Shared ground of the development: the JavaScript string operations the code uses
  (decimal rendering of numbers in template literals, \<open>split\<close> on one character), the
  status and message shapes of the services' replies, JSON values, and the theorem
  collections the component theories fill.
\<close>

named_theorems wp_intros \<open>introduction rules of the program calculus\<close>
named_theorems store_simps \<open>facts about tables and rows\<close>

section \<open>Strings\<close>

text \<open>The decimal digits of a natural number, as \<open>`${n}`\<close> renders them.\<close>

definition digit_char :: "nat \<Rightarrow> char" where
  "digit_char d = ''0123456789'' ! d"

fun show_nat :: "nat \<Rightarrow> string" where
  "show_nat n = (if n < 10 then [digit_char n] else show_nat (n div 10) @ [digit_char (n mod 10)])"

declare show_nat.simps [simp del]

definition show_int :: "int \<Rightarrow> string" where
  "show_int i = (if i < 0 then CHR ''-'' # show_nat (nat (- i)) else show_nat (nat i))"

definition digit_val :: "char \<Rightarrow> nat" where
  "digit_val c = of_char c - 48"

definition read_nat :: "string \<Rightarrow> nat" where
  "read_nat = foldl (\<lambda>n c. 10 * n + digit_val c) 0"

lemma less_10_cases:
  "(d::nat) < 10 \<Longrightarrow> d = 0 \<or> d = 1 \<or> d = 2 \<or> d = 3 \<or> d = 4 \<or> d = 5 \<or> d = 6 \<or> d = 7 \<or> d = 8 \<or> d = 9"
  by arith

lemma digit_val_char: "d < 10 \<Longrightarrow> digit_val (digit_char d) = d"
  by (drule less_10_cases, elim disjE) (simp_all add: digit_val_def digit_char_def)

lemma digit_char_range: "d < 10 \<Longrightarrow> digit_char d \<in> set ''0123456789''"
  unfolding digit_char_def by (rule nth_mem) simp

lemma read_show_nat: "read_nat (show_nat n) = n"
proof (induction n rule: show_nat.induct)
  case (1 n)
  show ?case
  proof (cases "n < 10")
    case True
    then show ?thesis by (simp add: show_nat.simps [of n] read_nat_def digit_val_char)
  next
    case False
    with "1" have "read_nat (show_nat (n div 10)) = n div 10" by simp
    with False show ?thesis
      by (simp add: show_nat.simps [of n] read_nat_def digit_val_char)
  qed
qed

lemma show_nat_inj [simp]: "show_nat m = show_nat n \<longleftrightarrow> m = n"
  by (metis read_show_nat)

lemma show_nat_digits: "set (show_nat n) \<subseteq> set ''0123456789''"
proof (induction n rule: show_nat.induct)
  case (1 n)
  show ?case
  proof (cases "n < 10")
    case True
    then show ?thesis using digit_char_range [of n] by (simp add: show_nat.simps [of n])
  next
    case False
    with "1" have "set (show_nat (n div 10)) \<subseteq> set ''0123456789''" by simp
    with False show ?thesis using digit_char_range [of "n mod 10"]
      by (simp add: show_nat.simps [of n])
  qed
qed

lemma show_nat_no_sep:
  "c \<notin> set ''0123456789'' \<Longrightarrow> c \<notin> set (show_nat n)"
  using show_nat_digits by blast

lemma show_int_inj [simp]: "show_int i = show_int j \<longleftrightarrow> i = j"
proof
  assume eq: "show_int i = show_int j"
  have minus: "CHR ''-'' \<notin> set (show_nat n)" for n
    by (rule show_nat_no_sep) simp
  have neq: "CHR ''-'' # xs \<noteq> show_nat n" for n xs
    using minus [of n] by (metis list.set_intros(1))
  show "i = j"
    using eq neq neq [symmetric] by (auto simp: show_int_def split: if_splits)
qed simp

lemma show_int_no_colon: "CHR '':'' \<notin> set (show_int i)"
  using show_nat_no_sep [of "CHR '':''"] by (simp add: show_int_def)

text \<open>Two texts split by a separator that does not occur before it agree only if both parts do.\<close>

lemma sep_prefix_unique:
  "x @ c # r = y @ c # s \<Longrightarrow> c \<notin> set x \<Longrightarrow> c \<notin> set y \<Longrightarrow> x = y \<and> r = s"
proof (induction x arbitrary: y)
  case Nil
  then show ?case by (cases y) auto
next
  case (Cons a x)
  then show ?case by (cases y) auto
qed

text \<open>\<open>String.prototype.split\<close> with a separator of one character.\<close>

fun split_on :: "char \<Rightarrow> string \<Rightarrow> string list" where
  "split_on c [] = [[]]"
| "split_on c (x # xs) =
     (if x = c then [] # split_on c xs
      else (case split_on c xs of [] \<Rightarrow> [[x]] | y # ys \<Rightarrow> (x # y) # ys))"

lemma split_on_nonempty [simp]: "split_on c xs \<noteq> []"
  by (cases xs) (auto split: list.splits)

lemma split_on_no_sep: "c \<notin> set xs \<Longrightarrow> split_on c xs = [xs]"
  by (induction xs) auto

lemma split_on_append: "c \<notin> set xs \<Longrightarrow> split_on c (xs @ c # ys) = xs # split_on c ys"
  by (induction xs) auto

lemma split_on_parts: "p \<in> set (split_on c xs) \<Longrightarrow> c \<notin> set p"
  by (induction xs arbitrary: p) (auto split: list.splits if_splits)

lemma split_on_two:
  "split_on c xs = [a, b] \<longleftrightarrow> xs = a @ c # b \<and> c \<notin> set a \<and> c \<notin> set b"
proof
  assume sp: "split_on c xs = [a, b]"
  have "c \<notin> set a" "c \<notin> set b"
    using split_on_parts [of _ c xs] sp by auto
  moreover have "xs = a @ c # b"
    using sp
  proof (induction xs arbitrary: a)
    case Nil
    then show ?case by simp
  next
    case (Cons x xs)
    show ?case
    proof (cases "x = c")
      case True
      with Cons.prems have "a = []" "split_on c xs = [b]" by auto
      moreover have "split_on c ys = [b] \<Longrightarrow> ys = b" for ys
      proof (induction ys arbitrary: b)
        case (Cons z zs)
        then show ?case by (auto split: if_splits list.splits)
      qed simp
      ultimately show ?thesis using True by simp
    next
      case False
      with Cons.prems obtain a' where "a = x # a'" "split_on c xs = [a', b]"
        by (auto split: list.splits)
      with Cons.IH show ?thesis by simp
    qed
  qed
  ultimately show "xs = a @ c # b \<and> c \<notin> set a \<and> c \<notin> set b" by simp
next
  assume "xs = a @ c # b \<and> c \<notin> set a \<and> c \<notin> set b"
  then show "split_on c xs = [a, b]"
    by (simp add: split_on_append split_on_no_sep)
qed

section \<open>Replies of the services\<close>

text \<open>
  Every handler answers an object with \<open>data\<close>, \<open>message\<close> and \<open>status\<close>. The status is a
  word (\<open>'success'\<close>, \<open>'OK'\<close>) almost everywhere and the number 200 in one place.
\<close>

datatype status = StatusText string | StatusNum int

record 'd reply =
  reply_data :: 'd
  reply_message :: string
  reply_status :: status

abbreviation success :: "'d \<Rightarrow> string \<Rightarrow> 'd reply" where
  "success d m \<equiv> \<lparr>reply_data = d, reply_message = m, reply_status = StatusText ''success''\<rparr>"

section \<open>JSON values\<close>

text \<open>
  The values an event payload is made of. An object is an association list in insertion
  order; \<open>undefined\<close> properties are not part of it, as in JSON.
\<close>

datatype json =
    JNull
  | JBool bool
  | JNum int
  | JStr string
  | JArr "json list"
  | JObj "(string \<times> json) list"

type_synonym object = "(string \<times> json) list"

definition json_of_option :: "('a \<Rightarrow> json) \<Rightarrow> 'a option \<Rightarrow> json" where
  "json_of_option f x = (case x of None \<Rightarrow> JNull | Some a \<Rightarrow> f a)"

text \<open>\<open>{ ...obj, [k]: v }\<close>: an existing property keeps its place, a new one goes last.\<close>

fun set_prop :: "string \<Rightarrow> json \<Rightarrow> object \<Rightarrow> object" where
  "set_prop k v [] = [(k, v)]"
| "set_prop k v ((k', v') # ps) = (if k = k' then (k, v) # ps else (k', v') # set_prop k v ps)"

text \<open>\<open>const { [k]: x, ...rest } = obj\<close>: the rest of the object without \<open>k\<close>.\<close>

definition drop_prop :: "string \<Rightarrow> object \<Rightarrow> object" where
  "drop_prop k obj = filter (\<lambda>(k', v). k' \<noteq> k) obj"

lemma map_of_set_prop: "map_of (set_prop k v obj) = (map_of obj)(k \<mapsto> v)"
  by (induction k v obj rule: set_prop.induct) auto

lemma drop_prop_absent: "map_of obj k = None \<Longrightarrow> drop_prop k obj = obj"
  by (induction obj) (auto simp: drop_prop_def split: if_splits)

lemma drop_set_prop: "drop_prop k (set_prop k v obj) = drop_prop k obj"
  by (induction k v obj rule: set_prop.induct) (auto simp: drop_prop_def)

section \<open>Lists of rows\<close>

lemma find_SomeD: "List.find P xs = Some x \<Longrightarrow> x \<in> set xs \<and> P x"
  by (induction xs) (auto split: if_splits)

lemma find_Some_unique:
  "x \<in> set xs \<Longrightarrow> P x \<Longrightarrow> (\<And>y. y \<in> set xs \<Longrightarrow> P y \<Longrightarrow> y = x) \<Longrightarrow> List.find P xs = Some x"
proof -
  assume x: "x \<in> set xs" "P x" and unique: "\<And>y. y \<in> set xs \<Longrightarrow> P y \<Longrightarrow> y = x"
  show "List.find P xs = Some x"
  proof (cases "List.find P xs")
    case None
    with x show ?thesis by (simp add: find_None_iff)
  next
    case (Some y)
    with find_SomeD [OF Some] unique show ?thesis by blast
  qed
qed

end
