(* ===== verification/Exceptions.thy ===== *)
theory Exceptions
  imports Prelude
begin

text \<open>
  What the code throws. A value that travels through \<open>throw\<close>, a rejected promise or
  \<open>throwError\<close> is one of: a NestJS \<open>HttpException\<close> (the domain errors, with the status,
  the response body and the \<open>message\<close> of the exception), a NestJS \<open>RpcException\<close>, any
  other \<open>Error\<close> (a driver, SDK or runtime error, with its \<open>name\<close> and \<open>message\<close>), a plain
  object that may carry a \<open>statusCode\<close> and a \<open>message\<close> (what an error looks like after a
  hop over RabbitMQ), or some other value.
\<close>

datatype message_body = Text string | Texts "string list"

datatype http_body = BodyText string | BodyObject "message_body option"

datatype rpc_error = RpcText string | RpcObject "int option" "message_body option" | RpcOther

datatype status_prop = StatusAbsent | StatusNumber int | StatusOther

datatype exn =
    HttpException int http_body string
  | RpcException rpc_error
  | ErrorExc string string
  | ThrownObject status_prop "message_body option"
  | ThrownOther

text \<open>
  The NestJS exceptions the code constructs. \<open>new NotFoundException(m)\<close> has status 404,
  the response object with \<open>message: m\<close> and the message \<open>m\<close>; without an argument the
  message is the status's own phrase.
\<close>

definition http_exception :: "int \<Rightarrow> string \<Rightarrow> exn" where
  "http_exception code m = HttpException code (BodyObject (Some (Text m))) m"

definition BadRequestException :: "string \<Rightarrow> exn" where
  "BadRequestException m = http_exception 400 m"

definition UnauthorizedException :: "string \<Rightarrow> exn" where
  "UnauthorizedException m = http_exception 401 m"

definition ForbiddenException :: "string \<Rightarrow> exn" where
  "ForbiddenException m = http_exception 403 m"

definition NotFoundException :: "string \<Rightarrow> exn" where
  "NotFoundException m = http_exception 404 m"

definition ConflictException :: "string \<Rightarrow> exn" where
  "ConflictException m = http_exception 409 m"

lemmas exception_defs =
  http_exception_def BadRequestException_def UnauthorizedException_def
  ForbiddenException_def NotFoundException_def ConflictException_def

text \<open>
  A failure of a third-party library (database, cache, object store, mailer, token
  library) reaches the code as an \<open>Error\<close>, never as an \<open>HttpException\<close>.
\<close>

fun is_library_error :: "exn \<Rightarrow> bool" where
  "is_library_error (ErrorExc n m) = True"
| "is_library_error _ = False"

lemma domain_not_library [simp]:
  "\<not> is_library_error (BadRequestException m)"
  "\<not> is_library_error (UnauthorizedException m)"
  "\<not> is_library_error (ForbiddenException m)"
  "\<not> is_library_error (NotFoundException m)"
  "\<not> is_library_error (ConflictException m)"
  by (simp_all add: exception_defs)

lemma domain_distinct [simp]:
  "ForbiddenException m \<noteq> NotFoundException m'"
  "NotFoundException m \<noteq> ForbiddenException m'"
  "ConflictException m \<noteq> NotFoundException m'"
  "ConflictException m \<noteq> ForbiddenException m'"
  "NotFoundException m \<noteq> ConflictException m'"
  "ForbiddenException m \<noteq> ConflictException m'"
  "UnauthorizedException m \<noteq> BadRequestException m'"
  "BadRequestException m \<noteq> UnauthorizedException m'"
  by (simp_all add: exception_defs)

end
