(* ===== verification/Effects.thy ===== *)
theory Effects
  imports Exceptions
begin

text \<open>
  The effects of the code. Everything a service reaches through a library (database,
  cache, broker, clock, token and hash functions, object store) is outside the
  repository: it is a parameter of the model, a function on an unknown world
  \<open>'w\<close> that answers a value or throws. The code itself is a program over such atomic
  operations; each \<open>await\<close> on a library call is one step. A program can be run to its
  end, stopped after any number of steps (the process is killed), or interleaved with
  another. A weakest-precondition transformer with a crash invariant reduces a
  statement about all of that to conditions on the atomic operations.
\<close>

type_synonym ('w, 'a) op = "'w \<Rightarrow> (exn + 'a) \<times> 'w"

datatype ('w, 'a) prog =
    Return 'a
  | Throw exn
  | Step "'w \<Rightarrow> ('w, 'a) prog \<times> 'w"

section \<open>Composition\<close>

text \<open>Induction over the steps of a program, with the successor in each world.\<close>

lemma prog_induct [case_names Return Throw Step]:
  assumes "\<And>a. P (Return a)" and "\<And>e. P (Throw e)"
    and step: "\<And>f. (\<And>w p' w'. f w = (p', w') \<Longrightarrow> P p') \<Longrightarrow> P (Step f)"
  shows "P p"
proof (induction p)
  case (Step f)
  have "P p'" if "f w = (p', w')" for w p' w'
    using Step [of "f w" p'] that by (metis fsts.intros fst_conv rangeI)
  then show ?case by (rule step)
qed (rule assms)+

text \<open>One library call; sequencing; \<open>try \<dots> catch\<close>; \<open>for (const x of xs) \<dots>\<close>.\<close>

definition atom :: "('w, 'a) op \<Rightarrow> ('w, 'a) prog" where
  "atom f = Step (\<lambda>w. case f w of (Inl e, w') \<Rightarrow> (Throw e, w') | (Inr a, w') \<Rightarrow> (Return a, w'))"

primrec bind :: "('w, 'a) prog \<Rightarrow> ('a \<Rightarrow> ('w, 'b) prog) \<Rightarrow> ('w, 'b) prog" where
  "bind (Return a) g = g a"
| "bind (Throw e) g = Throw e"
| "bind (Step f) g = Step (map_prod (\<lambda>p. bind p g) id \<circ> f)"

primrec try_catch :: "('w, 'a) prog \<Rightarrow> (exn \<Rightarrow> ('w, 'a) prog) \<Rightarrow> ('w, 'a) prog" where
  "try_catch (Return a) h = Return a"
| "try_catch (Throw e) h = h e"
| "try_catch (Step f) h = Step (map_prod (\<lambda>p. try_catch p h) id \<circ> f)"

fun for_each :: "('x \<Rightarrow> ('w, unit) prog) \<Rightarrow> 'x list \<Rightarrow> ('w, unit) prog" where
  "for_each body [] = Return ()"
| "for_each body (x # xs) = bind (body x) (\<lambda>_. for_each body xs)"

text \<open>A loop that threads a local variable (\<open>let n = 0; for \<dots> n++\<close>).\<close>

fun fold_each :: "('x \<Rightarrow> 's \<Rightarrow> ('w, 's) prog) \<Rightarrow> 'x list \<Rightarrow> 's \<Rightarrow> ('w, 's) prog" where
  "fold_each body [] s = Return s"
| "fold_each body (x # xs) s = bind (body x s) (fold_each body xs)"

definition throw_if :: "bool \<Rightarrow> exn \<Rightarrow> ('w, unit) prog" where
  "throw_if b e = (if b then Throw e else Return ())"

lemma bind_assoc: "bind (bind p g) h = bind p (\<lambda>a. bind (g a) h)"
proof (induction p rule: prog_induct)
  case (Step f)
  then show ?case by (auto simp: fun_eq_iff map_prod_def split: prod.splits)
qed simp_all

section \<open>Execution\<close>

primrec run :: "('w, 'a) prog \<Rightarrow> 'w \<Rightarrow> (exn + 'a) \<times> 'w" where
  "run (Return a) = (\<lambda>w. (Inr a, w))"
| "run (Throw e) = (\<lambda>w. (Inl e, w))"
| "run (Step f) = (\<lambda>w. case (map_prod run id \<circ> f) w of (k, w') \<Rightarrow> k w')"

text \<open>The world after at most \<open>n\<close> library calls: what is left when the process dies there.\<close>

fun crash_after :: "nat \<Rightarrow> ('w, 'a) prog \<Rightarrow> 'w \<Rightarrow> 'w" where
  "crash_after (Suc n) (Step f) w = (case f w of (p, w') \<Rightarrow> crash_after n p w')"
| "crash_after _ _ w = w"

text \<open>
  Two programs over one world, interleaved: \<open>True\<close> lets the left one take a step,
  \<open>False\<close> the right one; a finished program ignores its turns.
\<close>

fun advance :: "('w, 'a) prog \<Rightarrow> 'w \<Rightarrow> ('w, 'a) prog \<times> 'w" where
  "advance (Step f) w = f w"
| "advance p w = (p, w)"

fun interleave :: "bool list \<Rightarrow> ('w, 'a) prog \<Rightarrow> ('w, 'b) prog \<Rightarrow> 'w
    \<Rightarrow> ('w, 'a) prog \<times> ('w, 'b) prog \<times> 'w" where
  "interleave [] p q w = (p, q, w)"
| "interleave (True # bs) p q w = (case advance p w of (p', w') \<Rightarrow> interleave bs p' q w')"
| "interleave (False # bs) p q w = (case advance q w of (q', w') \<Rightarrow> interleave bs p q' w')"

lemma run_Step: "run (Step f) w = (case f w of (p, w') \<Rightarrow> run p w')"
  by (cases "f w") simp

lemma run_atom [simp]: "run (atom f) w = f w"
  by (auto simp: atom_def split: prod.splits sum.splits)

lemma run_bind:
  "run (bind p g) w =
     (case run p w of (Inl e, w') \<Rightarrow> (Inl e, w') | (Inr a, w') \<Rightarrow> run (g a) w')"
proof (induction p arbitrary: w rule: prog_induct)
  case (Step f)
  then show ?case by (cases "f w") simp
qed simp_all

lemma run_try_catch:
  "run (try_catch p h) w =
     (case run p w of (Inl e, w') \<Rightarrow> run (h e) w' | (Inr a, w') \<Rightarrow> (Inr a, w'))"
proof (induction p arbitrary: w rule: prog_induct)
  case (Step f)
  then show ?case by (cases "f w") simp
qed simp_all

lemma run_throw_if: "run (throw_if b e) w = (if b then Inl e else Inr (), w)"
  by (simp add: throw_if_def)

lemmas run_simps = run_bind run_try_catch run_throw_if

section \<open>Weakest preconditions with a crash invariant\<close>

text \<open>
  \<open>wp I p Q X w\<close>: started in \<open>w\<close>, every world \<open>p\<close> passes through satisfies \<open>I\<close>, a normal
  end satisfies \<open>Q\<close> and a thrown exception satisfies \<open>X\<close>.
\<close>

primrec wp :: "('w \<Rightarrow> bool) \<Rightarrow> ('w, 'a) prog \<Rightarrow> ('a \<Rightarrow> 'w \<Rightarrow> bool) \<Rightarrow> (exn \<Rightarrow> 'w \<Rightarrow> bool)
    \<Rightarrow> 'w \<Rightarrow> bool" where
  "wp I (Return a) Q X = (\<lambda>w. I w \<and> Q a w)"
| "wp I (Throw e) Q X = (\<lambda>w. I w \<and> X e w)"
| "wp I (Step f) Q X = (\<lambda>w. I w \<and> (case (map_prod (\<lambda>p. wp I p Q X) id \<circ> f) w of (k, w') \<Rightarrow> k w'))"

lemma wp_now: "wp I p Q X w \<Longrightarrow> I w"
  by (cases p) auto

lemma wp_Step: "wp I (Step f) Q X w \<longleftrightarrow> I w \<and> (case f w of (p, w') \<Rightarrow> wp I p Q X w')"
  by (cases "f w") simp

lemma wp_bind: "wp I (bind p g) Q X w \<longleftrightarrow> wp I p (\<lambda>a. wp I (g a) Q X) X w"
proof (induction p arbitrary: w rule: prog_induct)
  case (Return a)
  then show ?case using wp_now by fastforce
next
  case (Step f)
  then show ?case by (cases "f w") simp
qed simp

lemma wp_try_catch: "wp I (try_catch p h) Q X w \<longleftrightarrow> wp I p Q (\<lambda>e. wp I (h e) Q X) w"
proof (induction p arbitrary: w rule: prog_induct)
  case (Throw e)
  then show ?case using wp_now by fastforce
next
  case (Step f)
  then show ?case by (cases "f w") simp
qed simp

lemma wp_atom:
  "wp I (atom f) Q X w \<longleftrightarrow>
     I w \<and> (case f w of (Inl e, w') \<Rightarrow> I w' \<and> X e w' | (Inr a, w') \<Rightarrow> I w' \<and> Q a w')"
  by (auto simp: atom_def split: prod.splits sum.splits)

lemma wp_mono:
  "wp I p Q X w \<Longrightarrow> (\<And>w. I w \<Longrightarrow> J w) \<Longrightarrow> (\<And>a w. Q a w \<Longrightarrow> Q' a w) \<Longrightarrow> (\<And>e w. X e w \<Longrightarrow> X' e w)
    \<Longrightarrow> wp J p Q' X' w"
proof (induction p arbitrary: w rule: prog_induct)
  case (Step f)
  then show ?case by (cases "f w") auto
qed simp_all

text \<open>The ends of a program satisfy the crash invariant too.\<close>

lemma wp_end_inv:
  "wp I p Q X w \<Longrightarrow> wp I p (\<lambda>a w. I w \<and> Q a w) (\<lambda>e w. I w \<and> X e w) w"
proof (induction p arbitrary: w rule: prog_induct)
  case (Step f)
  then show ?case by (cases "f w") auto
qed simp_all

text \<open>Soundness: for the completed run and for the run cut at any point.\<close>

lemma wp_run:
  "wp I p Q X w \<Longrightarrow> case run p w of (Inl e, w') \<Rightarrow> I w' \<and> X e w' | (Inr a, w') \<Rightarrow> I w' \<and> Q a w'"
proof (induction p arbitrary: w rule: prog_induct)
  case (Step f)
  then show ?case by (cases "f w") auto
qed simp_all

lemma wp_crash_after: "wp I p Q X w \<Longrightarrow> I (crash_after n p w)"
proof (induction n p w rule: crash_after.induct)
  case (1 n f w)
  then show ?case by (auto split: prod.splits)
qed (auto dest: wp_now)

end
