(* ===== verification/Contracts.thy ===== *)
theory Contracts
  imports Effects
begin

text \<open>
  How a library's documented behaviour enters a theorem. A library operation is an
  unknown function on an unknown world. A \<open>view\<close> shows what the operation's documentation
  talks about (the rows of the tables, the keys of the cache, the messages of the
  broker), and \<open>implements view f R\<close> says that each call either throws a library error
  and changes nothing that the view shows, or answers and changes the view as the
  relation \<open>R\<close> allows. So every call may fail at any time, and nothing else about the
  library is assumed.
\<close>

definition implements :: "('w \<Rightarrow> 'v) \<Rightarrow> ('w, 'a) op \<Rightarrow> ('v \<Rightarrow> 'a \<Rightarrow> 'v \<Rightarrow> bool) \<Rightarrow> bool" where
  "implements view f R \<longleftrightarrow>
     (\<forall>w. case f w of
        (Inl e, w') \<Rightarrow> is_library_error e \<and> view w' = view w
      | (Inr a, w') \<Rightarrow> R (view w) a (view w'))"

text \<open>The same for an operation whose errors say something about the view.\<close>

definition answers :: "('w \<Rightarrow> 'v) \<Rightarrow> ('w, 'a) op \<Rightarrow> ('v \<Rightarrow> 'a \<Rightarrow> 'v \<Rightarrow> bool) \<Rightarrow> (exn \<Rightarrow> 'v \<Rightarrow> bool)
    \<Rightarrow> bool" where
  "answers view f R err \<longleftrightarrow>
     implements view f R \<and> (\<forall>w e w'. f w = (Inl e, w') \<longrightarrow> err e (view w))"

text \<open>The relation of an operation that only reads.\<close>

definition reads :: "('v \<Rightarrow> 'a \<Rightarrow> bool) \<Rightarrow> 'v \<Rightarrow> 'a \<Rightarrow> 'v \<Rightarrow> bool" where
  "reads A v a v' \<longleftrightarrow> v' = v \<and> A v a"

lemma readsD: "reads A v a v' \<Longrightarrow> v' = v \<and> A v a"
  by (simp add: reads_def)

text \<open>
  The weakest precondition seen through a view: from every world that looks like \<open>v\<close>,
  each intermediate view satisfies \<open>I\<close>, a normal end \<open>Q\<close>, a thrown exception \<open>X\<close>.
\<close>

definition vwp :: "('w \<Rightarrow> 'v) \<Rightarrow> ('v \<Rightarrow> bool) \<Rightarrow> ('w, 'a) prog \<Rightarrow> ('a \<Rightarrow> 'v \<Rightarrow> bool)
    \<Rightarrow> (exn \<Rightarrow> 'v \<Rightarrow> bool) \<Rightarrow> 'v \<Rightarrow> bool" where
  "vwp view I p Q X v \<longleftrightarrow>
     (\<forall>w. view w = v \<longrightarrow>
        wp (\<lambda>w. I (view w)) p (\<lambda>a w. Q a (view w)) (\<lambda>e w. X e (view w)) w)"

lemma vwp_return [wp_intros]: "I v \<Longrightarrow> Q a v \<Longrightarrow> vwp view I (Return a) Q X v"
  by (simp add: vwp_def)

lemma vwp_throw [wp_intros]: "I v \<Longrightarrow> X e v \<Longrightarrow> vwp view I (Throw e) Q X v"
  by (simp add: vwp_def)

lemma vwp_bind [wp_intros]:
  "vwp view I p (\<lambda>a. vwp view I (g a) Q X) X v \<Longrightarrow> vwp view I (bind p g) Q X v"
  unfolding vwp_def wp_bind by (auto elim!: wp_mono)

lemma vwp_try_catch [wp_intros]:
  "vwp view I p Q (\<lambda>e. vwp view I (h e) Q X) v \<Longrightarrow> vwp view I (try_catch p h) Q X v"
  unfolding vwp_def wp_try_catch by (auto elim!: wp_mono)

lemma vwp_atom_err:
  assumes "answers view f R err" and "I v"
    and "\<And>e. is_library_error e \<Longrightarrow> err e v \<Longrightarrow> X e v"
    and "\<And>a v'. R v a v' \<Longrightarrow> I v' \<and> Q a v'"
  shows "vwp view I (atom f) Q X v"
  unfolding vwp_def
proof (intro allI impI)
  fix w
  assume w: "view w = v"
  obtain r w' where f: "f w = (r, w')" by (cases "f w")
  have "case r of Inl e \<Rightarrow> is_library_error e \<and> view w' = view w | Inr a \<Rightarrow> R (view w) a (view w')"
    using assms(1) f unfolding answers_def implements_def
    by (metis (no_types, lifting) old.prod.case sum.case_eq_if)
  moreover have "err e v" if "r = Inl e" for e
    using assms(1) f w that by (auto simp: answers_def)
  ultimately show "wp (\<lambda>w. I (view w)) (atom f) (\<lambda>a w. Q a (view w)) (\<lambda>e w. X e (view w)) w"
    using w f assms(2-4) by (auto simp: wp_atom split: sum.splits)
qed

lemma vwp_atom:
  assumes "implements view f R" and "I v"
    and "\<And>e. is_library_error e \<Longrightarrow> X e v"
    and "\<And>a v'. R v a v' \<Longrightarrow> I v' \<and> Q a v'"
  shows "vwp view I (atom f) Q X v"
  by (rule vwp_atom_err [where err = "\<lambda>_ _. True" and R = R]) (use assms in \<open>auto simp: answers_def\<close>)

lemma vwp_throw_if [wp_intros]:
  "I v \<Longrightarrow> (b \<Longrightarrow> X e v) \<Longrightarrow> (\<not> b \<Longrightarrow> Q () v) \<Longrightarrow> vwp view I (throw_if b e) Q X v"
  by (simp add: throw_if_def vwp_def)

lemma vwp_if [wp_intros]:
  "(b \<Longrightarrow> vwp view I p Q X v) \<Longrightarrow> (\<not> b \<Longrightarrow> vwp view I q Q X v)
    \<Longrightarrow> vwp view I (if b then p else q) Q X v"
  by simp

lemma vwp_case_option [wp_intros]:
  "(x = None \<Longrightarrow> vwp view I p Q X v) \<Longrightarrow> (\<And>a. x = Some a \<Longrightarrow> vwp view I (q a) Q X v)
    \<Longrightarrow> vwp view I (case x of None \<Rightarrow> p | Some a \<Rightarrow> q a) Q X v"
  by (cases x) auto

lemma vwp_now: "vwp view I p Q X (view w) \<Longrightarrow> I (view w)"
  by (auto simp: vwp_def dest: wp_now)

lemma vwp_mono:
  "vwp view I p Q X v \<Longrightarrow> (\<And>v. I v \<Longrightarrow> J v) \<Longrightarrow> (\<And>a v. Q a v \<Longrightarrow> Q' a v) \<Longrightarrow> (\<And>e v. X e v \<Longrightarrow> X' e v)
    \<Longrightarrow> vwp view J p Q' X' v"
  unfolding vwp_def by (auto elim!: wp_mono)

lemma vwp_strengthen:
  "vwp view I p Q X v \<Longrightarrow> (\<And>v. I v \<Longrightarrow> J v) \<Longrightarrow> (\<And>a v. I v \<Longrightarrow> Q a v \<Longrightarrow> Q' a v)
    \<Longrightarrow> (\<And>e v. I v \<Longrightarrow> X e v \<Longrightarrow> X' e v) \<Longrightarrow> vwp view J p Q' X' v"
  unfolding vwp_def by (blast intro: wp_mono [OF wp_end_inv])

text \<open>A loop: \<open>J\<close> relates what is left to do with the view.\<close>

lemma vwp_for_each:
  assumes "J xs v" and "\<And>v. J [] v \<Longrightarrow> I v \<and> Q () v"
    and "\<And>x ys v. J (x # ys) v \<Longrightarrow> vwp view I (body x) (\<lambda>_. J ys) X v"
  shows "vwp view I (for_each body xs) Q X v"
  using assms(1)
proof (induction xs arbitrary: v)
  case Nil
  with assms(2) show ?case by (auto intro: wp_intros)
next
  case (Cons x xs)
  have "vwp view I (body x) (\<lambda>_. vwp view I (for_each body xs) Q X) X v"
    by (rule vwp_mono [OF assms(3) [OF Cons.prems]]) (auto intro: Cons.IH)
  then show ?case by (auto intro: wp_intros)
qed

lemma vwp_fold_each:
  assumes "J xs s v" and "\<And>s v. J [] s v \<Longrightarrow> I v \<and> Q s v"
    and "\<And>x ys s v. J (x # ys) s v \<Longrightarrow> vwp view I (body x s) (\<lambda>s'. J ys s') X v"
  shows "vwp view I (fold_each body xs s) Q X v"
  using assms(1)
proof (induction xs arbitrary: s v)
  case Nil
  with assms(2) show ?case by (auto intro: wp_intros)
next
  case (Cons x xs)
  have "vwp view I (body x s) (\<lambda>s'. vwp view I (fold_each body xs s') Q X) X v"
    by (rule vwp_mono [OF assms(3) [OF Cons.prems]]) (auto intro: Cons.IH)
  then show ?case by (auto intro: wp_intros)
qed

text \<open>What a triple gives for a completed run and for a run that is cut short.\<close>

lemma vwp_run:
  assumes "vwp view I p Q X (view w)" and "run p w = (r, w')"
  shows "I (view w') \<and> (case r of Inl e \<Rightarrow> X e (view w') | Inr a \<Rightarrow> Q a (view w'))"
proof -
  from assms(1) have "wp (\<lambda>w. I (view w)) p (\<lambda>a w. Q a (view w)) (\<lambda>e w. X e (view w)) w"
    by (simp add: vwp_def)
  from wp_run [OF this] assms(2) show ?thesis by (auto split: sum.splits)
qed

lemma vwp_crash: "vwp view I p Q X (view w) \<Longrightarrow> I (view (crash_after n p w))"
  unfolding vwp_def by (blast dest: wp_crash_after)

end
