(* ===== verification/Entities.thy ===== *)
theory Entities
  imports Prelude
begin

text \<open>
  The TypeORM entities (\<open>libs/common/src/entities\<close>), the DTOs
  (\<open>libs/common/src/dtos\<close>) and the JSON an entity becomes when it is stored in an event
  payload. A nullable column is an option. A relation property is absent
  (\<open>undefined\<close> or \<open>null\<close>), a stub that only carries the id, or the loaded entity; a table
  row holds its foreign key as a stub. The timestamps that the database maintains by
  itself (\<open>createdAt\<close>, \<open>updatedAt\<close>) are left out: no code reads them. In an update DTO,
  \<open>None\<close> is a property that is not sent; for a nullable column \<open>Some None\<close> is an explicit
  \<open>null\<close>.
\<close>

datatype 'a rel = Ref int | Loaded 'a

datatype FarmState = ownnotmorgaged | ownmorgaged | leased

fun farm_state_num :: "FarmState \<Rightarrow> int" where
  "farm_state_num ownnotmorgaged = 1"
| "farm_state_num ownmorgaged = 2"
| "farm_state_num leased = 3"

record farm =
  farm_id :: int
  farm_name :: string
  farm_location :: string
  farm_photo :: "string option"
  farm_state :: FarmState
  farm_area :: int
  farm_userId :: int

record crop =
  crop_id :: int
  crop_name :: string
  crop_product :: string
  crop_size :: int
  crop_location :: string
  crop_photo :: "string option"
  crop_sowingDate :: string
  crop_plants :: int
  crop_farm :: "farm rel option"

record activity =
  act_id :: int
  act_photo :: "string option"
  act_type :: "string option"
  act_inputDate :: "string option"
  act_title :: "string option"
  act_manufactureLocation :: "string option"
  act_appRatio :: "string option"
  act_appMethod :: "string option"
  act_comment :: "string option"
  act_category :: "string option"
  act_bioName :: "string option"
  act_bioType :: "string option"
  act_crop :: "crop rel option"

record harvest =
  harv_id :: int
  harv_photo :: "string option"
  harv_harvestDate :: string
  harv_amount :: int
  harv_unit :: string
  harv_category :: string
  harv_description :: "string option"
  harv_crop :: "crop rel option"

record user_projection =
  up_id :: int
  up_firstName :: string
  up_lastName :: "string option"
  up_email :: string
  up_rol :: "string option"

record outbox_row =
  ob_id :: int
  ob_pattern :: string
  ob_payload :: object
  ob_publishedAt :: "int option"
  ob_attempts :: nat

section \<open>Relations\<close>

text \<open>\<open>crop.farm?.userId\<close>, \<open>crop.farm?.id\<close>, \<open>activity.crop?.farm?.userId\<close> and the foreign key of a row.\<close>

fun crop_farm_userId :: "crop \<Rightarrow> int option" where
  "crop_farm_userId c = (case crop_farm c of Some (Loaded f) \<Rightarrow> Some (farm_userId f) | _ \<Rightarrow> None)"

fun crop_farm_id :: "crop \<Rightarrow> int option" where
  "crop_farm_id c =
     (case crop_farm c of Some (Loaded f) \<Rightarrow> Some (farm_id f) | Some (Ref i) \<Rightarrow> Some i | None \<Rightarrow> None)"

fun rel_crop_farm_userId :: "crop rel option \<Rightarrow> int option" where
  "rel_crop_farm_userId (Some (Loaded c)) = crop_farm_userId c"
| "rel_crop_farm_userId _ = None"

fun rel_crop_id :: "crop rel option \<Rightarrow> int option" where
  "rel_crop_id None = None"
| "rel_crop_id (Some (Ref i)) = Some i"
| "rel_crop_id (Some (Loaded c)) = Some (crop_id c)"

section \<open>DTOs\<close>

record CreateFarmDto =
  cf_name :: string
  cf_location :: string
  cf_state :: FarmState
  cf_area :: int

record UpdateFarmDto =
  uf_name :: "string option"
  uf_location :: "string option"
  uf_state :: "FarmState option"
  uf_area :: "int option"

record CreateCropDto =
  cc_name :: string
  cc_product :: string
  cc_size :: int
  cc_location :: string
  cc_sowingDate :: string
  cc_plants :: int
  cc_farmId :: int

record UpdateCropDto =
  uc_name :: "string option"
  uc_product :: "string option"
  uc_size :: "int option"
  uc_location :: "string option"
  uc_sowingDate :: "string option"
  uc_plants :: "int option"
  uc_farmId :: "int option"

record CreateActivityDto =
  ca_cropId :: int
  ca_type :: "string option"
  ca_inputDate :: "string option"
  ca_title :: "string option"
  ca_manufactureLocation :: "string option"
  ca_appRatio :: "string option"
  ca_appMethod :: "string option"
  ca_comment :: "string option"
  ca_category :: "string option"
  ca_bioName :: "string option"
  ca_bioType :: "string option"

record UpdateActivityDto =
  ua_cropId :: "int option"
  ua_type :: "string option option"
  ua_inputDate :: "string option option"
  ua_title :: "string option option"
  ua_manufactureLocation :: "string option option"
  ua_appRatio :: "string option option"
  ua_appMethod :: "string option option"
  ua_comment :: "string option option"
  ua_category :: "string option option"
  ua_bioName :: "string option option"
  ua_bioType :: "string option option"

record CreateHarvestDto =
  ch_harvestDate :: string
  ch_amount :: int
  ch_unit :: string
  ch_category :: string
  ch_description :: "string option"
  ch_cropId :: int

record UpdateHarvestDto =
  uh_harvestDate :: "string option"
  uh_amount :: "int option"
  uh_unit :: "string option"
  uh_category :: "string option"
  uh_description :: "string option option"
  uh_cropId :: "int option"

text \<open>Assigning a property that may not have been sent.\<close>

definition given :: "'a option \<Rightarrow> 'a \<Rightarrow> 'a" where
  "given new old = (case new of None \<Rightarrow> old | Some x \<Rightarrow> x)"

lemma given_simps [simp]: "given None x = x" "given (Some y) x = y"
  by (simp_all add: given_def)

section \<open>Entities as JSON\<close>

definition js_str :: "string option \<Rightarrow> json" where
  "js_str = json_of_option JStr"

definition farm_json :: "farm \<Rightarrow> object" where
  "farm_json f =
     [(''id'', JNum (farm_id f)), (''name'', JStr (farm_name f)), (''location'', JStr (farm_location f)),
      (''photo'', js_str (farm_photo f)), (''state'', JNum (farm_state_num (farm_state f))),
      (''area'', JNum (farm_area f)), (''userId'', JNum (farm_userId f))]"

definition farm_rel_json :: "farm rel option \<Rightarrow> object" where
  "farm_rel_json r =
     (case r of None \<Rightarrow> [] | Some (Ref i) \<Rightarrow> [(''farm'', JObj [(''id'', JNum i)])]
      | Some (Loaded f) \<Rightarrow> [(''farm'', JObj (farm_json f))])"

definition crop_json :: "crop \<Rightarrow> object" where
  "crop_json c =
     [(''id'', JNum (crop_id c)), (''name'', JStr (crop_name c)), (''product'', JStr (crop_product c)),
      (''size'', JNum (crop_size c)), (''location'', JStr (crop_location c)),
      (''photo'', js_str (crop_photo c)), (''sowingDate'', JStr (crop_sowingDate c)),
      (''plants'', JNum (crop_plants c))] @ farm_rel_json (crop_farm c)"

definition crop_rel_json :: "crop rel option \<Rightarrow> object" where
  "crop_rel_json r =
     (case r of None \<Rightarrow> [] | Some (Ref i) \<Rightarrow> [(''crop'', JObj [(''id'', JNum i)])]
      | Some (Loaded c) \<Rightarrow> [(''crop'', JObj (crop_json c))])"

definition activity_json :: "activity \<Rightarrow> object" where
  "activity_json a =
     [(''id'', JNum (act_id a)), (''photo'', js_str (act_photo a)), (''type'', js_str (act_type a)),
      (''inputDate'', js_str (act_inputDate a)), (''title'', js_str (act_title a)),
      (''manufactureLocation'', js_str (act_manufactureLocation a)),
      (''appRatio'', js_str (act_appRatio a)), (''appMethod'', js_str (act_appMethod a)),
      (''comment'', js_str (act_comment a)), (''category'', js_str (act_category a)),
      (''bioName'', js_str (act_bioName a)), (''bioType'', js_str (act_bioType a))]
     @ crop_rel_json (act_crop a)"

definition harvest_json :: "harvest \<Rightarrow> object" where
  "harvest_json h =
     [(''id'', JNum (harv_id h)), (''photo'', js_str (harv_photo h)),
      (''harvestDate'', JStr (harv_harvestDate h)), (''amount'', JNum (harv_amount h)),
      (''unit'', JStr (harv_unit h)), (''category'', JStr (harv_category h)),
      (''description'', js_str (harv_description h))]
     @ crop_rel_json (harv_crop h)"

lemma crop_json_id: "map_of (crop_json c) ''id'' = Some (JNum (crop_id c))"
  by (simp add: crop_json_def)

lemma activity_json_id: "map_of (activity_json a) ''id'' = Some (JNum (act_id a))"
  by (simp add: activity_json_def)

lemma harvest_json_id: "map_of (harvest_json h) ''id'' = Some (JNum (harv_id h))"
  by (simp add: harvest_json_def)

end
