(* ===== verification/Database.thy ===== *)
theory Database
  imports Contracts Entities "HOL-Library.Multiset"
begin

text \<open>
  The relational store as the services see it: a TypeORM \<open>Repository\<close> of one table and
  \<open>DataSource.transaction\<close> are parameters, and this theory states what their documentation
  promises about the rows. Repository calls run outside a transaction and commit by
  themselves; the calls of an \<open>EntityManager\<close> work on the open transaction's rows,
  which become visible at the commit and are lost with a rollback or a crash. Any call
  may fail, which covers constraint violations, type and range errors and lost
  connections. A request is described as if no other transaction were open.
\<close>

text \<open>
  The entity that \<open>Repository.remove\<close> gives back is the one it was given, its id unset. An
  entity made by \<open>create\<close> has no id yet: it is a function of the id the database will
  assign, and \<open>r_insert\<close> is \<open>save\<close> on such an entity. \<open>r_save\<close> is \<open>save\<close> on a loaded one. The
  \<open>where\<close> object of a query is a predicate on rows.
\<close>

datatype 'row removed = Removed 'row

record ('w, 'row) repository =
  r_find :: "string list \<Rightarrow> ('row \<Rightarrow> bool) \<Rightarrow> ('w, 'row list) op"
  r_findOne :: "string list \<Rightarrow> ('row \<Rightarrow> bool) \<Rightarrow> ('w, 'row option) op"
  r_insert :: "(int \<Rightarrow> 'row) \<Rightarrow> ('w, 'row) op"
  r_save :: "'row \<Rightarrow> ('w, 'row) op"
  r_remove :: "'row \<Rightarrow> ('w, 'row removed) op"

record 'w tx_manager =
  tx_begin :: "('w, unit) op"
  tx_commit :: "('w, unit) op"
  tx_rollback :: "('w, unit) op"

text \<open>
  \<open>dataSource.transaction(body)\<close>: begin, run the callback, commit when it resolves; when
  anything in between throws, roll back (a failing rollback is ignored) and throw on.
\<close>

definition roll_back :: "'w tx_manager \<Rightarrow> exn \<Rightarrow> ('w, 'a) prog" where
  "roll_back T err = bind (try_catch (atom (tx_rollback T)) (\<lambda>_. Return ())) (\<lambda>_. Throw err)"

definition transaction :: "'w tx_manager \<Rightarrow> ('w, 'a) prog \<Rightarrow> ('w, 'a) prog" where
  "transaction T body =
     try_catch
       (bind (atom (tx_begin T)) (\<lambda>_.
        bind body (\<lambda>a.
        bind (atom (tx_commit T)) (\<lambda>_. Return a))))
       (roll_back T)"

section \<open>Rows\<close>

definition put_row :: "('row \<Rightarrow> int) \<Rightarrow> 'row \<Rightarrow> 'row list \<Rightarrow> 'row list" where
  "put_row ident r rows =
     (if ident r \<in> ident ` set rows then map (\<lambda>x. if ident x = ident r then r else x) rows
      else rows @ [r])"

definition del_row :: "('row \<Rightarrow> int) \<Rightarrow> 'row \<Rightarrow> 'row list \<Rightarrow> 'row list" where
  "del_row ident r rows = filter (\<lambda>x. ident x \<noteq> ident r) rows"

definition distinct_ids :: "('row \<Rightarrow> int) \<Rightarrow> 'row list \<Rightarrow> bool" where
  "distinct_ids ident rows \<longleftrightarrow> distinct (map ident rows)"

lemma ids_put_row [store_simps]: "ident ` set (put_row ident r rows) = insert (ident r) (ident ` set rows)"
proof (cases "ident r \<in> ident ` set rows")
  case True
  then have "ident ` set (map (\<lambda>x. if ident x = ident r then r else x) rows) = ident ` set rows"
    by (induction rows) (auto simp: image_iff)
  with True show ?thesis by (simp add: put_row_def insert_absorb)
qed (simp add: put_row_def)

lemma distinct_put_row [store_simps]:
  "distinct_ids ident rows \<Longrightarrow> distinct_ids ident (put_row ident r rows)"
proof -
  have eq: "map ident (map (\<lambda>x. if ident x = ident r then r else x) rows) = map ident rows"
    by (induction rows) auto
  assume "distinct_ids ident rows"
  then show ?thesis
    by (cases "ident r \<in> ident ` set rows")
      (simp_all only: distinct_ids_def put_row_def eq if_True if_False map_append distinct_append, auto)
qed

lemma distinct_del_row [store_simps]:
  "distinct_ids ident rows \<Longrightarrow> distinct_ids ident (del_row ident r rows)"
  by (simp add: distinct_ids_def del_row_def distinct_map_filter)

lemma distinct_insert_row [store_simps]:
  "distinct_ids ident rows \<Longrightarrow> ident r \<notin> ident ` set rows \<Longrightarrow> distinct_ids ident (rows @ [r])"
  by (auto simp: distinct_ids_def)

lemma distinct_ids_unique:
  "distinct_ids ident rows \<Longrightarrow> x \<in> set rows \<Longrightarrow> y \<in> set rows \<Longrightarrow> ident x = ident y \<Longrightarrow> x = y"
  by (auto simp: distinct_ids_def distinct_map dest: inj_onD)

text \<open>The row with a given primary key.\<close>

definition row_of :: "('row \<Rightarrow> int) \<Rightarrow> int \<Rightarrow> 'row list \<Rightarrow> 'row option" where
  "row_of ident i rows = List.find (\<lambda>r. ident r = i) rows"

lemma row_of_Some: "row_of ident i rows = Some r \<Longrightarrow> r \<in> set rows \<and> ident r = i"
  by (auto simp: row_of_def dest: find_SomeD)

lemma row_of_None: "row_of ident i rows = None \<longleftrightarrow> i \<notin> ident ` set rows"
  by (auto simp: row_of_def find_None_iff)

lemma row_of_eq:
  "distinct_ids ident rows \<Longrightarrow> r \<in> set rows \<Longrightarrow> row_of ident (ident r) rows = Some r"
  unfolding row_of_def by (rule find_Some_unique) (auto dest: distinct_ids_unique)

lemma row_of_put_row:
  "row_of ident i (put_row ident r rows) = (if i = ident r then Some r else row_of ident i rows)"
proof (cases "ident r \<in> ident ` set rows")
  case True
  have other: "i \<noteq> ident r \<Longrightarrow>
      List.find (\<lambda>x. ident x = i) (map (\<lambda>x. if ident x = ident r then r else x) rows)
        = List.find (\<lambda>x. ident x = i) rows"
    by (induction rows) auto
  have same: "ident r \<in> ident ` set xs \<Longrightarrow>
      List.find (\<lambda>x. ident x = ident r) (map (\<lambda>x. if ident x = ident r then r else x) xs) = Some r" for xs
  proof (induction xs)
    case (Cons x xs)
    then show ?case by (cases "ident x = ident r") simp_all
  qed simp
  from other same [OF True]
  have "List.find (\<lambda>x. ident x = i) (map (\<lambda>x. if ident x = ident r then r else x) rows)
      = (if i = ident r then Some r else List.find (\<lambda>x. ident x = i) rows)"
    by simp
  with True show ?thesis by (simp add: put_row_def row_of_def)
next
  case False
  then have "List.find (\<lambda>x. ident x = i) (rows @ [r])
      = (if i = ident r then Some r else List.find (\<lambda>x. ident x = i) rows)"
    by (induction rows) auto
  with False show ?thesis by (simp add: put_row_def row_of_def)
qed

section \<open>The committed rows and the open transaction\<close>

text \<open>\<open>'t\<close> is the record of a database's tables.\<close>

record 't db =
  committed :: 't
  working :: "'t option"

definition tx_contract :: "('w \<Rightarrow> ('t, 'm) db_scheme) \<Rightarrow> 'w tx_manager \<Rightarrow> bool" where
  "tx_contract view T \<longleftrightarrow>
     implements view (tx_begin T) (\<lambda>v _ v'. v' = v\<lparr>working := Some (committed v)\<rparr>) \<and>
     implements view (tx_commit T)
       (\<lambda>v _ v'. \<exists>t. working v = Some t \<and> v' = v\<lparr>committed := t, working := None\<rparr>) \<and>
     implements view (tx_rollback T) (\<lambda>v _ v'. v' = v\<lparr>working := None\<rparr>)"

lemma tx_contractD:
  assumes "tx_contract view T"
  shows "implements view (tx_begin T) (\<lambda>v _ v'. v' = v\<lparr>working := Some (committed v)\<rparr>)"
    and "implements view (tx_commit T)
       (\<lambda>v _ v'. \<exists>t. working v = Some t \<and> v' = v\<lparr>committed := t, working := None\<rparr>)"
    and "implements view (tx_rollback T) (\<lambda>v _ v'. v' = v\<lparr>working := None\<rparr>)"
  using assms by (simp_all add: tx_contract_def)

text \<open>
  The transaction rule. \<open>F e\<close> is what holds where the callback or the commit fails; it
  must survive the rollback. Nothing is asked of the rows in that case.
\<close>

lemma vwp_transaction:
  assumes T: "tx_contract view T"
    and I: "I v" "I (v\<lparr>working := Some (committed v)\<rparr>)"
    and start: "\<And>e. is_library_error e \<Longrightarrow> F e v"
    and body: "vwp view I body
       (\<lambda>a v1. (\<forall>e. is_library_error e \<longrightarrow> F e v1) \<and>
          (\<forall>t. working v1 = Some t \<longrightarrow>
             I (v1\<lparr>committed := t, working := None\<rparr>) \<and> Q a (v1\<lparr>committed := t, working := None\<rparr>)))
       F (v\<lparr>working := Some (committed v)\<rparr>)"
    and fail: "\<And>e v1. F e v1 \<Longrightarrow>
       I v1 \<and> I (v1\<lparr>working := None\<rparr>) \<and> X e v1 \<and> X e (v1\<lparr>working := None\<rparr>)"
  shows "vwp view I (transaction T body) Q X v"
  unfolding transaction_def
proof (rule vwp_try_catch, rule vwp_bind, rule vwp_atom [OF tx_contractD(1) [OF T]])
  have rb: "vwp view I (roll_back T e) Q X v1" if "F e v1" for e v1
    unfolding roll_back_def using fail [OF that]
    by (intro vwp_bind vwp_try_catch vwp_atom [OF tx_contractD(3) [OF T]]) (auto intro!: wp_intros)
  show "I v" by (rule I)
  show "vwp view I (roll_back T e) Q X v" if "is_library_error e" for e
    using that by (intro rb start)
  fix a :: unit and v'
  assume v': "v' = v\<lparr>working := Some (committed v)\<rparr>"
  have "vwp view I (bind body (\<lambda>a. bind (atom (tx_commit T)) (\<lambda>_. Return a))) Q
      (\<lambda>e. vwp view I (roll_back T e) Q X) v'"
    unfolding v'
  proof (rule vwp_bind, rule vwp_mono [OF body], assumption)
    fix a v1
    assume A: "(\<forall>e. is_library_error e \<longrightarrow> F e v1) \<and>
          (\<forall>t. working v1 = Some t \<longrightarrow>
             I (v1\<lparr>committed := t, working := None\<rparr>) \<and> Q a (v1\<lparr>committed := t, working := None\<rparr>))"
    then have "F (ErrorExc [] []) v1" by simp
    with fail have "I v1" by blast
    with A show "vwp view I (bind (atom (tx_commit T)) (\<lambda>_. Return a)) Q
      (\<lambda>e. vwp view I (roll_back T e) Q X) v1"
      by (intro vwp_bind vwp_atom [OF tx_contractD(2) [OF T]]) (auto intro!: vwp_return rb)
  qed (rule rb)
  then show "I v' \<and> vwp view I (bind body (\<lambda>a. bind (atom (tx_commit T)) (\<lambda>_. Return a))) Q
      (\<lambda>e. vwp view I (roll_back T e) Q X) v'"
    using I v' by simp
qed

section \<open>What a repository promises\<close>

text \<open>
  \<open>find\<close> answers the matching rows, in some order; \<open>findOne\<close> one of them or nothing. The
  relations that the caller asks for are loaded by \<open>load\<close>.
\<close>

definition find_contract :: "('w \<Rightarrow> 'v) \<Rightarrow> ('w, 'row) repository \<Rightarrow> ('v \<Rightarrow> 'row list)
    \<Rightarrow> ('v \<Rightarrow> string list \<Rightarrow> 'row \<Rightarrow> 'row) \<Rightarrow> bool" where
  "find_contract view R rows load \<longleftrightarrow>
     (\<forall>rels P. implements view (r_find R rels P)
        (reads (\<lambda>v xs. mset xs = mset (map (load v rels) (filter P (rows v)))))) \<and>
     (\<forall>rels P. implements view (r_findOne R rels P)
        (reads (\<lambda>v x. case x of
             None \<Rightarrow> \<forall>r \<in> set (rows v). \<not> P r
           | Some y \<Rightarrow> \<exists>r \<in> set (rows v). P r \<and> y = load v rels r)))"

lemma vwp_find:
  assumes "find_contract view R rows load" and "I v"
    and "\<And>e. is_library_error e \<Longrightarrow> X e v"
    and "\<And>xs. mset xs = mset (map (load v rels) (filter P (rows v))) \<Longrightarrow> Q xs v"
  shows "vwp view I (atom (r_find R rels P)) Q X v"
proof (rule vwp_atom)
  show "implements view (r_find R rels P)
     (reads (\<lambda>v xs. mset xs = mset (map (load v rels) (filter P (rows v)))))"
    using assms(1) by (simp add: find_contract_def)
qed (use assms(2-) in \<open>auto dest: readsD\<close>)

lemma vwp_findOne:
  assumes "find_contract view R rows load" and "I v"
    and "\<And>e. is_library_error e \<Longrightarrow> X e v"
    and "(\<forall>r \<in> set (rows v). \<not> P r) \<Longrightarrow> Q None v"
    and "\<And>r. r \<in> set (rows v) \<Longrightarrow> P r \<Longrightarrow> Q (Some (load v rels r)) v"
  shows "vwp view I (atom (r_findOne R rels P)) Q X v"
proof (rule vwp_atom)
  show "implements view (r_findOne R rels P)
     (reads (\<lambda>v x. case x of
             None \<Rightarrow> \<forall>r \<in> set (rows v). \<not> P r
           | Some y \<Rightarrow> \<exists>r \<in> set (rows v). P r \<and> y = load v rels r))"
    using assms(1) by (simp add: find_contract_def)
qed (use assms(2-) in \<open>auto dest!: readsD split: option.splits\<close>)

text \<open>The lookup by primary key, on a table whose ids are distinct.\<close>

lemma vwp_findOne_id:
  assumes "find_contract view R rows load" and "I v" and "distinct_ids ident (rows v)"
    and "\<And>e. is_library_error e \<Longrightarrow> X e v"
    and "Q (map_option (load v rels) (row_of ident i (rows v))) v"
  shows "vwp view I (atom (r_findOne R rels (\<lambda>r. ident r = i))) Q X v"
proof (rule vwp_findOne [OF assms(1)])
  show "I v" by (rule assms(2))
  show "X e v" if "is_library_error e" for e using that by (rule assms(4))
  show "Q None v" if "\<forall>r \<in> set (rows v). ident r \<noteq> i"
  proof -
    from that have "row_of ident i (rows v) = None" by (auto simp: row_of_None)
    with assms(5) show ?thesis by simp
  qed
  show "Q (Some (load v rels r)) v" if "r \<in> set (rows v)" "ident r = i" for r
    using that assms(5) row_of_eq [OF assms(3) that(1)] by simp
qed

end
