(* ===== verification/ObjectStore.thy ===== *)
theory ObjectStore
  imports Contracts "HOL-Library.Word"
begin

text \<open>
  \<open>S3Service\<close> (\<open>libs/common/src/services/s3.service.ts\<close>). The AWS client is a parameter:
  \<open>s3_put\<close> is the multipart \<open>Upload\<close> run to its end, \<open>s3_get\<close> a \<open>GetObject\<close> request whose
  body stream is read to its end, as the list of the chunks it delivers. The base64
  rendering of the bytes is written out.
\<close>

type_synonym bytes = "8 word list"

record upload =
  file_buffer :: bytes
  file_mimetype :: string

record 'w s3_client =
  s3_put :: "string \<Rightarrow> bytes \<Rightarrow> string \<Rightarrow> ('w, unit) op"
  s3_get :: "string \<Rightarrow> ('w, bytes list) op"

section \<open>Base64\<close>

definition b64_alphabet :: string where
  "b64_alphabet = ''ABCDEFGHIJKLMNOPQRSTUVWXYZabcdefghijklmnopqrstuvwxyz0123456789+/''"

definition b64_char :: "nat \<Rightarrow> char" where
  "b64_char n = b64_alphabet ! n"

fun base64 :: "bytes \<Rightarrow> string" where
  "base64 [] = []"
| "base64 [a] =
     [b64_char (unat a div 4), b64_char (unat a mod 4 * 16), CHR ''='', CHR ''='']"
| "base64 [a, b] =
     [b64_char (unat a div 4), b64_char (unat a mod 4 * 16 + unat b div 16),
      b64_char (unat b mod 16 * 4), CHR ''='']"
| "base64 (a # b # c # bs) =
     [b64_char (unat a div 4), b64_char (unat a mod 4 * 16 + unat b div 16),
      b64_char (unat b mod 16 * 4 + unat c div 64), b64_char (unat c mod 64)] @ base64 bs"

text \<open>The reader of the other side: four characters at a time.\<close>

fun index_of :: "'a \<Rightarrow> 'a list \<Rightarrow> nat" where
  "index_of x [] = 0"
| "index_of x (y # ys) = (if x = y then 0 else Suc (index_of x ys))"

definition b64_val :: "char \<Rightarrow> nat" where
  "b64_val c = index_of c b64_alphabet"

fun unbase64 :: "string \<Rightarrow> bytes" where
  "unbase64 (p # q # r # s # cs) =
     (if r = CHR ''='' then [word_of_nat (b64_val p * 4 + b64_val q div 16)]
      else if s = CHR ''='' then
        [word_of_nat (b64_val p * 4 + b64_val q div 16),
         word_of_nat (b64_val q mod 16 * 16 + b64_val r div 4)]
      else
        [word_of_nat (b64_val p * 4 + b64_val q div 16),
         word_of_nat (b64_val q mod 16 * 16 + b64_val r div 4),
         word_of_nat (b64_val r mod 4 * 64 + b64_val s)] @ unbase64 cs)"
| "unbase64 _ = []"

lemma index_of_nth: "distinct xs \<Longrightarrow> i < length xs \<Longrightarrow> index_of (xs ! i) xs = i"
proof (induction xs arbitrary: i)
  case (Cons x xs)
  then show ?case by (cases i) auto
qed simp

lemma b64_alphabet_facts: "distinct b64_alphabet" "length b64_alphabet = 64" "CHR ''='' \<notin> set b64_alphabet"
  by (simp_all add: b64_alphabet_def)

lemma b64_val_char: "n < 64 \<Longrightarrow> b64_val (b64_char n) = n"
  using b64_alphabet_facts by (simp add: b64_val_def b64_char_def index_of_nth)

lemma b64_char_not_pad: "n < 64 \<Longrightarrow> b64_char n \<noteq> CHR ''=''"
  using b64_alphabet_facts by (metis b64_char_def nth_mem)

text \<open>A byte is \<open>hi * m + lo\<close> of a six-bit group's two parts.\<close>

lemma pair_div: "(k::nat) < m \<Longrightarrow> (q * m + k) div m = q"
  and pair_mod: "(k::nat) < m \<Longrightarrow> (q * m + k) mod m = k"
  by simp_all

lemma group_bound: "(q::nat) < n \<Longrightarrow> k < m \<Longrightarrow> q * m + k < n * m"
proof -
  assume "q < n" "k < m"
  then have "q * m + k < q * m + m" by simp
  also have "\<dots> = Suc q * m" by simp
  also have "\<dots> \<le> n * m" using \<open>q < n\<close> by (intro mult_le_mono1) simp
  finally show ?thesis .
qed

lemma byte_div: "unat (x :: 8 word) div 4 < 64" "unat x div 16 < 16" "unat x div 64 < 4"
proof -
  have "unat x < 256" using unsigned_less [of x, where ?'a = nat] by simp
  then show "unat x div 4 < 64" "unat x div 16 < 16" "unat x div 64 < 4"
    by (simp_all add: less_mult_imp_div_less)
qed

lemma byte_bounds:
  fixes a b c :: "8 word"
  shows "unat a div 4 < 64" "unat a mod 4 * 16 < 64" "unat a mod 4 * 16 + unat b div 16 < 64"
    "unat b mod 16 * 4 < 64" "unat b mod 16 * 4 + unat c div 64 < 64" "unat c mod 64 < 64"
  using byte_div [of a] byte_div [of b] byte_div [of c]
    group_bound [of "unat a mod 4" 4 0 16] group_bound [of "unat a mod 4" 4 "unat b div 16" 16]
    group_bound [of "unat b mod 16" 16 0 4] group_bound [of "unat b mod 16" 16 "unat c div 64" 4]
  by simp_all

lemma byte_parts:
  fixes a b c :: "8 word"
  shows "unat a div 4 * 4 + unat a mod 4 * 16 div 16 = unat a"
    "unat a div 4 * 4 + (unat a mod 4 * 16 + unat b div 16) div 16 = unat a"
    "(unat a mod 4 * 16 + unat b div 16) mod 16 * 16 + unat b mod 16 * 4 div 4 = unat b"
    "(unat a mod 4 * 16 + unat b div 16) mod 16 * 16 + (unat b mod 16 * 4 + unat c div 64) div 4 = unat b"
    "(unat b mod 16 * 4 + unat c div 64) mod 4 * 64 + unat c mod 64 = unat c"
  by (simp_all only: pair_div pair_mod byte_div div_mult_self_is_m zero_less_numeral div_mult_mod_eq)

lemma word_of_unat: "word_of_nat (unat x) = (x :: 8 word)"
  by simp

lemmas b64_simps = b64_val_char b64_char_not_pad byte_bounds byte_parts

lemma unbase64_base64: "unbase64 (base64 bs) = bs"
proof (induction bs rule: base64.induct)
  case (2 a)
  show ?case
    by (simp only: base64.simps unbase64.simps b64_simps word_of_unat if_True simp_thms)
next
  case (3 a b)
  show ?case
    by (simp only: base64.simps unbase64.simps b64_simps word_of_unat if_True if_False simp_thms)
next
  case (4 a b c bs)
  then show ?case
    by (simp only: base64.simps unbase64.simps b64_simps word_of_unat if_False simp_thms append_Cons append_Nil)
qed simp

section \<open>The service\<close>

text \<open>\<open>uploadFile\<close>: the upload's failure is logged and thrown on; success answers the key.\<close>

definition uploadFile :: "'w s3_client \<Rightarrow> upload \<Rightarrow> string \<Rightarrow> ('w, string) prog" where
  "uploadFile S file key =
     try_catch
       (bind (atom (s3_put S key (file_buffer file) (file_mimetype file))) (\<lambda>_. Return key))
       (\<lambda>err. Throw err)"

text \<open>
  \<open>getFile\<close>: no key answers \<open>null\<close>; so does a missing object (the SDK error named
  \<open>NoSuchKey\<close>); any other error is thrown on.
\<close>

fun error_name :: "exn \<Rightarrow> string option" where
  "error_name (ErrorExc n m) = Some n"
| "error_name _ = None"

definition getFile :: "'w s3_client \<Rightarrow> string \<Rightarrow> ('w, string option) prog" where
  "getFile S key =
     (if key = [] then Return None
      else try_catch
        (bind (atom (s3_get S key)) (\<lambda>chunks. Return (Some (base64 (concat chunks)))))
        (\<lambda>err. if error_name err = Some ''NoSuchKey'' then Return None else Throw err))"

text \<open>The end of the four photo readers (\<open>getFarmImage\<close> and its like): the answer is \<open>{ message, data }\<close> without a status; an unset or empty photo is a 404.\<close>

definition image_reply :: "'w s3_client \<Rightarrow> string option \<Rightarrow> string \<Rightarrow> ('w, string option \<times> string) prog" where
  "image_reply S photo not_found =
     (case photo of
        None \<Rightarrow> Throw (NotFoundException not_found)
      | Some key \<Rightarrow>
          if key = [] then Throw (NotFoundException not_found)
          else bind (getFile S key) (\<lambda>imageData. Return (imageData, ''ok'')))"

end
