(* ===== verification/Outbox.thy ===== *)
theory Outbox
  imports Contracts Entities
begin

text \<open>
  The write side of the transactional outbox
  (\<open>libs/common/src/outbox/outbox.service.ts\<close>). \<open>inject\<close> is OpenTelemetry's
  \<open>propagation.inject\<close>, which fills the carrier; \<open>save_row\<close> is \<open>manager.create\<close> and
  \<open>manager.save\<close> of an \<open>OutboxEntity\<close> with the given pattern and payload.
\<close>

definition TRACE_CARRIER_KEY :: string where
  "TRACE_CARRIER_KEY = ''_trace''"

definition carrier_json :: "(string \<times> string) list \<Rightarrow> json" where
  "carrier_json carrier = JObj (map (\<lambda>(k, v). (k, JStr v)) carrier)"

text \<open>The stored payload: the event with the carrier under its key, unless it is empty.\<close>

definition stored_payload :: "(string \<times> string) list \<Rightarrow> object \<Rightarrow> object" where
  "stored_payload carrier payload =
     (if carrier \<noteq> [] then set_prop TRACE_CARRIER_KEY (carrier_json carrier) payload else payload)"

definition enqueue :: "('w, (string \<times> string) list) op \<Rightarrow> (string \<Rightarrow> object \<Rightarrow> ('w, unit) op)
    \<Rightarrow> string \<Rightarrow> object \<Rightarrow> ('w, unit) prog" where
  "enqueue inject save_row pattern payload =
     bind (atom inject) (\<lambda>carrier.
     bind (atom (save_row pattern (stored_payload carrier payload))) (\<lambda>_.
     Return ()))"

definition new_outbox_row :: "string \<Rightarrow> object \<Rightarrow> int \<Rightarrow> outbox_row" where
  "new_outbox_row pattern payload i =
     \<lparr>ob_id = i, ob_pattern = pattern, ob_payload = payload, ob_publishedAt = None, ob_attempts = 0\<rparr>"

end
