(* ===== verification/FarmsStore.thy ===== *)
theory FarmsStore
  imports Database ObjectStore Outbox
begin

text \<open>
  What the \<open>farms\<close> service is given by its module: the repositories of its tables, the
  transaction manager and the manager's \<open>save\<close> inside a transaction, the S3 client and
  OpenTelemetry's \<open>inject\<close>. The contract says what these do to the rows of the tables
  that the farms migrations create, including the keys and foreign keys declared there
  (\<open>apps/farms/src/db/migrations\<close>).
\<close>

record farms_tables =
  farm_rows :: "farm list"
  crop_rows :: "crop list"
  activity_rows :: "activity list"
  harvest_rows :: "harvest list"
  outbox_rows :: "outbox_row list"
  projection_rows :: "user_projection list"

record farms_view = "farms_tables db" +
  objects :: "string \<Rightarrow> bytes option"

record 'w farms_env =
  fe_farms :: "('w, farm) repository"
  fe_farm_update :: "int \<Rightarrow> UpdateFarmDto \<Rightarrow> ('w, unit) op"
  fe_crops :: "('w, crop) repository"
  fe_activities :: "('w, activity) repository"
  fe_harvests :: "('w, harvest) repository"
  fe_tx :: "'w tx_manager"
  fe_mgr_crop :: "(int \<Rightarrow> crop) \<Rightarrow> ('w, crop) op"
  fe_mgr_activity :: "(int \<Rightarrow> activity) \<Rightarrow> ('w, activity) op"
  fe_mgr_harvest :: "(int \<Rightarrow> harvest) \<Rightarrow> ('w, harvest) op"
  fe_mgr_outbox :: "string \<Rightarrow> object \<Rightarrow> ('w, unit) op"
  fe_inject :: "('w, (string \<times> string) list) op"
  fe_s3 :: "'w s3_client"

section \<open>Rows, relations and constraints\<close>

definition load_crop :: "farms_tables \<Rightarrow> string list \<Rightarrow> crop \<Rightarrow> crop" where
  "load_crop t rels c =
     c\<lparr>crop_farm :=
        (if ''farm'' \<in> set rels then
           (case crop_farm_id c of None \<Rightarrow> None
            | Some i \<Rightarrow> map_option Loaded (row_of farm_id i (farm_rows t)))
         else None)\<rparr>"

definition load_crop_rel :: "farms_tables \<Rightarrow> string list \<Rightarrow> crop rel option \<Rightarrow> crop rel option" where
  "load_crop_rel t rels r =
     (if ''crop'' \<in> set rels then
        (case rel_crop_id r of None \<Rightarrow> None
         | Some i \<Rightarrow> map_option
             (\<lambda>c. Loaded (load_crop t (if ''crop.farm'' \<in> set rels then [''farm''] else []) c))
             (row_of crop_id i (crop_rows t)))
      else None)"

definition load_activity :: "farms_tables \<Rightarrow> string list \<Rightarrow> activity \<Rightarrow> activity" where
  "load_activity t rels a = a\<lparr>act_crop := load_crop_rel t rels (act_crop a)\<rparr>"

definition load_harvest :: "farms_tables \<Rightarrow> string list \<Rightarrow> harvest \<Rightarrow> harvest" where
  "load_harvest t rels h = h\<lparr>harv_crop := load_crop_rel t rels (harv_crop h)\<rparr>"

text \<open>
  The row that saving an entity leaves: a loaded or stub relation becomes the foreign
  key, an absent one leaves the key as it was.
\<close>

definition crop_row :: "farms_tables \<Rightarrow> crop \<Rightarrow> crop" where
  "crop_row t c =
     c\<lparr>crop_farm :=
        (case crop_farm_id c of Some i \<Rightarrow> Some (Ref i)
         | None \<Rightarrow> (case row_of crop_id (crop_id c) (crop_rows t) of
             None \<Rightarrow> None | Some r \<Rightarrow> crop_farm r))\<rparr>"

definition activity_row :: "farms_tables \<Rightarrow> activity \<Rightarrow> activity" where
  "activity_row t a =
     a\<lparr>act_crop :=
        (case rel_crop_id (act_crop a) of Some i \<Rightarrow> Some (Ref i)
         | None \<Rightarrow> (case row_of act_id (act_id a) (activity_rows t) of
             None \<Rightarrow> None | Some r \<Rightarrow> act_crop r))\<rparr>"

definition harvest_row :: "farms_tables \<Rightarrow> harvest \<Rightarrow> harvest" where
  "harvest_row t h =
     h\<lparr>harv_crop :=
        (case rel_crop_id (harv_crop h) of Some i \<Rightarrow> Some (Ref i)
         | None \<Rightarrow> (case row_of harv_id (harv_id h) (harvest_rows t) of
             None \<Rightarrow> None | Some r \<Rightarrow> harv_crop r))\<rparr>"

text \<open>
  The declared constraints: primary keys, the unique pair of farm name and owner, the
  foreign keys of crops, activities and harvests.
\<close>

definition unique_farm_names :: "farm list \<Rightarrow> bool" where
  "unique_farm_names fs \<longleftrightarrow> distinct (map (\<lambda>f. (farm_name f, farm_userId f)) fs)"

definition fk_ok :: "int option \<Rightarrow> int set \<Rightarrow> bool" where
  "fk_ok k ids \<longleftrightarrow> (case k of None \<Rightarrow> True | Some i \<Rightarrow> i \<in> ids)"

definition tables_ok :: "farms_tables \<Rightarrow> bool" where
  "tables_ok t \<longleftrightarrow>
     distinct_ids farm_id (farm_rows t) \<and> unique_farm_names (farm_rows t) \<and>
     distinct_ids crop_id (crop_rows t) \<and>
     distinct_ids act_id (activity_rows t) \<and>
     distinct_ids harv_id (harvest_rows t) \<and>
     (\<forall>c \<in> set (crop_rows t). fk_ok (crop_farm_id c) (farm_id ` set (farm_rows t))) \<and>
     (\<forall>a \<in> set (activity_rows t). fk_ok (rel_crop_id (act_crop a)) (crop_id ` set (crop_rows t))) \<and>
     (\<forall>h \<in> set (harvest_rows t). fk_ok (rel_crop_id (harv_crop h)) (crop_id ` set (crop_rows t)))"

text \<open>\<open>UPDATE farms SET \<dots>\<close>: the columns that were sent.\<close>

definition apply_farm_update :: "UpdateFarmDto \<Rightarrow> farm \<Rightarrow> farm" where
  "apply_farm_update u f =
     f\<lparr>farm_name := given (uf_name u) (farm_name f),
       farm_location := given (uf_location u) (farm_location f),
       farm_state := given (uf_state u) (farm_state f),
       farm_area := given (uf_area u) (farm_area f)\<rparr>"

section \<open>The contract\<close>

text \<open>
  A write is described by the tables it starts from and the tables it leaves; a
  repository works on the committed ones, the manager on the open transaction's.
\<close>

definition autocommit :: "(farms_tables \<Rightarrow> 'a \<Rightarrow> farms_tables \<Rightarrow> bool)
    \<Rightarrow> farms_view \<Rightarrow> 'a \<Rightarrow> farms_view \<Rightarrow> bool" where
  "autocommit R v a v' \<longleftrightarrow> (\<exists>t'. R (committed v) a t' \<and> tables_ok t' \<and> v' = v\<lparr>committed := t'\<rparr>)"

definition in_tx :: "(farms_tables \<Rightarrow> 'a \<Rightarrow> farms_tables \<Rightarrow> bool)
    \<Rightarrow> farms_view \<Rightarrow> 'a \<Rightarrow> farms_view \<Rightarrow> bool" where
  "in_tx R v a v' \<longleftrightarrow>
     (\<exists>t t'. working v = Some t \<and> R t a t' \<and> tables_ok t' \<and> v' = v\<lparr>working := Some t'\<rparr>)"

definition insert_crop :: "(int \<Rightarrow> crop) \<Rightarrow> farms_tables \<Rightarrow> crop \<Rightarrow> farms_tables \<Rightarrow> bool" where
  "insert_crop draft t a t' \<longleftrightarrow>
     (\<exists>i. i \<notin> crop_id ` set (crop_rows t) \<and> a = draft i \<and>
          t' = t\<lparr>crop_rows := crop_rows t @ [crop_row t a]\<rparr>)"

definition insert_activity :: "(int \<Rightarrow> activity) \<Rightarrow> farms_tables \<Rightarrow> activity \<Rightarrow> farms_tables \<Rightarrow> bool" where
  "insert_activity draft t a t' \<longleftrightarrow>
     (\<exists>i. i \<notin> act_id ` set (activity_rows t) \<and> a = draft i \<and>
          t' = t\<lparr>activity_rows := activity_rows t @ [activity_row t a]\<rparr>)"

definition insert_harvest :: "(int \<Rightarrow> harvest) \<Rightarrow> farms_tables \<Rightarrow> harvest \<Rightarrow> farms_tables \<Rightarrow> bool" where
  "insert_harvest draft t a t' \<longleftrightarrow>
     (\<exists>i. i \<notin> harv_id ` set (harvest_rows t) \<and> a = draft i \<and>
          t' = t\<lparr>harvest_rows := harvest_rows t @ [harvest_row t a]\<rparr>)"

definition insert_outbox :: "string \<Rightarrow> object \<Rightarrow> farms_tables \<Rightarrow> unit \<Rightarrow> farms_tables \<Rightarrow> bool" where
  "insert_outbox pattern payload t a t' \<longleftrightarrow>
     (\<exists>i. i \<notin> ob_id ` set (outbox_rows t) \<and>
          t' = t\<lparr>outbox_rows := outbox_rows t @ [new_outbox_row pattern payload i]\<rparr>)"

definition insert_farm :: "(int \<Rightarrow> farm) \<Rightarrow> farms_tables \<Rightarrow> farm \<Rightarrow> farms_tables \<Rightarrow> bool" where
  "insert_farm draft t a t' \<longleftrightarrow>
     (\<exists>i. i \<notin> farm_id ` set (farm_rows t) \<and> a = draft i \<and> t' = t\<lparr>farm_rows := farm_rows t @ [a]\<rparr>)"

definition farms_contract :: "('w \<Rightarrow> farms_view) \<Rightarrow> 'w farms_env \<Rightarrow> bool" where
  "farms_contract view E \<longleftrightarrow>
     tx_contract view (fe_tx E) \<and>
     find_contract view (fe_farms E) (\<lambda>v. farm_rows (committed v)) (\<lambda>v rels f. f) \<and>
     find_contract view (fe_crops E) (\<lambda>v. crop_rows (committed v)) (\<lambda>v. load_crop (committed v)) \<and>
     find_contract view (fe_activities E) (\<lambda>v. activity_rows (committed v))
       (\<lambda>v. load_activity (committed v)) \<and>
     find_contract view (fe_harvests E) (\<lambda>v. harvest_rows (committed v))
       (\<lambda>v. load_harvest (committed v)) \<and>
     (\<forall>d. implements view (r_insert (fe_farms E) d) (autocommit (insert_farm d))) \<and>
     (\<forall>f. implements view (r_save (fe_farms E) f)
        (autocommit (\<lambda>t a t'. a = f \<and> t' = t\<lparr>farm_rows := put_row farm_id f (farm_rows t)\<rparr>))) \<and>
     (\<forall>f. implements view (r_remove (fe_farms E) f)
        (autocommit (\<lambda>t a t'. a = Removed f \<and> t' = t\<lparr>farm_rows := del_row farm_id f (farm_rows t)\<rparr>))) \<and>
     (\<forall>i u. implements view (fe_farm_update E i u)
        (autocommit (\<lambda>t a t'. t' = t\<lparr>farm_rows :=
           map (\<lambda>f. if farm_id f = i then apply_farm_update u f else f) (farm_rows t)\<rparr>))) \<and>
     (\<forall>c. implements view (r_save (fe_crops E) c)
        (autocommit (\<lambda>t a t'. a = c \<and> t' = t\<lparr>crop_rows := put_row crop_id (crop_row t c) (crop_rows t)\<rparr>))) \<and>
     (\<forall>c. implements view (r_remove (fe_crops E) c)
        (autocommit (\<lambda>t a t'. a = Removed c \<and> t' = t\<lparr>crop_rows := del_row crop_id c (crop_rows t)\<rparr>))) \<and>
     (\<forall>x. implements view (r_save (fe_activities E) x)
        (autocommit (\<lambda>t a t'. a = x \<and>
           t' = t\<lparr>activity_rows := put_row act_id (activity_row t x) (activity_rows t)\<rparr>))) \<and>
     (\<forall>x. implements view (r_remove (fe_activities E) x)
        (autocommit (\<lambda>t a t'. a = Removed x \<and>
           t' = t\<lparr>activity_rows := del_row act_id x (activity_rows t)\<rparr>))) \<and>
     (\<forall>x. implements view (r_save (fe_harvests E) x)
        (autocommit (\<lambda>t a t'. a = x \<and>
           t' = t\<lparr>harvest_rows := put_row harv_id (harvest_row t x) (harvest_rows t)\<rparr>))) \<and>
     (\<forall>x. implements view (r_remove (fe_harvests E) x)
        (autocommit (\<lambda>t a t'. a = Removed x \<and>
           t' = t\<lparr>harvest_rows := del_row harv_id x (harvest_rows t)\<rparr>))) \<and>
     (\<forall>d. implements view (fe_mgr_crop E d) (in_tx (insert_crop d))) \<and>
     (\<forall>d. implements view (fe_mgr_activity E d) (in_tx (insert_activity d))) \<and>
     (\<forall>d. implements view (fe_mgr_harvest E d) (in_tx (insert_harvest d))) \<and>
     (\<forall>p b. implements view (fe_mgr_outbox E p b) (in_tx (insert_outbox p b))) \<and>
     implements view (fe_inject E) (reads (\<lambda>_ _. True)) \<and>
     (\<forall>k b m. implements view (s3_put (fe_s3 E) k b m)
        (\<lambda>v _ v'. v' = v\<lparr>objects := (objects v)(k \<mapsto> b)\<rparr>)) \<and>
     (\<forall>k. answers view (s3_get (fe_s3 E) k)
        (reads (\<lambda>v chunks. objects v k = Some (concat chunks)))
        (\<lambda>e v. error_name e = Some ''NoSuchKey'' \<longrightarrow> objects v k = None))"

section \<open>Rules for the calls\<close>

text \<open>What one call does to the view, once per operation of the contract.\<close>

lemma vwp_autocommit:
  assumes "implements view f (autocommit R)" and "I v"
    and "\<And>e. is_library_error e \<Longrightarrow> X e v"
    and "\<And>a t'. R (committed v) a t' \<Longrightarrow> tables_ok t'
      \<Longrightarrow> I (v\<lparr>committed := t'\<rparr>) \<and> Q a (v\<lparr>committed := t'\<rparr>)"
  shows "vwp view I (atom f) Q X v"
  by (rule vwp_atom [OF assms(1)]) (use assms(2-4) in \<open>auto simp: autocommit_def\<close>)

lemma vwp_in_tx:
  assumes "implements view f (in_tx R)" and "I v"
    and "\<And>e. is_library_error e \<Longrightarrow> X e v"
    and "\<And>t a t'. working v = Some t \<Longrightarrow> R t a t' \<Longrightarrow> tables_ok t'
      \<Longrightarrow> I (v\<lparr>working := Some t'\<rparr>) \<and> Q a (v\<lparr>working := Some t'\<rparr>)"
  shows "vwp view I (atom f) Q X v"
  by (rule vwp_atom [OF assms(1)]) (use assms(2-4) in \<open>auto simp: in_tx_def\<close>)

lemma farms_contractD:
  assumes "farms_contract view E"
  shows "tx_contract view (fe_tx E)"
    and "find_contract view (fe_farms E) (\<lambda>v. farm_rows (committed v)) (\<lambda>v rels f. f)"
    and "find_contract view (fe_crops E) (\<lambda>v. crop_rows (committed v)) (\<lambda>v. load_crop (committed v))"
    and "find_contract view (fe_activities E) (\<lambda>v. activity_rows (committed v))
       (\<lambda>v. load_activity (committed v))"
    and "find_contract view (fe_harvests E) (\<lambda>v. harvest_rows (committed v))
       (\<lambda>v. load_harvest (committed v))"
    and "implements view (r_insert (fe_farms E) d) (autocommit (insert_farm d))"
    and "implements view (r_save (fe_farms E) f)
        (autocommit (\<lambda>t a t'. a = f \<and> t' = t\<lparr>farm_rows := put_row farm_id f (farm_rows t)\<rparr>))"
    and "implements view (r_remove (fe_farms E) f)
        (autocommit (\<lambda>t a t'. a = Removed f \<and> t' = t\<lparr>farm_rows := del_row farm_id f (farm_rows t)\<rparr>))"
    and "implements view (fe_farm_update E i uf)
        (autocommit (\<lambda>t a t'. t' = t\<lparr>farm_rows :=
           map (\<lambda>f. if farm_id f = i then apply_farm_update uf f else f) (farm_rows t)\<rparr>))"
    and "implements view (r_save (fe_crops E) c)
        (autocommit (\<lambda>t a t'. a = c \<and> t' = t\<lparr>crop_rows := put_row crop_id (crop_row t c) (crop_rows t)\<rparr>))"
    and "implements view (r_remove (fe_crops E) c)
        (autocommit (\<lambda>t a t'. a = Removed c \<and> t' = t\<lparr>crop_rows := del_row crop_id c (crop_rows t)\<rparr>))"
    and "implements view (r_save (fe_activities E) x)
        (autocommit (\<lambda>t a t'. a = x \<and>
           t' = t\<lparr>activity_rows := put_row act_id (activity_row t x) (activity_rows t)\<rparr>))"
    and "implements view (r_remove (fe_activities E) x)
        (autocommit (\<lambda>t a t'. a = Removed x \<and>
           t' = t\<lparr>activity_rows := del_row act_id x (activity_rows t)\<rparr>))"
    and "implements view (r_save (fe_harvests E) h)
        (autocommit (\<lambda>t a t'. a = h \<and>
           t' = t\<lparr>harvest_rows := put_row harv_id (harvest_row t h) (harvest_rows t)\<rparr>))"
    and "implements view (r_remove (fe_harvests E) h)
        (autocommit (\<lambda>t a t'. a = Removed h \<and>
           t' = t\<lparr>harvest_rows := del_row harv_id h (harvest_rows t)\<rparr>))"
    and "implements view (fe_mgr_crop E dc) (in_tx (insert_crop dc))"
    and "implements view (fe_mgr_activity E da) (in_tx (insert_activity da))"
    and "implements view (fe_mgr_harvest E dh) (in_tx (insert_harvest dh))"
    and "implements view (fe_mgr_outbox E p b) (in_tx (insert_outbox p b))"
    and "implements view (fe_inject E) (reads (\<lambda>_ _. True))"
    and "implements view (s3_put (fe_s3 E) k b' m)
        (\<lambda>v _ v'. v' = v\<lparr>objects := (objects v)(k \<mapsto> b')\<rparr>)"
    and "answers view (s3_get (fe_s3 E) k) (reads (\<lambda>v chunks. objects v k = Some (concat chunks)))
        (\<lambda>e v. error_name e = Some ''NoSuchKey'' \<longrightarrow> objects v k = None)"
  using assms by (simp_all add: farms_contract_def)

end
