(* ===== verification/Ownership.thy ===== *)
theory Ownership
  imports FarmsStore
begin

text \<open>
  \<open>OwnershipService\<close> (\<open>apps/farms/src/ownership/ownership.service.ts\<close>): the chain
  User - Farm - Crop - Activity / Harvest. Each \<open>assert\<close> loads the resource with the
  relations of its chain and throws 404 for a missing and 403 for a foreign one. The
  abstract specification is the owner of a resource, read off the foreign keys; the
  locale states what every \<open>assert\<close> promises its callers, who all have the shape
  \<open>await assert\<dots>; rest\<close>.
\<close>

section \<open>The service\<close>

definition check_access :: "int \<Rightarrow> int option \<Rightarrow> ('w, unit) prog" where
  "check_access userId ownerId =
     throw_if (ownerId = None \<or> ownerId \<noteq> Some userId)
       (ForbiddenException ''You do not have access to this resource'')"

definition assertFarmOwner :: "'w farms_env \<Rightarrow> int \<Rightarrow> int \<Rightarrow> ('w, farm) prog" where
  "assertFarmOwner E userId farmId =
     bind (atom (r_findOne (fe_farms E) [] (\<lambda>f. farm_id f = farmId))) (\<lambda>found.
     case found of
       None \<Rightarrow> Throw (NotFoundException ''Farm not found'')
     | Some farm \<Rightarrow>
         bind (check_access userId (Some (farm_userId farm))) (\<lambda>_.
         Return farm))"

definition assertCropOwner :: "'w farms_env \<Rightarrow> int \<Rightarrow> int \<Rightarrow> ('w, crop) prog" where
  "assertCropOwner E userId cropId =
     bind (atom (r_findOne (fe_crops E) [''farm''] (\<lambda>c. crop_id c = cropId))) (\<lambda>found.
     case found of
       None \<Rightarrow> Throw (NotFoundException ''Crop not found'')
     | Some crop \<Rightarrow>
         bind (check_access userId (crop_farm_userId crop)) (\<lambda>_.
         Return crop))"

definition assertActivityOwner :: "'w farms_env \<Rightarrow> int \<Rightarrow> int \<Rightarrow> ('w, activity) prog" where
  "assertActivityOwner E userId activityId =
     bind (atom (r_findOne (fe_activities E) [''crop'', ''crop.farm''] (\<lambda>a. act_id a = activityId))) (\<lambda>found.
     case found of
       None \<Rightarrow> Throw (NotFoundException ''Activity not found'')
     | Some activity \<Rightarrow>
         bind (check_access userId (rel_crop_farm_userId (act_crop activity))) (\<lambda>_.
         Return activity))"

definition assertHarvestOwner :: "'w farms_env \<Rightarrow> int \<Rightarrow> int \<Rightarrow> ('w, harvest) prog" where
  "assertHarvestOwner E userId harvestId =
     bind (atom (r_findOne (fe_harvests E) [''crop'', ''crop.farm''] (\<lambda>h. harv_id h = harvestId))) (\<lambda>found.
     case found of
       None \<Rightarrow> Throw (NotFoundException ''Harvest not found'')
     | Some harvest \<Rightarrow>
         bind (check_access userId (rel_crop_farm_userId (harv_crop harvest))) (\<lambda>_.
         Return harvest))"

section \<open>The owner of a resource\<close>

text \<open>
  \<open>None\<close>: there is no such resource; \<open>Some None\<close>: it exists but its chain does not reach a
  farm; \<open>Some (Some u)\<close>: it belongs to user \<open>u\<close>.
\<close>

definition farm_owner :: "farms_tables \<Rightarrow> int \<Rightarrow> int option option" where
  "farm_owner t i = map_option (\<lambda>f. Some (farm_userId f)) (row_of farm_id i (farm_rows t))"

definition crop_owner :: "farms_tables \<Rightarrow> int \<Rightarrow> int option option" where
  "crop_owner t i =
     map_option (\<lambda>c. Option.bind (crop_farm_id c)
         (\<lambda>j. map_option farm_userId (row_of farm_id j (farm_rows t))))
       (row_of crop_id i (crop_rows t))"

definition via_crop :: "farms_tables \<Rightarrow> crop rel option \<Rightarrow> int option" where
  "via_crop t r = Option.bind (rel_crop_id r) (\<lambda>j. Option.bind (crop_owner t j) id)"

definition activity_owner :: "farms_tables \<Rightarrow> int \<Rightarrow> int option option" where
  "activity_owner t i = map_option (\<lambda>a. via_crop t (act_crop a)) (row_of act_id i (activity_rows t))"

definition harvest_owner :: "farms_tables \<Rightarrow> int \<Rightarrow> int option option" where
  "harvest_owner t i = map_option (\<lambda>h. via_crop t (harv_crop h)) (row_of harv_id i (harvest_rows t))"

text \<open>What a caller learns when the resource is not theirs.\<close>

definition denial :: "string \<Rightarrow> int option option \<Rightarrow> exn" where
  "denial missing own =
     (case own of None \<Rightarrow> NotFoundException missing
      | Some _ \<Rightarrow> ForbiddenException ''You do not have access to this resource'')"

lemma loaded_crop_owner: "crop_farm_userId (load_crop t [''farm''] c) =
    Option.bind (crop_farm_id c) (\<lambda>j. map_option farm_userId (row_of farm_id j (farm_rows t)))"
  by (auto simp: load_crop_def split: option.splits rel.splits)

lemma loaded_rel_owner:
  "rel_crop_farm_userId (load_crop_rel t [''crop'', ''crop.farm''] r) = via_crop t r"
proof (cases "rel_crop_id r")
  case (Some i)
  then show ?thesis
    by (cases "row_of crop_id i (crop_rows t)")
      (simp_all add: load_crop_rel_def via_crop_def crop_owner_def loaded_crop_owner
        del: crop_farm_userId.simps crop_farm_id.simps)
qed (simp add: load_crop_rel_def via_crop_def)

section \<open>The interface\<close>

locale owned_resource =
  fixes assert_owner :: "'w farms_env \<Rightarrow> int \<Rightarrow> int \<Rightarrow> ('w, 'x) prog"
    and owner :: "farms_tables \<Rightarrow> int \<Rightarrow> int option option"
    and entity :: "farms_tables \<Rightarrow> int \<Rightarrow> 'x"
    and missing :: string
  assumes assert_owner_rule:
    "farms_contract view E \<Longrightarrow> tables_ok (committed v) \<Longrightarrow> I v
      \<Longrightarrow> (\<And>e. is_library_error e \<Longrightarrow> X e v)
      \<Longrightarrow> (owner (committed v) k \<noteq> Some (Some u) \<Longrightarrow> X (denial missing (owner (committed v) k)) v)
      \<Longrightarrow> (owner (committed v) k = Some (Some u) \<Longrightarrow> Q (entity (committed v) k) v)
      \<Longrightarrow> vwp view I (assert_owner E u k) Q X v"
begin

text \<open>Whatever follows the check, a caller who is not the owner reaches none of it.\<close>

lemma denied_vwp:
  assumes "farms_contract view E" and "tables_ok (committed v)"
    and "owner (committed v) k \<noteq> Some (Some u)"
  shows "vwp view (\<lambda>v'. v' = v) (bind (assert_owner E u k) g) (\<lambda>_ _. False)
    (\<lambda>e v'. is_library_error e \<or> e = denial missing (owner (committed v) k)) v"
  by (rule vwp_bind, rule assert_owner_rule) (use assms in auto)

lemma denied:
  assumes "farms_contract view E" and "tables_ok (committed (view w))"
    and "owner (committed (view w)) k \<noteq> Some (Some u)"
    and "run (bind (assert_owner E u k) g) w = (r, w')"
  shows "view w' = view w \<and>
    (\<exists>e. r = Inl e \<and> (is_library_error e \<or> e = denial missing (owner (committed (view w)) k)))"
  using vwp_run [OF denied_vwp [OF assms(1-3)] assms(4)] by (cases r) auto

lemma denied_crash:
  assumes "farms_contract view E" and "tables_ok (committed (view w))"
    and "owner (committed (view w)) k \<noteq> Some (Some u)"
  shows "view (crash_after n (bind (assert_owner E u k) g) w) = view w"
  by (rule vwp_crash [OF denied_vwp [OF assms]])

end

text \<open>The four asserts keep the promise.\<close>

definition farm_entity :: "farms_tables \<Rightarrow> int \<Rightarrow> farm" where
  "farm_entity t i = the (row_of farm_id i (farm_rows t))"

definition crop_entity :: "farms_tables \<Rightarrow> int \<Rightarrow> crop" where
  "crop_entity t i = load_crop t [''farm''] (the (row_of crop_id i (crop_rows t)))"

definition activity_entity :: "farms_tables \<Rightarrow> int \<Rightarrow> activity" where
  "activity_entity t i = load_activity t [''crop'', ''crop.farm''] (the (row_of act_id i (activity_rows t)))"

definition harvest_entity :: "farms_tables \<Rightarrow> int \<Rightarrow> harvest" where
  "harvest_entity t i = load_harvest t [''crop'', ''crop.farm''] (the (row_of harv_id i (harvest_rows t)))"

lemma vwp_check_access:
  "I v \<Longrightarrow> (own = Some u \<Longrightarrow> Q () v)
    \<Longrightarrow> (own \<noteq> Some u \<Longrightarrow> X (ForbiddenException ''You do not have access to this resource'') v)
    \<Longrightarrow> vwp view I (check_access u own) Q X v"
  unfolding check_access_def by (rule vwp_throw_if) auto

text \<open>The shape the four share.\<close>

lemma vwp_find_and_check:
  assumes "find_contract view R rows load" and "distinct_ids ident (rows v)" and "I v"
    and "\<And>e. is_library_error e \<Longrightarrow> X e v"
    and own: "own = map_option (\<lambda>r. user_of (load v rels r)) (row_of ident k (rows v))"
    and no: "own \<noteq> Some (Some u) \<Longrightarrow> X (denial missing own) v"
    and yes: "own = Some (Some u) \<Longrightarrow> Q (load v rels (the (row_of ident k (rows v)))) v"
  shows "vwp view I
    (bind (atom (r_findOne R rels (\<lambda>r. ident r = k))) (\<lambda>found.
     case found of
       None \<Rightarrow> Throw (NotFoundException missing)
     | Some x \<Rightarrow> bind (check_access u (user_of x)) (\<lambda>_. Return x))) Q X v"
  by (rule vwp_bind, rule vwp_findOne_id [OF assms(1)])
    (use assms(2-4) own no yes in \<open>auto simp: denial_def intro!: wp_intros vwp_check_access\<close>)

interpretation farm_owned: owned_resource assertFarmOwner farm_owner farm_entity "''Farm not found''"
  unfolding assertFarmOwner_def
  by (unfold_locales, rule vwp_find_and_check [where rows = "\<lambda>v. farm_rows (committed v)"
        and load = "\<lambda>v rels f. f"])
    (auto simp: farms_contract_def tables_ok_def farm_owner_def farm_entity_def)

interpretation crop_owned: owned_resource assertCropOwner crop_owner crop_entity "''Crop not found''"
  unfolding assertCropOwner_def
  by (unfold_locales, rule vwp_find_and_check [where rows = "\<lambda>v. crop_rows (committed v)"
        and load = "\<lambda>v. load_crop (committed v)"])
    (auto simp: farms_contract_def tables_ok_def crop_owner_def crop_entity_def loaded_crop_owner
      simp del: crop_farm_userId.simps)

interpretation activity_owned:
  owned_resource assertActivityOwner activity_owner activity_entity "''Activity not found''"
  unfolding assertActivityOwner_def
  by (unfold_locales, rule vwp_find_and_check [where rows = "\<lambda>v. activity_rows (committed v)"
        and load = "\<lambda>v. load_activity (committed v)"])
    (auto simp: farms_contract_def tables_ok_def activity_owner_def activity_entity_def
      load_activity_def loaded_rel_owner)

interpretation harvest_owned:
  owned_resource assertHarvestOwner harvest_owner harvest_entity "''Harvest not found''"
  unfolding assertHarvestOwner_def
  by (unfold_locales, rule vwp_find_and_check [where rows = "\<lambda>v. harvest_rows (committed v)"
        and load = "\<lambda>v. load_harvest (committed v)"])
    (auto simp: farms_contract_def tables_ok_def harvest_owner_def harvest_entity_def
      load_harvest_def loaded_rel_owner)

end
