(* ===== verification/FarmsMemory.thy ===== *)
theory FarmsMemory
  imports FarmsStore
begin

text \<open>
  An instance of the parameters of the \<open>farms\<close> service: a store in memory, whose world is
  the view itself. It keeps the contract, so the theorems that assume it speak of
  something; their witnesses run the service on it.
\<close>

definition fresh_id :: "('row \<Rightarrow> int) \<Rightarrow> 'row list \<Rightarrow> int" where
  "fresh_id ident rows = foldr max (map ident rows) 0 + 1"

lemma fresh_id_bound: "r \<in> set rows \<Longrightarrow> (ident r :: int) \<le> foldr max (map ident rows) 0"
  by (induction rows) auto

lemma fresh_id_fresh: "fresh_id ident rows \<notin> ident ` set rows"
proof
  assume "fresh_id ident rows \<in> ident ` set rows"
  then obtain r where "r \<in> set rows" "ident r = fresh_id ident rows" by auto
  with fresh_id_bound [of r rows ident] show False by (simp add: fresh_id_def)
qed

definition mem_read :: "('v \<Rightarrow> 'a) \<Rightarrow> ('v, 'a) op" where
  "mem_read f v = (Inr (f v), v)"

definition mem_commit :: "(farms_tables \<Rightarrow> 'a \<times> farms_tables) \<Rightarrow> (farms_view, 'a) op" where
  "mem_commit f v =
     (case f (committed v) of (a, t') \<Rightarrow>
        if tables_ok t' then (Inr a, v\<lparr>committed := t'\<rparr>)
        else (Inl (ErrorExc ''QueryFailedError'' ''violates a constraint''), v))"

definition mem_in_tx :: "(farms_tables \<Rightarrow> 'a \<times> farms_tables) \<Rightarrow> (farms_view, 'a) op" where
  "mem_in_tx f v =
     (case working v of
        None \<Rightarrow> (Inl (ErrorExc ''TransactionNotStartedError'' []), v)
      | Some t \<Rightarrow> (case f t of (a, t') \<Rightarrow>
          if tables_ok t' then (Inr a, v\<lparr>working := Some t'\<rparr>)
          else (Inl (ErrorExc ''QueryFailedError'' ''violates a constraint''), v)))"

lemma implements_mem_read: "(\<And>v. A v (f v)) \<Longrightarrow> implements id (mem_read f) (reads A)"
  by (simp add: implements_def mem_read_def reads_def)

lemma implements_mem_commit:
  "(\<And>t. R t (fst (f t)) (snd (f t))) \<Longrightarrow> implements id (mem_commit f) (autocommit R)"
  by (auto simp: implements_def mem_commit_def autocommit_def split: prod.split) (metis fst_conv snd_conv)

lemma implements_mem_in_tx:
  "(\<And>t. R t (fst (f t)) (snd (f t))) \<Longrightarrow> implements id (mem_in_tx f) (in_tx R)"
  by (auto simp: implements_def mem_in_tx_def in_tx_def split: prod.split option.split)
    (metis fst_conv snd_conv)

definition mem_repository :: "(farms_view \<Rightarrow> 'row list) \<Rightarrow> (farms_view \<Rightarrow> string list \<Rightarrow> 'row \<Rightarrow> 'row)
    \<Rightarrow> ((int \<Rightarrow> 'row) \<Rightarrow> farms_tables \<Rightarrow> 'row \<times> farms_tables)
    \<Rightarrow> ('row \<Rightarrow> farms_tables \<Rightarrow> farms_tables) \<Rightarrow> ('row \<Rightarrow> farms_tables \<Rightarrow> farms_tables)
    \<Rightarrow> (farms_view, 'row) repository" where
  "mem_repository rows load ins put del =
     \<lparr>r_find = \<lambda>rels P. mem_read (\<lambda>v. map (load v rels) (filter P (rows v))),
      r_findOne = \<lambda>rels P. mem_read (\<lambda>v. map_option (load v rels) (List.find P (rows v))),
      r_insert = \<lambda>d. mem_commit (ins d),
      r_save = \<lambda>x. mem_commit (\<lambda>t. (x, put x t)),
      r_remove = \<lambda>x. mem_commit (\<lambda>t. (Removed x, del x t))\<rparr>"

lemma mem_repository_find: "find_contract id (mem_repository rows load ins put del) rows load"
  unfolding find_contract_def mem_repository_def repository.simps
  by (intro conjI allI implements_mem_read)
    (auto simp: find_None_iff split: option.split dest: find_SomeD)

definition ins_farm :: "(int \<Rightarrow> farm) \<Rightarrow> farms_tables \<Rightarrow> farm \<times> farms_tables" where
  "ins_farm d t = (let a = d (fresh_id farm_id (farm_rows t)) in (a, t\<lparr>farm_rows := farm_rows t @ [a]\<rparr>))"

definition ins_crop :: "(int \<Rightarrow> crop) \<Rightarrow> farms_tables \<Rightarrow> crop \<times> farms_tables" where
  "ins_crop d t = (let a = d (fresh_id crop_id (crop_rows t)) in
     (a, t\<lparr>crop_rows := crop_rows t @ [crop_row t a]\<rparr>))"

definition ins_activity :: "(int \<Rightarrow> activity) \<Rightarrow> farms_tables \<Rightarrow> activity \<times> farms_tables" where
  "ins_activity d t = (let a = d (fresh_id act_id (activity_rows t)) in
     (a, t\<lparr>activity_rows := activity_rows t @ [activity_row t a]\<rparr>))"

definition ins_harvest :: "(int \<Rightarrow> harvest) \<Rightarrow> farms_tables \<Rightarrow> harvest \<times> farms_tables" where
  "ins_harvest d t = (let a = d (fresh_id harv_id (harvest_rows t)) in
     (a, t\<lparr>harvest_rows := harvest_rows t @ [harvest_row t a]\<rparr>))"

definition ins_outbox :: "string \<Rightarrow> object \<Rightarrow> farms_tables \<Rightarrow> unit \<times> farms_tables" where
  "ins_outbox p b t =
     ((), t\<lparr>outbox_rows := outbox_rows t @ [new_outbox_row p b (fresh_id ob_id (outbox_rows t))]\<rparr>)"

definition mem_tx :: "farms_view tx_manager" where
  "mem_tx =
     \<lparr>tx_begin = \<lambda>v. (Inr (), v\<lparr>working := Some (committed v)\<rparr>),
      tx_commit = \<lambda>v. (case working v of
          None \<Rightarrow> (Inl (ErrorExc ''TransactionNotStartedError'' []), v)
        | Some t \<Rightarrow> (Inr (), v\<lparr>committed := t, working := None\<rparr>)),
      tx_rollback = \<lambda>v. (Inr (), v\<lparr>working := None\<rparr>)\<rparr>"

definition mem_s3 :: "farms_view s3_client" where
  "mem_s3 =
     \<lparr>s3_put = \<lambda>k b m v. (Inr (), v\<lparr>objects := (objects v)(k \<mapsto> b)\<rparr>),
      s3_get = \<lambda>k v. (case objects v k of
          None \<Rightarrow> (Inl (ErrorExc ''NoSuchKey'' ''The specified key does not exist.''), v)
        | Some b \<Rightarrow> (Inr [b], v))\<rparr>"

definition mem_farms :: "farms_view farms_env" where
  "mem_farms =
     \<lparr>fe_farms = mem_repository (\<lambda>v. farm_rows (committed v)) (\<lambda>v rels f. f) ins_farm
        (\<lambda>f t. t\<lparr>farm_rows := put_row farm_id f (farm_rows t)\<rparr>)
        (\<lambda>f t. t\<lparr>farm_rows := del_row farm_id f (farm_rows t)\<rparr>),
      fe_farm_update = \<lambda>i u. mem_commit (\<lambda>t. ((), t\<lparr>farm_rows :=
        map (\<lambda>f. if farm_id f = i then apply_farm_update u f else f) (farm_rows t)\<rparr>)),
      fe_crops = mem_repository (\<lambda>v. crop_rows (committed v)) (\<lambda>v. load_crop (committed v)) ins_crop
        (\<lambda>c t. t\<lparr>crop_rows := put_row crop_id (crop_row t c) (crop_rows t)\<rparr>)
        (\<lambda>c t. t\<lparr>crop_rows := del_row crop_id c (crop_rows t)\<rparr>),
      fe_activities = mem_repository (\<lambda>v. activity_rows (committed v))
        (\<lambda>v. load_activity (committed v)) ins_activity
        (\<lambda>a t. t\<lparr>activity_rows := put_row act_id (activity_row t a) (activity_rows t)\<rparr>)
        (\<lambda>a t. t\<lparr>activity_rows := del_row act_id a (activity_rows t)\<rparr>),
      fe_harvests = mem_repository (\<lambda>v. harvest_rows (committed v))
        (\<lambda>v. load_harvest (committed v)) ins_harvest
        (\<lambda>h t. t\<lparr>harvest_rows := put_row harv_id (harvest_row t h) (harvest_rows t)\<rparr>)
        (\<lambda>h t. t\<lparr>harvest_rows := del_row harv_id h (harvest_rows t)\<rparr>),
      fe_tx = mem_tx,
      fe_mgr_crop = \<lambda>d. mem_in_tx (ins_crop d),
      fe_mgr_activity = \<lambda>d. mem_in_tx (ins_activity d),
      fe_mgr_harvest = \<lambda>d. mem_in_tx (ins_harvest d),
      fe_mgr_outbox = \<lambda>p b. mem_in_tx (ins_outbox p b),
      fe_inject = mem_read (\<lambda>v. [(''traceparent'', ''00-1'')]),
      fe_s3 = mem_s3\<rparr>"

lemmas mem_simps = mem_read_def mem_commit_def mem_in_tx_def mem_repository_def mem_tx_def mem_s3_def
  ins_farm_def ins_crop_def ins_activity_def ins_harvest_def ins_outbox_def fresh_id_def

lemma mem_tx_contract: "tx_contract id mem_tx"
  by (auto simp: tx_contract_def implements_def mem_tx_def split: option.split)

lemma ins_rules:
  "insert_farm df t (fst (ins_farm df t)) (snd (ins_farm df t))"
  "insert_crop dc t (fst (ins_crop dc t)) (snd (ins_crop dc t))"
  "insert_activity da t (fst (ins_activity da t)) (snd (ins_activity da t))"
  "insert_harvest dh t (fst (ins_harvest dh t)) (snd (ins_harvest dh t))"
  "insert_outbox p b t (fst (ins_outbox p b t)) (snd (ins_outbox p b t))"
  unfolding insert_farm_def insert_crop_def insert_activity_def insert_harvest_def insert_outbox_def
    ins_farm_def ins_crop_def ins_activity_def ins_harvest_def ins_outbox_def Let_def fst_conv snd_conv
  by (rule exI conjI fresh_id_fresh refl)+

lemma mem_farms_contract: "farms_contract id mem_farms"
proof -
  have s3: "implements id (s3_put mem_s3 k b m) (\<lambda>v _ v'. v' = v\<lparr>objects := (objects v)(k \<mapsto> b)\<rparr>)"
    "answers id (s3_get mem_s3 k) (reads (\<lambda>v chunks. objects v k = Some (concat chunks)))
       (\<lambda>e v. error_name e = Some ''NoSuchKey'' \<longrightarrow> objects v k = None)" for k b m
    by (auto simp: answers_def implements_def mem_s3_def reads_def split: option.splits)
  show ?thesis
    unfolding farms_contract_def mem_farms_def farms_env.simps
    by (intro conjI allI mem_tx_contract mem_repository_find s3)
      (simp_all only: mem_repository_def repository.simps,
        (rule implements_mem_commit implements_mem_in_tx implements_mem_read; simp add: ins_rules ins_rules(5) [simplified])+)
qed

text \<open>A small store: user 7 owns farm 1 with crop 1, user 8 owns farm 2.\<close>

definition demo_farm :: "int \<Rightarrow> string \<Rightarrow> int \<Rightarrow> farm" where
  "demo_farm i n u =
     \<lparr>farm_id = i, farm_name = n, farm_location = ''Cuenca'', farm_photo = None,
      farm_state = leased, farm_area = 10, farm_userId = u\<rparr>"

definition demo_crop :: crop where
  "demo_crop =
     \<lparr>crop_id = 1, crop_name = ''maize'', crop_product = ''corn'', crop_size = 5,
      crop_location = ''north'', crop_photo = None, crop_sowingDate = ''2024-01-01'',
      crop_plants = 100, crop_farm = Some (Ref 1)\<rparr>"

definition demo_tables :: farms_tables where
  "demo_tables =
     \<lparr>farm_rows = [demo_farm 1 ''Andes'' 7, demo_farm 2 ''Costa'' 8], crop_rows = [demo_crop],
      activity_rows = [], harvest_rows = [], outbox_rows = [], projection_rows = []\<rparr>"

definition demo_view :: farms_view where
  "demo_view = \<lparr>committed = demo_tables, working = None, objects = (\<lambda>_. None)\<rparr>"

lemma demo_ok: "tables_ok (committed (id demo_view))"
  by code_simp

end
