(* ===== verification/FarmsSpec.thy ===== *)
theory FarmsSpec
  imports Ownership FarmsMemory
begin

text \<open>
  The abstract specification of an operation of the \<open>farms\<close> service: a refusal, read off the
  tables, and an effect, a relation between the tables before, the answer and the tables
  after. A program \<open>farms_refines\<close> it when it is atomic on the committed tables (at every
  step, so wherever the process dies, they are the old ones or the ones of a permitted
  effect), answers only with an effect, and throws only the refusal or a library's error;
  a refused request changes nothing at all.
\<close>

definition spec_at :: "('w \<Rightarrow> farms_view) \<Rightarrow> ('w, 'a) prog \<Rightarrow> (farms_tables \<Rightarrow> exn option)
    \<Rightarrow> (farms_tables \<Rightarrow> 'a \<Rightarrow> farms_tables \<Rightarrow> bool) \<Rightarrow> farms_view \<Rightarrow> bool" where
  "spec_at view p refuse eff v \<longleftrightarrow>
     vwp view
       (\<lambda>v'. if refuse (committed v) = None
          then committed v' = committed v \<or>
            ((\<exists>a. eff (committed v) a (committed v')) \<and> tables_ok (committed v'))
          else v' = v)
       p
       (\<lambda>a v'. refuse (committed v) = None \<and> eff (committed v) a (committed v'))
       (\<lambda>e v'. is_library_error e \<or> refuse (committed v) = Some e)
       v"

definition farms_refines :: "('w \<Rightarrow> farms_view) \<Rightarrow> ('w, 'a) prog \<Rightarrow> (farms_tables \<Rightarrow> exn option)
    \<Rightarrow> (farms_tables \<Rightarrow> 'a \<Rightarrow> farms_tables \<Rightarrow> bool) \<Rightarrow> bool" where
  "farms_refines view p refuse eff \<longleftrightarrow> (\<forall>v. tables_ok (committed v) \<longrightarrow> spec_at view p refuse eff v)"

lemma spec_at_ok:
  "refuse (committed v) = None \<Longrightarrow> spec_at view p refuse eff v \<longleftrightarrow>
     vwp view (\<lambda>v'. committed v' = committed v \<or>
         ((\<exists>a. eff (committed v) a (committed v')) \<and> tables_ok (committed v')))
       p (\<lambda>a v'. eff (committed v) a (committed v')) (\<lambda>e v'. is_library_error e) v"
  by (simp add: spec_at_def)

text \<open>What refinement gives: for a completed run and for one cut at any step.\<close>

lemma farms_refines_run:
  assumes "farms_refines view p refuse eff" and ok: "tables_ok (committed (view w))"
    and "run p w = (r, w')"
  shows "tables_ok (committed (view w'))"
    and "r = Inr a \<Longrightarrow> refuse (committed (view w)) = None \<and>
           eff (committed (view w)) a (committed (view w'))"
    and "r = Inl e \<Longrightarrow> is_library_error e \<or> refuse (committed (view w)) = Some e"
    and "refuse (committed (view w)) \<noteq> None \<Longrightarrow> view w' = view w"
  using assms(1) vwp_run [OF _ assms(3)] ok unfolding farms_refines_def spec_at_def
  by (fastforce split: if_splits)+

text \<open>Whatever a run answers, it leaves the old tables or those of a permitted effect.\<close>

lemma farms_refines_end:
  assumes "farms_refines view p refuse eff" and ok: "tables_ok (committed (view w))"
    and "run p w = (r, w')"
  shows "committed (view w') = committed (view w) \<or>
    (refuse (committed (view w)) = None \<and> tables_ok (committed (view w')) \<and>
     (\<exists>a. eff (committed (view w)) a (committed (view w'))))"
  using assms(1) vwp_run [OF _ assms(3)] ok unfolding farms_refines_def spec_at_def
  by (fastforce split: if_splits)

lemma farms_refines_crash:
  assumes "farms_refines view p refuse eff" and "tables_ok (committed (view w))"
  shows "if refuse (committed (view w)) = None
    then committed (view (crash_after n p w)) = committed (view w) \<or>
      ((\<exists>a. eff (committed (view w)) a (committed (view (crash_after n p w)))) \<and>
       tables_ok (committed (view (crash_after n p w))))
    else view (crash_after n p w) = view w"
  using assms vwp_crash unfolding farms_refines_def spec_at_def by fast

section \<open>Building blocks\<close>

text \<open>A refusal that comes before another.\<close>

definition guarded :: "string \<Rightarrow> (farms_tables \<Rightarrow> int option option) \<Rightarrow> int
    \<Rightarrow> (farms_tables \<Rightarrow> exn option) \<Rightarrow> farms_tables \<Rightarrow> exn option" where
  "guarded missing own u rest t =
     (if own t = Some (Some u) then rest t else Some (denial missing (own t)))"

definition respond :: "('a \<Rightarrow> 'b) \<Rightarrow> ('w, 'a) prog \<Rightarrow> ('w, 'b) prog" where
  "respond f p = bind p (\<lambda>a. Return (f a))"

lemma spec_at_respond:
  "spec_at view p refuse (\<lambda>t a. eff t (f a)) v \<Longrightarrow> spec_at view (respond f p) refuse eff v"
  unfolding spec_at_def respond_def
  by (rule vwp_bind, rule vwp_strengthen, assumption) (auto intro: vwp_return)

lemma spec_at_throw: "refuse (committed v) = Some e \<Longrightarrow> spec_at view (Throw e) refuse eff v"
  unfolding spec_at_def by (auto intro: vwp_throw)

lemma spec_at_return:
  "refuse (committed v) = None \<Longrightarrow> eff (committed v) a (committed v)
    \<Longrightarrow> spec_at view (Return a) refuse eff v"
  unfolding spec_at_def by (auto intro: vwp_return)

text \<open>A read, then the rest, which sees the same tables.\<close>

lemma spec_at_read:
  assumes "implements view f (reads A)" and "\<And>a. A v a \<Longrightarrow> spec_at view (g a) refuse eff v"
  shows "spec_at view (bind (atom f) g) refuse eff v"
  unfolding spec_at_def
  by (rule vwp_bind, rule vwp_atom [OF assms(1)])
    (use assms(2) in \<open>auto simp: reads_def spec_at_def\<close>)

lemma spec_at_find:
  assumes "find_contract view R rows load"
    and "\<And>xs. mset xs = mset (map (load v rels) (filter P (rows v))) \<Longrightarrow> spec_at view (g xs) refuse eff v"
  shows "spec_at view (bind (atom (r_find R rels P)) g) refuse eff v"
  unfolding spec_at_def
  by (rule vwp_bind, rule vwp_find [OF assms(1)]) (use assms(2) in \<open>auto simp: spec_at_def\<close>)

lemma spec_at_findOne:
  assumes "find_contract view R rows load"
    and "\<And>x. (case x of None \<Rightarrow> \<forall>r \<in> set (rows v). \<not> P r
          | Some y \<Rightarrow> \<exists>r \<in> set (rows v). P r \<and> y = load v rels r) \<Longrightarrow> spec_at view (g x) refuse eff v"
  shows "spec_at view (bind (atom (r_findOne R rels P)) g) refuse eff v"
  unfolding spec_at_def
  by (rule vwp_bind, rule vwp_findOne [OF assms(1)])
    (simp, simp, use assms(2) [of None] in \<open>simp add: spec_at_def\<close>,
     use assms(2) [of "Some (load v rels r)" for r] in \<open>auto simp: spec_at_def split del: if_split\<close>)

lemma spec_at_throw_if:
  "(b \<Longrightarrow> refuse (committed v) = Some e) \<Longrightarrow> (\<not> b \<Longrightarrow> spec_at view (g ()) refuse eff v)
    \<Longrightarrow> spec_at view (bind (throw_if b e) g) refuse eff v"
  by (cases b) (auto simp: throw_if_def spec_at_throw)

text \<open>One writing call, then the answer.\<close>

lemma spec_at_write:
  assumes "implements view f (autocommit R)" and "refuse (committed v) = None"
    and "\<And>a t'. R (committed v) a t' \<Longrightarrow> tables_ok t' \<Longrightarrow> eff (committed v) (h a) t'"
  shows "spec_at view (bind (atom f) (\<lambda>a. Return (h a))) refuse eff v"
  unfolding spec_at_ok [of refuse, OF assms(2)]
  by (rule vwp_bind, rule vwp_autocommit [OF assms(1)])
    (use assms(2,3) in \<open>auto intro!: vwp_return, blast+\<close>)

text \<open>A row and its event in one transaction, then the answer.\<close>

lemma spec_at_row_and_event:
  assumes E: "farms_contract view E" and ins: "implements view f (in_tx R)"
    and ok: "refuse (committed v) = None"
    and eff: "\<And>a t1 carrier t'. R (committed v) a t1
      \<Longrightarrow> insert_outbox pat (stored_payload carrier (ev a)) t1 () t'
      \<Longrightarrow> tables_ok t' \<Longrightarrow> eff (committed v) (h a) t'"
  shows "spec_at view
    (bind (transaction (fe_tx E)
       (bind (atom f) (\<lambda>saved.
        bind (enqueue (fe_inject E) (fe_mgr_outbox E) pat (ev saved)) (\<lambda>_.
        Return saved)))) (\<lambda>saved. Return (h saved))) refuse eff v"
  unfolding spec_at_ok [of refuse, OF ok] enqueue_def
  apply (rule vwp_bind)
  apply (rule vwp_transaction [OF farms_contractD(1) [OF E],
        where F = "\<lambda>e v1. committed v1 = committed v \<and> is_library_error e"])
  apply (simp_all)
  apply (intro vwp_bind)
  apply (rule vwp_in_tx [OF ins])
  apply (simp_all)
  apply (intro vwp_bind)
  apply (rule vwp_atom [OF farms_contractD(20) [OF E]])
  apply (simp_all add: reads_def)
  apply (intro vwp_bind)
  apply (rule vwp_in_tx [OF farms_contractD(19) [OF E]])
  apply (simp_all)
  apply (auto intro!: vwp_return simp: ok dest: eff)
  apply (use eff in blast)
  done

text \<open>An upload touches the object store, not the tables; reading a photo touches neither.\<close>

lemma spec_at_upload:
  assumes "farms_contract view E" and "refuse (committed v) = None"
    and "\<And>ob. spec_at view (g key) refuse eff (v\<lparr>objects := ob\<rparr>)"
  shows "spec_at view (bind (uploadFile (fe_s3 E) file key) g) refuse eff v"
  unfolding spec_at_ok [of refuse, OF assms(2)] uploadFile_def
  apply (intro vwp_bind vwp_try_catch)
  apply (rule vwp_atom [OF farms_contractD(21) [OF assms(1)]])
  using assms(2,3) by (auto simp: spec_at_ok intro!: wp_intros)

definition no_photo :: "string \<Rightarrow> string option \<Rightarrow> exn option" where
  "no_photo not_found photo =
     (if photo = None \<or> photo = Some [] then Some (NotFoundException not_found) else None)"

lemma spec_at_image:
  assumes E: "farms_contract view E" and "refuse (committed v) = no_photo not_found photo"
    and "\<And>a. eff (committed v) a (committed v)"
  shows "spec_at view (image_reply (fe_s3 E) photo not_found) refuse eff v"
  unfolding spec_at_def image_reply_def getFile_def
  using assms(2,3)
  by (auto simp: no_photo_def reads_def
      intro!: wp_intros vwp_atom_err [OF farms_contractD(22) [OF E]])

context owned_resource
begin

text \<open>The check first: what follows runs on the tables of an owner.\<close>

lemma spec_at_guarded:
  assumes "farms_contract view E" and "tables_ok (committed v)"
    and "owner (committed v) k = Some (Some u)
      \<Longrightarrow> spec_at view (g (entity (committed v) k)) rest eff v"
  shows "spec_at view (bind (assert_owner E u k) g) (guarded missing (\<lambda>t. owner t k) u rest) eff v"
  unfolding spec_at_def
  by (rule vwp_bind, rule assert_owner_rule [OF assms(1,2)])
    (use assms(3) in \<open>auto simp: guarded_def spec_at_def\<close>)

lemma refines_guarded:
  assumes "farms_contract view E"
    and "\<And>v. tables_ok (committed v) \<Longrightarrow> owner (committed v) k = Some (Some u)
      \<Longrightarrow> spec_at view (g (entity (committed v) k)) rest eff v"
  shows "farms_refines view (bind (assert_owner E u k) g)
    (guarded missing (\<lambda>t. owner t k) u rest) eff"
  unfolding farms_refines_def using assms by (blast intro: spec_at_guarded)

end

end
