(* ===== verification/FarmsService.thy ===== *)
theory FarmsService
  imports FarmsSpec
begin

text \<open>
  \<open>FarmsService\<close> (\<open>apps/farms/src/farms/farms.service.ts\<close>): creation with the per-owner
  name check, listing, update, deletion and the photo of a farm.
\<close>

definition new_farm :: "CreateFarmDto \<Rightarrow> int \<Rightarrow> int \<Rightarrow> farm" where
  "new_farm dto userId i =
     \<lparr>farm_id = i, farm_name = cf_name dto, farm_location = cf_location dto, farm_photo = None,
      farm_state = cf_state dto, farm_area = cf_area dto, farm_userId = userId\<rparr>"

definition createFarm :: "'w farms_env \<Rightarrow> int \<Rightarrow> CreateFarmDto \<Rightarrow> ('w, farm reply) prog" where
  "createFarm E userId dto =
     bind (atom (r_find (fe_farms E) [] (\<lambda>f. farm_name f = cf_name dto \<and> farm_userId f = userId))) (\<lambda>found.
     bind (throw_if (length found > 0) (ConflictException ''Farm already exists'')) (\<lambda>_.
     bind (atom (r_insert (fe_farms E) (new_farm dto userId))) (\<lambda>savedFarm.
     Return \<lparr>reply_data = savedFarm, reply_message = ''Farm created successfully'',
             reply_status = StatusText ''success''\<rparr>)))"

definition findAllByUserId :: "'w farms_env \<Rightarrow> int \<Rightarrow> ('w, farm list reply) prog" where
  "findAllByUserId E userId =
     bind (atom (r_find (fe_farms E) [] (\<lambda>f. farm_userId f = userId))) (\<lambda>farms.
     Return \<lparr>reply_data = farms, reply_message = ''Farms retrieved successfully'',
             reply_status = StatusText ''success''\<rparr>)"

text \<open>
  \<open>updateFarm\<close>: a non-empty new name must not be the name of another farm row, whoever
  owns that row.
\<close>

definition check_farm_name :: "'w farms_env \<Rightarrow> int \<Rightarrow> string option \<Rightarrow> ('w, unit) prog" where
  "check_farm_name E farmId new_name =
     (case new_name of
        None \<Rightarrow> Return ()
      | Some n \<Rightarrow>
          if n = [] then Return ()
          else
            bind (atom (r_findOne (fe_farms E) [] (\<lambda>f. farm_name f = n \<and> farm_id f \<noteq> farmId))) (\<lambda>other.
            throw_if (other \<noteq> None) (ConflictException ''Farm name already exists'')))"

definition updateFarm :: "'w farms_env \<Rightarrow> int \<Rightarrow> UpdateFarmDto \<Rightarrow> int \<Rightarrow> ('w, farm option reply) prog" where
  "updateFarm E userId dto farmId =
     bind (assertFarmOwner E userId farmId) (\<lambda>_.
     bind (check_farm_name E farmId (uf_name dto)) (\<lambda>_.
     bind (atom (fe_farm_update E farmId dto)) (\<lambda>_.
     bind (atom (r_findOne (fe_farms E) [] (\<lambda>f. farm_id f = farmId))) (\<lambda>updatedFarm.
     Return \<lparr>reply_data = updatedFarm, reply_message = ''Farm updated successfully'',
             reply_status = StatusText ''success''\<rparr>))))"

definition deleteFarm :: "'w farms_env \<Rightarrow> int \<Rightarrow> int \<Rightarrow> ('w, farm removed reply) prog" where
  "deleteFarm E userId farmId =
     bind (assertFarmOwner E userId farmId) (\<lambda>farm.
     bind (atom (r_remove (fe_farms E) farm)) (\<lambda>deletedFarm.
     Return \<lparr>reply_data = deletedFarm, reply_message = ''Farm deleted successfully'',
             reply_status = StatusText ''success''\<rparr>))"

definition farm_photo_key :: "int \<Rightarrow> int \<Rightarrow> string" where
  "farm_photo_key farmId userId = ''farm-'' @ show_int farmId @ ''-user-'' @ show_int userId"

definition uploadFarmImage :: "'w farms_env \<Rightarrow> upload \<Rightarrow> int \<Rightarrow> int \<Rightarrow> ('w, string reply) prog" where
  "uploadFarmImage E file userId farmId =
     bind (assertFarmOwner E userId farmId) (\<lambda>farm.
     bind (uploadFile (fe_s3 E) file (farm_photo_key farmId userId)) (\<lambda>key.
     bind (atom (r_save (fe_farms E) (farm\<lparr>farm_photo := Some key\<rparr>))) (\<lambda>_.
     Return \<lparr>reply_data = key, reply_message = ''Farm image uploaded successfully'',
             reply_status = StatusText ''success''\<rparr>)))"

definition getFarmImage :: "'w farms_env \<Rightarrow> int \<Rightarrow> int \<Rightarrow> ('w, string option \<times> string) prog" where
  "getFarmImage E userId farmId =
     bind (assertFarmOwner E userId farmId) (\<lambda>farm.
     image_reply (fe_s3 E) (farm_photo farm) ''Farm photo not found'')"

section \<open>The controller\<close>

text \<open>
  The commands of \<open>FarmsController\<close> (\<open>apps/farms/src/farms/farms.controller.ts\<close>), each with
  its payload.
\<close>

datatype farms_request =
    CreateFarm int CreateFarmDto
  | FarmsByUser int
  | UpdateFarm int UpdateFarmDto int
  | DeleteFarm int int
  | FarmImage int int upload
  | GetFarmImage int int

datatype farms_answer =
    FarmSaved "farm reply"
  | FarmList "farm list reply"
  | FarmUpdated "farm option reply"
  | FarmRemoved "farm removed reply"
  | FarmPhotoKey "string reply"
  | FarmPhoto "string option \<times> string"

fun farms_controller :: "'w farms_env \<Rightarrow> farms_request \<Rightarrow> ('w, farms_answer) prog" where
  "farms_controller E (CreateFarm userId dto) = respond FarmSaved (createFarm E userId dto)"
| "farms_controller E (FarmsByUser userId) = respond FarmList (findAllByUserId E userId)"
| "farms_controller E (UpdateFarm userId dto farmId) = respond FarmUpdated (updateFarm E userId dto farmId)"
| "farms_controller E (DeleteFarm userId farmId) = respond FarmRemoved (deleteFarm E userId farmId)"
| "farms_controller E (FarmImage farmId userId file) =
     respond FarmPhotoKey (uploadFarmImage E file userId farmId)"
| "farms_controller E (GetFarmImage userId farmId) = respond FarmPhoto (getFarmImage E userId farmId)"

section \<open>The specification\<close>

text \<open>
  What the service refuses and what it does otherwise. Farm names are unique per owner on
  creation; an update checks the new name against every other row.
\<close>

definition name_taken :: "farms_tables \<Rightarrow> int \<Rightarrow> string option \<Rightarrow> bool" where
  "name_taken t farmId new_name \<longleftrightarrow>
     (case new_name of None \<Rightarrow> False
      | Some n \<Rightarrow> n \<noteq> [] \<and> (\<exists>f \<in> set (farm_rows t). farm_name f = n \<and> farm_id f \<noteq> farmId))"

fun farms_refusal :: "farms_request \<Rightarrow> farms_tables \<Rightarrow> exn option" where
  "farms_refusal (CreateFarm u dto) =
     (\<lambda>t. if \<exists>f \<in> set (farm_rows t). farm_name f = cf_name dto \<and> farm_userId f = u
      then Some (ConflictException ''Farm already exists'') else None)"
| "farms_refusal (FarmsByUser u) = (\<lambda>t. None)"
| "farms_refusal (UpdateFarm u dto i) =
     guarded ''Farm not found'' (\<lambda>t. farm_owner t i) u
       (\<lambda>t. if name_taken t i (uf_name dto) then Some (ConflictException ''Farm name already exists'')
            else None)"
| "farms_refusal (DeleteFarm u i) = guarded ''Farm not found'' (\<lambda>t. farm_owner t i) u (\<lambda>t. None)"
| "farms_refusal (FarmImage i u file) = guarded ''Farm not found'' (\<lambda>t. farm_owner t i) u (\<lambda>t. None)"
| "farms_refusal (GetFarmImage u i) =
     guarded ''Farm not found'' (\<lambda>t. farm_owner t i) u
       (\<lambda>t. no_photo ''Farm photo not found'' (farm_photo (farm_entity t i)))"

fun farms_effect :: "farms_request \<Rightarrow> farms_tables \<Rightarrow> farms_answer \<Rightarrow> farms_tables \<Rightarrow> bool" where
  "farms_effect (CreateFarm u dto) t a t' \<longleftrightarrow>
     (\<exists>i. i \<notin> farm_id ` set (farm_rows t) \<and>
        a = FarmSaved (success (new_farm dto u i) ''Farm created successfully'') \<and>
        t' = t\<lparr>farm_rows := farm_rows t @ [new_farm dto u i]\<rparr>)"
| "farms_effect (FarmsByUser u) t a t' \<longleftrightarrow>
     t' = t \<and> (\<exists>fs. mset fs = mset (filter (\<lambda>f. farm_userId f = u) (farm_rows t)) \<and>
        a = FarmList (success fs ''Farms retrieved successfully''))"
| "farms_effect (UpdateFarm u dto i) t a t' \<longleftrightarrow>
     t' = t\<lparr>farm_rows := map (\<lambda>f. if farm_id f = i then apply_farm_update dto f else f) (farm_rows t)\<rparr> \<and>
     a = FarmUpdated (success (Some (apply_farm_update dto (farm_entity t i))) ''Farm updated successfully'')"
| "farms_effect (DeleteFarm u i) t a t' \<longleftrightarrow>
     t' = t\<lparr>farm_rows := filter (\<lambda>f. farm_id f \<noteq> i) (farm_rows t)\<rparr> \<and>
     a = FarmRemoved (success (Removed (farm_entity t i)) ''Farm deleted successfully'')"
| "farms_effect (FarmImage i u file) t a t' \<longleftrightarrow>
     t' = t\<lparr>farm_rows := put_row farm_id ((farm_entity t i)\<lparr>farm_photo := Some (farm_photo_key i u)\<rparr>)
             (farm_rows t)\<rparr> \<and>
     a = FarmPhotoKey (success (farm_photo_key i u) ''Farm image uploaded successfully'')"
| "farms_effect (GetFarmImage u i) t a t' \<longleftrightarrow> t' = t"

text \<open>The entity of an owned farm is the row with its id.\<close>

lemma owned_farm:
  "tables_ok t \<Longrightarrow> farm_owner t i = Some (Some u)
    \<Longrightarrow> row_of farm_id i (farm_rows t) = Some (farm_entity t i) \<and> farm_id (farm_entity t i) = i \<and>
        farm_entity t i \<in> set (farm_rows t) \<and> farm_userId (farm_entity t i) = u"
  by (auto simp: farm_owner_def farm_entity_def dest: row_of_Some)

lemma row_of_updated:
  "row_of farm_id i (map (\<lambda>f. if farm_id f = i then apply_farm_update d f else f) rows)
     = map_option (apply_farm_update d) (row_of farm_id i rows)"
  unfolding row_of_def by (induction rows) (auto simp: apply_farm_update_def)

lemma create_farm_spec:
  assumes E: "farms_contract view E"
  shows "spec_at view (farms_controller E (CreateFarm u dto)) (farms_refusal (CreateFarm u dto))
    (farms_effect (CreateFarm u dto)) v"
  unfolding farms_controller.simps createFarm_def
proof (rule spec_at_respond, rule spec_at_find [OF farms_contractD(2) [OF E]], rule spec_at_throw_if)
  fix xs
  assume "mset xs = mset (map (\<lambda>f. f)
    (filter (\<lambda>f. farm_name f = cf_name dto \<and> farm_userId f = u) (farm_rows (committed v))))"
  then have xs: "set xs = {f \<in> set (farm_rows (committed v)). farm_name f = cf_name dto \<and> farm_userId f = u}"
    by (metis list.map_ident set_filter set_mset_mset)
  show "farms_refusal (CreateFarm u dto) (committed v) = Some (ConflictException ''Farm already exists'')"
    if "0 < length xs"
    using that xs list.set_sel(1) [of xs] by auto
  show "spec_at view
     (bind (atom (r_insert (fe_farms E) (new_farm dto u)))
       (\<lambda>savedFarm. Return (success savedFarm ''Farm created successfully'')))
     (farms_refusal (CreateFarm u dto)) (\<lambda>t a. farms_effect (CreateFarm u dto) t (FarmSaved a)) v"
    if "\<not> 0 < length xs"
  proof (rule spec_at_write [OF farms_contractD(6) [OF E]])
    show "farms_refusal (CreateFarm u dto) (committed v) = None" using that xs by auto
  qed (auto simp: insert_farm_def)
qed

lemma list_farms_spec:
  assumes E: "farms_contract view E"
  shows "spec_at view (farms_controller E (FarmsByUser u)) (farms_refusal (FarmsByUser u))
    (farms_effect (FarmsByUser u)) v"
  unfolding farms_controller.simps findAllByUserId_def
  by (rule spec_at_respond, rule spec_at_find [OF farms_contractD(2) [OF E]], rule spec_at_return) auto

text \<open>The update and the row it reads back.\<close>

lemma write_farm_update_spec:
  assumes E: "farms_contract view E" and ok: "tables_ok (committed v)"
    and own: "farm_owner (committed v) i = Some (Some u)" and "rest (committed v) = None"
  shows "spec_at view
    (bind (atom (fe_farm_update E i dto)) (\<lambda>_.
     bind (atom (r_findOne (fe_farms E) [] (\<lambda>f. farm_id f = i))) (\<lambda>updatedFarm.
     Return (success updatedFarm ''Farm updated successfully''))))
    rest (\<lambda>t a. farms_effect (UpdateFarm u dto i) t (FarmUpdated a)) v"
  unfolding spec_at_def
proof (rule vwp_bind, rule vwp_autocommit [OF farms_contractD(9) [OF E]], goal_cases)
  case (3 a t')
  have row: "row_of farm_id i (farm_rows t') = Some (apply_farm_update dto (farm_entity (committed v) i))"
    using 3(1) owned_farm [OF ok own] by (simp add: row_of_updated)
  have ids: "distinct_ids farm_id (farm_rows t')"
    using 3(2) by (simp add: tables_ok_def)
  show ?case
    using 3 row ids assms(4)
    by (auto intro!: vwp_bind vwp_findOne_id [OF farms_contractD(2) [OF E]] vwp_return)
qed simp_all

lemma update_farm_spec:
  assumes E: "farms_contract view E" and ok: "tables_ok (committed v)"
  shows "spec_at view (farms_controller E (UpdateFarm u dto i)) (farms_refusal (UpdateFarm u dto i))
    (farms_effect (UpdateFarm u dto i)) v"
  unfolding farms_controller.simps updateFarm_def farms_refusal.simps
proof (rule spec_at_respond, rule farm_owned.spec_at_guarded [OF E ok])
  let ?rest = "\<lambda>t. if name_taken t i (uf_name dto)
    then Some (ConflictException ''Farm name already exists'') else None"
  let ?store = "bind (atom (fe_farm_update E i dto)) (\<lambda>_.
     bind (atom (r_findOne (fe_farms E) [] (\<lambda>f. farm_id f = i))) (\<lambda>updatedFarm.
     Return (success updatedFarm ''Farm updated successfully'')))"
  let ?eff = "\<lambda>t a. farms_effect (UpdateFarm u dto i) t (FarmUpdated a)"
  assume own: "farm_owner (committed v) i = Some (Some u)"
  have free: "spec_at view ?store ?rest ?eff v" if "\<not> name_taken (committed v) i (uf_name dto)"
    by (rule write_farm_update_spec [OF E ok own]) (simp add: that)
  show "spec_at view (bind (check_farm_name E i (uf_name dto)) (\<lambda>_. ?store)) ?rest ?eff v"
  proof (cases "uf_name dto = None \<or> uf_name dto = Some []")
    case True
    then show ?thesis using free by (auto simp: check_farm_name_def name_taken_def)
  next
    case False
    then obtain n where n: "uf_name dto = Some n" "n \<noteq> []" by auto
    show ?thesis
      unfolding check_farm_name_def n option.case bind_assoc if_not_P [OF n(2)]
      by (rule spec_at_findOne [OF farms_contractD(2) [OF E]], rule spec_at_throw_if)
        (use n free in \<open>auto simp: name_taken_def split: option.splits\<close>)
  qed
qed

lemma delete_farm_spec:
  assumes E: "farms_contract view E" and ok: "tables_ok (committed v)"
  shows "spec_at view (farms_controller E (DeleteFarm u i)) (farms_refusal (DeleteFarm u i))
    (farms_effect (DeleteFarm u i)) v"
  unfolding farms_controller.simps deleteFarm_def farms_refusal.simps
  by (rule spec_at_respond, rule farm_owned.spec_at_guarded [OF E ok],
      rule spec_at_write [OF farms_contractD(8) [OF E]])
    (use ok in \<open>auto simp: del_row_def dest: owned_farm\<close>)

lemma upload_farm_image_spec:
  assumes E: "farms_contract view E" and ok: "tables_ok (committed v)"
  shows "spec_at view (farms_controller E (FarmImage i u file)) (farms_refusal (FarmImage i u file))
    (farms_effect (FarmImage i u file)) v"
  unfolding farms_controller.simps uploadFarmImage_def farms_refusal.simps
  by (rule spec_at_respond, rule farm_owned.spec_at_guarded [OF E ok], rule spec_at_upload [OF E], simp,
      rule spec_at_write [OF farms_contractD(7) [OF E]]) simp_all

lemma farm_image_spec:
  assumes E: "farms_contract view E" and ok: "tables_ok (committed v)"
  shows "spec_at view (farms_controller E (GetFarmImage u i)) (farms_refusal (GetFarmImage u i))
    (farms_effect (GetFarmImage u i)) v"
  unfolding farms_controller.simps getFarmImage_def farms_refusal.simps
  by (rule spec_at_respond, rule farm_owned.spec_at_guarded [OF E ok], rule spec_at_image [OF E]) simp_all

text \<open>The service is an atomic implementation of its specification.\<close>

lemma farms_controller_refines:
  assumes "farms_contract view E"
  shows "farms_refines view (farms_controller E req) (farms_refusal req) (farms_effect req)"
  unfolding farms_refines_def
  by (cases req)
    (blast intro: create_farm_spec list_farms_spec update_farm_spec delete_farm_spec
      upload_farm_image_spec farm_image_spec assms)+

end
