(* ===== verification/CropsService.thy ===== *)
theory CropsService
  imports FarmsService
begin

text \<open>
  \<open>CropsService\<close> (\<open>apps/farms/src/crops/crops.service.ts\<close>). A crop is created under a farm
  of the caller, and its row and the \<open>crop.initialized\<close> event commit in one transaction.
\<close>

definition new_crop :: "CreateCropDto \<Rightarrow> int \<Rightarrow> crop" where
  "new_crop dto i =
     \<lparr>crop_id = i, crop_name = cc_name dto, crop_product = cc_product dto, crop_size = cc_size dto,
      crop_location = cc_location dto, crop_photo = None, crop_sowingDate = cc_sowingDate dto,
      crop_plants = cc_plants dto, crop_farm = Some (Ref (cc_farmId dto))\<rparr>"

definition crop_event :: "farm \<Rightarrow> crop \<Rightarrow> object" where
  "crop_event farm saved =
     [(''cropId'', JNum (crop_id saved)), (''farmId'', JNum (farm_id farm)),
      (''userId'', JNum (farm_userId farm)), (''payload'', JObj (crop_json saved))]"

definition createCrop :: "'w farms_env \<Rightarrow> int \<Rightarrow> CreateCropDto \<Rightarrow> ('w, crop reply) prog" where
  "createCrop E userId dto =
     bind (assertFarmOwner E userId (cc_farmId dto)) (\<lambda>farm.
     bind (transaction (fe_tx E)
       (bind (atom (fe_mgr_crop E (new_crop dto))) (\<lambda>saved.
        bind (enqueue (fe_inject E) (fe_mgr_outbox E) ''crop.initialized'' (crop_event farm saved)) (\<lambda>_.
        Return saved)))) (\<lambda>savedCrop.
     Return \<lparr>reply_data = savedCrop, reply_message = ''Created crop successfully'',
             reply_status = StatusText ''success''\<rparr>))"

definition findCropsByFarmId :: "'w farms_env \<Rightarrow> int \<Rightarrow> int \<Rightarrow> ('w, crop list reply) prog" where
  "findCropsByFarmId E userId farmId =
     bind (assertFarmOwner E userId farmId) (\<lambda>_.
     bind (atom (r_find (fe_crops E) [''farm''] (\<lambda>c. crop_farm_id c = Some farmId))) (\<lambda>crops.
     Return \<lparr>reply_data = crops, reply_message = ''Crops retrieved successfully'',
             reply_status = StatusText ''success''\<rparr>))"

text \<open>
  \<open>Object.assign(crop, updateCropDto)\<close>. A \<open>farmId\<close> in the DTO becomes a stray property of
  the entity object: it is not a column, so saving ignores it, but the reply shows it.
\<close>

definition assign_crop :: "UpdateCropDto \<Rightarrow> crop \<Rightarrow> crop" where
  "assign_crop u c =
     c\<lparr>crop_name := given (uc_name u) (crop_name c),
       crop_product := given (uc_product u) (crop_product c),
       crop_size := given (uc_size u) (crop_size c),
       crop_location := given (uc_location u) (crop_location c),
       crop_sowingDate := given (uc_sowingDate u) (crop_sowingDate c),
       crop_plants := given (uc_plants u) (crop_plants c)\<rparr>"

definition updateCrop :: "'w farms_env \<Rightarrow> int \<Rightarrow> UpdateCropDto \<Rightarrow> int
    \<Rightarrow> ('w, (crop \<times> int option) reply) prog" where
  "updateCrop E userId dto cropId =
     bind (assertCropOwner E userId cropId) (\<lambda>crop.
     bind (atom (r_save (fe_crops E) (assign_crop dto crop))) (\<lambda>_.
     Return \<lparr>reply_data = (assign_crop dto crop, uc_farmId dto),
             reply_message = ''Crop updated successfully'', reply_status = StatusText ''success''\<rparr>))"

definition deleteCrop :: "'w farms_env \<Rightarrow> int \<Rightarrow> int \<Rightarrow> ('w, unit reply) prog" where
  "deleteCrop E userId cropId =
     bind (assertCropOwner E userId cropId) (\<lambda>crop.
     bind (atom (r_remove (fe_crops E) crop)) (\<lambda>_.
     Return \<lparr>reply_data = (), reply_message = ''Crop deleted successfully'',
             reply_status = StatusText ''success''\<rparr>))"

definition crop_photo_key :: "int \<Rightarrow> int \<Rightarrow> string" where
  "crop_photo_key cropId userId = ''crop-'' @ show_int cropId @ ''-user-'' @ show_int userId"

definition uploadCropPhoto :: "'w farms_env \<Rightarrow> upload \<Rightarrow> int \<Rightarrow> int \<Rightarrow> ('w, string reply) prog" where
  "uploadCropPhoto E file userId cropId =
     bind (assertCropOwner E userId cropId) (\<lambda>crop.
     bind (uploadFile (fe_s3 E) file (crop_photo_key cropId userId)) (\<lambda>key.
     bind (atom (r_save (fe_crops E) (crop\<lparr>crop_photo := Some key\<rparr>))) (\<lambda>_.
     Return \<lparr>reply_data = key, reply_message = ''Crop image uploaded successfully'',
             reply_status = StatusText ''success''\<rparr>)))"

definition getCropPhoto :: "'w farms_env \<Rightarrow> int \<Rightarrow> int \<Rightarrow> ('w, string option \<times> string) prog" where
  "getCropPhoto E userId cropId =
     bind (assertCropOwner E userId cropId) (\<lambda>crop.
     image_reply (fe_s3 E) (crop_photo crop) ''Crop photo not found'')"

definition findCropById :: "'w farms_env \<Rightarrow> int \<Rightarrow> int \<Rightarrow> ('w, crop reply) prog" where
  "findCropById E userId cropId =
     bind (assertCropOwner E userId cropId) (\<lambda>crop.
     Return \<lparr>reply_data = crop, reply_message = ''success'', reply_status = StatusNum 200\<rparr>)"

section \<open>The controller\<close>

text \<open>The commands of \<open>CropsController\<close> (\<open>apps/farms/src/crops/crops.controller.ts\<close>).\<close>

datatype crops_request =
    CreateCrop int CreateCropDto
  | GetCropById int int
  | CropsByFarm int int
  | UpdateCrop int UpdateCropDto int
  | DeleteCrop int int
  | CropPhoto int int upload
  | GetCropPhoto int int

datatype crops_answer =
    CropSaved "crop reply"
  | CropList "crop list reply"
  | CropUpdated "(crop \<times> int option) reply"
  | CropDeleted "unit reply"
  | CropPhotoKey "string reply"
  | CropPhotoData "string option \<times> string"

fun crops_controller :: "'w farms_env \<Rightarrow> crops_request \<Rightarrow> ('w, crops_answer) prog" where
  "crops_controller E (CreateCrop userId dto) = respond CropSaved (createCrop E userId dto)"
| "crops_controller E (GetCropById userId cropId) = respond CropSaved (findCropById E userId cropId)"
| "crops_controller E (CropsByFarm userId farmId) = respond CropList (findCropsByFarmId E userId farmId)"
| "crops_controller E (UpdateCrop userId dto cropId) = respond CropUpdated (updateCrop E userId dto cropId)"
| "crops_controller E (DeleteCrop userId cropId) = respond CropDeleted (deleteCrop E userId cropId)"
| "crops_controller E (CropPhoto cropId userId file) =
     respond CropPhotoKey (uploadCropPhoto E file userId cropId)"
| "crops_controller E (GetCropPhoto userId cropId) = respond CropPhotoData (getCropPhoto E userId cropId)"

section \<open>The specification\<close>

text \<open>
  Creation needs the farm, everything else the crop. A created crop comes with one outbox
  row, whose payload names the crop, its farm and the farm's owner.
\<close>

fun crops_refusal :: "crops_request \<Rightarrow> farms_tables \<Rightarrow> exn option" where
  "crops_refusal (CreateCrop u dto) =
     guarded ''Farm not found'' (\<lambda>t. farm_owner t (cc_farmId dto)) u (\<lambda>t. None)"
| "crops_refusal (GetCropById u i) = guarded ''Crop not found'' (\<lambda>t. crop_owner t i) u (\<lambda>t. None)"
| "crops_refusal (CropsByFarm u i) = guarded ''Farm not found'' (\<lambda>t. farm_owner t i) u (\<lambda>t. None)"
| "crops_refusal (UpdateCrop u dto i) = guarded ''Crop not found'' (\<lambda>t. crop_owner t i) u (\<lambda>t. None)"
| "crops_refusal (DeleteCrop u i) = guarded ''Crop not found'' (\<lambda>t. crop_owner t i) u (\<lambda>t. None)"
| "crops_refusal (CropPhoto i u file) = guarded ''Crop not found'' (\<lambda>t. crop_owner t i) u (\<lambda>t. None)"
| "crops_refusal (GetCropPhoto u i) =
     guarded ''Crop not found'' (\<lambda>t. crop_owner t i) u
       (\<lambda>t. no_photo ''Crop photo not found'' (crop_photo (crop_entity t i)))"

fun crops_effect :: "crops_request \<Rightarrow> farms_tables \<Rightarrow> crops_answer \<Rightarrow> farms_tables \<Rightarrow> bool" where
  "crops_effect (CreateCrop u dto) t a t' \<longleftrightarrow>
     (\<exists>i j carrier. i \<notin> crop_id ` set (crop_rows t) \<and> j \<notin> ob_id ` set (outbox_rows t) \<and>
        a = CropSaved (success (new_crop dto i) ''Created crop successfully'') \<and>
        t' = t\<lparr>crop_rows := crop_rows t @ [new_crop dto i],
               outbox_rows := outbox_rows t @ [new_outbox_row ''crop.initialized''
                 (stored_payload carrier (crop_event (farm_entity t (cc_farmId dto)) (new_crop dto i))) j]\<rparr>)"
| "crops_effect (GetCropById u i) t a t' \<longleftrightarrow>
     t' = t \<and> a = CropSaved \<lparr>reply_data = crop_entity t i, reply_message = ''success'',
                           reply_status = StatusNum 200\<rparr>"
| "crops_effect (CropsByFarm u i) t a t' \<longleftrightarrow>
     t' = t \<and>
     (\<exists>cs. mset cs = mset (map (load_crop t [''farm'']) (filter (\<lambda>c. crop_farm_id c = Some i) (crop_rows t))) \<and>
        a = CropList (success cs ''Crops retrieved successfully''))"
| "crops_effect (UpdateCrop u dto i) t a t' \<longleftrightarrow>
     t' = t\<lparr>crop_rows := put_row crop_id (crop_row t (assign_crop dto (crop_entity t i))) (crop_rows t)\<rparr> \<and>
     a = CropUpdated (success (assign_crop dto (crop_entity t i), uc_farmId dto) ''Crop updated successfully'')"
| "crops_effect (DeleteCrop u i) t a t' \<longleftrightarrow>
     t' = t\<lparr>crop_rows := filter (\<lambda>c. crop_id c \<noteq> i) (crop_rows t)\<rparr> \<and>
     a = CropDeleted (success () ''Crop deleted successfully'')"
| "crops_effect (CropPhoto i u file) t a t' \<longleftrightarrow>
     t' = t\<lparr>crop_rows := put_row crop_id
              (crop_row t ((crop_entity t i)\<lparr>crop_photo := Some (crop_photo_key i u)\<rparr>)) (crop_rows t)\<rparr> \<and>
     a = CropPhotoKey (success (crop_photo_key i u) ''Crop image uploaded successfully'')"
| "crops_effect (GetCropPhoto u i) t a t' \<longleftrightarrow> t' = t"

lemma owned_crop:
  "tables_ok t \<Longrightarrow> crop_owner t i = Some (Some u)
    \<Longrightarrow> \<exists>c. row_of crop_id i (crop_rows t) = Some c \<and> crop_entity t i = load_crop t [''farm''] c \<and>
        c \<in> set (crop_rows t) \<and> crop_id c = i \<and> crop_id (crop_entity t i) = i"
  by (auto simp: crop_owner_def crop_entity_def load_crop_def dest: row_of_Some)

lemma crop_row_new [simp]: "crop_row t (new_crop dto i) = new_crop dto i"
  by (simp add: crop_row_def new_crop_def)

lemma create_crop_spec:
  assumes E: "farms_contract view E" and ok: "tables_ok (committed v)"
  shows "spec_at view (crops_controller E (CreateCrop u dto)) (crops_refusal (CreateCrop u dto))
    (crops_effect (CreateCrop u dto)) v"
  unfolding crops_controller.simps createCrop_def crops_refusal.simps
  apply (rule spec_at_respond, rule farm_owned.spec_at_guarded [OF E ok],
      rule spec_at_row_and_event [OF E farms_contractD(16) [OF E]])
   apply simp
  apply (fastforce simp: insert_crop_def insert_outbox_def)
  done

lemma get_crop_spec:
  assumes E: "farms_contract view E" and ok: "tables_ok (committed v)"
  shows "spec_at view (crops_controller E (GetCropById u i)) (crops_refusal (GetCropById u i))
    (crops_effect (GetCropById u i)) v"
  unfolding crops_controller.simps findCropById_def crops_refusal.simps
  by (rule spec_at_respond, rule crop_owned.spec_at_guarded [OF E ok], rule spec_at_return) simp_all

lemma list_crops_spec:
  assumes E: "farms_contract view E" and ok: "tables_ok (committed v)"
  shows "spec_at view (crops_controller E (CropsByFarm u i)) (crops_refusal (CropsByFarm u i))
    (crops_effect (CropsByFarm u i)) v"
  unfolding crops_controller.simps findCropsByFarmId_def crops_refusal.simps
  by (rule spec_at_respond, rule farm_owned.spec_at_guarded [OF E ok],
      rule spec_at_find [OF farms_contractD(3) [OF E]], rule spec_at_return) simp_all

lemma crop_photo_spec:
  assumes E: "farms_contract view E" and ok: "tables_ok (committed v)"
  shows "spec_at view (crops_controller E (GetCropPhoto u i)) (crops_refusal (GetCropPhoto u i))
    (crops_effect (GetCropPhoto u i)) v"
  unfolding crops_controller.simps getCropPhoto_def crops_refusal.simps
  by (rule spec_at_respond, rule crop_owned.spec_at_guarded [OF E ok], rule spec_at_image [OF E]) simp_all

lemma update_crop_spec:
  assumes E: "farms_contract view E" and ok: "tables_ok (committed v)"
  shows "spec_at view (crops_controller E (UpdateCrop u dto i)) (crops_refusal (UpdateCrop u dto i))
    (crops_effect (UpdateCrop u dto i)) v"
  unfolding crops_controller.simps updateCrop_def crops_refusal.simps
  by (rule spec_at_respond, rule crop_owned.spec_at_guarded [OF E ok],
      rule spec_at_write [OF farms_contractD(10) [OF E]]) simp_all

lemma delete_crop_spec:
  assumes E: "farms_contract view E" and ok: "tables_ok (committed v)"
  shows "spec_at view (crops_controller E (DeleteCrop u i)) (crops_refusal (DeleteCrop u i))
    (crops_effect (DeleteCrop u i)) v"
  unfolding crops_controller.simps deleteCrop_def crops_refusal.simps
  by (rule spec_at_respond, rule crop_owned.spec_at_guarded [OF E ok],
      rule spec_at_write [OF farms_contractD(11) [OF E]])
    (use ok in \<open>auto simp: del_row_def dest!: owned_crop\<close>)

lemma upload_crop_photo_spec:
  assumes E: "farms_contract view E" and ok: "tables_ok (committed v)"
  shows "spec_at view (crops_controller E (CropPhoto i u file)) (crops_refusal (CropPhoto i u file))
    (crops_effect (CropPhoto i u file)) v"
  unfolding crops_controller.simps uploadCropPhoto_def crops_refusal.simps
  by (rule spec_at_respond, rule crop_owned.spec_at_guarded [OF E ok], rule spec_at_upload [OF E], simp,
      rule spec_at_write [OF farms_contractD(10) [OF E]]) simp_all

lemma crops_controller_refines:
  assumes "farms_contract view E"
  shows "farms_refines view (crops_controller E req) (crops_refusal req) (crops_effect req)"
  unfolding farms_refines_def
  by (cases req) (blast intro: create_crop_spec get_crop_spec list_crops_spec update_crop_spec
      delete_crop_spec upload_crop_photo_spec crop_photo_spec assms)+

end
