(* ===== verification/ActivitiesService.thy ===== *)
theory ActivitiesService
  imports FarmsService
begin

text \<open>\<open>ActivitiesService\<close> (\<open>apps/farms/src/activities/activities.service.ts\<close>).\<close>

definition new_activity :: "CreateActivityDto \<Rightarrow> int \<Rightarrow> activity" where
  "new_activity dto i =
     \<lparr>act_id = i, act_photo = None, act_type = ca_type dto, act_inputDate = ca_inputDate dto,
      act_title = ca_title dto, act_manufactureLocation = ca_manufactureLocation dto,
      act_appRatio = ca_appRatio dto, act_appMethod = ca_appMethod dto, act_comment = ca_comment dto,
      act_category = ca_category dto, act_bioName = ca_bioName dto, act_bioType = ca_bioType dto,
      act_crop = Some (Ref (ca_cropId dto))\<rparr>"

text \<open>A property whose value is \<open>undefined\<close> is not part of the stored event.\<close>

definition num_prop :: "string \<Rightarrow> int option \<Rightarrow> object" where
  "num_prop k x = (case x of None \<Rightarrow> [] | Some i \<Rightarrow> [(k, JNum i)])"

definition chain_event :: "int \<Rightarrow> crop \<Rightarrow> object \<Rightarrow> object" where
  "chain_event cropId crop saved =
     [(''cropId'', JNum cropId)] @ num_prop ''farmId'' (crop_farm_id crop)
       @ num_prop ''userId'' (crop_farm_userId crop) @ [(''payload'', JObj saved)]"

definition createActivity :: "'w farms_env \<Rightarrow> int \<Rightarrow> CreateActivityDto \<Rightarrow> ('w, activity reply) prog" where
  "createActivity E userId dto =
     bind (assertCropOwner E userId (ca_cropId dto)) (\<lambda>crop.
     bind (transaction (fe_tx E)
       (bind (atom (fe_mgr_activity E (new_activity dto))) (\<lambda>saved.
        bind (enqueue (fe_inject E) (fe_mgr_outbox E) ''activity.created''
          (chain_event (ca_cropId dto) crop (activity_json saved))) (\<lambda>_.
        Return saved)))) (\<lambda>savedActivity.
     Return \<lparr>reply_data = savedActivity,
             reply_message = ''Created activity and update tracing successfully'',
             reply_status = StatusText ''success''\<rparr>))"

definition findActivitiesByCropId :: "'w farms_env \<Rightarrow> int \<Rightarrow> int \<Rightarrow> ('w, activity list reply) prog" where
  "findActivitiesByCropId E userId cropId =
     bind (assertCropOwner E userId cropId) (\<lambda>_.
     bind (atom (r_find (fe_activities E) [] (\<lambda>a. rel_crop_id (act_crop a) = Some cropId))) (\<lambda>activities.
     Return \<lparr>reply_data = activities, reply_message = ''Activities retrieved successfully'',
             reply_status = StatusText ''success''\<rparr>))"

text \<open>\<open>Object.assign(activity, updateActivityDto)\<close>; a \<open>cropId\<close> is a stray property, as for crops.\<close>

definition assign_activity :: "UpdateActivityDto \<Rightarrow> activity \<Rightarrow> activity" where
  "assign_activity u a =
     a\<lparr>act_type := given (ua_type u) (act_type a),
       act_inputDate := given (ua_inputDate u) (act_inputDate a),
       act_title := given (ua_title u) (act_title a),
       act_manufactureLocation := given (ua_manufactureLocation u) (act_manufactureLocation a),
       act_appRatio := given (ua_appRatio u) (act_appRatio a),
       act_appMethod := given (ua_appMethod u) (act_appMethod a),
       act_comment := given (ua_comment u) (act_comment a),
       act_category := given (ua_category u) (act_category a),
       act_bioName := given (ua_bioName u) (act_bioName a),
       act_bioType := given (ua_bioType u) (act_bioType a)\<rparr>"

definition updateActivity :: "'w farms_env \<Rightarrow> int \<Rightarrow> UpdateActivityDto \<Rightarrow> int
    \<Rightarrow> ('w, (activity \<times> int option) reply) prog" where
  "updateActivity E userId dto activityId =
     bind (assertActivityOwner E userId activityId) (\<lambda>activity.
     bind (atom (r_save (fe_activities E) (assign_activity dto activity))) (\<lambda>_.
     Return \<lparr>reply_data = (assign_activity dto activity, ua_cropId dto),
             reply_message = ''Activity updated successfully'', reply_status = StatusText ''success''\<rparr>))"

definition deleteActivity :: "'w farms_env \<Rightarrow> int \<Rightarrow> int \<Rightarrow> ('w, activity removed reply) prog" where
  "deleteActivity E userId activityId =
     bind (assertActivityOwner E userId activityId) (\<lambda>activity.
     bind (atom (r_remove (fe_activities E) activity)) (\<lambda>deletedActivity.
     Return \<lparr>reply_data = deletedActivity, reply_message = ''Activity deleted successfully'',
             reply_status = StatusText ''success''\<rparr>))"

definition activity_photo_key :: "int \<Rightarrow> int \<Rightarrow> string" where
  "activity_photo_key activityId userId =
     ''activity-'' @ show_int activityId @ ''-user-'' @ show_int userId"

definition uploadActivityPhoto :: "'w farms_env \<Rightarrow> upload \<Rightarrow> int \<Rightarrow> int \<Rightarrow> ('w, string reply) prog" where
  "uploadActivityPhoto E file userId activityId =
     bind (assertActivityOwner E userId activityId) (\<lambda>activity.
     bind (uploadFile (fe_s3 E) file (activity_photo_key activityId userId)) (\<lambda>key.
     bind (atom (r_save (fe_activities E) (activity\<lparr>act_photo := Some key\<rparr>))) (\<lambda>_.
     Return \<lparr>reply_data = key, reply_message = ''Activity image uploaded successfully'',
             reply_status = StatusText ''success''\<rparr>)))"

definition getActivityPhoto :: "'w farms_env \<Rightarrow> int \<Rightarrow> int \<Rightarrow> ('w, string option \<times> string) prog" where
  "getActivityPhoto E userId activityId =
     bind (assertActivityOwner E userId activityId) (\<lambda>activity.
     image_reply (fe_s3 E) (act_photo activity) ''Activity photo not found'')"

section \<open>The controller\<close>

text \<open>The commands of \<open>ActivitiesController\<close> (\<open>apps/farms/src/activities/activities.controller.ts\<close>).\<close>

datatype activities_request =
    CreateActivity int CreateActivityDto
  | ActivitiesByCrop int int
  | UpdateActivity int UpdateActivityDto int
  | DeleteActivity int int
  | ActivityPhoto int int upload
  | GetActivityPhoto int int

datatype activities_answer =
    ActivitySaved "activity reply"
  | ActivityList "activity list reply"
  | ActivityUpdated "(activity \<times> int option) reply"
  | ActivityDeleted "activity removed reply"
  | ActivityPhotoKey "string reply"
  | ActivityPhotoData "string option \<times> string"

fun activities_controller :: "'w farms_env \<Rightarrow> activities_request \<Rightarrow> ('w, activities_answer) prog" where
  "activities_controller E (CreateActivity userId dto) = respond ActivitySaved (createActivity E userId dto)"
| "activities_controller E (ActivitiesByCrop userId cropId) = respond ActivityList (findActivitiesByCropId E userId cropId)"
| "activities_controller E (UpdateActivity userId dto activityId) =
     respond ActivityUpdated (updateActivity E userId dto activityId)"
| "activities_controller E (DeleteActivity userId activityId) = respond ActivityDeleted (deleteActivity E userId activityId)"
| "activities_controller E (ActivityPhoto activityId userId file) =
     respond ActivityPhotoKey (uploadActivityPhoto E file userId activityId)"
| "activities_controller E (GetActivityPhoto userId activityId) = respond ActivityPhotoData (getActivityPhoto E userId activityId)"

section \<open>The specification\<close>

text \<open>
  Creation and listing need the crop, everything else the activity; a created activity
  comes with its event.
\<close>

fun activities_refusal :: "activities_request \<Rightarrow> farms_tables \<Rightarrow> exn option" where
  "activities_refusal (CreateActivity u dto) =
     guarded ''Crop not found'' (\<lambda>t. crop_owner t (ca_cropId dto)) u
       (\<lambda>t. None)"
| "activities_refusal (ActivitiesByCrop u i) = guarded ''Crop not found'' (\<lambda>t. crop_owner t i) u (\<lambda>t. None)"
| "activities_refusal (UpdateActivity u dto i) =
     guarded ''Activity not found'' (\<lambda>t. activity_owner t i) u (\<lambda>t. None)"
| "activities_refusal (DeleteActivity u i) = guarded ''Activity not found'' (\<lambda>t. activity_owner t i) u (\<lambda>t. None)"
| "activities_refusal (ActivityPhoto i u file) =
     guarded ''Activity not found'' (\<lambda>t. activity_owner t i) u (\<lambda>t. None)"
| "activities_refusal (GetActivityPhoto u i) =
     guarded ''Activity not found'' (\<lambda>t. activity_owner t i) u
       (\<lambda>t. no_photo ''Activity photo not found'' (act_photo (activity_entity t i)))"

fun activities_effect :: "activities_request \<Rightarrow> farms_tables \<Rightarrow> activities_answer \<Rightarrow> farms_tables \<Rightarrow> bool" where
  "activities_effect (CreateActivity u dto) t a t' \<longleftrightarrow>
     (\<exists>i j carrier. i \<notin> act_id ` set (activity_rows t) \<and> j \<notin> ob_id ` set (outbox_rows t) \<and>
        a = ActivitySaved (success (new_activity dto i) ''Created activity and update tracing successfully'') \<and>
        t' = t\<lparr>activity_rows := activity_rows t @ [new_activity dto i],
               outbox_rows := outbox_rows t @ [new_outbox_row ''activity.created''
                 (stored_payload carrier (chain_event (ca_cropId dto) (crop_entity t (ca_cropId dto))
                   (activity_json (new_activity dto i)))) j]\<rparr>)"
| "activities_effect (ActivitiesByCrop u i) t a t' \<longleftrightarrow>
     t' = t \<and>
     (\<exists>xs. mset xs = mset (map (load_activity t []) (filter (\<lambda>x. rel_crop_id (act_crop x) = Some i) (activity_rows t))) \<and>
        a = ActivityList (success xs ''Activities retrieved successfully''))"
| "activities_effect (UpdateActivity u dto i) t a t' \<longleftrightarrow>
     t' = t\<lparr>activity_rows := put_row act_id (activity_row t (assign_activity dto (activity_entity t i)))
              (activity_rows t)\<rparr> \<and>
     a = ActivityUpdated (success (assign_activity dto (activity_entity t i), ua_cropId dto)
           ''Activity updated successfully'')"
| "activities_effect (DeleteActivity u i) t a t' \<longleftrightarrow>
     t' = t\<lparr>activity_rows := filter (\<lambda>x. act_id x \<noteq> i) (activity_rows t)\<rparr> \<and>
     a = ActivityDeleted (success (Removed (activity_entity t i)) ''Activity deleted successfully'')"
| "activities_effect (ActivityPhoto i u file) t a t' \<longleftrightarrow>
     t' = t\<lparr>activity_rows := put_row act_id
              (activity_row t ((activity_entity t i)\<lparr>act_photo := Some (activity_photo_key i u)\<rparr>)) (activity_rows t)\<rparr> \<and>
     a = ActivityPhotoKey (success (activity_photo_key i u) ''Activity image uploaded successfully'')"
| "activities_effect (GetActivityPhoto u i) t a t' \<longleftrightarrow> t' = t"

lemma owned_activity:
  "tables_ok t \<Longrightarrow> activity_owner t i = Some (Some u)
    \<Longrightarrow> \<exists>x. row_of act_id i (activity_rows t) = Some x \<and>
        activity_entity t i = load_activity t [''crop'', ''crop.farm''] x \<and>
        x \<in> set (activity_rows t) \<and> act_id x = i \<and> act_id (activity_entity t i) = i"
  by (auto simp: activity_owner_def activity_entity_def load_activity_def dest: row_of_Some)

lemma activity_row_new [simp]: "activity_row t (new_activity dto i) = new_activity dto i"
  by (simp add: activity_row_def new_activity_def)

lemma create_activity_spec:
  assumes E: "farms_contract view E" and ok: "tables_ok (committed v)"
  shows "spec_at view (activities_controller E (CreateActivity u dto))
    (activities_refusal (CreateActivity u dto)) (activities_effect (CreateActivity u dto)) v"
  unfolding activities_controller.simps createActivity_def activities_refusal.simps
  by (rule spec_at_respond, rule crop_owned.spec_at_guarded [OF E ok],
      rule spec_at_row_and_event [OF E farms_contractD(17) [OF E]], simp)
    (fastforce simp: insert_activity_def insert_outbox_def)

lemma list_activities_spec:
  assumes E: "farms_contract view E" and ok: "tables_ok (committed v)"
  shows "spec_at view (activities_controller E (ActivitiesByCrop u i)) (activities_refusal (ActivitiesByCrop u i))
    (activities_effect (ActivitiesByCrop u i)) v"
  unfolding activities_controller.simps findActivitiesByCropId_def activities_refusal.simps
  by (rule spec_at_respond, rule crop_owned.spec_at_guarded [OF E ok],
      rule spec_at_find [OF farms_contractD(4) [OF E]], rule spec_at_return) simp_all

lemma activity_photo_spec:
  assumes E: "farms_contract view E" and ok: "tables_ok (committed v)"
  shows "spec_at view (activities_controller E (GetActivityPhoto u i)) (activities_refusal (GetActivityPhoto u i))
    (activities_effect (GetActivityPhoto u i)) v"
  unfolding activities_controller.simps getActivityPhoto_def activities_refusal.simps
  by (rule spec_at_respond, rule activity_owned.spec_at_guarded [OF E ok], rule spec_at_image [OF E]) simp_all

lemma update_activity_spec:
  assumes E: "farms_contract view E" and ok: "tables_ok (committed v)"
  shows "spec_at view (activities_controller E (UpdateActivity u dto i)) (activities_refusal (UpdateActivity u dto i))
    (activities_effect (UpdateActivity u dto i)) v"
  unfolding activities_controller.simps updateActivity_def activities_refusal.simps
  by (rule spec_at_respond, rule activity_owned.spec_at_guarded [OF E ok],
      rule spec_at_write [OF farms_contractD(12) [OF E]]) simp_all

lemma delete_activity_spec:
  assumes E: "farms_contract view E" and ok: "tables_ok (committed v)"
  shows "spec_at view (activities_controller E (DeleteActivity u i)) (activities_refusal (DeleteActivity u i))
    (activities_effect (DeleteActivity u i)) v"
  unfolding activities_controller.simps deleteActivity_def activities_refusal.simps
  by (rule spec_at_respond, rule activity_owned.spec_at_guarded [OF E ok],
      rule spec_at_write [OF farms_contractD(13) [OF E]])
    (use ok in \<open>auto simp: del_row_def dest!: owned_activity\<close>)

lemma upload_activity_photo_spec:
  assumes E: "farms_contract view E" and ok: "tables_ok (committed v)"
  shows "spec_at view (activities_controller E (ActivityPhoto i u file)) (activities_refusal (ActivityPhoto i u file))
    (activities_effect (ActivityPhoto i u file)) v"
  unfolding activities_controller.simps uploadActivityPhoto_def activities_refusal.simps
  by (rule spec_at_respond, rule activity_owned.spec_at_guarded [OF E ok], rule spec_at_upload [OF E], simp,
      rule spec_at_write [OF farms_contractD(12) [OF E]]) simp_all

lemma activities_controller_refines:
  assumes "farms_contract view E"
  shows "farms_refines view (activities_controller E req) (activities_refusal req) (activities_effect req)"
  unfolding farms_refines_def
  by (cases req) (blast intro: create_activity_spec list_activities_spec update_activity_spec
      delete_activity_spec upload_activity_photo_spec activity_photo_spec assms)+

end
