(* ===== verification/HarvestsService.thy ===== *)
theory HarvestsService
  imports ActivitiesService
begin

text \<open>
  \<open>HarvestService\<close> (\<open>apps/farms/src/harvests/harvests.service.ts\<close>): a crop has at most one
  harvest.
\<close>

definition new_harvest :: "CreateHarvestDto \<Rightarrow> int \<Rightarrow> harvest" where
  "new_harvest dto i =
     \<lparr>harv_id = i, harv_photo = None, harv_harvestDate = ch_harvestDate dto, harv_amount = ch_amount dto,
      harv_unit = ch_unit dto, harv_category = ch_category dto, harv_description = ch_description dto,
      harv_crop = Some (Ref (ch_cropId dto))\<rparr>"

definition isCropHaveHarvest :: "'w farms_env \<Rightarrow> int \<Rightarrow> ('w, bool) prog" where
  "isCropHaveHarvest E cropId =
     bind (atom (r_find (fe_harvests E) [] (\<lambda>h. rel_crop_id (harv_crop h) = Some cropId))) (\<lambda>response.
     Return (length response > 0))"

definition createHarvest :: "'w farms_env \<Rightarrow> int \<Rightarrow> CreateHarvestDto \<Rightarrow> ('w, harvest reply) prog" where
  "createHarvest E userId dto =
     bind (assertCropOwner E userId (ch_cropId dto)) (\<lambda>crop.
     bind (isCropHaveHarvest E (ch_cropId dto)) (\<lambda>alreadyHarvested.
     bind (throw_if alreadyHarvested
       (ConflictException ''The crop already has a harvest, no more can be added'')) (\<lambda>_.
     bind (transaction (fe_tx E)
       (bind (atom (fe_mgr_harvest E (new_harvest dto))) (\<lambda>saved.
        bind (enqueue (fe_inject E) (fe_mgr_outbox E) ''harvest.created''
          (chain_event (ch_cropId dto) crop (harvest_json saved))) (\<lambda>_.
        Return saved)))) (\<lambda>savedHarvest.
     Return \<lparr>reply_data = savedHarvest,
             reply_message = ''Created harvest and updated tracing successfully'',
             reply_status = StatusText ''success''\<rparr>))))"

definition findHarvestByCropId :: "'w farms_env \<Rightarrow> int \<Rightarrow> int \<Rightarrow> ('w, harvest list reply) prog" where
  "findHarvestByCropId E userId cropId =
     bind (assertCropOwner E userId cropId) (\<lambda>_.
     bind (atom (r_find (fe_harvests E) [] (\<lambda>h. rel_crop_id (harv_crop h) = Some cropId))) (\<lambda>harvest.
     Return \<lparr>reply_data = harvest, reply_message = ''Harvest retrieved successfully'',
             reply_status = StatusText ''success''\<rparr>))"

definition deleteHarvest :: "'w farms_env \<Rightarrow> int \<Rightarrow> int \<Rightarrow> ('w, harvest removed reply) prog" where
  "deleteHarvest E userId harvestId =
     bind (assertHarvestOwner E userId harvestId) (\<lambda>harvest.
     bind (atom (r_remove (fe_harvests E) harvest)) (\<lambda>deletedHarvest.
     Return \<lparr>reply_data = deletedHarvest, reply_message = ''Harvest deleted successfully'',
             reply_status = StatusText ''success''\<rparr>))"

definition assign_harvest :: "UpdateHarvestDto \<Rightarrow> harvest \<Rightarrow> harvest" where
  "assign_harvest u h =
     h\<lparr>harv_harvestDate := given (uh_harvestDate u) (harv_harvestDate h),
       harv_amount := given (uh_amount u) (harv_amount h),
       harv_unit := given (uh_unit u) (harv_unit h),
       harv_category := given (uh_category u) (harv_category h),
       harv_description := given (uh_description u) (harv_description h)\<rparr>"

definition updateHarvest :: "'w farms_env \<Rightarrow> int \<Rightarrow> UpdateHarvestDto \<Rightarrow> int
    \<Rightarrow> ('w, (harvest \<times> int option) reply) prog" where
  "updateHarvest E userId dto harvestId =
     bind (assertHarvestOwner E userId harvestId) (\<lambda>harvest.
     bind (atom (r_save (fe_harvests E) (assign_harvest dto harvest))) (\<lambda>_.
     Return \<lparr>reply_data = (assign_harvest dto harvest, uh_cropId dto),
             reply_message = ''Harvest updated successfully'', reply_status = StatusText ''success''\<rparr>))"

definition harvest_photo_key :: "int \<Rightarrow> int \<Rightarrow> string" where
  "harvest_photo_key harvestId userId = ''harvest-'' @ show_int harvestId @ ''-user-'' @ show_int userId"

definition uploadHarvestImage :: "'w farms_env \<Rightarrow> upload \<Rightarrow> int \<Rightarrow> int \<Rightarrow> ('w, string reply) prog" where
  "uploadHarvestImage E file userId harvestId =
     bind (assertHarvestOwner E userId harvestId) (\<lambda>harvest.
     bind (uploadFile (fe_s3 E) file (harvest_photo_key harvestId userId)) (\<lambda>key.
     bind (atom (r_save (fe_harvests E) (harvest\<lparr>harv_photo := Some key\<rparr>))) (\<lambda>_.
     Return \<lparr>reply_data = key, reply_message = ''Harvest image uploaded successfully'',
             reply_status = StatusText ''success''\<rparr>)))"

definition getHarvestImage :: "'w farms_env \<Rightarrow> int \<Rightarrow> int \<Rightarrow> ('w, string option \<times> string) prog" where
  "getHarvestImage E userId harvestId =
     bind (assertHarvestOwner E userId harvestId) (\<lambda>harvest.
     image_reply (fe_s3 E) (harv_photo harvest) ''Harvest photo not found'')"

section \<open>The controller\<close>

text \<open>The commands of \<open>HarvestsController\<close> (\<open>apps/farms/src/harvests/harvest.controllers.ts\<close>).\<close>

datatype harvests_request =
    CreateHarvest int CreateHarvestDto
  | HarvestByCrop int int
  | UpdateHarvest int UpdateHarvestDto int
  | DeleteHarvest int int
  | HarvestPhoto int int upload
  | GetHarvestPhoto int int

datatype harvests_answer =
    HarvestSaved "harvest reply"
  | HarvestList "harvest list reply"
  | HarvestUpdated "(harvest \<times> int option) reply"
  | HarvestDeleted "harvest removed reply"
  | HarvestPhotoKey "string reply"
  | HarvestPhotoData "string option \<times> string"

fun harvests_controller :: "'w farms_env \<Rightarrow> harvests_request \<Rightarrow> ('w, harvests_answer) prog" where
  "harvests_controller E (CreateHarvest userId dto) = respond HarvestSaved (createHarvest E userId dto)"
| "harvests_controller E (HarvestByCrop userId cropId) = respond HarvestList (findHarvestByCropId E userId cropId)"
| "harvests_controller E (UpdateHarvest userId dto harvestId) =
     respond HarvestUpdated (updateHarvest E userId dto harvestId)"
| "harvests_controller E (DeleteHarvest userId harvestId) = respond HarvestDeleted (deleteHarvest E userId harvestId)"
| "harvests_controller E (HarvestPhoto harvestId userId file) =
     respond HarvestPhotoKey (uploadHarvestImage E file userId harvestId)"
| "harvests_controller E (GetHarvestPhoto userId harvestId) = respond HarvestPhotoData (getHarvestImage E userId harvestId)"

section \<open>The specification\<close>

text \<open>
  Creation and listing need the crop, everything else the harvest; a second harvest of a
  crop is refused, and a created one comes with its event.
\<close>

definition has_harvest :: "farms_tables \<Rightarrow> int \<Rightarrow> bool" where
  "has_harvest t cropId \<longleftrightarrow> (\<exists>h \<in> set (harvest_rows t). rel_crop_id (harv_crop h) = Some cropId)"

fun harvests_refusal :: "harvests_request \<Rightarrow> farms_tables \<Rightarrow> exn option" where
  "harvests_refusal (CreateHarvest u dto) =
     guarded ''Crop not found'' (\<lambda>t. crop_owner t (ch_cropId dto)) u
       (\<lambda>t. if has_harvest t (ch_cropId dto)
          then Some (ConflictException ''The crop already has a harvest, no more can be added'')
          else None)"
| "harvests_refusal (HarvestByCrop u i) = guarded ''Crop not found'' (\<lambda>t. crop_owner t i) u (\<lambda>t. None)"
| "harvests_refusal (UpdateHarvest u dto i) =
     guarded ''Harvest not found'' (\<lambda>t. harvest_owner t i) u (\<lambda>t. None)"
| "harvests_refusal (DeleteHarvest u i) = guarded ''Harvest not found'' (\<lambda>t. harvest_owner t i) u (\<lambda>t. None)"
| "harvests_refusal (HarvestPhoto i u file) =
     guarded ''Harvest not found'' (\<lambda>t. harvest_owner t i) u (\<lambda>t. None)"
| "harvests_refusal (GetHarvestPhoto u i) =
     guarded ''Harvest not found'' (\<lambda>t. harvest_owner t i) u
       (\<lambda>t. no_photo ''Harvest photo not found'' (harv_photo (harvest_entity t i)))"

fun harvests_effect :: "harvests_request \<Rightarrow> farms_tables \<Rightarrow> harvests_answer \<Rightarrow> farms_tables \<Rightarrow> bool" where
  "harvests_effect (CreateHarvest u dto) t a t' \<longleftrightarrow>
     (\<exists>i j carrier. i \<notin> harv_id ` set (harvest_rows t) \<and> j \<notin> ob_id ` set (outbox_rows t) \<and>
        a = HarvestSaved (success (new_harvest dto i) ''Created harvest and updated tracing successfully'') \<and>
        t' = t\<lparr>harvest_rows := harvest_rows t @ [new_harvest dto i],
               outbox_rows := outbox_rows t @ [new_outbox_row ''harvest.created''
                 (stored_payload carrier (chain_event (ch_cropId dto) (crop_entity t (ch_cropId dto))
                   (harvest_json (new_harvest dto i)))) j]\<rparr>)"
| "harvests_effect (HarvestByCrop u i) t a t' \<longleftrightarrow>
     t' = t \<and>
     (\<exists>xs. mset xs = mset (map (load_harvest t []) (filter (\<lambda>x. rel_crop_id (harv_crop x) = Some i) (harvest_rows t))) \<and>
        a = HarvestList (success xs ''Harvest retrieved successfully''))"
| "harvests_effect (UpdateHarvest u dto i) t a t' \<longleftrightarrow>
     t' = t\<lparr>harvest_rows := put_row harv_id (harvest_row t (assign_harvest dto (harvest_entity t i)))
              (harvest_rows t)\<rparr> \<and>
     a = HarvestUpdated (success (assign_harvest dto (harvest_entity t i), uh_cropId dto)
           ''Harvest updated successfully'')"
| "harvests_effect (DeleteHarvest u i) t a t' \<longleftrightarrow>
     t' = t\<lparr>harvest_rows := filter (\<lambda>x. harv_id x \<noteq> i) (harvest_rows t)\<rparr> \<and>
     a = HarvestDeleted (success (Removed (harvest_entity t i)) ''Harvest deleted successfully'')"
| "harvests_effect (HarvestPhoto i u file) t a t' \<longleftrightarrow>
     t' = t\<lparr>harvest_rows := put_row harv_id
              (harvest_row t ((harvest_entity t i)\<lparr>harv_photo := Some (harvest_photo_key i u)\<rparr>)) (harvest_rows t)\<rparr> \<and>
     a = HarvestPhotoKey (success (harvest_photo_key i u) ''Harvest image uploaded successfully'')"
| "harvests_effect (GetHarvestPhoto u i) t a t' \<longleftrightarrow> t' = t"

lemma owned_harvest:
  "tables_ok t \<Longrightarrow> harvest_owner t i = Some (Some u)
    \<Longrightarrow> \<exists>x. row_of harv_id i (harvest_rows t) = Some x \<and>
        harvest_entity t i = load_harvest t [''crop'', ''crop.farm''] x \<and>
        x \<in> set (harvest_rows t) \<and> harv_id x = i \<and> harv_id (harvest_entity t i) = i"
  by (auto simp: harvest_owner_def harvest_entity_def load_harvest_def dest: row_of_Some)

lemma harvest_row_new [simp]: "harvest_row t (new_harvest dto i) = new_harvest dto i"
  by (simp add: harvest_row_def new_harvest_def)

lemma create_harvest_spec:
  assumes E: "farms_contract view E" and ok: "tables_ok (committed v)"
  shows "spec_at view (harvests_controller E (CreateHarvest u dto))
    (harvests_refusal (CreateHarvest u dto)) (harvests_effect (CreateHarvest u dto)) v"
  unfolding harvests_controller.simps createHarvest_def isCropHaveHarvest_def harvests_refusal.simps
    bind_assoc bind.simps
proof (rule spec_at_respond, rule crop_owned.spec_at_guarded [OF E ok],
    rule spec_at_find [OF farms_contractD(5) [OF E]], rule spec_at_throw_if, goal_cases)
  case (1 xs)
  then have "filter (\<lambda>h. rel_crop_id (harv_crop h) = Some (ch_cropId dto)) (harvest_rows (committed v)) \<noteq> []"
    by (auto simp del: mset_map mset_filter)
  then show ?case by (auto simp: has_harvest_def filter_empty_conv)
next
  case (2 xs)
  then have "\<not> has_harvest (committed v) (ch_cropId dto)"
    by (auto simp: has_harvest_def filter_empty_conv)
  then show ?case
    by (intro spec_at_row_and_event [OF E farms_contractD(18) [OF E]])
      (simp, fastforce simp: insert_harvest_def insert_outbox_def)
qed

lemma list_harvests_spec:
  assumes E: "farms_contract view E" and ok: "tables_ok (committed v)"
  shows "spec_at view (harvests_controller E (HarvestByCrop u i)) (harvests_refusal (HarvestByCrop u i))
    (harvests_effect (HarvestByCrop u i)) v"
  unfolding harvests_controller.simps findHarvestByCropId_def harvests_refusal.simps
  by (rule spec_at_respond, rule crop_owned.spec_at_guarded [OF E ok],
      rule spec_at_find [OF farms_contractD(5) [OF E]], rule spec_at_return) simp_all

lemma harvest_photo_spec:
  assumes E: "farms_contract view E" and ok: "tables_ok (committed v)"
  shows "spec_at view (harvests_controller E (GetHarvestPhoto u i)) (harvests_refusal (GetHarvestPhoto u i))
    (harvests_effect (GetHarvestPhoto u i)) v"
  unfolding harvests_controller.simps getHarvestImage_def harvests_refusal.simps
  by (rule spec_at_respond, rule harvest_owned.spec_at_guarded [OF E ok], rule spec_at_image [OF E]) simp_all

lemma update_harvest_spec:
  assumes E: "farms_contract view E" and ok: "tables_ok (committed v)"
  shows "spec_at view (harvests_controller E (UpdateHarvest u dto i)) (harvests_refusal (UpdateHarvest u dto i))
    (harvests_effect (UpdateHarvest u dto i)) v"
  unfolding harvests_controller.simps updateHarvest_def harvests_refusal.simps
  by (rule spec_at_respond, rule harvest_owned.spec_at_guarded [OF E ok],
      rule spec_at_write [OF farms_contractD(14) [OF E]]) simp_all

lemma delete_harvest_spec:
  assumes E: "farms_contract view E" and ok: "tables_ok (committed v)"
  shows "spec_at view (harvests_controller E (DeleteHarvest u i)) (harvests_refusal (DeleteHarvest u i))
    (harvests_effect (DeleteHarvest u i)) v"
  unfolding harvests_controller.simps deleteHarvest_def harvests_refusal.simps
  by (rule spec_at_respond, rule harvest_owned.spec_at_guarded [OF E ok],
      rule spec_at_write [OF farms_contractD(15) [OF E]])
    (use ok in \<open>auto simp: del_row_def dest!: owned_harvest\<close>)

lemma upload_harvest_photo_spec:
  assumes E: "farms_contract view E" and ok: "tables_ok (committed v)"
  shows "spec_at view (harvests_controller E (HarvestPhoto i u file)) (harvests_refusal (HarvestPhoto i u file))
    (harvests_effect (HarvestPhoto i u file)) v"
  unfolding harvests_controller.simps uploadHarvestImage_def harvests_refusal.simps
  by (rule spec_at_respond, rule harvest_owned.spec_at_guarded [OF E ok], rule spec_at_upload [OF E], simp,
      rule spec_at_write [OF farms_contractD(14) [OF E]]) simp_all

lemma harvests_controller_refines:
  assumes "farms_contract view E"
  shows "farms_refines view (harvests_controller E req) (harvests_refusal req) (harvests_effect req)"
  unfolding farms_refines_def
  by (cases req) (blast intro: create_harvest_spec list_harvests_spec update_harvest_spec
      delete_harvest_spec upload_harvest_photo_spec harvest_photo_spec assms)+

end
