(* ===== verification/FarmsApp.thy ===== *)
theory FarmsApp
  imports CropsService HarvestsService
begin

text \<open>
  The \<open>farms\<close> microservice as a whole: its command handlers behind one interface, their
  joint specification, and the properties that span the four services: who is refused,
  what one user can never do to another's records, that a record and its event appear
  together, and what is true in every reachable state.
\<close>

section \<open>The commands of the service\<close>

datatype farms_command =
    FarmsCmd farms_request
  | CropsCmd crops_request
  | ActivitiesCmd activities_request
  | HarvestsCmd harvests_request

datatype command_answer =
    FarmsAns farms_answer
  | CropsAns crops_answer
  | ActivitiesAns activities_answer
  | HarvestsAns harvests_answer

fun farms_service :: "'w farms_env \<Rightarrow> farms_command \<Rightarrow> ('w, command_answer) prog" where
  "farms_service E (FarmsCmd r) = respond FarmsAns (farms_controller E r)"
| "farms_service E (CropsCmd r) = respond CropsAns (crops_controller E r)"
| "farms_service E (ActivitiesCmd r) = respond ActivitiesAns (activities_controller E r)"
| "farms_service E (HarvestsCmd r) = respond HarvestsAns (harvests_controller E r)"

fun service_refusal :: "farms_command \<Rightarrow> farms_tables \<Rightarrow> exn option" where
  "service_refusal (FarmsCmd r) = farms_refusal r"
| "service_refusal (CropsCmd r) = crops_refusal r"
| "service_refusal (ActivitiesCmd r) = activities_refusal r"
| "service_refusal (HarvestsCmd r) = harvests_refusal r"

fun service_effect :: "farms_command \<Rightarrow> farms_tables \<Rightarrow> command_answer \<Rightarrow> farms_tables \<Rightarrow> bool" where
  "service_effect (FarmsCmd r) = (\<lambda>t a t'. \<exists>x. a = FarmsAns x \<and> farms_effect r t x t')"
| "service_effect (CropsCmd r) = (\<lambda>t a t'. \<exists>x. a = CropsAns x \<and> crops_effect r t x t')"
| "service_effect (ActivitiesCmd r) = (\<lambda>t a t'. \<exists>x. a = ActivitiesAns x \<and> activities_effect r t x t')"
| "service_effect (HarvestsCmd r) = (\<lambda>t a t'. \<exists>x. a = HarvestsAns x \<and> harvests_effect r t x t')"

lemma refines_respond:
  "farms_refines view p refuse eff
    \<Longrightarrow> farms_refines view (respond f p) refuse (\<lambda>t a t'. \<exists>x. a = f x \<and> eff t x t')"
  unfolding farms_refines_def spec_at_def respond_def
  by (intro allI impI vwp_bind) (drule spec, drule (1) mp, erule vwp_strengthen, auto intro!: vwp_return)

lemma service_refines:
  assumes "farms_contract view E"
  shows "farms_refines view (farms_service E cmd) (service_refusal cmd) (service_effect cmd)"
proof (cases cmd)
  case (FarmsCmd r)
  then show ?thesis
    using refines_respond [OF farms_controller_refines [OF assms], of FarmsAns r] by simp
next
  case (CropsCmd r)
  then show ?thesis
    using refines_respond [OF crops_controller_refines [OF assms], of CropsAns r] by simp
next
  case (ActivitiesCmd r)
  then show ?thesis
    using refines_respond [OF activities_controller_refines [OF assms], of ActivitiesAns r] by simp
next
  case (HarvestsCmd r)
  then show ?thesis
    using refines_respond [OF harvests_controller_refines [OF assms], of HarvestsAns r] by simp
qed

section \<open>Who asks, about what\<close>

fun caller :: "farms_command \<Rightarrow> int" where
  "caller (FarmsCmd (CreateFarm u dto)) = u"
| "caller (FarmsCmd (FarmsByUser u)) = u"
| "caller (FarmsCmd (UpdateFarm u dto i)) = u"
| "caller (FarmsCmd (DeleteFarm u i)) = u"
| "caller (FarmsCmd (FarmImage i u file)) = u"
| "caller (FarmsCmd (GetFarmImage u i)) = u"
| "caller (CropsCmd (CreateCrop u dto)) = u"
| "caller (CropsCmd (GetCropById u i)) = u"
| "caller (CropsCmd (CropsByFarm u i)) = u"
| "caller (CropsCmd (UpdateCrop u dto i)) = u"
| "caller (CropsCmd (DeleteCrop u i)) = u"
| "caller (CropsCmd (CropPhoto i u file)) = u"
| "caller (CropsCmd (GetCropPhoto u i)) = u"
| "caller (ActivitiesCmd (CreateActivity u dto)) = u"
| "caller (ActivitiesCmd (ActivitiesByCrop u i)) = u"
| "caller (ActivitiesCmd (UpdateActivity u dto i)) = u"
| "caller (ActivitiesCmd (DeleteActivity u i)) = u"
| "caller (ActivitiesCmd (ActivityPhoto i u file)) = u"
| "caller (ActivitiesCmd (GetActivityPhoto u i)) = u"
| "caller (HarvestsCmd (CreateHarvest u dto)) = u"
| "caller (HarvestsCmd (HarvestByCrop u i)) = u"
| "caller (HarvestsCmd (UpdateHarvest u dto i)) = u"
| "caller (HarvestsCmd (DeleteHarvest u i)) = u"
| "caller (HarvestsCmd (HarvestPhoto i u file)) = u"
| "caller (HarvestsCmd (GetHarvestPhoto u i)) = u"

text \<open>The record a command is about: its name in the 404 message and its owner.\<close>

fun subject :: "farms_tables \<Rightarrow> farms_command \<Rightarrow> (string \<times> int option option) option" where
  "subject t (FarmsCmd (CreateFarm u dto)) = None"
| "subject t (FarmsCmd (FarmsByUser u)) = None"
| "subject t (FarmsCmd (UpdateFarm u dto i)) = Some (''Farm not found'', farm_owner t i)"
| "subject t (FarmsCmd (DeleteFarm u i)) = Some (''Farm not found'', farm_owner t i)"
| "subject t (FarmsCmd (FarmImage i u file)) = Some (''Farm not found'', farm_owner t i)"
| "subject t (FarmsCmd (GetFarmImage u i)) = Some (''Farm not found'', farm_owner t i)"
| "subject t (CropsCmd (CreateCrop u dto)) = Some (''Farm not found'', farm_owner t (cc_farmId dto))"
| "subject t (CropsCmd (GetCropById u i)) = Some (''Crop not found'', crop_owner t i)"
| "subject t (CropsCmd (CropsByFarm u i)) = Some (''Farm not found'', farm_owner t i)"
| "subject t (CropsCmd (UpdateCrop u dto i)) = Some (''Crop not found'', crop_owner t i)"
| "subject t (CropsCmd (DeleteCrop u i)) = Some (''Crop not found'', crop_owner t i)"
| "subject t (CropsCmd (CropPhoto i u file)) = Some (''Crop not found'', crop_owner t i)"
| "subject t (CropsCmd (GetCropPhoto u i)) = Some (''Crop not found'', crop_owner t i)"
| "subject t (ActivitiesCmd (CreateActivity u dto)) = Some (''Crop not found'', crop_owner t (ca_cropId dto))"
| "subject t (ActivitiesCmd (ActivitiesByCrop u i)) = Some (''Crop not found'', crop_owner t i)"
| "subject t (ActivitiesCmd (UpdateActivity u dto i)) = Some (''Activity not found'', activity_owner t i)"
| "subject t (ActivitiesCmd (DeleteActivity u i)) = Some (''Activity not found'', activity_owner t i)"
| "subject t (ActivitiesCmd (ActivityPhoto i u file)) = Some (''Activity not found'', activity_owner t i)"
| "subject t (ActivitiesCmd (GetActivityPhoto u i)) = Some (''Activity not found'', activity_owner t i)"
| "subject t (HarvestsCmd (CreateHarvest u dto)) = Some (''Crop not found'', crop_owner t (ch_cropId dto))"
| "subject t (HarvestsCmd (HarvestByCrop u i)) = Some (''Crop not found'', crop_owner t i)"
| "subject t (HarvestsCmd (UpdateHarvest u dto i)) = Some (''Harvest not found'', harvest_owner t i)"
| "subject t (HarvestsCmd (DeleteHarvest u i)) = Some (''Harvest not found'', harvest_owner t i)"
| "subject t (HarvestsCmd (HarvestPhoto i u file)) = Some (''Harvest not found'', harvest_owner t i)"
| "subject t (HarvestsCmd (GetHarvestPhoto u i)) = Some (''Harvest not found'', harvest_owner t i)"

lemma refusal_of_stranger:
  "subject t cmd = Some (missing, own) \<Longrightarrow> own \<noteq> Some (Some (caller cmd))
    \<Longrightarrow> service_refusal cmd t = Some (denial missing own)"
  by (cases "(t, cmd)" rule: subject.cases) (auto simp: guarded_def)

lemma served_owner:
  "subject t cmd = Some (missing, own) \<Longrightarrow> service_refusal cmd t = None
    \<Longrightarrow> own = Some (Some (caller cmd))"
  using refusal_of_stranger by fastforce

section \<open>The service implements its specification\<close>

definition demo_crop_dto :: CreateCropDto where
  "demo_crop_dto =
     \<lparr>cc_name = ''beans'', cc_product = ''beans'', cc_size = 2, cc_location = ''south'',
      cc_sowingDate = ''2024-02-01'', cc_plants = 30, cc_farmId = 1\<rparr>"

text \<open>
  C1. Every command of the service, run to its end from tables that satisfy the schema's
  constraints, either answers, and then it was not to be refused and the tables and the
  answer are exactly what the specification of that command says, or throws the refusal the
  specification names, or a library's error; the constraints hold afterwards, and a refused
  command leaves rows, open transaction and stored objects as they were.
\<close>

theorem farms_service_correct:
  assumes "farms_contract view E" and "tables_ok (committed (view w))"
    and "run (farms_service E cmd) w = (r, w')"
  shows "tables_ok (committed (view w')) \<and>
    (service_refusal cmd (committed (view w)) \<noteq> None \<longrightarrow> view w' = view w) \<and>
    (case r of
       Inr a \<Rightarrow> service_refusal cmd (committed (view w)) = None \<and>
         service_effect cmd (committed (view w)) a (committed (view w'))
     | Inl e \<Rightarrow> is_library_error e \<or> service_refusal cmd (committed (view w)) = Some e)"
  using farms_refines_run [OF service_refines [OF assms(1)] assms(2,3)] by (cases r) simp_all

theorem farms_service_correct_witness:
  "case run (farms_service mem_farms (CropsCmd (CreateCrop 7 demo_crop_dto))) demo_view of (r, v') \<Rightarrow>
     (\<exists>a. r = Inr a) \<and> tables_ok (committed v') \<and>
     (case r of Inr a \<Rightarrow> service_effect (CropsCmd (CreateCrop 7 demo_crop_dto)) demo_tables a (committed v')
      | Inl e \<Rightarrow> False)"
proof -
  obtain r v' where run: "run (farms_service mem_farms (CropsCmd (CreateCrop 7 demo_crop_dto))) demo_view = (r, v')"
    by fastforce
  have "case fst (run (farms_service mem_farms (CropsCmd (CreateCrop 7 demo_crop_dto))) demo_view) of
      Inr a \<Rightarrow> True | Inl e \<Rightarrow> False"
    by code_simp
  with run obtain a where "r = Inr a" by (auto split: sum.splits)
  with farms_service_correct [OF mem_farms_contract demo_ok, of "CropsCmd (CreateCrop 7 demo_crop_dto)" r v']
    run show ?thesis by (simp add: demo_view_def)
qed

text \<open>
  C2. Every command is atomic on the committed tables: wherever the process dies, the tables
  are those before the command or those of one of its permitted effects, and they satisfy
  the schema's constraints; a command that is to be refused changes nothing at any step.
\<close>

theorem farms_service_atomic:
  assumes "farms_contract view E" and "tables_ok (committed (view w))"
  shows "let v' = view (crash_after n (farms_service E cmd) w) in
    if service_refusal cmd (committed (view w)) = None
    then committed v' = committed (view w) \<or>
      ((\<exists>a. service_effect cmd (committed (view w)) a (committed v')) \<and> tables_ok (committed v'))
    else v' = view w"
  unfolding Let_def by (rule farms_refines_crash [OF service_refines [OF assms(1)] assms(2)])

theorem farms_service_atomic_witness:
  "length (crop_rows (committed (crash_after 5 (farms_service mem_farms
      (CropsCmd (CreateCrop 7 demo_crop_dto))) demo_view))) = 1 \<and>
   length (crop_rows (committed (crash_after 6 (farms_service mem_farms
      (CropsCmd (CreateCrop 7 demo_crop_dto))) demo_view))) = 2 \<and>
   (let v' = crash_after 5 (farms_service mem_farms (CropsCmd (CreateCrop 7 demo_crop_dto))) demo_view in
    committed v' = demo_tables \<or>
    ((\<exists>a. service_effect (CropsCmd (CreateCrop 7 demo_crop_dto)) demo_tables a (committed v')) \<and>
     tables_ok (committed v')))"
proof -
  have "service_refusal (CropsCmd (CreateCrop 7 demo_crop_dto)) demo_tables = None"
    by code_simp
  moreover have "length (crop_rows (committed (crash_after 5 (farms_service mem_farms
      (CropsCmd (CreateCrop 7 demo_crop_dto))) demo_view))) = 1"
    by code_simp
  moreover have "length (crop_rows (committed (crash_after 6 (farms_service mem_farms
      (CropsCmd (CreateCrop 7 demo_crop_dto))) demo_view))) = 2"
    by code_simp
  ultimately show ?thesis
    using farms_service_atomic [OF mem_farms_contract demo_ok,
        of 5 "CropsCmd (CreateCrop 7 demo_crop_dto)"]
    by (simp add: demo_view_def Let_def)
qed

text \<open>
  C3. A command about a record that does not exist, or that belongs to someone other than
  the caller (or to nobody), fails with the 404 or 403 of that record or with a library's
  error, and neither the finished run nor any step of it changes a row, the open
  transaction or a stored object.
\<close>

theorem stranger_is_denied:
  assumes "farms_contract view E" and "tables_ok (committed (view w))"
    and "subject (committed (view w)) cmd = Some (missing, own)" and "own \<noteq> Some (Some (caller cmd))"
    and "run (farms_service E cmd) w = (r, w')"
  shows "(\<exists>e. r = Inl e \<and> (is_library_error e \<or> e = denial missing own)) \<and> view w' = view w \<and>
    (\<forall>n. view (crash_after n (farms_service E cmd) w) = view w)"
proof (intro conjI allI)
  have refusal: "service_refusal cmd (committed (view w)) = Some (denial missing own)"
    by (rule refusal_of_stranger [OF assms(3,4)])
  note run = farms_refines_run [OF service_refines [OF assms(1)] assms(2,5)]
  show "view w' = view w" using run(4) refusal by simp
  show "\<exists>e. r = Inl e \<and> (is_library_error e \<or> e = denial missing own)"
    using run(2,3) refusal by (cases r) auto
  show "view (crash_after n (farms_service E cmd) w) = view w" for n
    using farms_refines_crash [OF service_refines [OF assms(1)] assms(2), of cmd n] refusal by simp
qed

theorem stranger_is_denied_witness:
  "run (farms_service mem_farms (CropsCmd (DeleteCrop 8 1))) demo_view =
     (Inl (ForbiddenException ''You do not have access to this resource''), demo_view)"
proof -
  let ?cmd = "CropsCmd (DeleteCrop 8 1)"
  obtain r v' where run: "run (farms_service mem_farms ?cmd) demo_view = (r, v')" by fastforce
  have sub: "subject demo_tables ?cmd = Some (''Crop not found'', Some (Some 7))" by code_simp
  have "fst (run (farms_service mem_farms ?cmd) demo_view)
      = Inl (ForbiddenException ''You do not have access to this resource'')"
    by code_simp
  with run stranger_is_denied [OF mem_farms_contract demo_ok, of ?cmd _ _ r v'] sub show ?thesis
    by (simp add: demo_view_def)
qed

end
