(* ===== verification/FarmsIsolation.thy ===== *)
theory FarmsIsolation
  imports FarmsApp
begin

text \<open>
  Isolation of the users of the \<open>farms\<close> service: whatever a user asks for, another user's
  farms, crops, activities and harvests keep their rows and their owner.
\<close>

section \<open>Rows under the table operations\<close>

lemma row_of_append [store_simps]:
  "ident r \<notin> ident ` set rows
    \<Longrightarrow> row_of ident i (rows @ [r]) = (if i = ident r then Some r else row_of ident i rows)"
  using row_of_put_row [of ident i r rows] by (simp add: put_row_def)

lemma row_of_filter [store_simps]:
  "row_of ident j (filter (\<lambda>x. ident x \<noteq> i) rows) = (if j = i then None else row_of ident j rows)"
  unfolding row_of_def by (induction rows) auto

lemma row_of_update [store_simps]:
  "row_of farm_id j (map (\<lambda>f. if farm_id f = i then apply_farm_update d f else f) rows)
     = (if j = i then map_option (apply_farm_update d) (row_of farm_id j rows) else row_of farm_id j rows)"
proof -
  have id: "farm_id (apply_farm_update d f) = farm_id f" for f
    by (simp add: apply_farm_update_def)
  show ?thesis unfolding row_of_def by (induction rows) (auto simp: id)
qed

declare row_of_put_row [store_simps]

section \<open>What is kept\<close>

text \<open>
  For every id: it belongs to \<open>u\<close> or to no row both before and after, or its owner and its
  row are the same.
\<close>

definition keeps :: "int \<Rightarrow> (int \<Rightarrow> int option option) \<Rightarrow> (int \<Rightarrow> int option option)
    \<Rightarrow> (int \<Rightarrow> 'r option) \<Rightarrow> (int \<Rightarrow> 'r option) \<Rightarrow> bool" where
  "keeps u own own' row row' \<longleftrightarrow>
     (\<forall>i. ((own i = None \<or> own i = Some (Some u)) \<and> (own' i = None \<or> own' i = Some (Some u))) \<or>
          (own' i = own i \<and> row' i = row i))"

definition isolated :: "int \<Rightarrow> farms_tables \<Rightarrow> farms_tables \<Rightarrow> bool" where
  "isolated u t t' \<longleftrightarrow>
     keeps u (farm_owner t) (farm_owner t')
       (\<lambda>i. row_of farm_id i (farm_rows t)) (\<lambda>i. row_of farm_id i (farm_rows t')) \<and>
     keeps u (crop_owner t) (crop_owner t')
       (\<lambda>i. row_of crop_id i (crop_rows t)) (\<lambda>i. row_of crop_id i (crop_rows t')) \<and>
     keeps u (activity_owner t) (activity_owner t')
       (\<lambda>i. row_of act_id i (activity_rows t)) (\<lambda>i. row_of act_id i (activity_rows t')) \<and>
     keeps u (harvest_owner t) (harvest_owner t')
       (\<lambda>i. row_of harv_id i (harvest_rows t)) (\<lambda>i. row_of harv_id i (harvest_rows t')) \<and>
     projection_rows t' = projection_rows t"

lemma keeps_refl: "keeps u own own row row"
  by (simp add: keeps_def)

lemma isolated_refl: "isolated u t t"
  by (simp add: isolated_def keeps_refl)

lemma keeps_except:
  "own i = None \<or> own i = Some (Some u) \<Longrightarrow> own' i = None \<or> own' i = Some (Some u)
    \<Longrightarrow> (\<And>j. j \<noteq> i \<Longrightarrow> own' j = own j \<and> row' j = row j) \<Longrightarrow> keeps u own own' row row'"
  unfolding keeps_def by metis

text \<open>Owners along the chain depend only on the rows the foreign keys point at.\<close>

definition user_of_farm :: "farms_tables \<Rightarrow> int \<Rightarrow> int option" where
  "user_of_farm t j = map_option farm_userId (row_of farm_id j (farm_rows t))"

lemma crop_owner_cong:
  assumes "crop_rows t' = crop_rows t"
    and "\<And>c j. c \<in> set (crop_rows t) \<Longrightarrow> crop_farm_id c = Some j \<Longrightarrow> user_of_farm t' j = user_of_farm t j"
  shows "crop_owner t' = crop_owner t"
proof
  fix i
  show "crop_owner t' i = crop_owner t i"
  proof (cases "row_of crop_id i (crop_rows t)")
    case (Some c)
    with assms show ?thesis
      by (cases "crop_farm_id c")
        (auto simp: crop_owner_def user_of_farm_def simp del: crop_farm_id.simps dest: row_of_Some)
  qed (simp add: crop_owner_def assms(1))
qed

lemma via_crop_cong:
  "(\<And>j. rel_crop_id r = Some j \<Longrightarrow> crop_owner t' j = crop_owner t j) \<Longrightarrow> via_crop t' r = via_crop t r"
  by (cases "rel_crop_id r") (auto simp: via_crop_def)

lemma activity_owner_cong:
  assumes "activity_rows t' = activity_rows t"
    and "\<And>a j. a \<in> set (activity_rows t) \<Longrightarrow> rel_crop_id (act_crop a) = Some j \<Longrightarrow> crop_owner t' j = crop_owner t j"
  shows "activity_owner t' = activity_owner t"
proof
  fix i
  show "activity_owner t' i = activity_owner t i"
  proof (cases "row_of act_id i (activity_rows t)")
    case (Some x)
    have "via_crop t' (act_crop x) = via_crop t (act_crop x)"
      by (rule via_crop_cong, rule assms(2)) (use row_of_Some [OF Some] in auto)
    with Some assms(1) show ?thesis by (simp add: activity_owner_def)
  qed (simp add: activity_owner_def assms(1))
qed

lemma harvest_owner_cong:
  assumes "harvest_rows t' = harvest_rows t"
    and "\<And>h j. h \<in> set (harvest_rows t) \<Longrightarrow> rel_crop_id (harv_crop h) = Some j \<Longrightarrow> crop_owner t' j = crop_owner t j"
  shows "harvest_owner t' = harvest_owner t"
proof
  fix i
  show "harvest_owner t' i = harvest_owner t i"
  proof (cases "row_of harv_id i (harvest_rows t)")
    case (Some x)
    have "via_crop t' (harv_crop x) = via_crop t (harv_crop x)"
      by (rule via_crop_cong, rule assms(2)) (use row_of_Some [OF Some] in auto)
    with Some assms(1) show ?thesis by (simp add: harvest_owner_def)
  qed (simp add: harvest_owner_def assms(1))
qed

text \<open>One lemma per table: an operation on it and what it leaves alone.\<close>

lemma farms_isolated:
  assumes "crop_rows t' = crop_rows t" and "activity_rows t' = activity_rows t"
    and "harvest_rows t' = harvest_rows t" and "projection_rows t' = projection_rows t"
    and "farm_owner t i = None \<or> farm_owner t i = Some (Some u)"
    and "farm_owner t' i = None \<or> farm_owner t' i = Some (Some u)"
    and "\<And>j. j \<noteq> i \<Longrightarrow> row_of farm_id j (farm_rows t') = row_of farm_id j (farm_rows t)"
    and "farm_owner t' i = farm_owner t i \<or> (\<forall>c \<in> set (crop_rows t). crop_farm_id c \<noteq> Some i)"
  shows "isolated u t t'"
proof -
  have users: "user_of_farm t' j = user_of_farm t j"
    if "c \<in> set (crop_rows t)" "crop_farm_id c = Some j" for c j
    using that assms(7,8) by (cases "j = i") (auto simp: user_of_farm_def farm_owner_def map_option_case
        simp del: crop_farm_id.simps split: option.splits)
  have crops: "crop_owner t' = crop_owner t"
    by (rule crop_owner_cong) (use assms(1) users in auto)
  have "keeps u (farm_owner t) (farm_owner t') (\<lambda>i. row_of farm_id i (farm_rows t))
      (\<lambda>i. row_of farm_id i (farm_rows t'))"
    by (rule keeps_except [where i = i]) (use assms in \<open>auto simp: farm_owner_def\<close>)
  then show ?thesis
    using activity_owner_cong [OF assms(2)] harvest_owner_cong [OF assms(3)] crops assms
    by (simp add: isolated_def keeps_refl)
qed

lemma crops_isolated:
  assumes "farm_rows t' = farm_rows t" and "activity_rows t' = activity_rows t"
    and "harvest_rows t' = harvest_rows t" and "projection_rows t' = projection_rows t"
    and "crop_owner t i = None \<or> crop_owner t i = Some (Some u)"
    and "crop_owner t' i = None \<or> crop_owner t' i = Some (Some u)"
    and "\<And>j. j \<noteq> i \<Longrightarrow> row_of crop_id j (crop_rows t') = row_of crop_id j (crop_rows t)"
    and "crop_owner t' i = crop_owner t i \<or>
      ((\<forall>a \<in> set (activity_rows t). rel_crop_id (act_crop a) \<noteq> Some i) \<and>
       (\<forall>h \<in> set (harvest_rows t). rel_crop_id (harv_crop h) \<noteq> Some i))"
  shows "isolated u t t'"
proof -
  have other: "crop_owner t' j = crop_owner t j" if "j \<noteq> i" for j
    using assms(1) assms(7) [OF that] by (simp add: crop_owner_def)
  have "activity_owner t' = activity_owner t"
    by (rule activity_owner_cong [OF assms(2)]) (use assms(8) other in metis)
  moreover have "harvest_owner t' = harvest_owner t"
    by (rule harvest_owner_cong [OF assms(3)]) (use assms(8) other in metis)
  moreover have "keeps u (crop_owner t) (crop_owner t') (\<lambda>i. row_of crop_id i (crop_rows t))
      (\<lambda>i. row_of crop_id i (crop_rows t'))"
    by (rule keeps_except [where i = i]) (use assms other in auto)
  ultimately show ?thesis
    using assms by (simp add: isolated_def keeps_refl farm_owner_def [abs_def])
qed

lemma activities_isolated:
  assumes "farm_rows t' = farm_rows t" and "crop_rows t' = crop_rows t"
    and "harvest_rows t' = harvest_rows t" and "projection_rows t' = projection_rows t"
    and "activity_owner t i = None \<or> activity_owner t i = Some (Some u)"
    and "activity_owner t' i = None \<or> activity_owner t' i = Some (Some u)"
    and "\<And>j. j \<noteq> i \<Longrightarrow> row_of act_id j (activity_rows t') = row_of act_id j (activity_rows t)"
  shows "isolated u t t'"
proof -
  have crops: "crop_owner t' = crop_owner t"
    using assms(1,2) by (auto simp: fun_eq_iff crop_owner_def)
  have via: "via_crop t' = via_crop t" by (auto simp: fun_eq_iff crops intro!: via_crop_cong)
  have "keeps u (activity_owner t) (activity_owner t') (\<lambda>i. row_of act_id i (activity_rows t))
      (\<lambda>i. row_of act_id i (activity_rows t'))"
    by (rule keeps_except [where i = i]) (use assms via in \<open>auto simp: activity_owner_def\<close>)
  then show ?thesis
    using assms crops via
    by (simp add: isolated_def keeps_refl farm_owner_def [abs_def] harvest_owner_def [abs_def])
qed

lemma harvests_isolated:
  assumes "farm_rows t' = farm_rows t" and "crop_rows t' = crop_rows t"
    and "activity_rows t' = activity_rows t" and "projection_rows t' = projection_rows t"
    and "harvest_owner t i = None \<or> harvest_owner t i = Some (Some u)"
    and "harvest_owner t' i = None \<or> harvest_owner t' i = Some (Some u)"
    and "\<And>j. j \<noteq> i \<Longrightarrow> row_of harv_id j (harvest_rows t') = row_of harv_id j (harvest_rows t)"
  shows "isolated u t t'"
proof -
  have crops: "crop_owner t' = crop_owner t"
    using assms(1,2) by (auto simp: fun_eq_iff crop_owner_def)
  have via: "via_crop t' = via_crop t" by (auto simp: fun_eq_iff crops intro!: via_crop_cong)
  have "keeps u (harvest_owner t) (harvest_owner t') (\<lambda>i. row_of harv_id i (harvest_rows t))
      (\<lambda>i. row_of harv_id i (harvest_rows t'))"
    by (rule keeps_except [where i = i]) (use assms via in \<open>auto simp: harvest_owner_def\<close>)
  then show ?thesis
    using assms crops via
    by (simp add: isolated_def keeps_refl farm_owner_def [abs_def] activity_owner_def [abs_def])
qed

section \<open>Every command keeps to its caller's records\<close>

lemma fk_ids:
  assumes "tables_ok t"
  shows "c \<in> set (crop_rows t) \<Longrightarrow> crop_farm_id c = Some i \<Longrightarrow> i \<in> farm_id ` set (farm_rows t)"
    and "a \<in> set (activity_rows t) \<Longrightarrow> rel_crop_id (act_crop a) = Some i \<Longrightarrow> i \<in> crop_id ` set (crop_rows t)"
    and "h \<in> set (harvest_rows t) \<Longrightarrow> rel_crop_id (harv_crop h) = Some i \<Longrightarrow> i \<in> crop_id ` set (crop_rows t)"
  using assms by (auto simp: tables_ok_def fk_ok_def simp del: crop_farm_id.simps split: option.splits)

lemma farm_owner_None: "farm_owner t i = None \<longleftrightarrow> i \<notin> farm_id ` set (farm_rows t)"
  by (simp add: farm_owner_def row_of_None)

lemma crop_owner_None: "crop_owner t i = None \<longleftrightarrow> i \<notin> crop_id ` set (crop_rows t)"
  by (simp add: crop_owner_def row_of_None)

lemma activity_owner_None: "activity_owner t i = None \<longleftrightarrow> i \<notin> act_id ` set (activity_rows t)"
  by (simp add: activity_owner_def row_of_None)

lemma harvest_owner_None: "harvest_owner t i = None \<longleftrightarrow> i \<notin> harv_id ` set (harvest_rows t)"
  by (simp add: harvest_owner_def row_of_None)

lemma farms_command_isolated:
  assumes ok: "tables_ok t" "tables_ok t'" and "farms_refusal req t = None" and "farms_effect req t a t'"
  shows "isolated (caller (FarmsCmd req)) t t'"
proof (cases req)
  case (CreateFarm u dto)
  with assms obtain i where i: "i \<notin> farm_id ` set (farm_rows t)"
    "t' = t\<lparr>farm_rows := farm_rows t @ [new_farm dto u i]\<rparr>" by auto
  have "\<forall>c \<in> set (crop_rows t). crop_farm_id c \<noteq> Some i" using fk_ids(1) [OF ok(1)] i(1) by blast
  then show ?thesis
    using i CreateFarm
    by (intro farms_isolated [where i = i])
      (auto simp: farm_owner_def row_of_None store_simps new_farm_def simp del: crop_farm_id.simps)
next
  case (UpdateFarm u dto i)
  with assms have own: "farm_owner t i = Some (Some u)" by (auto simp: guarded_def split: if_splits)
  with assms UpdateFarm show ?thesis
    by (intro farms_isolated [where i = i])
      (auto simp: farm_owner_def store_simps apply_farm_update_def simp del: crop_farm_id.simps)
next
  case (DeleteFarm u i)
  with assms have own: "farm_owner t i = Some (Some u)" by (auto simp: guarded_def split: if_splits)
  have "\<forall>c \<in> set (crop_rows t). crop_farm_id c \<noteq> Some i"
    using fk_ids(1) [OF ok(2)] assms(4) DeleteFarm by fastforce
  with assms DeleteFarm own show ?thesis
    by (intro farms_isolated [where i = i])
      (auto simp: farm_owner_def store_simps simp del: crop_farm_id.simps)
next
  case (FarmImage i u f)
  with assms have own: "farm_owner t i = Some (Some u)" by (auto simp: guarded_def split: if_splits)
  with assms FarmImage owned_farm [OF ok(1) own] show ?thesis
    by (intro farms_isolated [where i = i])
      (auto simp: farm_owner_def store_simps simp del: crop_farm_id.simps)
qed (use assms in \<open>auto simp: isolated_refl\<close>)

text \<open>Saving a loaded crop, activity or harvest keeps the foreign key of its row.\<close>

lemma saved_crop_key:
  assumes "tables_ok t" and "crop_owner t i = Some (Some u)"
    and "crop_farm c' = crop_farm (crop_entity t i)" and "crop_id c' = i"
  shows "crop_id (crop_row t c') = i"
    and "crop_owner (t\<lparr>crop_rows := put_row crop_id (crop_row t c') (crop_rows t)\<rparr>) = crop_owner t"
proof -
  from owned_crop [OF assms(1,2)] obtain c where c: "row_of crop_id i (crop_rows t) = Some c"
    "crop_entity t i = load_crop t [''farm''] c" by blast
  with assms(2) obtain j f where j: "crop_farm_id c = Some j" "row_of farm_id j (farm_rows t) = Some f"
    by (auto simp: crop_owner_def simp del: crop_farm_id.simps split: Option.bind_splits)
  have key: "crop_farm_id (crop_row t c') = Some j"
    using assms(3) c(2) j row_of_Some [OF j(2)] by (simp add: crop_row_def load_crop_def)
  show id: "crop_id (crop_row t c') = i" using assms(4) by (simp add: crop_row_def)
  show "crop_owner (t\<lparr>crop_rows := put_row crop_id (crop_row t c') (crop_rows t)\<rparr>) = crop_owner t"
    using id key c(1) j by (auto simp: fun_eq_iff crop_owner_def store_simps simp del: crop_farm_id.simps)
qed

lemma crops_command_isolated:
  assumes ok: "tables_ok t" "tables_ok t'" and "crops_refusal req t = None" and "crops_effect req t a t'"
  shows "isolated (caller (CropsCmd req)) t t'"
proof (cases req)
  case (CreateCrop u dto)
  with assms have own: "farm_owner t (cc_farmId dto) = Some (Some u)"
    by (auto simp: guarded_def split: if_splits)
  from CreateCrop assms(4) obtain i ob where i: "i \<notin> crop_id ` set (crop_rows t)"
    "t' = t\<lparr>crop_rows := crop_rows t @ [new_crop dto i], outbox_rows := ob\<rparr>" by auto
  have fk: "(\<forall>a \<in> set (activity_rows t). rel_crop_id (act_crop a) \<noteq> Some i) \<and>
      (\<forall>h \<in> set (harvest_rows t). rel_crop_id (harv_crop h) \<noteq> Some i)"
    using fk_ids(2,3) [OF ok(1)] i(1) by blast
  have new: "crop_owner t' i = Some (Some u)"
    using own i by (auto simp: crop_owner_def farm_owner_def store_simps new_crop_def)
  show ?thesis
    using i fk new CreateCrop
    by (intro crops_isolated [where i = i]) (auto simp: crop_owner_None store_simps new_crop_def)
next
  case (UpdateCrop u dto i)
  with assms have own: "crop_owner t i = Some (Some u)" by (auto simp: guarded_def split: if_splits)
  have "crop_id (assign_crop dto (crop_entity t i)) = i"
    "crop_farm (assign_crop dto (crop_entity t i)) = crop_farm (crop_entity t i)"
    using owned_crop [OF ok(1) own] by (auto simp: assign_crop_def)
  from saved_crop_key [OF ok(1) own this(2,1)] assms(4) UpdateCrop own show ?thesis
    by (intro crops_isolated [where i = i]) (auto simp: store_simps)
next
  case (DeleteCrop u i)
  with assms have own: "crop_owner t i = Some (Some u)" by (auto simp: guarded_def split: if_splits)
  have "(\<forall>a \<in> set (activity_rows t). rel_crop_id (act_crop a) \<noteq> Some i) \<and>
      (\<forall>h \<in> set (harvest_rows t). rel_crop_id (harv_crop h) \<noteq> Some i)"
    using fk_ids(2,3) [OF ok(2)] assms(4) DeleteCrop by fastforce
  with assms DeleteCrop own show ?thesis
    by (intro crops_isolated [where i = i]) (auto simp: crop_owner_None store_simps)
next
  case (CropPhoto i u f)
  with assms have own: "crop_owner t i = Some (Some u)" by (auto simp: guarded_def split: if_splits)
  have "crop_id ((crop_entity t i)\<lparr>crop_photo := Some (crop_photo_key i u)\<rparr>) = i"
    "crop_farm ((crop_entity t i)\<lparr>crop_photo := Some (crop_photo_key i u)\<rparr>) = crop_farm (crop_entity t i)"
    using owned_crop [OF ok(1) own] by auto
  from saved_crop_key [OF ok(1) own this(2,1)] assms(4) CropPhoto own show ?thesis
    by (intro crops_isolated [where i = i]) (auto simp: store_simps)
qed (use assms in \<open>auto simp: isolated_refl\<close>)

lemma saved_activity_key:
  assumes "tables_ok t" and "activity_owner t i = Some (Some u)"
    and "act_crop x' = act_crop (activity_entity t i)" and "act_id x' = i"
  shows "act_id (activity_row t x') = i"
    and "activity_owner (t\<lparr>activity_rows := put_row act_id (activity_row t x') (activity_rows t)\<rparr>) i = Some (Some u)"
proof -
  from owned_activity [OF assms(1,2)] obtain x where x: "row_of act_id i (activity_rows t) = Some x"
    "activity_entity t i = load_activity t [''crop'', ''crop.farm''] x" by blast
  with assms(2) have via: "via_crop t (act_crop x) = Some u" by (simp add: activity_owner_def)
  then obtain k c where k: "rel_crop_id (act_crop x) = Some k" "row_of crop_id k (crop_rows t) = Some c"
    by (auto simp: via_crop_def crop_owner_def split: Option.bind_splits)
  have key: "act_crop (activity_row t x') = Some (Ref k)"
    using assms(3) x(2) k row_of_Some [OF k(2)]
    by (simp add: activity_row_def load_activity_def load_crop_rel_def load_crop_def)
  show "act_id (activity_row t x') = i" using assms(4) by (simp add: activity_row_def)
  with key via k show "activity_owner (t\<lparr>activity_rows := put_row act_id (activity_row t x') (activity_rows t)\<rparr>) i
      = Some (Some u)"
    by (simp add: activity_owner_def store_simps via_crop_def crop_owner_def)
qed

lemma activities_command_isolated:
  assumes ok: "tables_ok t" "tables_ok t'" and "activities_refusal req t = None" and "activities_effect req t a t'"
  shows "isolated (caller (ActivitiesCmd req)) t t'"
proof (cases req)
  case (CreateActivity u dto)
  with assms have own: "crop_owner t (ca_cropId dto) = Some (Some u)"
    by (auto simp: guarded_def split: if_splits)
  from CreateActivity assms(4) obtain i ob where i: "i \<notin> act_id ` set (activity_rows t)"
    "t' = t\<lparr>activity_rows := activity_rows t @ [new_activity dto i], outbox_rows := ob\<rparr>" by auto
  have new: "activity_owner t' i = Some (Some u)"
    using own i by (auto simp: activity_owner_def store_simps new_activity_def via_crop_def crop_owner_def)
  show ?thesis
    using i new CreateActivity
    by (intro activities_isolated [where i = i]) (auto simp: activity_owner_None store_simps new_activity_def)
next
  case (UpdateActivity u dto i)
  with assms have own: "activity_owner t i = Some (Some u)" by (auto simp: guarded_def split: if_splits)
  have "act_id (assign_activity dto (activity_entity t i)) = i"
    "act_crop (assign_activity dto (activity_entity t i)) = act_crop (activity_entity t i)"
    using owned_activity [OF ok(1) own] by (auto simp: assign_activity_def)
  from saved_activity_key [OF ok(1) own this(2,1)] assms(4) UpdateActivity own show ?thesis
    by (intro activities_isolated [where i = i]) (auto simp: store_simps)
next
  case (DeleteActivity u i)
  with assms have own: "activity_owner t i = Some (Some u)" by (auto simp: guarded_def split: if_splits)
  with assms DeleteActivity show ?thesis
    by (intro activities_isolated [where i = i]) (auto simp: activity_owner_None store_simps)
next
  case (ActivityPhoto i u f)
  with assms have own: "activity_owner t i = Some (Some u)" by (auto simp: guarded_def split: if_splits)
  have "act_id ((activity_entity t i)\<lparr>act_photo := Some (activity_photo_key i u)\<rparr>) = i"
    "act_crop ((activity_entity t i)\<lparr>act_photo := Some (activity_photo_key i u)\<rparr>)
       = act_crop (activity_entity t i)"
    using owned_activity [OF ok(1) own] by auto
  from saved_activity_key [OF ok(1) own this(2,1)] assms(4) ActivityPhoto own show ?thesis
    by (intro activities_isolated [where i = i]) (auto simp: store_simps)
qed (use assms in \<open>auto simp: isolated_refl\<close>)

lemma saved_harvest_key:
  assumes "tables_ok t" and "harvest_owner t i = Some (Some u)"
    and "harv_crop x' = harv_crop (harvest_entity t i)" and "harv_id x' = i"
  shows "harv_id (harvest_row t x') = i"
    and "harvest_owner (t\<lparr>harvest_rows := put_row harv_id (harvest_row t x') (harvest_rows t)\<rparr>) i = Some (Some u)"
proof -
  from owned_harvest [OF assms(1,2)] obtain x where x: "row_of harv_id i (harvest_rows t) = Some x"
    "harvest_entity t i = load_harvest t [''crop'', ''crop.farm''] x" by blast
  with assms(2) have via: "via_crop t (harv_crop x) = Some u" by (simp add: harvest_owner_def)
  then obtain k c where k: "rel_crop_id (harv_crop x) = Some k" "row_of crop_id k (crop_rows t) = Some c"
    by (auto simp: via_crop_def crop_owner_def split: Option.bind_splits)
  have key: "harv_crop (harvest_row t x') = Some (Ref k)"
    using assms(3) x(2) k row_of_Some [OF k(2)]
    by (simp add: harvest_row_def load_harvest_def load_crop_rel_def load_crop_def)
  show "harv_id (harvest_row t x') = i" using assms(4) by (simp add: harvest_row_def)
  with key via k show "harvest_owner (t\<lparr>harvest_rows := put_row harv_id (harvest_row t x') (harvest_rows t)\<rparr>) i
      = Some (Some u)"
    by (simp add: harvest_owner_def store_simps via_crop_def crop_owner_def)
qed

lemma harvests_command_isolated:
  assumes ok: "tables_ok t" "tables_ok t'" and "harvests_refusal req t = None" and "harvests_effect req t a t'"
  shows "isolated (caller (HarvestsCmd req)) t t'"
proof (cases req)
  case (CreateHarvest u dto)
  with assms have own: "crop_owner t (ch_cropId dto) = Some (Some u)"
    by (auto simp: guarded_def split: if_splits)
  from CreateHarvest assms(4) obtain i ob where i: "i \<notin> harv_id ` set (harvest_rows t)"
    "t' = t\<lparr>harvest_rows := harvest_rows t @ [new_harvest dto i], outbox_rows := ob\<rparr>" by auto
  have new: "harvest_owner t' i = Some (Some u)"
    using own i by (auto simp: harvest_owner_def store_simps new_harvest_def via_crop_def crop_owner_def)
  show ?thesis
    using i new CreateHarvest
    by (intro harvests_isolated [where i = i]) (auto simp: harvest_owner_None store_simps new_harvest_def)
next
  case (UpdateHarvest u dto i)
  with assms have own: "harvest_owner t i = Some (Some u)" by (auto simp: guarded_def split: if_splits)
  have "harv_id (assign_harvest dto (harvest_entity t i)) = i"
    "harv_crop (assign_harvest dto (harvest_entity t i)) = harv_crop (harvest_entity t i)"
    using owned_harvest [OF ok(1) own] by (auto simp: assign_harvest_def)
  from saved_harvest_key [OF ok(1) own this(2,1)] assms(4) UpdateHarvest own show ?thesis
    by (intro harvests_isolated [where i = i]) (auto simp: store_simps)
next
  case (DeleteHarvest u i)
  with assms have own: "harvest_owner t i = Some (Some u)" by (auto simp: guarded_def split: if_splits)
  with assms DeleteHarvest show ?thesis
    by (intro harvests_isolated [where i = i]) (auto simp: harvest_owner_None store_simps)
next
  case (HarvestPhoto i u f)
  with assms have own: "harvest_owner t i = Some (Some u)" by (auto simp: guarded_def split: if_splits)
  have "harv_id ((harvest_entity t i)\<lparr>harv_photo := Some (harvest_photo_key i u)\<rparr>) = i"
    "harv_crop ((harvest_entity t i)\<lparr>harv_photo := Some (harvest_photo_key i u)\<rparr>)
       = harv_crop (harvest_entity t i)"
    using owned_harvest [OF ok(1) own] by auto
  from saved_harvest_key [OF ok(1) own this(2,1)] assms(4) HarvestPhoto own show ?thesis
    by (intro harvests_isolated [where i = i]) (auto simp: store_simps)
qed (use assms in \<open>auto simp: isolated_refl\<close>)

lemma command_isolated:
  assumes "tables_ok t" "tables_ok t'" and "service_refusal cmd t = None" and "service_effect cmd t a t'"
  shows "isolated (caller cmd) t t'"
  using assms
  by (cases cmd)
    (auto intro: farms_command_isolated crops_command_isolated activities_command_isolated
      harvests_command_isolated)

text \<open>
  C4. No command of a user, run to its end or cut off at any step, whatever it answers,
  changes the row or the owner of a farm, crop, activity or harvest that belongs to someone
  else, or makes one appear or disappear there; and it leaves the projected users alone.
\<close>

theorem users_are_isolated:
  assumes "farms_contract view E" and "tables_ok (committed (view w))"
  shows "isolated (caller cmd) (committed (view w)) (committed (view (snd (run (farms_service E cmd) w)))) \<and>
    (\<forall>n. isolated (caller cmd) (committed (view w))
       (committed (view (crash_after n (farms_service E cmd) w))))"
proof (intro conjI allI)
  note spec = service_refines [OF assms(1), of cmd]
  show "isolated (caller cmd) (committed (view w))
       (committed (view (crash_after n (farms_service E cmd) w)))" for n
    using farms_refines_crash [OF spec assms(2), of n] command_isolated [OF assms(2)]
    by (auto simp: isolated_refl split: if_splits)
  obtain r w' where run: "run (farms_service E cmd) w = (r, w')" by fastforce
  show "isolated (caller cmd) (committed (view w)) (committed (view (snd (run (farms_service E cmd) w))))"
    using farms_refines_end [OF spec assms(2) run] command_isolated [OF assms(2)] run
    by (auto simp: isolated_refl)
qed

theorem users_are_isolated_witness:
  "isolated 8 demo_tables
     (committed (snd (run (farms_service mem_farms (FarmsCmd (DeleteFarm 8 2))) demo_view))) \<and>
   length (farm_rows (committed (snd (run (farms_service mem_farms (FarmsCmd (DeleteFarm 8 2))) demo_view)))) = 1"
proof
  show "isolated 8 demo_tables
     (committed (snd (run (farms_service mem_farms (FarmsCmd (DeleteFarm 8 2))) demo_view)))"
    using users_are_isolated [OF mem_farms_contract demo_ok, of "FarmsCmd (DeleteFarm 8 2)"]
    by (simp add: demo_view_def)
  show "length (farm_rows (committed (snd (run (farms_service mem_farms (FarmsCmd (DeleteFarm 8 2))) demo_view)))) = 1"
    by code_simp
qed

end
