(* ===== verification/FarmsReach.thy ===== *)
theory FarmsReach
  imports FarmsIsolation
begin

text \<open>
  The life of the \<open>farms\<close> database: commands served one after another, some of them cut
  short by a crash, with the outbox relay and the projection of users working on their own
  tables in between. What a creation announces, and what holds in every reachable state.
\<close>

section \<open>The event of a creation\<close>

fun announces :: "farms_command \<Rightarrow> string option" where
  "announces (CropsCmd (CreateCrop u dto)) = Some ''crop.initialized''"
| "announces (ActivitiesCmd (CreateActivity u dto)) = Some ''activity.created''"
| "announces (HarvestsCmd (CreateHarvest u dto)) = Some ''harvest.created''"
| "announces cmd = None"

text \<open>What a consumer can read from the payload of such an event.\<close>

definition announced :: "farms_tables \<Rightarrow> int \<Rightarrow> string \<Rightarrow> outbox_row \<Rightarrow> bool" where
  "announced t u pat o_row \<longleftrightarrow>
     ob_pattern o_row = pat \<and> ob_publishedAt o_row = None \<and> ob_attempts o_row = 0 \<and>
     map_of (ob_payload o_row) ''userId'' = Some (JNum u) \<and>
     (\<exists>k. map_of (ob_payload o_row) ''cropId'' = Some (JNum k)) \<and>
     (\<exists>f. map_of (ob_payload o_row) ''farmId'' = Some (JNum f) \<and> farm_owner t f = Some (Some u)) \<and>
     (\<exists>p i. map_of (ob_payload o_row) ''payload'' = Some (JObj p) \<and> map_of p ''id'' = Some (JNum i))"

lemma map_of_stored: "k \<noteq> TRACE_CARRIER_KEY \<Longrightarrow> map_of (stored_payload carrier p) k = map_of p k"
  by (simp add: stored_payload_def map_of_set_prop)

lemma stored_keys:
  "map_of (stored_payload carrier p) ''userId'' = map_of p ''userId''"
  "map_of (stored_payload carrier p) ''cropId'' = map_of p ''cropId''"
  "map_of (stored_payload carrier p) ''farmId'' = map_of p ''farmId''"
  "map_of (stored_payload carrier p) ''payload'' = map_of p ''payload''"
  by (rule map_of_stored, simp add: TRACE_CARRIER_KEY_def)+

text \<open>The event of an activity or harvest names the crop's farm and that farm's owner.\<close>

lemma chain_event_owned:
  assumes "tables_ok t" and "crop_owner t k = Some (Some u)"
  shows "\<exists>f. chain_event k (crop_entity t k) p =
      [(''cropId'', JNum k), (''farmId'', JNum f), (''userId'', JNum u), (''payload'', JObj p)] \<and>
    farm_owner t f = Some (Some u)"
proof -
  from owned_crop [OF assms] obtain c where c: "row_of crop_id k (crop_rows t) = Some c"
    "crop_entity t k = load_crop t [''farm''] c" by blast
  with assms(2) obtain j f where j: "crop_farm_id c = Some j" "row_of farm_id j (farm_rows t) = Some f"
    "farm_userId f = u"
    by (auto simp: crop_owner_def simp del: crop_farm_id.simps split: Option.bind_splits)
  then have "crop_farm (crop_entity t k) = Some (Loaded f)" using c(2) by (simp add: load_crop_def)
  with j row_of_Some [OF j(2)] show ?thesis
    by (intro exI [of _ j]) (simp add: chain_event_def num_prop_def farm_owner_def)
qed

lemma chain_announced:
  assumes "tables_ok t" and "crop_owner t k = Some (Some u)" and "map_of p ''id'' = Some (JNum i)"
  shows "announced t u pat
    (new_outbox_row pat (stored_payload carrier (chain_event k (crop_entity t k) p)) j)"
proof -
  from chain_event_owned [OF assms(1,2), of p] obtain f where
    f: "chain_event k (crop_entity t k) p =
      [(''cropId'', JNum k), (''farmId'', JNum f), (''userId'', JNum u), (''payload'', JObj p)]"
    "farm_owner t f = Some (Some u)" by blast
  then show ?thesis using assms(3) by (simp add: announced_def new_outbox_row_def stored_keys)
qed

lemma crop_announced:
  assumes "tables_ok t" and "farm_owner t f = Some (Some u)"
  shows "announced t u pat
    (new_outbox_row pat (stored_payload carrier (crop_event (farm_entity t f) c)) j)"
  using owned_farm [OF assms] assms(2)
  by (simp add: announced_def new_outbox_row_def stored_keys crop_event_def crop_json_id)

lemma chain_payload: "map_of (chain_event k c p) ''payload'' = Some (JObj p)"
  by (auto simp: chain_event_def num_prop_def split: option.splits)

definition new_events :: "farms_command \<Rightarrow> farms_tables \<Rightarrow> farms_tables \<Rightarrow> bool" where
  "new_events cmd t t' \<longleftrightarrow>
     (case announces cmd of
        None \<Rightarrow> outbox_rows t' = outbox_rows t
      | Some pat \<Rightarrow> \<exists>o_row. outbox_rows t' = outbox_rows t @ [o_row] \<and> announced t (caller cmd) pat o_row)"

lemma farms_outbox: "farms_effect req t a t' \<Longrightarrow> outbox_rows t' = outbox_rows t"
  by (cases req) auto

lemma command_events:
  assumes ok: "tables_ok t" and "service_refusal cmd t = None" and "service_effect cmd t a t'"
  shows "new_events cmd t t'"
proof (cases cmd rule: announces.cases)
  case (1 u dto)
  with assms have "farm_owner t (cc_farmId dto) = Some (Some u)" by (auto simp: guarded_def split: if_splits)
  from crop_announced [OF ok this] assms(3) 1 show ?thesis by (auto simp: new_events_def)
next
  case (2 u dto)
  with assms have "crop_owner t (ca_cropId dto) = Some (Some u)" by (auto simp: guarded_def split: if_splits)
  from chain_announced [OF ok this activity_json_id] assms(3) 2 show ?thesis
    by (auto simp: new_events_def)
next
  case (3 u dto)
  with assms have "crop_owner t (ch_cropId dto) = Some (Some u)" by (auto simp: guarded_def split: if_splits)
  from chain_announced [OF ok this harvest_json_id] assms(3) 3 show ?thesis
    by (auto simp: new_events_def)
qed (use assms(3) in \<open>auto simp: new_events_def dest: farms_outbox\<close>)

text \<open>
  C5. When a command answers, the outbox has gained exactly one unpublished row if the
  command created a crop, an activity or a harvest, and none otherwise. That row has the
  pattern of its kind, and its payload names the caller as the user, the crop, a farm that
  belongs to the caller, and the id of the created record.
\<close>

theorem creation_is_announced:
  assumes "farms_contract view E" and "tables_ok (committed (view w))"
    and "run (farms_service E cmd) w = (Inr a, w')"
  shows "new_events cmd (committed (view w)) (committed (view w'))"
  using farms_refines_run(2) [OF service_refines [OF assms(1)] assms(2,3)]
  by (auto intro: command_events [OF assms(2)])

definition demo_activity_dto :: CreateActivityDto where
  "demo_activity_dto =
     \<lparr>ca_cropId = 1, ca_type = Some ''labor'', ca_inputDate = None, ca_title = Some ''weeding'',
      ca_manufactureLocation = None, ca_appRatio = None, ca_appMethod = None, ca_comment = None,
      ca_category = None, ca_bioName = None, ca_bioType = None\<rparr>"

theorem creation_is_announced_witness:
  "\<exists>v'. snd (run (farms_service mem_farms (ActivitiesCmd (CreateActivity 7 demo_activity_dto))) demo_view) = v' \<and>
     length (outbox_rows (committed v')) = 1 \<and>
     (\<exists>o_row. outbox_rows (committed v') = [o_row] \<and> announced demo_tables 7 ''activity.created'' o_row)"
proof -
  let ?run = "run (farms_service mem_farms (ActivitiesCmd (CreateActivity 7 demo_activity_dto))) demo_view"
  have "case fst ?run of Inr a \<Rightarrow> True | Inl e \<Rightarrow> False" by code_simp
  then obtain a v' where run: "?run = (Inr a, v')" by (cases ?run) (auto split: sum.splits)
  from creation_is_announced [OF mem_farms_contract demo_ok] run
  have "new_events (ActivitiesCmd (CreateActivity 7 demo_activity_dto)) demo_tables (committed v')"
    by (simp add: demo_view_def)
  then show ?thesis using run by (auto simp: new_events_def demo_tables_def)
qed

section \<open>Reachable states\<close>

text \<open>
  Between two commands the relay may mark outbox rows and the consumer of user events may
  write projected users: the other tables and the events' contents stay.
\<close>

definition same_event :: "outbox_row \<Rightarrow> outbox_row \<Rightarrow> bool" where
  "same_event a b \<longleftrightarrow> ob_id b = ob_id a \<and> ob_pattern b = ob_pattern a \<and> ob_payload b = ob_payload a"

definition background :: "farms_tables \<Rightarrow> farms_tables \<Rightarrow> bool" where
  "background t t' \<longleftrightarrow>
     list_all2 same_event (outbox_rows t) (outbox_rows t') \<and>
     farm_rows t' = farm_rows t \<and> crop_rows t' = crop_rows t \<and>
     activity_rows t' = activity_rows t \<and> harvest_rows t' = harvest_rows t"

inductive reachable :: "('w \<Rightarrow> farms_view) \<Rightarrow> 'w farms_env \<Rightarrow> 'w \<Rightarrow> 'w \<Rightarrow> bool"
  for view :: "'w \<Rightarrow> farms_view" and E :: "'w farms_env" and w0 :: 'w where
  start: "reachable view E w0 w0"
| served: "reachable view E w0 w \<Longrightarrow> reachable view E w0 (snd (run (farms_service E cmd) w))"
| died: "reachable view E w0 w \<Longrightarrow> reachable view E w0 (crash_after n (farms_service E cmd) w)"
| other: "reachable view E w0 w \<Longrightarrow> background (committed (view w)) (committed (view w'))
    \<Longrightarrow> reachable view E w0 w'"

text \<open>Every crop, activity and harvest has its creation event; a crop has one harvest at most.\<close>

definition has_event :: "farms_tables \<Rightarrow> string \<Rightarrow> int \<Rightarrow> bool" where
  "has_event t pat i \<longleftrightarrow>
     (\<exists>o_row \<in> set (outbox_rows t). ob_pattern o_row = pat \<and>
        (\<exists>p. map_of (ob_payload o_row) ''payload'' = Some (JObj p) \<and> map_of p ''id'' = Some (JNum i)))"

definition harvest_keys :: "farms_tables \<Rightarrow> (int \<times> int option) set" where
  "harvest_keys t = (\<lambda>h. (harv_id h, rel_crop_id (harv_crop h))) ` set (harvest_rows t)"

definition ledger_ok :: "farms_tables \<Rightarrow> bool" where
  "ledger_ok t \<longleftrightarrow>
     tables_ok t \<and>
     (\<forall>i \<in> crop_id ` set (crop_rows t). has_event t ''crop.initialized'' i) \<and>
     (\<forall>i \<in> act_id ` set (activity_rows t). has_event t ''activity.created'' i) \<and>
     (\<forall>i \<in> harv_id ` set (harvest_rows t). has_event t ''harvest.created'' i) \<and>
     (\<forall>i j k. (i, Some k) \<in> harvest_keys t \<longrightarrow> (j, Some k) \<in> harvest_keys t \<longrightarrow> i = j)"

lemma has_event_mono:
  "has_event t pat i \<Longrightarrow> outbox_rows t' = outbox_rows t @ new \<Longrightarrow> has_event t' pat i"
  by (auto simp: has_event_def)

lemma ledger_ok_step:
  assumes "ledger_ok t" and "tables_ok t'"
    and grows: "\<exists>new. outbox_rows t' = outbox_rows t @ new"
    and crops: "\<And>i. i \<in> crop_id ` set (crop_rows t')
      \<Longrightarrow> i \<in> crop_id ` set (crop_rows t) \<or> has_event t' ''crop.initialized'' i"
    and acts: "\<And>i. i \<in> act_id ` set (activity_rows t')
      \<Longrightarrow> i \<in> act_id ` set (activity_rows t) \<or> has_event t' ''activity.created'' i"
    and harvs: "\<And>i k. (i, k) \<in> harvest_keys t' \<Longrightarrow> (i, k) \<in> harvest_keys t \<or>
       (has_event t' ''harvest.created'' i \<and>
        (\<forall>j c. k = Some c \<longrightarrow> (j, Some c) \<in> harvest_keys t' \<longrightarrow> j = i))"
  shows "ledger_ok t'"
proof -
  have mono: "has_event t pat i \<Longrightarrow> has_event t' pat i" for pat i
    using grows has_event_mono by blast
  have ids: "\<exists>k. (i, k) \<in> harvest_keys s" if "i \<in> harv_id ` set (harvest_rows s)" for i s
    using that by (auto simp: harvest_keys_def)
  have key_id: "i \<in> harv_id ` set (harvest_rows s)" if "(i, k) \<in> harvest_keys s" for i k s
    using that by (auto simp: harvest_keys_def)
  show ?thesis
    unfolding ledger_ok_def
  proof (intro conjI ballI allI impI)
    fix i
    show "has_event t' ''crop.initialized'' i" if "i \<in> crop_id ` set (crop_rows t')"
      using crops [OF that] assms(1) mono by (auto simp: ledger_ok_def)
    show "has_event t' ''activity.created'' i" if "i \<in> act_id ` set (activity_rows t')"
      using acts [OF that] assms(1) mono by (auto simp: ledger_ok_def)
    show "has_event t' ''harvest.created'' i" if "i \<in> harv_id ` set (harvest_rows t')"
    proof -
      from ids [OF that] obtain k where k: "(i, k) \<in> harvest_keys t'" by blast
      show ?thesis
      proof (cases "(i, k) \<in> harvest_keys t")
        case True
        then have "has_event t ''harvest.created'' i"
          using assms(1) key_id [OF True] unfolding ledger_ok_def by blast
        then show ?thesis by (rule mono)
      qed (use harvs [OF k] in simp)
    qed
  next
    fix i j k
    assume "(i, Some k) \<in> harvest_keys t'" "(j, Some k) \<in> harvest_keys t'"
    then show "i = j" using harvs assms(1) unfolding ledger_ok_def by metis
  qed (rule assms(2))
qed

lemma put_row_set: "set (put_row ident r rows) \<subseteq> insert r (set rows)"
  by (auto simp: put_row_def)

lemma ledger_ok_same:
  assumes "ledger_ok t" and "tables_ok t'" and "\<exists>new. outbox_rows t' = outbox_rows t @ new"
    and "crop_id ` set (crop_rows t') \<subseteq> crop_id ` set (crop_rows t)"
    and "act_id ` set (activity_rows t') \<subseteq> act_id ` set (activity_rows t)"
    and "harvest_keys t' \<subseteq> harvest_keys t"
  shows "ledger_ok t'"
  by (rule ledger_ok_step [OF assms(1-3)]) (use assms(4-6) in blast)+

text \<open>Saving a harvest keeps its crop.\<close>

lemma saved_harvest_crop:
  assumes "tables_ok t" and "harvest_owner t i = Some (Some u)"
    and "harv_crop x' = harv_crop (harvest_entity t i)" and "harv_id x' = i"
  shows "(harv_id (harvest_row t x'), rel_crop_id (harv_crop (harvest_row t x'))) \<in> harvest_keys t"
proof -
  from owned_harvest [OF assms(1,2)] obtain x where x: "row_of harv_id i (harvest_rows t) = Some x"
    "harvest_entity t i = load_harvest t [''crop'', ''crop.farm''] x" "x \<in> set (harvest_rows t)"
    "harv_id x = i" by blast
  with assms(2) obtain k c where k: "rel_crop_id (harv_crop x) = Some k" "row_of crop_id k (crop_rows t) = Some c"
    by (auto simp: harvest_owner_def via_crop_def crop_owner_def split: Option.bind_splits)
  have "harv_crop (harvest_row t x') = Some (Ref k)" "harv_id (harvest_row t x') = i"
    using assms(3,4) x(2) k row_of_Some [OF k(2)]
    by (simp_all add: harvest_row_def load_harvest_def load_crop_rel_def load_crop_def)
  with k(1) x(3,4) show ?thesis by (force simp: harvest_keys_def)
qed

lemma harvest_keys_put:
  assumes "(harv_id r, rel_crop_id (harv_crop r)) \<in> harvest_keys t"
    and "harvest_rows t' = put_row harv_id r (harvest_rows t)"
  shows "harvest_keys t' \<subseteq> harvest_keys t"
  using assms put_row_set [of harv_id r "harvest_rows t"] unfolding harvest_keys_def by auto

lemma farms_ledger:
  assumes "ledger_ok t" and "tables_ok t'" and "farms_effect req t a t'"
  shows "ledger_ok t'"
  by (rule ledger_ok_same [OF assms(1,2)]) (use assms(3) in \<open>cases req; auto simp: harvest_keys_def\<close>)+

lemma crops_ledger:
  assumes l: "ledger_ok t" and ok: "tables_ok t'" and r: "crops_refusal req t = None"
    and e: "crops_effect req t a t'"
  shows "ledger_ok t'"
proof -
  have t: "tables_ok t" using l by (simp add: ledger_ok_def)
  have keep: "crop_id ` set (put_row crop_id (crop_row t c) (crop_rows t)) = crop_id ` set (crop_rows t)"
    if "crop_owner t i = Some (Some u)" "crop_id c = i" for c i u
  proof -
    have "i \<in> crop_id ` set (crop_rows t)"
      using crop_owner_None [of t i] that(1) by simp
    then show ?thesis using that(2) by (simp add: ids_put_row crop_row_def insert_absorb)
  qed
  show ?thesis
  proof (cases req)
    case (CreateCrop u dto)
    with e obtain i j c where i: "t' = t\<lparr>crop_rows := crop_rows t @ [new_crop dto i],
        outbox_rows := outbox_rows t @ [new_outbox_row ''crop.initialized''
          (stored_payload c (crop_event (farm_entity t (cc_farmId dto)) (new_crop dto i))) j]\<rparr>" by auto
    have "has_event t' ''crop.initialized'' i"
      using i by (simp add: has_event_def new_outbox_row_def stored_keys crop_event_def crop_json_id)
        (simp add: new_crop_def)
    with i show ?thesis
      by (intro ledger_ok_step [OF l ok]) (auto simp: new_crop_def harvest_keys_def)
  next
    case (UpdateCrop u dto i)
    with r have own: "crop_owner t i = Some (Some u)" by (auto simp: guarded_def split: if_splits)
    have "crop_id (assign_crop dto (crop_entity t i)) = i"
      using owned_crop [OF t own] by (auto simp: assign_crop_def)
    with keep [OF own this] e UpdateCrop show ?thesis
      by (intro ledger_ok_same [OF l ok]) (auto simp: harvest_keys_def)
  next
    case (CropPhoto i u f)
    with r have own: "crop_owner t i = Some (Some u)" by (auto simp: guarded_def split: if_splits)
    have "crop_id ((crop_entity t i)\<lparr>crop_photo := Some (crop_photo_key i u)\<rparr>) = i"
      using owned_crop [OF t own] by auto
    with keep [OF own this] e CropPhoto show ?thesis
      by (intro ledger_ok_same [OF l ok]) (auto simp: harvest_keys_def)
  qed (rule ledger_ok_same [OF l ok]; use e in \<open>auto simp: harvest_keys_def\<close>)+
qed

lemma activities_ledger:
  assumes l: "ledger_ok t" and ok: "tables_ok t'" and r: "activities_refusal req t = None"
    and e: "activities_effect req t a t'"
  shows "ledger_ok t'"
proof -
  have t: "tables_ok t" using l by (simp add: ledger_ok_def)
  have keep: "act_id ` set (put_row act_id (activity_row t x) (activity_rows t)) = act_id ` set (activity_rows t)"
    if "activity_owner t i = Some (Some u)" "act_id x = i" for x i u
  proof -
    have "i \<in> act_id ` set (activity_rows t)"
      using activity_owner_None [of t i] that(1) by simp
    then show ?thesis using that(2) by (simp add: ids_put_row activity_row_def insert_absorb)
  qed
  show ?thesis
  proof (cases req)
    case (CreateActivity u dto)
    with e obtain i j c where i: "t' = t\<lparr>activity_rows := activity_rows t @ [new_activity dto i],
        outbox_rows := outbox_rows t @ [new_outbox_row ''activity.created''
          (stored_payload c (chain_event (ca_cropId dto) (crop_entity t (ca_cropId dto))
             (activity_json (new_activity dto i)))) j]\<rparr>" by auto
    have "has_event t' ''activity.created'' i"
      using i by (simp add: has_event_def new_outbox_row_def stored_keys chain_payload
          activity_json_id) (simp add: new_activity_def)
    with i show ?thesis
      by (intro ledger_ok_step [OF l ok]) (auto simp: new_activity_def harvest_keys_def)
  next
    case (UpdateActivity u dto i)
    with r have own: "activity_owner t i = Some (Some u)" by (auto simp: guarded_def split: if_splits)
    have "act_id (assign_activity dto (activity_entity t i)) = i"
      using owned_activity [OF t own] by (auto simp: assign_activity_def)
    with keep [OF own this] e UpdateActivity show ?thesis
      by (intro ledger_ok_same [OF l ok]) (auto simp: harvest_keys_def)
  next
    case (ActivityPhoto i u f)
    with r have own: "activity_owner t i = Some (Some u)" by (auto simp: guarded_def split: if_splits)
    have "act_id ((activity_entity t i)\<lparr>act_photo := Some (activity_photo_key i u)\<rparr>) = i"
      using owned_activity [OF t own] by auto
    with keep [OF own this] e ActivityPhoto show ?thesis
      by (intro ledger_ok_same [OF l ok]) (auto simp: harvest_keys_def)
  qed (rule ledger_ok_same [OF l ok]; use e in \<open>auto simp: harvest_keys_def\<close>)+
qed

lemma harvests_ledger:
  assumes l: "ledger_ok t" and ok: "tables_ok t'" and r: "harvests_refusal req t = None"
    and e: "harvests_effect req t a t'"
  shows "ledger_ok t'"
proof -
  have t: "tables_ok t" using l by (simp add: ledger_ok_def)
  show ?thesis
  proof (cases req)
    case (CreateHarvest u dto)
    with e obtain i j c where i: "i \<notin> harv_id ` set (harvest_rows t)"
      "t' = t\<lparr>harvest_rows := harvest_rows t @ [new_harvest dto i],
        outbox_rows := outbox_rows t @ [new_outbox_row ''harvest.created''
          (stored_payload c (chain_event (ch_cropId dto) (crop_entity t (ch_cropId dto))
             (harvest_json (new_harvest dto i)))) j]\<rparr>" by auto
    have event: "has_event t' ''harvest.created'' i"
      using i by (simp add: has_event_def new_outbox_row_def stored_keys chain_payload
          harvest_json_id) (simp add: new_harvest_def)
    have keys: "harvest_keys t' = insert (i, Some (ch_cropId dto)) (harvest_keys t)"
      using i(2) by (simp add: harvest_keys_def new_harvest_def)
    have first: "(j, Some (ch_cropId dto)) \<notin> harvest_keys t" for j
      using r CreateHarvest by (auto simp: harvest_keys_def has_harvest_def guarded_def split: if_splits)
    have rows: "\<exists>new. outbox_rows t' = outbox_rows t @ new" "crop_rows t' = crop_rows t"
      "activity_rows t' = activity_rows t"
      using i(2) by simp_all
    show ?thesis
      by (rule ledger_ok_step [OF l ok rows(1)]) (use event first in \<open>auto simp: keys rows\<close>)
  next
    case (UpdateHarvest u dto i)
    with r have own: "harvest_owner t i = Some (Some u)" by (auto simp: guarded_def split: if_splits)
    have "harv_crop (assign_harvest dto (harvest_entity t i)) = harv_crop (harvest_entity t i)"
      "harv_id (assign_harvest dto (harvest_entity t i)) = i"
      using owned_harvest [OF t own] by (auto simp: assign_harvest_def)
    from harvest_keys_put [OF saved_harvest_crop [OF t own this]] e UpdateHarvest show ?thesis
      by (intro ledger_ok_same [OF l ok]) auto
  next
    case (HarvestPhoto i u f)
    with r have own: "harvest_owner t i = Some (Some u)" by (auto simp: guarded_def split: if_splits)
    have "harv_crop ((harvest_entity t i)\<lparr>harv_photo := Some (harvest_photo_key i u)\<rparr>)
        = harv_crop (harvest_entity t i)"
      "harv_id ((harvest_entity t i)\<lparr>harv_photo := Some (harvest_photo_key i u)\<rparr>) = i"
      using owned_harvest [OF t own] by auto
    from harvest_keys_put [OF saved_harvest_crop [OF t own this]] e HarvestPhoto show ?thesis
      by (intro ledger_ok_same [OF l ok]) auto
  qed (rule ledger_ok_same [OF l ok]; use e in \<open>auto simp: harvest_keys_def\<close>)+
qed

lemma command_ledger:
  assumes "ledger_ok t" and "tables_ok t'" and "service_refusal cmd t = None" and "service_effect cmd t a t'"
  shows "ledger_ok t'"
  using assms
  by (cases cmd) (auto intro: farms_ledger crops_ledger activities_ledger harvests_ledger)

lemma same_event_has:
  "list_all2 same_event (outbox_rows t) (outbox_rows t') \<Longrightarrow> has_event t pat i \<Longrightarrow> has_event t' pat i"
proof -
  assume ev: "list_all2 same_event (outbox_rows t) (outbox_rows t')" and "has_event t pat i"
  then obtain k p where "k < length (outbox_rows t)" "ob_pattern (outbox_rows t ! k) = pat"
    "map_of (ob_payload (outbox_rows t ! k)) ''payload'' = Some (JObj p)" "map_of p ''id'' = Some (JNum i)"
    unfolding has_event_def by (metis in_set_conv_nth)
  with ev show "has_event t' pat i"
    unfolding has_event_def list_all2_conv_all_nth same_event_def
    by (intro bexI [of _ "outbox_rows t' ! k"]) auto
qed

lemma background_ledger: "ledger_ok t \<Longrightarrow> background t t' \<Longrightarrow> ledger_ok t'"
proof -
  assume l: "ledger_ok t" and b: "background t t'"
  have "has_event t' pat i" if "has_event t pat i" for pat i
    using same_event_has [OF _ that] b by (simp add: background_def)
  moreover have "tables_ok t'" "harvest_keys t' = harvest_keys t"
    using l b by (simp_all add: ledger_ok_def background_def tables_ok_def harvest_keys_def)
  ultimately show "ledger_ok t'"
    using l b unfolding ledger_ok_def background_def by simp
qed

lemma reachable_ledger:
  assumes E: "farms_contract view E"
  shows "reachable view E w0 w \<Longrightarrow> ledger_ok (committed (view w0)) \<Longrightarrow> ledger_ok (committed (view w))"
proof (induction rule: reachable.induct)
  case (served w cmd)
  then have l: "ledger_ok (committed (view w))" by simp
  obtain r w' where run: "run (farms_service E cmd) w = (r, w')" by fastforce
  from l have "tables_ok (committed (view w))" by (simp add: ledger_ok_def)
  from farms_refines_end [OF service_refines [OF E] this run] show ?case
    using l run by (auto intro: command_ledger)
next
  case (died w n cmd)
  then have l: "ledger_ok (committed (view w))" by simp
  from l have "tables_ok (committed (view w))" by (simp add: ledger_ok_def)
  from farms_refines_crash [OF service_refines [OF E] this, of cmd n] show ?case
    using l by (auto intro: command_ledger split: if_splits)
next
  case (other w w')
  then show ?case by (auto intro: background_ledger)
qed simp

text \<open>
  C6. Starting from empty tables, after any sequence of commands of any users, served to the
  end or cut off by a crash, with the relay and the projection at work in between: the
  schema's constraints hold, every crop, activity and harvest has its creation event in the
  outbox, and no crop has two harvests.
\<close>

theorem reachable_ledger_ok:
  assumes "farms_contract view E" and "reachable view E w0 w"
    and "committed (view w0) = \<lparr>farm_rows = [], crop_rows = [], activity_rows = [], harvest_rows = [],
           outbox_rows = [], projection_rows = []\<rparr>"
  shows "ledger_ok (committed (view w))"
proof (rule reachable_ledger [OF assms(1,2)])
  show "ledger_ok (committed (view w0))"
    unfolding assms(3)
    by (simp add: ledger_ok_def tables_ok_def distinct_ids_def unique_farm_names_def harvest_keys_def)
qed

definition empty_view :: farms_view where
  "empty_view =
     \<lparr>committed = \<lparr>farm_rows = [], crop_rows = [], activity_rows = [], harvest_rows = [],
        outbox_rows = [], projection_rows = []\<rparr>, working = None, objects = (\<lambda>_. None)\<rparr>"

definition demo_farm_dto :: CreateFarmDto where
  "demo_farm_dto = \<lparr>cf_name = ''Sierra'', cf_location = ''Loja'', cf_state = leased, cf_area = 3\<rparr>"

text \<open>The state after user 7 made a farm and a crop, the latter's reply lost in a crash.\<close>

definition demo_history :: farms_view where
  "demo_history =
     crash_after 6 (farms_service mem_farms (CropsCmd (CreateCrop 7 demo_crop_dto)))
       (snd (run (farms_service mem_farms (FarmsCmd (CreateFarm 7 demo_farm_dto))) empty_view))"

theorem reachable_ledger_ok_witness:
  "length (crop_rows (committed demo_history)) = 1 \<and> ledger_ok (committed demo_history)"
proof
  show "length (crop_rows (committed demo_history)) = 1"
    by code_simp
  have "reachable id mem_farms empty_view demo_history"
    unfolding demo_history_def by (rule reachable.died, rule reachable.served, rule reachable.start)
  from reachable_ledger_ok [OF mem_farms_contract this] show "ledger_ok (committed demo_history)"
    by (simp add: empty_view_def)
qed

end
