(* ===== verification/FarmsPhotos.thy ===== *)
theory FarmsPhotos
  imports FarmsReach
begin

text \<open>
  Photos: what is uploaded for a record is what is read back, and the object keys of
  different records never collide.
\<close>

section \<open>The shape of the four uploads and the four reads\<close>

context owned_resource
begin

lemma upload_stores:
  assumes E: "farms_contract view E" and ok: "tables_ok (committed (view w))"
    and save: "\<And>x. \<exists>R. implements view (save x) (autocommit R)"
    and run: "run (bind (assert_owner E u k) (\<lambda>x.
        bind (uploadFile (fe_s3 E) file key) (\<lambda>key.
        bind (atom (save (set_photo x key))) (\<lambda>_. Return (h key))))) w = (Inr r, w')"
  shows "objects (view w') key = Some (file_buffer file)"
proof -
  let ?Q = "\<lambda>_ v. objects v key = Some (file_buffer file)"
  have rest: "vwp view (\<lambda>_. True) (bind (uploadFile (fe_s3 E) file key) (\<lambda>key.
        bind (atom (save (set_photo x key))) (\<lambda>_. Return (h key)))) ?Q (\<lambda>_ _. True) v" for x v
  proof -
    obtain R where R: "implements view (save (set_photo x key)) (autocommit R)" using save by blast
    have "vwp view (\<lambda>_. True) (atom (save (set_photo x key)))
        (\<lambda>_. vwp view (\<lambda>_. True) (Return (h key)) ?Q (\<lambda>_ _. True))
        (\<lambda>_ _. True) (v\<lparr>objects := (objects v)(key \<mapsto> file_buffer file)\<rparr>)"
      by (rule vwp_autocommit [OF R]) (auto intro: vwp_return)
    then show ?thesis
      unfolding uploadFile_def
      by (intro vwp_bind vwp_try_catch vwp_atom [OF farms_contractD(21) [OF E]])
        (auto intro!: wp_intros)
  qed
  have "vwp view (\<lambda>_. True) (bind (assert_owner E u k) (\<lambda>x.
        bind (uploadFile (fe_s3 E) file key) (\<lambda>key.
        bind (atom (save (set_photo x key))) (\<lambda>_. Return (h key))))) ?Q (\<lambda>_ _. True) (view w)"
    by (rule vwp_bind, rule assert_owner_rule [OF E ok]) (auto intro: rest)
  from vwp_run [OF this run] show ?thesis by simp
qed

lemma image_reads:
  assumes E: "farms_contract view E" and ok: "tables_ok (committed (view w))"
    and run: "run (bind (assert_owner E u k) (\<lambda>x. image_reply (fe_s3 E) (photo x) nf)) w = (Inr (d, m), w')"
  shows "\<exists>key. photo (entity (committed (view w)) k) = Some key \<and>
    d = map_option base64 (objects (view w) key)"
proof -
  let ?Q = "\<lambda>(d, m) v. \<exists>key. photo (entity (committed (view w)) k) = Some key \<and>
    d = map_option base64 (objects (view w) key)"
  have "vwp view (\<lambda>_. True) (bind (assert_owner E u k) (\<lambda>x. image_reply (fe_s3 E) (photo x) nf))
      ?Q (\<lambda>_ _. True) (view w)"
    by (rule vwp_bind, rule assert_owner_rule [OF E ok])
      (auto simp: image_reply_def getFile_def reads_def
        intro!: wp_intros vwp_atom_err [OF farms_contractD(22) [OF E]])
  from vwp_run [OF this run] show ?thesis by simp
qed

end

section \<open>Photos of farms, crops, activities and harvests\<close>

datatype photo_kind = PFarm | PCrop | PActivity | PHarvest

fun upload_command :: "photo_kind \<Rightarrow> int \<Rightarrow> int \<Rightarrow> upload \<Rightarrow> farms_command" where
  "upload_command PFarm i u file = FarmsCmd (FarmImage i u file)"
| "upload_command PCrop i u file = CropsCmd (CropPhoto i u file)"
| "upload_command PActivity i u file = ActivitiesCmd (ActivityPhoto i u file)"
| "upload_command PHarvest i u file = HarvestsCmd (HarvestPhoto i u file)"

fun photo_command :: "photo_kind \<Rightarrow> int \<Rightarrow> int \<Rightarrow> farms_command" where
  "photo_command PFarm u i = FarmsCmd (GetFarmImage u i)"
| "photo_command PCrop u i = CropsCmd (GetCropPhoto u i)"
| "photo_command PActivity u i = ActivitiesCmd (GetActivityPhoto u i)"
| "photo_command PHarvest u i = HarvestsCmd (GetHarvestPhoto u i)"

fun photo_answer :: "command_answer \<Rightarrow> (string option \<times> string) option" where
  "photo_answer (FarmsAns (FarmPhoto a)) = Some a"
| "photo_answer (CropsAns (CropPhotoData a)) = Some a"
| "photo_answer (ActivitiesAns (ActivityPhotoData a)) = Some a"
| "photo_answer (HarvestsAns (HarvestPhotoData a)) = Some a"
| "photo_answer _ = None"

fun photo_key :: "photo_kind \<Rightarrow> int \<Rightarrow> int \<Rightarrow> string" where
  "photo_key PFarm i u = farm_photo_key i u"
| "photo_key PCrop i u = crop_photo_key i u"
| "photo_key PActivity i u = activity_photo_key i u"
| "photo_key PHarvest i u = harvest_photo_key i u"

definition photo_of :: "photo_kind \<Rightarrow> farms_tables \<Rightarrow> int \<Rightarrow> string option" where
  "photo_of kind t i =
     (case kind of PFarm \<Rightarrow> farm_photo (farm_entity t i) | PCrop \<Rightarrow> crop_photo (crop_entity t i)
      | PActivity \<Rightarrow> act_photo (activity_entity t i) | PHarvest \<Rightarrow> harv_photo (harvest_entity t i))"

lemma run_respond:
  "run (respond f p) w = (Inr a, w') \<longleftrightarrow> (\<exists>x. run p w = (Inr x, w') \<and> a = f x)"
  by (auto simp: respond_def run_bind split: prod.splits sum.splits)

lemma photo_uploaded:
  assumes E: "farms_contract view E" and ok: "tables_ok (committed (view w))"
    and run: "run (farms_service E (upload_command kind i u file)) w = (Inr a, w')"
  shows "objects (view w') (photo_key kind i u) = Some (file_buffer file)"
proof (cases kind)
  case PFarm
  from run [unfolded PFarm] obtain x where "run (uploadFarmImage E file u i) w = (Inr x, w')"
    by (auto simp: run_respond)
  from farm_owned.upload_stores [OF E ok _ this [unfolded uploadFarmImage_def]] farms_contractD(7) [OF E]
  show ?thesis unfolding PFarm photo_key.simps by blast
next
  case PCrop
  from run [unfolded PCrop] obtain x where "run (uploadCropPhoto E file u i) w = (Inr x, w')"
    by (auto simp: run_respond)
  from crop_owned.upload_stores [OF E ok _ this [unfolded uploadCropPhoto_def]] farms_contractD(10) [OF E]
  show ?thesis unfolding PCrop photo_key.simps by blast
next
  case PActivity
  from run [unfolded PActivity] obtain x where "run (uploadActivityPhoto E file u i) w = (Inr x, w')"
    by (auto simp: run_respond)
  from activity_owned.upload_stores [OF E ok _ this [unfolded uploadActivityPhoto_def]] farms_contractD(12) [OF E]
  show ?thesis unfolding PActivity photo_key.simps by blast
next
  case PHarvest
  from run [unfolded PHarvest] obtain x where "run (uploadHarvestImage E file u i) w = (Inr x, w')"
    by (auto simp: run_respond)
  from harvest_owned.upload_stores [OF E ok _ this [unfolded uploadHarvestImage_def]] farms_contractD(14) [OF E]
  show ?thesis unfolding PHarvest photo_key.simps by blast
qed

lemma photo_recorded:
  assumes ok: "tables_ok t"
    and ref: "service_refusal (upload_command kind i u file) t = None"
    and eff: "service_effect (upload_command kind i u file) t a t'"
  shows "photo_of kind t' i = Some (photo_key kind i u)"
proof (cases kind)
  case PFarm
  with ref have "farm_owner t i = Some (Some u)" by (auto simp: guarded_def split: if_splits)
  with owned_farm [OF ok this] eff PFarm show ?thesis
    by (auto simp: photo_of_def farm_entity_def row_of_put_row)
next
  case PCrop
  with ref have "crop_owner t i = Some (Some u)" by (auto simp: guarded_def split: if_splits)
  with owned_crop [OF ok this] eff PCrop show ?thesis
    by (auto simp: photo_of_def crop_entity_def row_of_put_row crop_row_def load_crop_def)
next
  case PActivity
  with ref have "activity_owner t i = Some (Some u)" by (auto simp: guarded_def split: if_splits)
  with owned_activity [OF ok this] eff PActivity show ?thesis
    by (auto simp: photo_of_def activity_entity_def row_of_put_row activity_row_def load_activity_def)
next
  case PHarvest
  with ref have "harvest_owner t i = Some (Some u)" by (auto simp: guarded_def split: if_splits)
  with owned_harvest [OF ok this] eff PHarvest show ?thesis
    by (auto simp: photo_of_def harvest_entity_def row_of_put_row harvest_row_def load_harvest_def)
qed

lemma photo_read:
  assumes E: "farms_contract view E" and ok: "tables_ok (committed (view w))"
    and run: "run (farms_service E (photo_command kind u i)) w = (Inr a, w')"
  shows "\<exists>key m. photo_of kind (committed (view w)) i = Some key \<and>
    photo_answer a = Some (map_option base64 (objects (view w) key), m)"
proof (cases kind)
  case PFarm
  with run obtain d m where "run (getFarmImage E u i) w = (Inr (d, m), w')" "a = FarmsAns (FarmPhoto (d, m))"
    by (auto simp: run_respond)
  with farm_owned.image_reads [OF E ok this(1) [unfolded getFarmImage_def]] PFarm show ?thesis
    by (auto simp: photo_of_def)
next
  case PCrop
  with run obtain d m where "run (getCropPhoto E u i) w = (Inr (d, m), w')" "a = CropsAns (CropPhotoData (d, m))"
    by (auto simp: run_respond)
  with crop_owned.image_reads [OF E ok this(1) [unfolded getCropPhoto_def]] PCrop show ?thesis
    by (auto simp: photo_of_def)
next
  case PActivity
  with run obtain d m where "run (getActivityPhoto E u i) w = (Inr (d, m), w')"
    "a = ActivitiesAns (ActivityPhotoData (d, m))"
    by (auto simp: run_respond)
  with activity_owned.image_reads [OF E ok this(1) [unfolded getActivityPhoto_def]] PActivity show ?thesis
    by (auto simp: photo_of_def)
next
  case PHarvest
  with run obtain d m where "run (getHarvestImage E u i) w = (Inr (d, m), w')"
    "a = HarvestsAns (HarvestPhotoData (d, m))"
    by (auto simp: run_respond)
  with harvest_owned.image_reads [OF E ok this(1) [unfolded getHarvestImage_def]] PHarvest show ?thesis
    by (auto simp: photo_of_def)
qed

text \<open>
  C7. A photo that was uploaded for a farm, crop, activity or harvest, read back through the
  service, is the base64 text of the very bytes that were sent, and decodes to them.
\<close>

theorem photo_round_trip:
  assumes "farms_contract view E" and "tables_ok (committed (view w))"
    and "run (farms_service E (upload_command kind i u file)) w = (Inr a, w1)"
    and "run (farms_service E (photo_command kind u i)) w1 = (Inr b, w2)"
  shows "\<exists>s m. photo_answer b = Some (Some s, m) \<and> s = base64 (file_buffer file) \<and>
    unbase64 s = file_buffer file"
proof -
  note up = farms_refines_run [OF service_refines [OF assms(1)] assms(2,3)]
  have "photo_of kind (committed (view w1)) i = Some (photo_key kind i u)"
    using photo_recorded [OF assms(2)] up(2) by blast
  moreover have "objects (view w1) (photo_key kind i u) = Some (file_buffer file)"
    by (rule photo_uploaded [OF assms(1-3)])
  ultimately show ?thesis
    using photo_read [OF assms(1) up(1) assms(4)] unbase64_base64 by auto
qed

definition demo_upload :: upload where
  "demo_upload = \<lparr>file_buffer = [255, 216, 7], file_mimetype = ''image/jpeg''\<rparr>"

definition demo_uploaded :: farms_view where
  "demo_uploaded = snd (run (farms_service mem_farms (upload_command PCrop 1 7 demo_upload)) demo_view)"

theorem photo_round_trip_witness:
  "case fst (run (farms_service mem_farms (photo_command PCrop 7 1)) demo_uploaded) of
     Inr b \<Rightarrow> (case photo_answer b of Some (Some s, m) \<Rightarrow> s = ''/9gH'' \<and> unbase64 s = [255, 216, 7] | _ \<Rightarrow> False)
   | Inl e \<Rightarrow> False"
proof -
  have "case fst (run (farms_service mem_farms (upload_command PCrop 1 7 demo_upload)) demo_view) of
      Inr a \<Rightarrow> True | Inl e \<Rightarrow> False"
    by code_simp
  then obtain a where up: "run (farms_service mem_farms (upload_command PCrop 1 7 demo_upload)) demo_view
      = (Inr a, demo_uploaded)"
    unfolding demo_uploaded_def
    by (cases "run (farms_service mem_farms (upload_command PCrop 1 7 demo_upload)) demo_view")
      (auto split: sum.splits)
  have "case fst (run (farms_service mem_farms (photo_command PCrop 7 1)) demo_uploaded) of
      Inr b \<Rightarrow> True | Inl e \<Rightarrow> False"
    by code_simp
  then obtain b v where down: "run (farms_service mem_farms (photo_command PCrop 7 1)) demo_uploaded = (Inr b, v)"
    by (cases "run (farms_service mem_farms (photo_command PCrop 7 1)) demo_uploaded")
      (auto split: sum.splits)
  have "base64 (file_buffer demo_upload) = ''/9gH''" by code_simp
  with photo_round_trip [OF mem_farms_contract demo_ok, of PCrop 1 7 demo_upload a demo_uploaded b v] up down
  show ?thesis by (auto simp: demo_upload_def)
qed

section \<open>Object keys\<close>

text \<open>The number before a letter is determined by the text around it.\<close>

lemma show_int_no_u: "CHR ''u'' \<notin> set (show_int i)"
  using show_nat_no_sep [of "CHR ''u''"] by (simp add: show_int_def)

lemma photo_tail_unique:
  assumes "show_int i @ ''-user-'' @ show_int u = show_int j @ ''-user-'' @ show_int v"
  shows "i = j \<and> u = v"
proof -
  have "(show_int i @ ''-'') @ CHR ''u'' # (''ser-'' @ show_int u)
      = (show_int j @ ''-'') @ CHR ''u'' # (''ser-'' @ show_int v)"
    using assms by simp
  from sep_prefix_unique [OF this] show ?thesis using show_int_no_u by auto
qed

text \<open>
  C8. Two uploads write the same object only if they are of the same kind, for the same
  record and by the same user.
\<close>

theorem photo_key_unique:
  "photo_key kind i u = photo_key kind' j v \<longleftrightarrow> kind = kind' \<and> i = j \<and> u = v"
  by (cases kind; cases kind')
    (auto simp: farm_photo_key_def crop_photo_key_def activity_photo_key_def harvest_photo_key_def
      dest: photo_tail_unique [simplified])

end
