(* ===== verification/FarmsLimits.thy ===== *)
theory FarmsLimits
  imports FarmsPhotos
begin

text \<open>
  Two places where the \<open>farms\<close> service does not do what it means to: the check for an
  existing harvest is not part of the transaction that inserts one, and a renamed farm is
  compared with the farms of every user although names are unique per owner.
\<close>

section \<open>Steps of two programs\<close>

text \<open>A number of steps of one program, as its turns in an interleaving.\<close>

fun advances :: "nat \<Rightarrow> ('w, 'a) prog \<Rightarrow> 'w \<Rightarrow> ('w, 'a) prog \<times> 'w" where
  "advances 0 p w = (p, w)"
| "advances (Suc n) p w = (case advance p w of (p', w') \<Rightarrow> advances n p' w')"

lemma interleave_left:
  "interleave (replicate n True @ bs) p q w = (case advances n p w of (p', w') \<Rightarrow> interleave bs p' q w')"
  by (induction n arbitrary: p w) (auto split: prod.splits)

lemma interleave_right:
  "interleave (replicate n False @ bs) p q w = (case advances n q w of (q', w') \<Rightarrow> interleave bs p q' w')"
  by (induction n arbitrary: q w) (auto split: prod.splits)

lemma interleave_left_end:
  "interleave (replicate n True) p q w = (case advances n p w of (p', w') \<Rightarrow> (p', q, w'))"
  using interleave_left [of n "[]" p q w] by simp

lemma run_advance: "advance p w = (p', w') \<Longrightarrow> run p w = run p' w'"
  by (cases p) (auto simp: run_Step)

lemma run_advances: "advances n p w = (p', w') \<Longrightarrow> run p w = run p' w'"
proof (induction n arbitrary: p w)
  case (Suc n)
  then show ?case by (auto split: prod.splits dest: run_advance)
qed simp

text \<open>The first turn of a program that begins with a library call, and of one that has thrown.\<close>

lemma advances_throw: "advances n (Throw e) w = (Throw e, w)"
  by (induction n) auto

lemma advances_atom:
  "advances (Suc n) (bind (atom f) g) w =
     (case f w of (Inl e, w') \<Rightarrow> (Throw e, w') | (Inr a, w') \<Rightarrow> advances n (g a) w')"
  using advances_throw by (auto simp: atom_def split: prod.splits sum.splits)

section \<open>The race of two harvests\<close>

text \<open>What a harvest request does once it has passed its two checks.\<close>

definition insert_new_harvest :: "'w farms_env \<Rightarrow> CreateHarvestDto \<Rightarrow> crop \<Rightarrow> ('w, harvest reply) prog" where
  "insert_new_harvest E dto crop =
     bind (transaction (fe_tx E)
       (bind (atom (fe_mgr_harvest E (new_harvest dto))) (\<lambda>saved.
        bind (enqueue (fe_inject E) (fe_mgr_outbox E) ''harvest.created''
          (chain_event (ch_cropId dto) crop (harvest_json saved))) (\<lambda>_.
        Return saved)))) (\<lambda>savedHarvest.
     Return (success savedHarvest ''Created harvest and updated tracing successfully''))"

text \<open>It does not look at the harvests again.\<close>

lemma insert_new_harvest_run:
  assumes E: "farms_contract view E" and "run (insert_new_harvest E dto crop) w = (Inr a, w')"
  shows "\<exists>i. harvest_rows (committed (view w')) = harvest_rows (committed (view w)) @ [new_harvest dto i]"
proof -
  have "spec_at view (insert_new_harvest E dto crop) (\<lambda>_. None)
      (\<lambda>t a t'. \<exists>i. harvest_rows t' = harvest_rows t @ [new_harvest dto i]) (view w)"
    unfolding insert_new_harvest_def
    by (rule spec_at_row_and_event [OF E farms_contractD(18) [OF E]])
      (simp, fastforce simp: insert_harvest_def insert_outbox_def)
  from vwp_run [OF this [unfolded spec_at_def] assms(2)] show ?thesis by simp
qed

text \<open>After two turns a request has thrown, or it has read no harvest and is about to insert one.\<close>

lemma two_turns:
  assumes E: "farms_contract view E" and "advances 2 (createHarvest E u dto) w = (p, w')"
  shows "view w' = view w \<and> ((\<exists>e. p = Throw e) \<or>
    \<not> has_harvest (committed (view w)) (ch_cropId dto) \<and> (\<exists>crop. p = insert_new_harvest E dto crop))"
proof -
  obtain r w1 where f: "r_findOne (fe_crops E) [''farm''] (\<lambda>c. crop_id c = ch_cropId dto) w = (r, w1)"
    by (cases "r_findOne (fe_crops E) [''farm''] (\<lambda>c. crop_id c = ch_cropId dto) w")
  obtain s w2 where g: "r_find (fe_harvests E) [] (\<lambda>h. rel_crop_id (harv_crop h) = Some (ch_cropId dto)) w1 = (s, w2)"
    by (cases "r_find (fe_harvests E) [] (\<lambda>h. rel_crop_id (harv_crop h) = Some (ch_cropId dto)) w1")
  have "vwp view (\<lambda>_. True) (atom (r_findOne (fe_crops E) [''farm''] (\<lambda>c. crop_id c = ch_cropId dto)))
      (\<lambda>_ v. v = view w) (\<lambda>_ v. v = view w) (view w)"
    by (rule vwp_findOne [OF farms_contractD(3) [OF E]]) simp_all
  then have 1: "view w1 = view w" using f by (auto dest: vwp_run [of _ _ _ _ _ w r w1] split: sum.splits)
  have "vwp view (\<lambda>_. True) (atom (r_find (fe_harvests E) [] (\<lambda>h. rel_crop_id (harv_crop h) = Some (ch_cropId dto))))
      (\<lambda>hs v. v = view w \<and> (hs = [] \<longrightarrow> \<not> has_harvest (committed (view w)) (ch_cropId dto))) (\<lambda>_ v. v = view w) (view w)"
    by (rule vwp_find [OF farms_contractD(5) [OF E]])
      (auto simp: has_harvest_def filter_empty_conv simp del: mset_map mset_filter)
  then have 2: "view w2 = view w \<and> (case s of Inl e \<Rightarrow> True | Inr hs \<Rightarrow> hs = [] \<longrightarrow> \<not> has_harvest (committed (view w)) (ch_cropId dto))"
    using vwp_run [of view _ _ _ _ w1 s w2] g by (fastforce simp: 1 split: sum.splits)
  show ?thesis
    using assms(2) 1 2 f g
    by (auto simp: numeral_2_eq_2 createHarvest_def assertCropOwner_def isCropHaveHarvest_def bind_assoc advances_atom
        advances_throw insert_new_harvest_def check_access_def throw_if_def simp del: advances.simps(2)
        split: sum.splits option.splits if_splits)
qed

lemma create_harvest_run:
  assumes "farms_contract view E" and "tables_ok (committed (view w))" and "run (createHarvest E u dto) w = (r, w')"
  shows "tables_ok (committed (view w'))"
    and "has_harvest (committed (view w)) (ch_cropId dto) \<Longrightarrow> (\<exists>e. r = Inl e) \<and> view w' = view w"
    and "r = Inr a \<Longrightarrow> \<exists>i. harvest_rows (committed (view w')) = harvest_rows (committed (view w)) @ [new_harvest dto i]"
proof -
  have run: "run (harvests_controller E (CreateHarvest u dto)) w = (map_sum id HarvestSaved r, w')"
    using assms(3) by (cases r) (simp_all add: respond_def run_bind)
  note ref = farms_refines_run [OF harvests_controller_refines [OF assms(1)] assms(2) run]
  show "tables_ok (committed (view w'))" by (rule ref(1))
  show "(\<exists>e. r = Inl e) \<and> view w' = view w" if h: "has_harvest (committed (view w)) (ch_cropId dto)"
  proof -
    have refused: "harvests_refusal (CreateHarvest u dto) (committed (view w)) \<noteq> None" using h by (simp add: guarded_def)
    then have "\<nexists>a. r = Inr a" using ref(2) by auto
    with ref(4) [OF refused] show ?thesis by (cases r) auto
  qed
  show "\<exists>i. harvest_rows (committed (view w')) = harvest_rows (committed (view w)) @ [new_harvest dto i]" if "r = Inr a"
    using ref(2) [of "HarvestSaved a"] that by auto
qed

text \<open>
  C9. One harvest per crop holds in sequence and not in parallel, for every database that
  keeps its contract. When a request has answered, any request for a harvest of the same crop
  that is handled next, of whatever user, is refused and changes nothing. But when a request
  has done its two reads and a second one for the same crop runs to its end before the first
  goes on, then, whenever both answer, the crop had no harvest and has two.
\<close>

theorem harvest_check_races:
  assumes "farms_contract view E" and "tables_ok (committed (view w))" and "ch_cropId dto' = ch_cropId dto"
  shows "(run (createHarvest E u dto) w = (Inr a, w1) \<and> run (createHarvest E u' dto') w1 = (r, w2)
      \<longrightarrow> (\<exists>e. r = Inl e) \<and> view w2 = view w1)
    \<and> (interleave (replicate 2 True @ replicate n False @ replicate m True)
         (createHarvest E u dto) (createHarvest E u' dto') w = (Return a, Return b, w3)
      \<longrightarrow> \<not> has_harvest (committed (view w)) (ch_cropId dto)
        \<and> (\<exists>i j. harvest_rows (committed (view w3)) =
             harvest_rows (committed (view w)) @ [new_harvest dto' i, new_harvest dto j]))"
proof (intro conjI impI; (elim conjE)?)
  assume first: "run (createHarvest E u dto) w = (Inr a, w1)" and second: "run (createHarvest E u' dto') w1 = (r, w2)"
  note one = create_harvest_run [OF assms(1,2) first]
  have "has_harvest (committed (view w1)) (ch_cropId dto')"
    using one(3) [of a] assms(3) by (auto simp: has_harvest_def new_harvest_def)
  then show "\<exists>e. r = Inl e" "view w2 = view w1"
    using create_harvest_run(2) [OF assms(1) one(1) second] by simp_all
next
  assume "interleave (replicate 2 True @ replicate n False @ replicate m True)
         (createHarvest E u dto) (createHarvest E u' dto') w = (Return a, Return b, w3)"
  then obtain p w1 w2 where p: "advances 2 (createHarvest E u dto) w = (p, w1)"
    and q: "advances n (createHarvest E u' dto') w1 = (Return b, w2)" and rest: "advances m p w2 = (Return a, w3)"
    unfolding interleave_left interleave_right interleave_left_end by (auto split: prod.splits)
  have rest': "run p w2 = (Inr a, w3)" using run_advances [OF rest] by simp
  then have "\<nexists>e. p = Throw e" by auto
  then obtain crop where w1: "view w1 = view w" and no: "\<not> has_harvest (committed (view w)) (ch_cropId dto)"
    and crop: "p = insert_new_harvest E dto crop" using two_turns [OF assms(1) p] by blast
  obtain i where "harvest_rows (committed (view w2)) = harvest_rows (committed (view w1)) @ [new_harvest dto' i]"
    using create_harvest_run(3) [OF assms(1), of w1 u' dto' "Inr b" w2 b] run_advances [OF q] assms(2) w1 by auto
  moreover obtain j where "harvest_rows (committed (view w3)) = harvest_rows (committed (view w2)) @ [new_harvest dto j]"
    using insert_new_harvest_run [OF assms(1) rest' [unfolded crop]] by blast
  ultimately show "\<exists>i j. harvest_rows (committed (view w3)) =
       harvest_rows (committed (view w)) @ [new_harvest dto' i, new_harvest dto j]" by (auto simp: w1)
  show "\<not> has_harvest (committed (view w)) (ch_cropId dto)" by (rule no)
qed

definition demo_harvest_dto :: CreateHarvestDto where
  "demo_harvest_dto =
     \<lparr>ch_harvestDate = ''2024-06-01'', ch_amount = 40, ch_unit = ''kg'', ch_category = ''A'',
      ch_description = None, ch_cropId = 1\<rparr>"

text \<open>In memory both requests answer, on both schedules the first and in parallel the second too.\<close>

theorem harvest_check_races_witness:
  "(\<exists>a b w3 i j. interleave (replicate 2 True @ replicate 7 False @ replicate 5 True)
      (createHarvest mem_farms 7 demo_harvest_dto) (createHarvest mem_farms 7 demo_harvest_dto) demo_view
        = (Return a, Return b, w3)
      \<and> harvest_rows (committed w3) = [new_harvest demo_harvest_dto i, new_harvest demo_harvest_dto j])
   \<and> (\<exists>a w1 e. run (createHarvest mem_farms 7 demo_harvest_dto) demo_view = (Inr a, w1)
      \<and> run (createHarvest mem_farms 7 demo_harvest_dto) w1 = (Inl e, w1))"
proof
  let ?p = "createHarvest mem_farms 7 demo_harvest_dto"
  let ?i = "interleave (replicate 2 True @ replicate 7 False @ replicate 5 True) ?p ?p demo_view"
  note race = harvest_check_races [OF mem_farms_contract, of demo_view demo_harvest_dto demo_harvest_dto 7 _ _ 7]
  obtain p q w3 where pq: "?i = (p, q, w3)" by (metis prod_cases3)
  have "(case fst ?i of Return a \<Rightarrow> True | _ \<Rightarrow> False) \<and> (case fst (snd ?i) of Return b \<Rightarrow> True | _ \<Rightarrow> False)" by code_simp
  then obtain a b where i: "?i = (Return a, Return b, w3)" unfolding pq by (cases p; cases q) auto
  have "harvest_rows (committed demo_view) = []" by (simp add: demo_view_def demo_tables_def)
  with race [THEN conjunct2, rule_format, of 7 5 a b w3] i demo_ok
  show "\<exists>a b w3 i j. ?i = (Return a, Return b, w3)
      \<and> harvest_rows (committed w3) = [new_harvest demo_harvest_dto i, new_harvest demo_harvest_dto j]" by auto
  obtain r w1 where 1: "run ?p demo_view = (r, w1)" by fastforce
  have "case fst (run ?p demo_view) of Inr a \<Rightarrow> True | Inl e \<Rightarrow> False" by code_simp
  then obtain a where a: "r = Inr a" using 1 by (cases r) auto
  obtain r2 w2 where 2: "run ?p w1 = (r2, w2)" by fastforce
  from race [THEN conjunct1, rule_format, of a w1 r2 w2] 1 2 a demo_ok
  show "\<exists>a w1 e. run ?p demo_view = (Inr a, w1) \<and> run ?p w1 = (Inl e, w1)" by auto
qed

section \<open>Renaming a farm\<close>

lemma not_in_images: "(\<And>h. h \<in> A \<Longrightarrow> k \<noteq> f (g h)) \<Longrightarrow> k \<notin> f ` g ` A"
  by blast

text \<open>Renaming one farm to a name its owner does not use keeps names unique per owner.\<close>

lemma rename_unique:
  "distinct_ids farm_id rows \<Longrightarrow> unique_farm_names rows
    \<Longrightarrow> \<forall>g \<in> set rows. farm_id g = i \<longrightarrow> farm_userId g = u
    \<Longrightarrow> \<forall>g \<in> set rows. farm_userId g = u \<longrightarrow> farm_name g \<noteq> n \<Longrightarrow> uf_name dto = Some n
    \<Longrightarrow> unique_farm_names (map (\<lambda>g. if farm_id g = i then apply_farm_update dto g else g) rows)"
proof (induction rows)
  case (Cons g rows)
  let ?upd = "\<lambda>g. if farm_id g = i then apply_farm_update dto g else g"
  let ?key = "\<lambda>h. (farm_name h, farm_userId h)"
  have key: "farm_name (?upd h) = (if farm_id h = i then n else farm_name h)"
    "farm_userId (?upd h) = farm_userId h" for h
    using Cons.prems(5) by (simp_all add: apply_farm_update_def)
  have "unique_farm_names (map ?upd rows)"
    using Cons by (simp add: distinct_ids_def unique_farm_names_def)
  moreover have "?key (?upd g) \<notin> set (map ?key (map ?upd rows))"
    unfolding set_map
  proof (rule not_in_images)
    fix h
    assume h: "h \<in> set rows"
    have ids: "farm_id g \<noteq> farm_id h"
      using Cons.prems(1) h by (auto simp: distinct_ids_def)
    have names: "?key g \<noteq> ?key h"
    proof -
      have "?key g \<notin> ?key ` set rows"
        using Cons.prems(2) unfolding unique_farm_names_def list.map distinct.simps set_map by (rule conjunct1)
      with imageI [OF h, of ?key] show ?thesis by auto
    qed
    have own: "farm_id x = i \<Longrightarrow> farm_userId x = u" "farm_userId x = u \<Longrightarrow> farm_name x \<noteq> n"
      if "x = g \<or> x = h" for x
      using that h Cons.prems(3,4) by (simp_all, blast+)
    show "?key (?upd g) \<noteq> ?key (?upd h)"
      unfolding key using ids names own [of g] own [of h] by (simp split: if_splits) metis
  qed
  ultimately show ?case
    by (simp only: unique_farm_names_def list.map(2) distinct.simps(2) simp_thms)
qed (simp add: unique_farm_names_def)

text \<open>
  A user who renames a farm to a name that another user's farm has is refused with a
  conflict (or fails with a library's error) and nothing changes, although the user has no
  other farm of that name, so that the new name would break no constraint of the schema and
  the same user may create a farm of that name.
\<close>

theorem rename_checks_foreign_farms:
  assumes "farms_contract view E" and "tables_ok (committed (view w))"
    and "farm_owner (committed (view w)) i = Some (Some u)" and "uf_name dto = Some n" and "n \<noteq> []"
    and "f \<in> set (farm_rows (committed (view w)))" and "farm_name f = n" and "farm_userId f \<noteq> u"
    and "\<forall>g \<in> set (farm_rows (committed (view w))). farm_userId g = u \<longrightarrow> farm_name g \<noteq> n"
    and "run (updateFarm E u dto i) w = (r, w')" and "cf_name create = n"
  shows "(\<exists>e. r = Inl e \<and> (is_library_error e \<or> e = ConflictException ''Farm name already exists'')) \<and>
    view w' = view w \<and>
    unique_farm_names (map (\<lambda>g. if farm_id g = i then apply_farm_update dto g else g)
      (farm_rows (committed (view w)))) \<and>
    farms_refusal (CreateFarm u create) (committed (view w)) = None"
proof -
  let ?t = "committed (view w)"
  have "farm_id f \<noteq> i"
    using assms(3,6,8) owned_farm [OF assms(2,3)] assms(2)
    by (metis distinct_ids_unique tables_ok_def)
  then have taken: "name_taken ?t i (uf_name dto)" using assms(4-7) by (auto simp: name_taken_def)
  have refusal: "farms_refusal (UpdateFarm u dto i) ?t = Some (ConflictException ''Farm name already exists'')"
    using assms(3) taken by (simp add: guarded_def)
  have run: "run (farms_controller E (UpdateFarm u dto i)) w = (map_sum id FarmUpdated r, w')"
    using assms(10) by (cases r) (simp_all add: respond_def run_bind)
  note ref = farms_refines_run [OF farms_controller_refines [OF assms(1)] assms(2) run]
  have "unique_farm_names (map (\<lambda>g. if farm_id g = i then apply_farm_update dto g else g) (farm_rows ?t))"
  proof (rule rename_unique [OF _ _ _ assms(9,4)])
    show ids: "distinct_ids farm_id (farm_rows ?t)" and "unique_farm_names (farm_rows ?t)"
      using assms(2) by (simp_all add: tables_ok_def)
    show "\<forall>g \<in> set (farm_rows ?t). farm_id g = i \<longrightarrow> farm_userId g = u"
      using owned_farm [OF assms(2,3)] distinct_ids_unique [OF ids] by metis
  qed
  moreover have "farms_refusal (CreateFarm u create) ?t = None" using assms(9,11) by auto
  ultimately show ?thesis
    using ref(2-4) refusal by (cases r) auto
qed

theorem rename_checks_foreign_farms_witness:
  "run (updateFarm mem_farms 8 \<lparr>uf_name = Some ''Andes'', uf_location = None, uf_state = None,
       uf_area = None\<rparr> 2) demo_view =
     (Inl (ConflictException ''Farm name already exists''), demo_view)"
proof -
  let ?dto = "\<lparr>uf_name = Some ''Andes'', uf_location = None, uf_state = None, uf_area = None\<rparr>"
  obtain r v where run: "run (updateFarm mem_farms 8 ?dto 2) demo_view = (r, v)" by fastforce
  have "fst (run (updateFarm mem_farms 8 ?dto 2) demo_view)
      = Inl (ConflictException ''Farm name already exists'')"
    by code_simp
  moreover have "farm_owner demo_tables 2 = Some (Some 8)" by code_simp
  ultimately show ?thesis
    using rename_checks_foreign_farms [OF mem_farms_contract demo_ok, of 2 8 ?dto "''Andes''"
        "demo_farm 1 ''Andes'' 7" r v "demo_farm_dto\<lparr>cf_name := ''Andes''\<rparr>"] run
    by (auto simp: demo_view_def demo_tables_def demo_farm_def)
qed

end
