(* ===== verification/OutboxRelay.thy ===== *)
theory OutboxRelay
  imports Outbox Database "HOL-Library.Sublist"
begin

text \<open>
  The read side of the transactional outbox: \<open>BaseOutboxRelayService\<close>
  (\<open>libs/common/src/outbox/base-outbox-relay.service.ts\<close>) and the wiring of its two
  subclasses. The database's queries and the broker client are parameters; the
  \<open>draining\<close> flag is the process's own memory, next to the outside world. A failed
  \<open>emit\<close> may or may not have reached the broker.
\<close>

section \<open>The code\<close>

definition BATCH_SIZE :: nat where
  "BATCH_SIZE = 20"

datatype 'c targets = SingleClient 'c | RoutingTable "(string \<times> 'c list) list"

definition clientsFor :: "'c targets \<Rightarrow> string \<Rightarrow> 'c list" where
  "clientsFor targets pattern =
     (case targets of
        SingleClient c \<Rightarrow> [c]
      | RoutingTable table \<Rightarrow> (case map_of table pattern of None \<Rightarrow> [] | Some cs \<Rightarrow> cs))"

text \<open>A row as the \<open>SELECT\<close> gives it: \<open>id\<close>, \<open>pattern\<close>, \<open>payload\<close>.\<close>

type_synonym pending_row = "int \<times> string \<times> object"

record ('w, 'c) relay_env =
  re_tx :: "'w tx_manager"
  re_pending :: "nat \<Rightarrow> ('w, pending_row list) op"
  re_emit :: "json option \<Rightarrow> 'c \<Rightarrow> string \<Rightarrow> object \<Rightarrow> ('w, unit) op"
  re_mark :: "int \<Rightarrow> ('w, unit) op"
  re_bump :: "int \<Rightarrow> ('w, unit) op"

fun js_truthy :: "json \<Rightarrow> bool" where
  "js_truthy JNull = False"
| "js_truthy (JBool b) = b"
| "js_truthy (JNum n) = (n \<noteq> 0)"
| "js_truthy (JStr s) = (s \<noteq> [])"
| "js_truthy (JArr xs) = True"
| "js_truthy (JObj ps) = True"

text \<open>The carrier that the publish runs under, if the row has one.\<close>

definition row_carrier :: "object \<Rightarrow> json option" where
  "row_carrier payload =
     (case map_of payload TRACE_CARRIER_KEY of
        Some c \<Rightarrow> if js_truthy c then Some c else None
      | None \<Rightarrow> None)"

definition drain_row :: "('w, 'c) relay_env \<Rightarrow> 'c targets \<Rightarrow> pending_row \<Rightarrow> nat \<Rightarrow> ('w, nat) prog" where
  "drain_row E targets row published =
     (case row of (i, pattern, stored) \<Rightarrow>
        let clients = clientsFor targets pattern in
        if clients = [] then Return published
        else
          let carrier = row_carrier stored; payload = drop_prop TRACE_CARRIER_KEY stored in
          try_catch
            (bind (for_each (\<lambda>client. atom (re_emit E carrier client pattern payload)) clients) (\<lambda>_.
             bind (atom (re_mark E i)) (\<lambda>_.
             Return (published + 1))))
            (\<lambda>err.
             bind (atom (re_bump E i)) (\<lambda>_.
             Return published)))"

definition drainOnce :: "('w, 'c) relay_env \<Rightarrow> 'c targets \<Rightarrow> ('w, unit) prog" where
  "drainOnce E targets =
     transaction (re_tx E)
       (bind (atom (re_pending E BATCH_SIZE)) (\<lambda>rows.
        bind (fold_each (drain_row E targets) rows 0) (\<lambda>published.
        Return ())))"

text \<open>
  A program over the outside world, run in a process that also has the flag; reading and
  setting the flag happens without an \<open>await\<close> in between, in one step.
\<close>

primrec in_process :: "('w, 'a) prog \<Rightarrow> ('w \<times> bool, 'a) prog" where
  "in_process (Return a) = Return a"
| "in_process (Throw e) = Throw e"
| "in_process (Step f) =
     Step (\<lambda>(w, flag). case (map_prod in_process id \<circ> f) w of (p, w') \<Rightarrow> (p, (w', flag)))"

definition enter_drain :: "('w \<times> bool, bool) op" where
  "enter_drain = (\<lambda>(w, flag). (Inr flag, (w, True)))"

definition leave_drain :: "('w \<times> bool, unit) op" where
  "leave_drain = (\<lambda>(w, flag). (Inr (), (w, False)))"

definition drain :: "('w, 'c) relay_env \<Rightarrow> 'c targets \<Rightarrow> string option \<Rightarrow> ('w \<times> bool, unit) prog" where
  "drain E targets enabled =
     (if enabled = Some ''false'' then Return ()
      else
        bind (atom enter_drain) (\<lambda>draining.
        if draining then Return ()
        else
          bind (try_catch (in_process (drainOnce E targets)) (\<lambda>err. Return ())) (\<lambda>_.
          atom leave_drain)))"

text \<open>The wiring of \<open>AuthOutboxRelayService\<close> and of the farms' \<open>OutboxRelayService\<close>.\<close>

definition auth_targets :: "'c \<Rightarrow> 'c \<Rightarrow> 'c targets" where
  "auth_targets farmsClient notificationsClient =
     RoutingTable
       [(''user.created'', [farmsClient, notificationsClient]),
        (''user.updated'', [farmsClient]),
        (''user.password_reset_requested'', [notificationsClient])]"

definition farms_targets :: "'c \<Rightarrow> 'c targets" where
  "farms_targets tracingClient = SingleClient tracingClient"

section \<open>The contract\<close>

text \<open>
  The outbox table and the messages the broker has accepted, in order. A pending query
  answers unpublished rows in the order of their ids, at most as many as asked; rows that
  another replica has locked may be missing (\<open>exclusive\<close> says there is no other replica).
\<close>

type_synonym 'c message = "'c \<times> string \<times> object"

record 'c relay_view = "outbox_row list db" +
  sent :: "'c message list"

definition pending :: "outbox_row list \<Rightarrow> pending_row list" where
  "pending t = map (\<lambda>r. (ob_id r, ob_pattern r, ob_payload r))
     (filter (\<lambda>r. ob_publishedAt r = None) (sort_key ob_id t))"

definition mark_row :: "int \<Rightarrow> int \<Rightarrow> outbox_row list \<Rightarrow> outbox_row list" where
  "mark_row now i t = map (\<lambda>r. if ob_id r = i then r\<lparr>ob_publishedAt := Some now\<rparr> else r) t"

definition bump_row :: "int \<Rightarrow> outbox_row list \<Rightarrow> outbox_row list" where
  "bump_row i t = map (\<lambda>r. if ob_id r = i then r\<lparr>ob_attempts := ob_attempts r + 1\<rparr> else r) t"

definition delivers :: "('w \<Rightarrow> 'c relay_view) \<Rightarrow> ('w, unit) op \<Rightarrow> 'c message \<Rightarrow> bool" where
  "delivers view f m \<longleftrightarrow>
     (\<forall>w. case f w of
        (Inl e, w') \<Rightarrow> is_library_error e \<and>
          (view w' = view w \<or> view w' = (view w)\<lparr>sent := sent (view w) @ [m]\<rparr>)
      | (Inr _, w') \<Rightarrow> view w' = (view w)\<lparr>sent := sent (view w) @ [m]\<rparr>)"

definition relay_contract :: "bool \<Rightarrow> ('w \<Rightarrow> 'c relay_view) \<Rightarrow> ('w, 'c) relay_env \<Rightarrow> bool" where
  "relay_contract exclusive view E \<longleftrightarrow>
     tx_contract view (re_tx E) \<and>
     (\<forall>n. implements view (re_pending E n)
        (reads (\<lambda>v rows. \<exists>t. working v = Some t \<and> subseq rows (pending t) \<and> length rows \<le> n \<and>
           (exclusive \<longrightarrow> rows = take n (pending t))))) \<and>
     (\<forall>k c p b. delivers view (re_emit E k c p b) (c, p, b)) \<and>
     (\<forall>i. implements view (re_mark E i)
        (\<lambda>v _ v'. \<exists>t now. working v = Some t \<and> v' = v\<lparr>working := Some (mark_row now i t)\<rparr>)) \<and>
     (\<forall>i. implements view (re_bump E i)
        (\<lambda>v _ v'. \<exists>t. working v = Some t \<and> v' = v\<lparr>working := Some (bump_row i t)\<rparr>))"

lemma relay_contractD:
  assumes "relay_contract x view E"
  shows "tx_contract view (re_tx E)"
    and "implements view (re_pending E n)
        (reads (\<lambda>v rows. \<exists>t. working v = Some t \<and> subseq rows (pending t) \<and> length rows \<le> n \<and>
           (x \<longrightarrow> rows = take n (pending t))))"
    and "delivers view (re_emit E k c p b) (c, p, b)"
    and "implements view (re_mark E i)
        (\<lambda>v _ v'. \<exists>t now. working v = Some t \<and> v' = v\<lparr>working := Some (mark_row now i t)\<rparr>)"
    and "implements view (re_bump E i)
        (\<lambda>v _ v'. \<exists>t. working v = Some t \<and> v' = v\<lparr>working := Some (bump_row i t)\<rparr>)"
  using assms by (simp_all add: relay_contract_def)

lemma vwp_emit:
  assumes "delivers view f m" and "I v" and "I (v\<lparr>sent := sent v @ [m]\<rparr>)"
    and "\<And>e. is_library_error e \<Longrightarrow> X e v"
    and "\<And>e. is_library_error e \<Longrightarrow> X e (v\<lparr>sent := sent v @ [m]\<rparr>)"
    and "Q () (v\<lparr>sent := sent v @ [m]\<rparr>)"
  shows "vwp view I (atom f) Q X v"
  unfolding vwp_def
proof (intro allI impI)
  fix w
  assume w: "view w = v"
  obtain r w' where f: "f w = (r, w')" by (cases "f w")
  from assms(1) have "case f w of
        (Inl e, w') \<Rightarrow> is_library_error e \<and>
          (view w' = view w \<or> view w' = (view w)\<lparr>sent := sent (view w) @ [m]\<rparr>)
      | (Inr _, w') \<Rightarrow> view w' = (view w)\<lparr>sent := sent (view w) @ [m]\<rparr>"
    unfolding delivers_def by (rule spec)
  with w f assms(2-6) show "wp (\<lambda>w. I (view w)) (atom f) (\<lambda>a w. Q a (view w)) (\<lambda>e w. X e (view w)) w"
    by (auto simp: wp_atom split: sum.splits)
qed

end
