(* ===== verification/RelaySafety.thy ===== *)
theory RelaySafety
  imports OutboxRelay
begin

text \<open>
  Safety of the outbox relay: what holds at every step of a drain, whatever fails.
\<close>

section \<open>What a drain keeps\<close>

text \<open>The messages of a row, and of several rows in order.\<close>

definition row_messages :: "'c targets \<Rightarrow> pending_row \<Rightarrow> 'c message list" where
  "row_messages targets row =
     (case row of (i, pattern, stored) \<Rightarrow>
        map (\<lambda>c. (c, pattern, drop_prop TRACE_CARRIER_KEY stored)) (clientsFor targets pattern))"

definition emissions :: "'c targets \<Rightarrow> pending_row list \<Rightarrow> 'c message list" where
  "emissions targets rows = concat (map (row_messages targets) rows)"

definition as_pending :: "outbox_row \<Rightarrow> pending_row" where
  "as_pending r = (ob_id r, ob_pattern r, ob_payload r)"

text \<open>A published row has reached every target of its pattern.\<close>

definition published_ok :: "'c targets \<Rightarrow> outbox_row list \<Rightarrow> 'c message list \<Rightarrow> bool" where
  "published_ok targets t ms \<longleftrightarrow>
     (\<forall>r \<in> set t. ob_publishedAt r \<noteq> None \<longrightarrow>
        clientsFor targets (ob_pattern r) \<noteq> [] \<and>
        set (row_messages targets (as_pending r)) \<subseteq> set ms)"

text \<open>Rows are never lost or rewritten, publication is never undone, attempts only grow.\<close>

definition evolved :: "outbox_row \<Rightarrow> outbox_row \<Rightarrow> bool" where
  "evolved r r' \<longleftrightarrow>
     as_pending r' = as_pending r \<and> ob_attempts r \<le> ob_attempts r' \<and>
     (ob_publishedAt r \<noteq> None \<longrightarrow> ob_publishedAt r' \<noteq> None)"

lemma published_ok_more: "published_ok targets t ms \<Longrightarrow> published_ok targets t (ms @ ms')"
  unfolding published_ok_def by auto

lemma evolved_refl: "list_all2 evolved t t"
  by (auto simp: evolved_def intro: list.rel_refl)

lemma evolved_mark: "list_all2 evolved t t' \<Longrightarrow> list_all2 evolved t (mark_row now i t')"
  unfolding mark_row_def list_all2_map2
  by (erule list_all2_mono) (auto simp: evolved_def as_pending_def)

lemma evolved_bump: "list_all2 evolved t t' \<Longrightarrow> list_all2 evolved t (bump_row i t')"
  unfolding bump_row_def list_all2_map2
  by (erule list_all2_mono) (auto simp: evolved_def as_pending_def)

lemma published_bump: "published_ok targets t ms \<Longrightarrow> published_ok targets (bump_row i t) ms"
  by (fastforce simp: published_ok_def bump_row_def as_pending_def split: if_splits)

lemma pending_rows: "row \<in> set (pending t) \<Longrightarrow> \<exists>r \<in> set t. row = as_pending r \<and> ob_publishedAt r = None"
  by (auto simp: pending_def as_pending_def)

lemma evolved_row:
  assumes "list_all2 evolved t t'" and "r' \<in> set t'"
  shows "\<exists>r \<in> set t. as_pending r' = as_pending r"
  using assms by (induction rule: list_all2_induct) (auto simp: evolved_def)

lemma published_mark:
  assumes ids: "distinct_ids ob_id t" and ev: "list_all2 evolved t t'" and ok: "published_ok targets t' ms"
    and row: "row \<in> set (pending t)" and "clientsFor targets (fst (snd row)) \<noteq> []"
    and sent: "set (row_messages targets row) \<subseteq> set ms"
  shows "published_ok targets (mark_row now (fst row) t') ms"
proof -
  obtain r where r: "r \<in> set t" "row = as_pending r" using pending_rows [OF row] by blast
  have same: "as_pending r' = row" if r': "r' \<in> set t'" "ob_id r' = fst row" for r'
  proof -
    obtain s where s: "s \<in> set t" "as_pending r' = as_pending s" using evolved_row [OF ev r'(1)] by blast
    then have "ob_id s = ob_id r" using r'(2) r(2) by (simp add: as_pending_def)
    with distinct_ids_unique [OF ids s(1) r(1)] s(2) r(2) show ?thesis by simp
  qed
  have "clientsFor targets (ob_pattern x) \<noteq> [] \<and> set (row_messages targets (as_pending x)) \<subseteq> set ms"
    if x: "x \<in> set (mark_row now (fst row) t')" "ob_publishedAt x \<noteq> None" for x
  proof -
    from x(1) obtain y where y: "y \<in> set t'"
      "x = (if ob_id y = fst row then y\<lparr>ob_publishedAt := Some now\<rparr> else y)"
      by (auto simp: mark_row_def)
    have xy: "as_pending x = as_pending y" using y(2) by (simp add: as_pending_def)
    show ?thesis
    proof (cases "ob_id y = fst row")
      case True
      from same [OF y(1) this] xy assms(5) sent show ?thesis by (auto simp: as_pending_def)
    next
      case False
      with y x(2) ok show ?thesis by (simp add: published_ok_def)
    qed
  qed
  then show ?thesis by (simp add: published_ok_def)
qed

text \<open>The state in the middle of a drain that has been through the rows \<open>done_rows\<close>.\<close>

definition draining_ok :: "'c targets \<Rightarrow> 'c relay_view \<Rightarrow> pending_row list \<Rightarrow> 'c relay_view \<Rightarrow> bool" where
  "draining_ok targets v0 done_rows v \<longleftrightarrow>
     committed v = committed v0 \<and>
     (\<exists>t. working v = Some t \<and> list_all2 evolved (committed v0) t \<and> published_ok targets t (sent v)) \<and>
     (\<exists>ms. sent v = sent v0 @ ms \<and> subseq ms (emissions targets done_rows))"

text \<open>The state at any moment of a drain.\<close>

definition drain_inv :: "'c targets \<Rightarrow> 'c relay_view \<Rightarrow> 'c relay_view \<Rightarrow> bool" where
  "drain_inv targets v0 v \<longleftrightarrow>
     list_all2 evolved (committed v0) (committed v) \<and> published_ok targets (committed v) (sent v) \<and>
     (\<exists>ms. sent v = sent v0 @ ms \<and> subseq ms (emissions targets (pending (committed v0))))"

lemma emissions_append: "emissions targets (xs @ ys) = emissions targets xs @ emissions targets ys"
  by (simp add: emissions_def)

lemma emissions_subseq: "subseq xs ys \<Longrightarrow> subseq (emissions targets xs) (emissions targets ys)"
proof (induction xs ys rule: list_emb.induct)
  case (list_emb_Cons xs ys y)
  then show ?case by (auto simp: emissions_def intro: subseq_order.order_trans)
next
  case (list_emb_Cons2 x y xs ys)
  then show ?case by (auto simp: emissions_def intro: list_emb_append_mono)
qed (simp add: emissions_def)

lemma draining_inv:
  assumes "draining_ok targets v0 done_rows v" and "subseq done_rows (pending (committed v0))"
    and "published_ok targets (committed v0) (sent v0)"
  shows "drain_inv targets v0 v"
  using assms emissions_subseq [OF assms(2), of targets]
  unfolding draining_ok_def drain_inv_def
  by (auto intro: evolved_refl published_ok_more subseq_order.order_trans)

text \<open>In the middle of a row: the messages for the clients \<open>zs\<close> are out.\<close>

definition emitting_ok :: "'c targets \<Rightarrow> 'c relay_view \<Rightarrow> pending_row list \<Rightarrow> 'c message list
    \<Rightarrow> 'c relay_view \<Rightarrow> bool" where
  "emitting_ok targets v0 done_rows out v \<longleftrightarrow>
     committed v = committed v0 \<and>
     (\<exists>t. working v = Some t \<and> list_all2 evolved (committed v0) t \<and> published_ok targets t (sent v)) \<and>
     (\<exists>ms. sent v = sent v0 @ ms @ out \<and> subseq ms (emissions targets done_rows))"

lemma emitting_start: "draining_ok targets v0 done_rows v \<Longrightarrow> emitting_ok targets v0 done_rows [] v"
  by (simp add: draining_ok_def emitting_ok_def)

lemma emitting_next:
  "emitting_ok targets v0 done_rows out v
    \<Longrightarrow> emitting_ok targets v0 done_rows (out @ [m]) (v\<lparr>sent := sent v @ [m]\<rparr>)"
  by (auto simp: emitting_ok_def intro: published_ok_more)

lemma emitting_draining:
  assumes "emitting_ok targets v0 done_rows out v" and "prefix out (row_messages targets row)"
  shows "draining_ok targets v0 (done_rows @ [row]) v"
proof -
  have "subseq (ms @ out) (emissions targets (done_rows @ [row]))"
    if "subseq ms (emissions targets done_rows)" for ms
    using that assms(2) by (simp add: emissions_append emissions_def list_emb_append_mono prefix_imp_subseq)
  then show ?thesis using assms(1) by (auto simp: emitting_ok_def draining_ok_def)
qed

lemma vwp_emit_all:
  assumes E: "relay_contract x view E" and row: "row = (i, pattern, stored)"
    and start: "draining_ok targets v0 done_rows v"
    and sub: "subseq (done_rows @ [row]) (pending (committed v0))"
    and ok: "published_ok targets (committed v0) (sent v0)"
  shows "vwp view (drain_inv targets v0)
    (for_each (\<lambda>c. atom (re_emit E k c pattern (drop_prop TRACE_CARRIER_KEY stored))) (clientsFor targets pattern))
    (\<lambda>_ v'. draining_ok targets v0 (done_rows @ [row]) v' \<and> set (row_messages targets row) \<subseteq> set (sent v'))
    (\<lambda>e v'. draining_ok targets v0 (done_rows @ [row]) v') v"
proof -
  let ?m = "\<lambda>c. (c, pattern, drop_prop TRACE_CARRIER_KEY stored)"
  have msgs: "row_messages targets row = map ?m (clientsFor targets pattern)"
    by (simp add: row row_messages_def)
  let ?J = "\<lambda>ys v'. \<exists>zs. clientsFor targets pattern = zs @ ys \<and> emitting_ok targets v0 done_rows (map ?m zs) v'"
  have drains: "draining_ok targets v0 (done_rows @ [row]) v'"
    if "emitting_ok targets v0 done_rows (map ?m zs) v'" "clientsFor targets pattern = zs @ ys" for zs ys v'
    by (rule emitting_draining [OF that(1)]) (simp add: msgs that(2))
  note inv = draining_inv [OF drains sub ok]
  show ?thesis
  proof (rule vwp_for_each [where J = ?J])
    show "?J (clientsFor targets pattern) v" using emitting_start [OF start] by auto
  next
    fix v'
    assume "?J [] v'"
    then have e: "emitting_ok targets v0 done_rows (row_messages targets row) v'" by (simp add: msgs)
    then have "set (row_messages targets row) \<subseteq> set (sent v')" by (auto simp: emitting_ok_def)
    with e msgs show "drain_inv targets v0 v' \<and> draining_ok targets v0 (done_rows @ [row]) v' \<and>
        set (row_messages targets row) \<subseteq> set (sent v')"
      using drains [of "clientsFor targets pattern" v' "[]"] inv [of "clientsFor targets pattern" v' "[]"]
      by simp
  next
    fix c ys v'
    assume "?J (c # ys) v'"
    then obtain zs where zs: "clientsFor targets pattern = zs @ c # ys"
      "emitting_ok targets v0 done_rows (map ?m zs) v'" by blast
    have out: "emitting_ok targets v0 done_rows (map ?m (zs @ [c])) (v'\<lparr>sent := sent v' @ [?m c]\<rparr>)"
      using emitting_next [OF zs(2), of "?m c"] by simp
    have split: "clientsFor targets pattern = (zs @ [c]) @ ys" using zs(1) by simp
    show "vwp view (drain_inv targets v0) (atom (re_emit E k c pattern (drop_prop TRACE_CARRIER_KEY stored)))
        (\<lambda>_. ?J ys) (\<lambda>e v'. draining_ok targets v0 (done_rows @ [row]) v') v'"
      by (rule vwp_emit [OF relay_contractD(3) [OF E]])
        (use inv [OF zs(2,1)] inv [OF out split] drains [OF zs(2,1)] drains [OF out split] out split in blast)+
  qed
qed

lemma draining_mark:
  assumes d: "draining_ok targets v0 (done_rows @ [row]) v" and ids: "distinct_ids ob_id (committed v0)"
    and sent: "set (row_messages targets row) \<subseteq> set (sent v)"
    and row: "row \<in> set (pending (committed v0))" "clientsFor targets (fst (snd row)) \<noteq> []"
    and t: "working v = Some t"
  shows "draining_ok targets v0 (done_rows @ [row]) (v\<lparr>working := Some (mark_row now (fst row) t)\<rparr>)"
  using d t published_mark [OF ids _ _ row sent] by (auto simp: draining_ok_def intro: evolved_mark)

lemma draining_bump:
  "draining_ok targets v0 rows v \<Longrightarrow> working v = Some t
    \<Longrightarrow> draining_ok targets v0 rows (v\<lparr>working := Some (bump_row i t)\<rparr>)"
  by (auto simp: draining_ok_def intro: evolved_bump published_bump)

lemma draining_skip:
  "draining_ok targets v0 rows v \<Longrightarrow> draining_ok targets v0 (rows @ [row]) v"
  by (auto simp: draining_ok_def emissions_append intro: subseq_order.order_trans)

lemma vwp_drain_row:
  assumes E: "relay_contract x view E" and ids: "distinct_ids ob_id (committed v0)"
    and ok: "published_ok targets (committed v0) (sent v0)"
    and sub: "subseq (done_rows @ [row]) (pending (committed v0))"
    and start: "draining_ok targets v0 done_rows v"
  shows "vwp view (drain_inv targets v0) (drain_row E targets row n)
    (\<lambda>_. draining_ok targets v0 (done_rows @ [row]))
    (\<lambda>e v'. draining_ok targets v0 (done_rows @ [row]) v') v"
proof -
  obtain i pattern stored where row: "row = (i, pattern, stored)" by (cases row)
  note inv = draining_inv [OF _ sub ok]
  have pend: "row \<in> set (pending (committed v0))"
    using list_emb_set [OF sub, of row] by auto
  show ?thesis
  proof (cases "clientsFor targets pattern = []")
    case True
    then show ?thesis
      using draining_skip [OF start] inv by (simp add: drain_row_def row) (auto intro!: vwp_return)
  next
    case False
    then have clients: "clientsFor targets (fst (snd row)) \<noteq> []" by (simp add: row)
    have mark: "vwp view (drain_inv targets v0) (bind (atom (re_mark E i)) (\<lambda>_. Return (n + 1)))
        (\<lambda>_. draining_ok targets v0 (done_rows @ [row])) (\<lambda>e. draining_ok targets v0 (done_rows @ [row])) v'"
      if v': "draining_ok targets v0 (done_rows @ [row]) v'" "set (row_messages targets row) \<subseteq> set (sent v')" for v'
      by (rule vwp_bind, rule vwp_atom [OF relay_contractD(4) [OF E]])
        (use inv v' draining_mark [OF v'(1) ids v'(2) pend clients] in \<open>auto simp: row intro!: vwp_return\<close>)
    have bump: "vwp view (drain_inv targets v0) (bind (atom (re_bump E i)) (\<lambda>_. Return n))
        (\<lambda>_. draining_ok targets v0 (done_rows @ [row])) (\<lambda>e. draining_ok targets v0 (done_rows @ [row])) v'"
      if v': "draining_ok targets v0 (done_rows @ [row]) v'" for v'
      by (rule vwp_bind, rule vwp_atom [OF relay_contractD(5) [OF E]])
        (use inv v' draining_bump [OF v'] in \<open>auto intro!: vwp_return\<close>)
    show ?thesis
      unfolding drain_row_def row prod.case Let_def if_not_P [OF False]
      apply (rule vwp_try_catch, rule vwp_bind)
      apply (rule vwp_mono [OF vwp_emit_all [OF E row start sub ok]])
        apply assumption
       apply (rule vwp_mono [OF mark])
           apply (auto simp: row intro: bump [unfolded row])
      done
  qed
qed

lemma draining_start:
  "published_ok targets (committed v0) (sent v0)
    \<Longrightarrow> draining_ok targets v0 [] (v0\<lparr>working := Some (committed v0)\<rparr>)"
  by (simp add: draining_ok_def evolved_refl emissions_def)

text \<open>The end of the transaction, either way.\<close>

lemma draining_end:
  assumes "draining_ok targets v0 rows v" and "subseq rows (pending (committed v0))"
    and ok: "published_ok targets (committed v0) (sent v0)"
  shows "drain_inv targets v0 v" and "drain_inv targets v0 (v\<lparr>working := None\<rparr>)"
    and "working v = Some t \<Longrightarrow> drain_inv targets v0 (v\<lparr>committed := t, working := None\<rparr>)"
  using draining_inv [OF assms] assms(1) emissions_subseq [OF assms(2), of targets]
  by (auto simp: drain_inv_def draining_ok_def intro: subseq_order.order_trans)

lemma vwp_drainOnce:
  assumes E: "relay_contract x view E" and ids: "distinct_ids ob_id (committed v0)"
    and ok: "published_ok targets (committed v0) (sent v0)"
  shows "vwp view (drain_inv targets v0) (drainOnce E targets) (\<lambda>_. drain_inv targets v0)
    (\<lambda>e. drain_inv targets v0) v0"
  unfolding drainOnce_def
proof (rule vwp_transaction [OF relay_contractD(1) [OF E],
    where F = "\<lambda>e v1. \<exists>rows. subseq rows (pending (committed v0)) \<and> draining_ok targets v0 rows v1 \<or> v1 = v0"])
  let ?F = "\<lambda>v1. \<exists>rows. subseq rows (pending (committed v0)) \<and> draining_ok targets v0 rows v1 \<or> v1 = v0"
  let ?v = "v0\<lparr>working := Some (committed v0)\<rparr>"
  note fin = draining_end [OF _ _ ok]
  have base: "drain_inv targets v0 v0" "drain_inv targets v0 (v0\<lparr>working := None\<rparr>)"
    using ok by (simp_all add: drain_inv_def evolved_refl)
  show "drain_inv targets v0 v0" by (rule base)
  show "drain_inv targets v0 ?v" using fin(1) [OF draining_start [OF ok]] by simp
  show "\<exists>rows. subseq rows (pending (committed v0)) \<and> draining_ok targets v0 rows v0 \<or> v0 = v0"
    by simp
  show "drain_inv targets v0 v1 \<and> drain_inv targets v0 (v1\<lparr>working := None\<rparr>) \<and>
      drain_inv targets v0 v1 \<and> drain_inv targets v0 (v1\<lparr>working := None\<rparr>)" if "?F v1" for v1
    using that fin(1,2) base by auto
  have rows: "vwp view (drain_inv targets v0) (fold_each (drain_row E targets) rows 0)
      (\<lambda>_. draining_ok targets v0 rows) (\<lambda>e. ?F) ?v"
    if sub: "subseq rows (pending (committed v0))" for rows
  proof (rule vwp_fold_each [where J = "\<lambda>ys s v'. \<exists>zs. rows = zs @ ys \<and> draining_ok targets v0 zs v'"])
    show "\<exists>zs. rows = zs @ rows \<and> draining_ok targets v0 zs ?v" using draining_start [OF ok] by simp
  next
    fix n v'
    assume "\<exists>zs. rows = zs @ [] \<and> draining_ok targets v0 zs v'"
    then show "drain_inv targets v0 v' \<and> draining_ok targets v0 rows v'" using fin(1) sub by auto
  next
    fix row ys n v'
    assume "\<exists>zs. rows = zs @ row # ys \<and> draining_ok targets v0 zs v'"
    then obtain zs where zs: "rows = (zs @ [row]) @ ys" "draining_ok targets v0 zs v'" by auto
    have part: "subseq (zs @ [row]) (pending (committed v0))"
      using subseq_order.order_trans [OF prefix_imp_subseq [OF prefixI [OF zs(1)]] sub] .
    show "vwp view (drain_inv targets v0) (drain_row E targets row n)
        (\<lambda>s' v'. \<exists>zs. rows = zs @ ys \<and> draining_ok targets v0 zs v') (\<lambda>e. ?F) v'"
      by (rule vwp_mono [OF vwp_drain_row [OF E ids ok part zs(2)]]) (use zs(1) part in blast)+
  qed
  show "vwp view (drain_inv targets v0)
     (bind (atom (re_pending E BATCH_SIZE)) (\<lambda>rows.
        bind (fold_each (drain_row E targets) rows 0) (\<lambda>published. Return ())))
     (\<lambda>a v1. (\<forall>e. is_library_error e \<longrightarrow> ?F v1) \<and>
        (\<forall>t. working v1 = Some t \<longrightarrow> drain_inv targets v0 (v1\<lparr>committed := t, working := None\<rparr>) \<and>
           drain_inv targets v0 (v1\<lparr>committed := t, working := None\<rparr>)))
     (\<lambda>e. ?F) ?v"
  proof (rule vwp_bind, rule vwp_atom [OF relay_contractD(2) [OF E]])
    show "drain_inv targets v0 ?v" using fin(1) [OF draining_start [OF ok]] by simp
    show "?F ?v" using draining_start [OF ok] by auto
    fix rows v'
    assume "reads (\<lambda>v rows. \<exists>t. working v = Some t \<and> subseq rows (pending t) \<and>
      length rows \<le> BATCH_SIZE \<and> (x \<longrightarrow> rows = take BATCH_SIZE (pending t))) ?v rows v'"
    then have v': "v' = ?v" and sub: "subseq rows (pending (committed v0))" by (auto simp: reads_def)
    have "vwp view (drain_inv targets v0) (bind (fold_each (drain_row E targets) rows 0) (\<lambda>published. Return ()))
       (\<lambda>a v1. (\<forall>e. is_library_error e \<longrightarrow> ?F v1) \<and>
        (\<forall>t. working v1 = Some t \<longrightarrow> drain_inv targets v0 (v1\<lparr>committed := t, working := None\<rparr>) \<and>
           drain_inv targets v0 (v1\<lparr>committed := t, working := None\<rparr>)))
       (\<lambda>e. ?F) ?v"
      by (rule vwp_bind, rule vwp_mono [OF rows [OF sub]]) (use fin sub in \<open>auto intro!: vwp_return\<close>)
    with v' fin(1) [OF draining_start [OF ok]] show "drain_inv targets v0 v' \<and>
        vwp view (drain_inv targets v0) (bind (fold_each (drain_row E targets) rows 0) (\<lambda>published. Return ()))
       (\<lambda>a v1. (\<forall>e. is_library_error e \<longrightarrow> ?F v1) \<and>
        (\<forall>t. working v1 = Some t \<longrightarrow> drain_inv targets v0 (v1\<lparr>committed := t, working := None\<rparr>) \<and>
           drain_inv targets v0 (v1\<lparr>committed := t, working := None\<rparr>)))
       (\<lambda>e. ?F) v'"
      by simp
  qed
qed

section \<open>A broker and an outbox in memory\<close>

definition mem_relay :: "(string relay_view, string) relay_env" where
  "mem_relay =
     \<lparr>re_tx =
        \<lparr>tx_begin = \<lambda>v. (Inr (), v\<lparr>working := Some (committed v)\<rparr>),
         tx_commit = \<lambda>v. (case working v of
            None \<Rightarrow> (Inl (ErrorExc ''TransactionNotStartedError'' []), v)
          | Some t \<Rightarrow> (Inr (), v\<lparr>committed := t, working := None\<rparr>)),
         tx_rollback = \<lambda>v. (Inr (), v\<lparr>working := None\<rparr>)\<rparr>,
      re_pending = \<lambda>n v. (case working v of
            None \<Rightarrow> (Inl (ErrorExc ''QueryFailedError'' []), v)
          | Some t \<Rightarrow> (Inr (take n (pending t)), v)),
      re_emit = \<lambda>k c p b v. (Inr (), v\<lparr>sent := sent v @ [(c, p, b)]\<rparr>),
      re_mark = \<lambda>i v. (case working v of
            None \<Rightarrow> (Inl (ErrorExc ''QueryFailedError'' []), v)
          | Some t \<Rightarrow> (Inr (), v\<lparr>working := Some (mark_row 0 i t)\<rparr>)),
      re_bump = \<lambda>i v. (case working v of
            None \<Rightarrow> (Inl (ErrorExc ''QueryFailedError'' []), v)
          | Some t \<Rightarrow> (Inr (), v\<lparr>working := Some (bump_row i t)\<rparr>))\<rparr>"

lemma subseq_take: "subseq (take n xs) xs"
  by (rule prefix_imp_subseq) (rule take_is_prefix)

lemma mem_relay_contract: "relay_contract True id mem_relay"
  unfolding relay_contract_def
  by (auto simp: mem_relay_def tx_contract_def implements_def delivers_def reads_def subseq_take
      split: option.split)

text \<open>Two events of one user, for the routing of \<open>auth\<close>.\<close>

definition demo_outbox :: "string relay_view" where
  "demo_outbox =
     \<lparr>committed =
        [new_outbox_row ''user.created'' [(''id'', JNum 4), (TRACE_CARRIER_KEY, JObj [])] 1,
         new_outbox_row ''user.updated'' [(''id'', JNum 4)] 2],
      working = None, sent = []\<rparr>"

section \<open>At-least-once publication\<close>

text \<open>
  C10. A drain, run to its end or cut off by a crash at any step, with any of its queries
  and publishes failing: no outbox row is lost or rewritten, a row that is marked published
  has reached the broker for every target of its pattern, and what was sent is, in the
  order of the row ids and at most once per row and target, messages of rows that were
  pending, without the trace carrier.
\<close>

theorem drain_publishes_before_marking:
  assumes "relay_contract x view E" and "distinct_ids ob_id (committed (view w))"
    and "published_ok targets (committed (view w)) (sent (view w))"
  shows "drain_inv targets (view w) (view (snd (run (drainOnce E targets) w))) \<and>
    (\<forall>n. drain_inv targets (view w) (view (crash_after n (drainOnce E targets) w)))"
proof (intro conjI allI)
  note spec = vwp_drainOnce [OF assms]
  show "drain_inv targets (view w) (view (crash_after n (drainOnce E targets) w))" for n
    by (rule vwp_crash [OF spec])
  obtain r w' where run: "run (drainOnce E targets) w = (r, w')" by fastforce
  with vwp_run [OF spec run] show "drain_inv targets (view w) (view (snd (run (drainOnce E targets) w)))"
    by simp
qed

theorem drain_publishes_before_marking_witness:
  "(let v = snd (run (drainOnce mem_relay (auth_targets ''farms'' ''notifications'')) demo_outbox) in
     drain_inv (auth_targets ''farms'' ''notifications'') demo_outbox v \<and> pending (committed v) = [] \<and>
     sent v = [(''farms'', ''user.created'', [(''id'', JNum 4)]),
               (''notifications'', ''user.created'', [(''id'', JNum 4)]),
               (''farms'', ''user.updated'', [(''id'', JNum 4)])])"
proof -
  have "distinct_ids ob_id (committed (id demo_outbox))" by code_simp
  moreover have "published_ok (auth_targets ''farms'' ''notifications'') (committed (id demo_outbox))
      (sent (id demo_outbox))"
    by (simp add: published_ok_def demo_outbox_def new_outbox_row_def)
  moreover have "pending (committed (snd (run (drainOnce mem_relay (auth_targets ''farms'' ''notifications''))
      demo_outbox))) = []"
    by code_simp
  moreover have "sent (snd (run (drainOnce mem_relay (auth_targets ''farms'' ''notifications'')) demo_outbox))
      = [(''farms'', ''user.created'', [(''id'', JNum 4)]),
         (''notifications'', ''user.created'', [(''id'', JNum 4)]),
         (''farms'', ''user.updated'', [(''id'', JNum 4)])]"
    by code_simp
  ultimately show ?thesis
    using drain_publishes_before_marking [OF mem_relay_contract, of demo_outbox
        "auth_targets ''farms'' ''notifications''"]
    by (simp add: Let_def)
qed

end
