(* ===== verification/RelayLiveness.thy ===== *)
theory RelayLiveness
  imports RelaySafety
begin

text \<open>
  Progress of the outbox relay: how much of the backlog a drain without failures publishes,
  the \<open>draining\<close> flag of the process, and the event body that a consumer receives.
\<close>

section \<open>Queries that succeed\<close>

definition succeeds :: "('w \<Rightarrow> bool) \<Rightarrow> ('w, 'a) op \<Rightarrow> bool" where
  "succeeds P f \<longleftrightarrow> (\<forall>w. P w \<longrightarrow> (\<exists>a w'. f w = (Inr a, w')))"

lemma vwp_reliable:
  assumes "implements view f R" and "succeeds (\<lambda>w. P (view w)) f" and "P v"
    and "\<And>a v'. R v a v' \<Longrightarrow> Q a v'"
  shows "vwp view (\<lambda>_. True) (atom f) Q X v"
  unfolding vwp_def wp_atom
proof (intro allI impI conjI TrueI)
  fix w
  assume w: "view w = v"
  obtain a w' where f: "f w = (Inr a, w')" using assms(2,3) w unfolding succeeds_def by blast
  with assms(1) have "R (view w) a (view w')"
    unfolding implements_def by (metis (no_types, lifting) case_prod_conv sum.case(2))
  with f w assms(4) show "case f w of
     (Inl e, w') \<Rightarrow> True \<and> X e (view w') | (Inr a, w') \<Rightarrow> True \<and> Q a (view w')"
    by simp
qed

lemma vwp_emit_reliable:
  assumes "delivers view f m" and "succeeds (\<lambda>_. True) f" and "Q () (v\<lparr>sent := sent v @ [m]\<rparr>)"
  shows "vwp view (\<lambda>_. True) (atom f) Q X v"
  unfolding vwp_def wp_atom
proof (intro allI impI conjI TrueI)
  fix w
  assume w: "view w = v"
  obtain a w' where f: "f w = (Inr a, w')" using assms(2) unfolding succeeds_def by blast
  from assms(1) have "case f w of
        (Inl e, w') \<Rightarrow> is_library_error e \<and>
          (view w' = view w \<or> view w' = (view w)\<lparr>sent := sent (view w) @ [m]\<rparr>)
      | (Inr _, w') \<Rightarrow> view w' = (view w)\<lparr>sent := sent (view w) @ [m]\<rparr>"
    unfolding delivers_def by (rule spec)
  with f w assms(3) show "case f w of
     (Inl e, w') \<Rightarrow> True \<and> X e (view w') | (Inr a, w') \<Rightarrow> True \<and> Q a (view w')"
    by simp
qed

definition reliable_env :: "('w \<Rightarrow> 'c relay_view) \<Rightarrow> ('w, 'c) relay_env \<Rightarrow> bool" where
  "reliable_env view E \<longleftrightarrow>
     succeeds (\<lambda>_. True) (tx_begin (re_tx E)) \<and>
     succeeds (\<lambda>w. working (view w) \<noteq> None) (tx_commit (re_tx E)) \<and>
     (\<forall>n. succeeds (\<lambda>w. working (view w) \<noteq> None) (re_pending E n)) \<and>
     (\<forall>k c p b. succeeds (\<lambda>_. True) (re_emit E k c p b)) \<and>
     (\<forall>i. succeeds (\<lambda>w. working (view w) \<noteq> None) (re_mark E i))"

lemma reliable_envD:
  assumes "reliable_env view E"
  shows "succeeds (\<lambda>_. True) (tx_begin (re_tx E))"
    and "succeeds (\<lambda>w. working (view w) \<noteq> None) (tx_commit (re_tx E))"
    and "succeeds (\<lambda>w. working (view w) \<noteq> None) (re_pending E n)"
    and "succeeds (\<lambda>_. True) (re_emit E k c p b)"
    and "succeeds (\<lambda>w. working (view w) \<noteq> None) (re_mark E i)"
  using assms by (simp_all add: reliable_env_def)

section \<open>Pending rows after a mark\<close>

lemma insort_map: "(\<And>x. ob_id (f x) = ob_id x) \<Longrightarrow> insort_key ob_id (f x) (map f xs) = map f (insort_key ob_id x xs)"
  by (induction xs) auto

lemma sort_map: "(\<And>x. ob_id (f x) = ob_id x) \<Longrightarrow> sort_key ob_id (map f t) = map f (sort_key ob_id t)"
  by (induction t) (auto simp: insort_map sort_key_def)

lemma pending_mark: "pending (mark_row now i t) = filter (\<lambda>row. fst row \<noteq> i) (pending t)"
proof -
  let ?f = "\<lambda>r. if ob_id r = i then r\<lparr>ob_publishedAt := Some now\<rparr> else r"
  have eq: "map (\<lambda>r. (ob_id r, ob_pattern r, ob_payload r)) (filter (\<lambda>r. ob_publishedAt r = None) (map ?f xs))
      = filter (\<lambda>row. fst row \<noteq> i)
          (map (\<lambda>r. (ob_id r, ob_pattern r, ob_payload r)) (filter (\<lambda>r. ob_publishedAt r = None) xs))" for xs
    by (induction xs) auto
  show ?thesis unfolding pending_def mark_row_def by (subst sort_map) (simp_all add: eq)
qed

lemma pending_distinct: "distinct_ids ob_id t \<Longrightarrow> distinct (map fst (pending t))"
proof -
  assume d: "distinct_ids ob_id t"
  have "distinct (map ob_id (sort_key ob_id t))"
    using d by (metis distinct_ids_def mset_map mset_sort mset_eq_imp_distinct_iff)
  then show ?thesis by (simp add: pending_def comp_def distinct_map_filter)
qed

section \<open>One drain\<close>

definition routable :: "'c targets \<Rightarrow> pending_row \<Rightarrow> bool" where
  "routable targets row \<longleftrightarrow> clientsFor targets (fst (snd row)) \<noteq> []"

lemma filter_fst_neq:
  "distinct (map fst (xs @ row # ys)) \<Longrightarrow> filter (\<lambda>r. fst r \<noteq> fst row) (xs @ row # ys) = xs @ ys"
proof -
  assume "distinct (map fst (xs @ row # ys))"
  then have "\<forall>r \<in> set xs. fst r \<noteq> fst row" "\<forall>r \<in> set ys. fst r \<noteq> fst row"
    by (auto simp: image_iff)
  then have "filter (\<lambda>r. fst r \<noteq> fst row) xs = xs" "filter (\<lambda>r. fst r \<noteq> fst row) ys = ys"
    by (simp_all add: filter_id_conv)
  then show ?thesis by simp
qed

lemma vwp_reliable_row:
  fixes view :: "'w \<Rightarrow> 'c relay_view"
  assumes E: "relay_contract x view E" and R: "reliable_env view E"
    and v: "working v = Some t" "pending t = xs @ row # ys" "distinct (map fst (pending t))"
  shows "vwp view (\<lambda>_. True) (drain_row E targets row n)
    (\<lambda>_ v'. \<exists>t'. working v' = Some t' \<and>
       pending t' = (if routable targets row then xs else xs @ [row]) @ ys \<and> distinct (map fst (pending t')))
    (\<lambda>_ _. False) v"
proof (cases "routable targets row")
  case False
  then show ?thesis using v by (auto simp: drain_row_def routable_def split: prod.split intro!: vwp_return)
next
  case True
  obtain i pattern stored where row: "row = (i, pattern, stored)" by (cases row)
  have clients: "clientsFor targets pattern \<noteq> []" using True by (simp add: routable_def row)
  have emit: "vwp view (\<lambda>_. True)
      (for_each (\<lambda>c. atom (re_emit E k c pattern b)) cs) (\<lambda>_ v'. working v' = Some t) (\<lambda>_ _. False) v" for k b cs
  proof (rule vwp_for_each [where J = "\<lambda>_ v'. working v' = Some t"])
    show "vwp view (\<lambda>_. True) (atom (re_emit E k c pattern b)) (\<lambda>_ v'. working v' = Some t) (\<lambda>_ _. False) v'"
      if "working v' = Some t" for c and v' :: "'c relay_view"
      by (rule vwp_emit_reliable [OF relay_contractD(3) [OF E] reliable_envD(4) [OF R]]) (simp add: that)
  qed (use v(1) in auto)
  have mark: "vwp view (\<lambda>_. True) (bind (atom (re_mark E i)) (\<lambda>_. Return (n + 1)))
      (\<lambda>_ v'. \<exists>t'. working v' = Some t' \<and> pending t' = xs @ ys \<and> distinct (map fst (pending t')))
      X v'" if w: "working v' = Some t" for v' X
  proof (rule vwp_bind, rule vwp_reliable [OF relay_contractD(4) [OF E] reliable_envD(5) [OF R]])
    show "working v' \<noteq> None" using w by simp
    have "filter (\<lambda>r. fst r \<noteq> i) (pending t) = xs @ ys" "distinct (map fst (xs @ ys))"
      using v(2,3) filter_fst_neq [of xs row ys] by (auto simp: row)
    then show "vwp view (\<lambda>_. True) (Return (n + 1))
      (\<lambda>_ v'. \<exists>t'. working v' = Some t' \<and> pending t' = xs @ ys \<and> distinct (map fst (pending t'))) X v''"
      if "\<exists>t now. working v' = Some t \<and> v'' = v'\<lparr>working := Some (mark_row now i t)\<rparr>" for v''
      using that w by (auto simp: pending_mark intro!: vwp_return)
  qed
  show ?thesis
    unfolding drain_row_def row prod.case Let_def if_not_P [OF clients] if_P [OF True [unfolded row]]
    by (rule vwp_try_catch, rule vwp_bind, rule vwp_mono [OF emit]) (rule TrueI, erule mark, erule FalseE)
qed

lemma vwp_reliable_drain:
  fixes view :: "'w \<Rightarrow> 'c relay_view"
  assumes E: "relay_contract True view E" and R: "reliable_env view E" and ids: "distinct_ids ob_id (committed v0)"
  shows "vwp view (\<lambda>_. True) (drainOnce E targets)
    (\<lambda>_ v'. pending (committed v') =
       filter (\<lambda>row. \<not> routable targets row) (take BATCH_SIZE (pending (committed v0)))
         @ drop BATCH_SIZE (pending (committed v0)))
    (\<lambda>_ _. False) v0"
proof -
  let ?P = "pending (committed v0)"
  let ?goal = "filter (\<lambda>row. \<not> routable targets row) (take BATCH_SIZE ?P) @ drop BATCH_SIZE ?P"
  let ?v = "v0\<lparr>working := Some (committed v0)\<rparr>"
  let ?J = "\<lambda>ys (n::nat) v'. \<exists>zs t. take BATCH_SIZE ?P = zs @ ys \<and> working v' = Some t \<and>
    pending t = filter (\<lambda>row. \<not> routable targets row) zs @ ys @ drop BATCH_SIZE ?P \<and>
    distinct (map fst (pending t))"
  have rows: "vwp view (\<lambda>_. True) (fold_each (drain_row E targets) (take BATCH_SIZE ?P) 0)
      (\<lambda>_ v'. \<exists>t. working v' = Some t \<and> pending t = ?goal) (\<lambda>_ _. False) ?v"
  proof (rule vwp_fold_each [where J = ?J])
    show "?J (take BATCH_SIZE ?P) 0 ?v" using pending_distinct [OF ids] by auto
  next
    fix row ys and n :: nat and v' :: "'c relay_view"
    assume "?J (row # ys) n v'"
    then obtain zs t where J: "take BATCH_SIZE ?P = zs @ row # ys" "working v' = Some t"
      "pending t = filter (\<lambda>row. \<not> routable targets row) zs @ row # (ys @ drop BATCH_SIZE ?P)"
      "distinct (map fst (pending t))" by auto
    show "vwp view (\<lambda>_. True) (drain_row E targets row n) (\<lambda>s' v'. ?J ys s' v') (\<lambda>_ _. False) v'"
    proof (rule vwp_mono [OF vwp_reliable_row [OF E R J(2-4), of targets n]])
      fix m v''
      assume "\<exists>t'. working v'' = Some t' \<and>
        pending t' = (if routable targets row then filter (\<lambda>row. \<not> routable targets row) zs
          else filter (\<lambda>row. \<not> routable targets row) zs @ [row]) @ ys @ drop BATCH_SIZE ?P \<and>
        distinct (map fst (pending t'))"
      then show "?J ys m v''"
        using J(1) by (intro exI [of _ "zs @ [row]"]) (auto split: if_splits)
    qed auto
  qed auto
  have body: "vwp view (\<lambda>_. True)
     (bind (atom (re_pending E BATCH_SIZE)) (\<lambda>rows.
        bind (fold_each (drain_row E targets) rows 0) (\<lambda>published. Return ())))
     (\<lambda>_ v'. \<exists>t. working v' = Some t \<and> pending t = ?goal) (\<lambda>_ _. False) ?v"
  proof (rule vwp_bind, rule vwp_reliable [OF relay_contractD(2) [OF E] reliable_envD(3) [OF R]])
    show "working ?v \<noteq> None" by simp
    fix rs v'
    assume "reads (\<lambda>v rows. \<exists>t. working v = Some t \<and> subseq rows (pending t) \<and>
      length rows \<le> BATCH_SIZE \<and> (True \<longrightarrow> rows = take BATCH_SIZE (pending t))) ?v rs v'"
    then have "v' = ?v" "rs = take BATCH_SIZE ?P" by (auto simp: reads_def)
    then show "vwp view (\<lambda>_. True) (bind (fold_each (drain_row E targets) rs 0) (\<lambda>published. Return ()))
        (\<lambda>_ v'. \<exists>t. working v' = Some t \<and> pending t = ?goal) (\<lambda>_ _. False) v'"
      by (intro vwp_bind) (auto intro!: vwp_mono [OF rows] vwp_return)
  qed
  show ?thesis
    unfolding drainOnce_def transaction_def
  proof (rule vwp_try_catch, rule vwp_bind,
      rule vwp_reliable [where P = "\<lambda>_. True",
        OF tx_contractD(1) [OF relay_contractD(1) [OF E]] reliable_envD(1) [OF R] TrueI])
    fix a :: unit and v'
    assume v': "v' = v0\<lparr>working := Some (committed v0)\<rparr>"
    have commit: "vwp view (\<lambda>_. True) (bind (atom (tx_commit (re_tx E))) (\<lambda>_. Return a))
        (\<lambda>_ v'. pending (committed v') = ?goal) X v1"
      if "\<exists>t. working v1 = Some t \<and> pending t = ?goal" for v1 X and a :: unit
      by (rule vwp_bind,
          rule vwp_reliable [OF tx_contractD(2) [OF relay_contractD(1) [OF E]] reliable_envD(2) [OF R]])
        (use that in \<open>auto intro!: vwp_return\<close>)
    show "vwp view (\<lambda>_. True)
        (bind (bind (atom (re_pending E BATCH_SIZE)) (\<lambda>rows.
            bind (fold_each (drain_row E targets) rows 0) (\<lambda>published. Return ()))) (\<lambda>a.
          bind (atom (tx_commit (re_tx E))) (\<lambda>_. Return a)))
        (\<lambda>_ v'. pending (committed v') = ?goal)
        (\<lambda>e. vwp view (\<lambda>_. True) (roll_back (re_tx E) e) (\<lambda>_ v'. pending (committed v') = ?goal)
           (\<lambda>_ _. False)) v'"
      unfolding v' by (rule vwp_bind, rule vwp_mono [OF body]) (rule TrueI, erule commit, erule FalseE)
  qed
qed

section \<open>The flag\<close>

lemma run_in_process: "run (in_process p) (w, flag) = (case run p w of (r, w') \<Rightarrow> (r, (w', flag)))"
proof (induction p arbitrary: w rule: prog_induct)
  case (Step f)
  then show ?case by (cases "f w") simp
qed simp_all

text \<open>
  A call of drain never throws. When the relay is paused by its switch, or another
  drain of the process is under way, it does nothing at all; otherwise it drains once,
  whatever the outcome, and leaves the flag free for the next tick.
\<close>

theorem drain_settles:
  "run (drain E targets enabled) (w, flag) =
     (Inr (), if enabled = Some ''false'' \<or> flag then (w, flag)
              else (snd (run (drainOnce E targets) w), False))"
  by (auto simp: drain_def run_bind run_try_catch run_in_process enter_drain_def leave_drain_def
      split: prod.split sum.split)

text \<open>The rest of a program, and the world, after some steps.\<close>

fun after :: "nat \<Rightarrow> ('w, 'a) prog \<Rightarrow> 'w \<Rightarrow> ('w, 'a) prog \<times> 'w" where
  "after 0 p w = (p, w)"
| "after (Suc n) p w = (case advance p w of (p', w') \<Rightarrow> after n p' w')"

lemma after_finished [simp]: "after n (Return a) w = (Return a, w)"
  by (induction n) auto

lemma flag_held:
  "after n (bind (try_catch (in_process q) (\<lambda>err. Return ())) (\<lambda>_. atom leave_drain)) (w, True) = (p, (w', flag))
    \<Longrightarrow> p = Return () \<or> flag"
proof (induction n arbitrary: q w)
  case (Suc n)
  have finish: "after (Suc n) (atom leave_drain) (w, True) = (p, (w', flag)) \<Longrightarrow> p = Return () \<or> flag"
    by (simp add: atom_def leave_drain_def)
  show ?case
  proof (cases q)
    case (Step f)
    then show ?thesis using Suc by (cases "f w") simp
  qed (use Suc.prems finish in simp_all)
qed simp

text \<open>
  From the moment a drain has started until it has returned, every other call of
  drain in the process returns at once without a query, a publish or a change.
\<close>

theorem drains_do_not_overlap:
  assumes "after (Suc n) (drain E targets enabled) (w, False) = (p, (w', flag))" and "p \<noteq> Return ()"
  shows "run (drain E' targets' enabled') (w', flag) = (Inr (), (w', flag))"
proof -
  have "enabled \<noteq> Some ''false''" using assms by (auto simp: drain_def)
  then have "after n (bind (try_catch (in_process (drainOnce E targets)) (\<lambda>err. Return ()))
      (\<lambda>_. atom leave_drain)) (w, True) = (p, (w', flag))"
    using assms(1) by (simp add: drain_def atom_def enter_drain_def)
  from flag_held [OF this] assms(2) have flag by simp
  then show ?thesis by (simp add: drain_settles)
qed

theorem drains_do_not_overlap_witness:
  "run (drain mem_relay (farms_targets ''tracing'') None)
      (snd (after 4 (drain mem_relay (farms_targets ''tracing'') None) (demo_outbox, False)))
    = (Inr (), snd (after 4 (drain mem_relay (farms_targets ''tracing'') None) (demo_outbox, False)))"
proof -
  let ?d = "drain mem_relay (farms_targets ''tracing'') None"
  obtain p w' flag where a: "after (Suc 3) ?d (demo_outbox, False) = (p, (w', flag))"
    by (metis prod.exhaust)
  have "case fst (after 4 ?d (demo_outbox, False)) of Return u \<Rightarrow> False | _ \<Rightarrow> True"
    by code_simp
  then have "p \<noteq> Return ()" using a by (auto simp: numeral_eq_Suc)
  from drains_do_not_overlap [OF a this, of mem_relay "farms_targets ''tracing''" None] a
  show ?thesis by (simp add: numeral_eq_Suc)
qed

section \<open>The backlog\<close>

fun drain_times :: "nat \<Rightarrow> ('w, 'c) relay_env \<Rightarrow> 'c targets \<Rightarrow> 'w \<times> bool \<Rightarrow> 'w \<times> bool" where
  "drain_times 0 E targets s = s"
| "drain_times (Suc k) E targets s = drain_times k E targets (snd (run (drain E targets None) s))"

lemma evolved_ids: "list_all2 evolved t t' \<Longrightarrow> map ob_id t' = map ob_id t"
  by (induction rule: list_all2_induct) (auto simp: evolved_def as_pending_def)

text \<open>
  C11. While database and broker answer, no other replica holds rows and every pending row
  has a target, each tick of the relay publishes the next twenty pending rows: after k
  ticks the first 20 * k are gone from the backlog, and once that covers the backlog,
  every row of the outbox is marked published and has reached all its targets.
\<close>

theorem backlog_is_drained:
  assumes "relay_contract True view E" and "reliable_env view E"
    and "distinct_ids ob_id (committed (view w))"
    and "published_ok targets (committed (view w)) (sent (view w))"
    and "\<forall>row \<in> set (pending (committed (view w))). routable targets row"
  shows "let v = view (fst (drain_times k E targets (w, False))) in
    pending (committed v) = drop (k * BATCH_SIZE) (pending (committed (view w))) \<and>
    published_ok targets (committed v) (sent v)"
  using assms(3-5)
proof (induction k arbitrary: w)
  case (Suc k)
  obtain r w' where run: "run (drainOnce E targets) w = (r, w')" by fastforce
  have inv: "drain_inv targets (view w) (view w')"
    using vwp_run [OF vwp_drainOnce [OF assms(1) Suc.prems(1,2)] run] by simp
  have "pending (committed (view w')) =
      filter (\<lambda>row. \<not> routable targets row) (take BATCH_SIZE (pending (committed (view w))))
        @ drop BATCH_SIZE (pending (committed (view w)))"
    using vwp_run [OF vwp_reliable_drain [OF assms(1,2) Suc.prems(1)] run] by (cases r) auto
  moreover have "filter (\<lambda>row. \<not> routable targets row) (take BATCH_SIZE (pending (committed (view w)))) = []"
    using Suc.prems(3) by (auto simp: filter_empty_conv dest: in_set_takeD)
  ultimately have pend: "pending (committed (view w')) = drop BATCH_SIZE (pending (committed (view w)))"
    by simp
  have ids: "distinct_ids ob_id (committed (view w'))"
    using inv Suc.prems(1) evolved_ids unfolding drain_inv_def distinct_ids_def by metis
  have ok: "published_ok targets (committed (view w')) (sent (view w'))"
    using inv by (simp add: drain_inv_def)
  have rest: "\<forall>row \<in> set (pending (committed (view w'))). routable targets row"
    unfolding pend using Suc.prems(3) by (auto dest: in_set_dropD)
  from Suc.IH [OF ids ok rest] show ?case
    using run by (simp add: drain_settles pend Let_def add.commute)
qed simp

lemma mem_relay_reliable: "reliable_env id mem_relay"
  by (auto simp: reliable_env_def succeeds_def mem_relay_def)

theorem backlog_is_drained_witness:
  "length (pending (committed demo_outbox)) = 2 \<and>
   pending (committed (fst (drain_times 1 mem_relay (farms_targets ''tracing'') (demo_outbox, False)))) = []"
proof
  show two: "length (pending (committed demo_outbox)) = 2" by code_simp
  have "distinct_ids ob_id (committed (id demo_outbox))" by code_simp
  moreover have "published_ok (farms_targets ''tracing'') (committed (id demo_outbox)) (sent (id demo_outbox))"
    by (simp add: published_ok_def demo_outbox_def new_outbox_row_def)
  moreover have "\<forall>row \<in> set (pending (committed (id demo_outbox))). routable (farms_targets ''tracing'') row"
    by (simp add: routable_def clientsFor_def farms_targets_def)
  ultimately show "pending (committed (fst (drain_times 1 mem_relay (farms_targets ''tracing'')
      (demo_outbox, False)))) = []"
    using backlog_is_drained [OF mem_relay_contract mem_relay_reliable, of demo_outbox
        "farms_targets ''tracing''" 1] two
    by (simp add: Let_def BATCH_SIZE_def)
qed

section \<open>The body of an event\<close>

text \<open>
  What enqueue stores, the relay takes apart again: the consumer receives exactly
  the payload the producer gave (which has no property of the carrier's name), and the
  publish runs under exactly the trace carrier of the producing request, if there was one.
\<close>

theorem event_body_round_trip:
  assumes "map_of payload TRACE_CARRIER_KEY = None"
  shows "row_messages targets (i, pattern, stored_payload carrier payload)
      = map (\<lambda>c. (c, pattern, payload)) (clientsFor targets pattern) \<and>
    row_carrier (stored_payload carrier payload)
      = (if carrier = [] then None else Some (carrier_json carrier))"
  using assms
  by (simp add: row_messages_def stored_payload_def drop_set_prop drop_prop_absent row_carrier_def
      map_of_set_prop carrier_json_def)

theorem event_body_round_trip_witness:
  "row_messages (SingleClient ''tracing'')
      (1, ''crop.initialized'', stored_payload [(''traceparent'', ''00-1'')] [(''cropId'', JNum 3)])
     = [(''tracing'', ''crop.initialized'', [(''cropId'', JNum 3)])]"
  using event_body_round_trip [of "[(''cropId'', JNum 3)]" "SingleClient ''tracing''" 1 "''crop.initialized''"
      "[(''traceparent'', ''00-1'')]"]
  by (simp add: TRACE_CARRIER_KEY_def clientsFor_def)

end
