(* ===== verification/RmqReliability.thy ===== *)
theory RmqReliability
  imports Exceptions "HOL-Library.Multiset"
begin

text \<open>
  How a consumer treats a RabbitMQ message: \<open>RmqReliabilityInterceptor\<close>
  (\<open>libs/common/src/interceptors/rmq-reliability.interceptor.ts\<close>), the queues of
  \<open>assertRetryTopology\<close> (\<open>libs/common/src/rmq/retry-topology.ts\<close>) and the options the
  four services start with. The interceptor's calls on the channel are a list of actions;
  the broker that carries them out is described by what its documentation says of queues,
  acknowledgements and dead-lettering.
\<close>

section \<open>The interceptor\<close>

text \<open>
  A header value: a number, or another value together with what \<open>Number(\<dots>)\<close> makes of it
  (\<open>None\<close> for \<open>NaN\<close>). Counters are whole numbers.
\<close>

datatype header_value = HNumber int | HOther "int option"

record 'c rmq_message =
  content :: 'c
  replyTo :: "string option"
  headers :: "(string \<times> header_value) list"

record rmq_options =
  maxRetries :: "int option"
  retryQueue :: "string option"
  deadLetterQueue :: "string option"

datatype 'c channel_action =
    Ack
  | Nack bool bool
  | SendToQueue string 'c "(string \<times> header_value) list"

definition RETRY_COUNT_HEADER :: string where
  "RETRY_COUNT_HEADER = ''x-retry-count''"

text \<open>\<open>Boolean(s)\<close> and \<open>if (s)\<close> for a string that may be absent.\<close>

definition given_text :: "string option \<Rightarrow> bool" where
  "given_text s \<longleftrightarrow> s \<noteq> None \<and> s \<noteq> Some []"

definition max_retries :: "rmq_options \<Rightarrow> int" where
  "max_retries opts = (case maxRetries opts of Some n \<Rightarrow> n | None \<Rightarrow> 3)"

definition retryCount :: "'c rmq_message \<Rightarrow> int" where
  "retryCount m =
     (case map_of (headers m) RETRY_COUNT_HEADER of
        Some (HNumber n) \<Rightarrow> n
      | Some (HOther (Some n)) \<Rightarrow> n
      | Some (HOther None) \<Rightarrow> 0
      | None \<Rightarrow> 0)"

text \<open>\<open>{ ...headers, [RETRY_COUNT_HEADER]: n }\<close>.\<close>

fun set_header :: "string \<Rightarrow> header_value \<Rightarrow> (string \<times> header_value) list \<Rightarrow> (string \<times> header_value) list" where
  "set_header k v [] = [(k, v)]"
| "set_header k v ((k', v') # hs) = (if k = k' then (k, v) # hs else (k', v') # set_header k v hs)"

definition handleEventFailure :: "rmq_options \<Rightarrow> 'c rmq_message \<Rightarrow> 'c channel_action list" where
  "handleEventFailure opts m =
     (let attempts = retryCount m in
      if attempts < max_retries opts \<and> given_text (retryQueue opts) then
        [SendToQueue (the (retryQueue opts)) (content m)
           (set_header RETRY_COUNT_HEADER (HNumber (attempts + 1)) (headers m)), Ack]
      else if given_text (deadLetterQueue opts) then
        [SendToQueue (the (deadLetterQueue opts)) (content m) (headers m), Ack]
      else [Nack False False])"

text \<open>
  \<open>intercept\<close>: what is done on the channel when the handler has answered or thrown; the
  outcome itself is passed on. Outside the RPC transport the channel is not touched.
\<close>

definition intercept :: "rmq_options \<Rightarrow> string \<Rightarrow> 'c rmq_message \<Rightarrow> exn + 'a
    \<Rightarrow> 'c channel_action list \<times> (exn + 'a)" where
  "intercept opts context_type m outcome =
     (if context_type \<noteq> ''rpc'' then ([], outcome)
      else (case outcome of
          Inr a \<Rightarrow> ([Ack], Inr a)
        | Inl err \<Rightarrow>
            (if given_text (replyTo m) then [Ack] else handleEventFailure opts m, Inl err)))"

section \<open>Queues and options of the services\<close>

definition REQUEUE_EXCHANGE :: string where
  "REQUEUE_EXCHANGE = ''hl.requeue''"

definition retryQueueName :: "string \<Rightarrow> string" where
  "retryQueueName mainQueue = mainQueue @ ''.retry''"

definition dlqName :: "string \<Rightarrow> string" where
  "dlqName mainQueue = mainQueue @ ''.dlq''"

text \<open>The declarations of \<open>assertRetryTopology\<close>, in order.\<close>

record queue_args =
  message_ttl :: "int option"
  dead_letter_exchange :: "string option"
  dead_letter_routing_key :: "string option"

definition no_args :: queue_args where
  "no_args = \<lparr>message_ttl = None, dead_letter_exchange = None, dead_letter_routing_key = None\<rparr>"

datatype queue_decl =
    AssertQueue string queue_args
  | AssertExchange string
  | BindQueue string string string

definition assertRetryTopology :: "string \<Rightarrow> int \<Rightarrow> queue_decl list" where
  "assertRetryTopology mainQueue backoffMs =
     [AssertQueue mainQueue no_args,
      AssertExchange REQUEUE_EXCHANGE,
      BindQueue mainQueue REQUEUE_EXCHANGE mainQueue,
      AssertQueue (retryQueueName mainQueue)
        \<lparr>message_ttl = Some backoffMs, dead_letter_exchange = Some REQUEUE_EXCHANGE,
         dead_letter_routing_key = Some mainQueue\<rparr>,
      AssertQueue (dlqName mainQueue) no_args]"

text \<open>
  Where a message goes when it has waited out a queue's TTL: to the queues bound to the
  queue's dead-letter exchange under its routing key. A queue without a TTL keeps it.
\<close>

fun queue_args_of :: "queue_decl list \<Rightarrow> string \<Rightarrow> queue_args option" where
  "queue_args_of [] q = None"
| "queue_args_of (AssertQueue q' args # ds) q = (if q' = q then Some args else queue_args_of ds q)"
| "queue_args_of (d # ds) q = queue_args_of ds q"

fun bound_queues :: "queue_decl list \<Rightarrow> string \<Rightarrow> string \<Rightarrow> string list" where
  "bound_queues [] ex key = []"
| "bound_queues (BindQueue q ex' key' # ds) ex key =
     (if ex' = ex \<and> key' = key then q # bound_queues ds ex key else bound_queues ds ex key)"
| "bound_queues (d # ds) ex key = bound_queues ds ex key"

definition expires_to :: "queue_decl list \<Rightarrow> string \<Rightarrow> string list" where
  "expires_to ds q =
     (case queue_args_of ds q of
        Some args \<Rightarrow>
          (case (message_ttl args, dead_letter_exchange args, dead_letter_routing_key args) of
             (Some _, Some ex, Some key) \<Rightarrow> bound_queues ds ex key
           | _ \<Rightarrow> [])
      | None \<Rightarrow> [])"

text \<open>
  \<open>configureRmqMicroservice\<close> and the four \<open>main.ts\<close>: \<open>auth\<close> and \<open>farms\<close> pass no options,
  \<open>tracing\<close> and \<open>notifications\<close> three retries and their own queues.
\<close>

definition default_options :: rmq_options where
  "default_options = \<lparr>maxRetries = None, retryQueue = None, deadLetterQueue = None\<rparr>"

definition configureRmqMicroservice :: "rmq_options option \<Rightarrow> rmq_options" where
  "configureRmqMicroservice reliability =
     (case reliability of None \<Rightarrow> default_options | Some opts \<Rightarrow> opts)"

definition MAX_RETRIES :: int where
  "MAX_RETRIES = 3"

definition RETRY_BACKOFF_MS :: int where
  "RETRY_BACKOFF_MS = 5000"

definition event_service_options :: "string \<Rightarrow> rmq_options" where
  "event_service_options queue =
     configureRmqMicroservice (Some
       \<lparr>maxRetries = Some MAX_RETRIES, retryQueue = Some (retryQueueName queue),
        deadLetterQueue = Some (dlqName queue)\<rparr>)"

definition rpc_service_options :: rmq_options where
  "rpc_service_options = configureRmqMicroservice None"

section \<open>The broker\<close>

text \<open>
  The queues; the message that is delivered and not yet acknowledged (\<open>prefetchCount\<close> is 1);
  and three logs: the messages a handler has finished, has failed on, and the ones dropped.
\<close>

record 'c broker =
  queues :: "string \<Rightarrow> 'c rmq_message list"
  unacked :: "'c rmq_message option"
  handled :: "'c rmq_message list"
  failed :: "'c rmq_message list"
  dropped :: "'c rmq_message list"

fun channel_do :: "'c channel_action \<Rightarrow> 'c broker \<Rightarrow> 'c broker" where
  "channel_do Ack b = b\<lparr>unacked := None\<rparr>"
| "channel_do (Nack all_up_to requeue) b =
     (case unacked b of
        None \<Rightarrow> b
      | Some m \<Rightarrow> b\<lparr>unacked := None, dropped := (if requeue then dropped b else dropped b @ [m])\<rparr>)"
| "channel_do (SendToQueue q c hs) b =
     b\<lparr>queues := (queues b)(q := queues b q @ [\<lparr>content = c, replyTo = None, headers = hs\<rparr>])\<rparr>"

definition channel_run :: "'c channel_action list \<Rightarrow> 'c broker \<Rightarrow> 'c broker" where
  "channel_run acts b = fold channel_do acts b"

text \<open>The handler has ended on the delivered message.\<close>

definition log_outcome :: "'c rmq_message \<Rightarrow> bool \<Rightarrow> 'c broker \<Rightarrow> 'c broker" where
  "log_outcome m success_flag b =
     (if success_flag then b\<lparr>handled := handled b @ [m]\<rparr> else b\<lparr>failed := failed b @ [m]\<rparr>)"

text \<open>
  One event queue with its consumer: delivery, the end of the handler (with any outcome),
  the expiry of a waiting message, and the death of the consumer after it has carried out
  some of the interceptor's actions, whereupon an unacknowledged message is queued again.
\<close>

definition end_of :: "rmq_options \<Rightarrow> 'c rmq_message \<Rightarrow> bool \<Rightarrow> 'c channel_action list" where
  "end_of opts m success_flag =
     fst (intercept opts ''rpc'' m (if success_flag then Inr () else Inl ThrownOther))"

inductive queue_step :: "rmq_options \<Rightarrow> queue_decl list \<Rightarrow> string \<Rightarrow> 'c broker \<Rightarrow> 'c broker \<Rightarrow> bool"
  for opts ds main where
  deliver: "queues b main = m # ms \<Longrightarrow> unacked b = None
    \<Longrightarrow> queue_step opts ds main b (b\<lparr>queues := (queues b)(main := ms), unacked := Some m\<rparr>)"
| finish: "unacked b = Some m
    \<Longrightarrow> queue_step opts ds main b (channel_run (end_of opts m ok) (log_outcome m ok b))"
| expire: "queues b q = m # ms \<Longrightarrow> expires_to ds q = [q'] \<Longrightarrow> q' \<noteq> q
    \<Longrightarrow> queue_step opts ds main b (b\<lparr>queues := (queues b)(q := ms, q' := queues b q' @ [m])\<rparr>)"

inductive queue_crash :: "rmq_options \<Rightarrow> string \<Rightarrow> 'c broker \<Rightarrow> 'c broker \<Rightarrow> bool"
  for opts main where
  before_end: "unacked b = Some m
    \<Longrightarrow> queue_crash opts main b (b\<lparr>unacked := None, queues := (queues b)(main := m # queues b main)\<rparr>)"
| during_end: "unacked b = Some m \<Longrightarrow> b1 = channel_run (take k (end_of opts m ok)) (log_outcome m ok b)
    \<Longrightarrow> unacked b1 = Some m
    \<Longrightarrow> queue_crash opts main b (b1\<lparr>unacked := None, queues := (queues b1)(main := m # queues b1 main)\<rparr>)"

end
