(* ===== verification/RmqLifecycle.thy ===== *)
theory RmqLifecycle
  imports RmqReliability
begin

text \<open>
  The life of an event in a queue with a retry and a dead-letter queue: the abstract
  lifecycle (alive with a number of retries, parked, or finished), the simulation of the
  broker and the interceptor by it, and what follows: nothing is lost, nothing is tried
  more than four times, and an event is parked after exactly four failures.
\<close>

section \<open>The lifecycle\<close>

record 'c life =
  alive :: "('c \<times> int) multiset"
  parked :: "'c multiset"
  finished :: "'c multiset"
  failures :: "'c multiset"

inductive life_step :: "'c life \<Rightarrow> 'c life \<Rightarrow> bool" where
  succeed: "(c, n) \<in># alive l
    \<Longrightarrow> life_step l (l\<lparr>alive := alive l - {#(c, n)#}, finished := finished l + {#c#}\<rparr>)"
| retry: "(c, n) \<in># alive l \<Longrightarrow> n < MAX_RETRIES
    \<Longrightarrow> life_step l (l\<lparr>alive := alive l - {#(c, n)#} + {#(c, n + 1)#}, failures := failures l + {#c#}\<rparr>)"
| park: "(c, n) \<in># alive l \<Longrightarrow> \<not> n < MAX_RETRIES
    \<Longrightarrow> life_step l (l\<lparr>alive := alive l - {#(c, n)#}, parked := parked l + {#c#},
          failures := failures l + {#c#}\<rparr>)"

definition everything :: "'c life \<Rightarrow> 'c multiset" where
  "everything l = image_mset fst (alive l) + parked l + finished l"

text \<open>With every event published once: its failures are its retries.\<close>

definition life_ok :: "'c life \<Rightarrow> bool" where
  "life_ok l \<longleftrightarrow>
     (\<forall>c. count (everything l) c \<le> 1) \<and>
     (\<forall>c n. (c, n) \<in># alive l \<longrightarrow> n \<le> MAX_RETRIES \<and> int (count (failures l) c) = n) \<and>
     (\<forall>c. c \<in># parked l \<longrightarrow> int (count (failures l) c) = MAX_RETRIES + 1) \<and>
     (\<forall>c. c \<in># finished l \<longrightarrow> int (count (failures l) c) \<le> MAX_RETRIES) \<and>
     (\<forall>c. c \<notin># everything l \<longrightarrow> count (failures l) c = 0)"

lemma everything_step: "life_step l l' \<Longrightarrow> everything l' = everything l"
proof (induction rule: life_step.induct)
  case (succeed c n l)
  then obtain A where "alive l = add_mset (c, n) A" by (metis mset_add)
  then show ?case by (simp add: everything_def)
next
  case (retry c n l)
  then obtain A where "alive l = add_mset (c, n) A" by (metis mset_add)
  then show ?case by (simp add: everything_def)
next
  case (park c n l)
  then obtain A where "alive l = add_mset (c, n) A" by (metis mset_add)
  then show ?case by (simp add: everything_def)
qed

text \<open>An event that is alive is nowhere else.\<close>

lemma alive_once:
  assumes "\<forall>c. count (everything l) c \<le> 1" and "alive l = add_mset (c, n) A"
  shows "(c, k) \<notin># A" and "c \<notin># parked l" and "c \<notin># finished l"
proof -
  have "count (everything l) c = 1 + count (image_mset fst A) c + count (parked l) c + count (finished l) c"
    using assms(2) by (simp add: everything_def)
  moreover have "count (everything l) c \<le> 1" using assms(1) by blast
  ultimately have z: "count (image_mset fst A) c = 0" "count (parked l) c = 0" "count (finished l) c = 0"
    by linarith+
  show "(c, k) \<notin># A"
  proof
    assume "(c, k) \<in># A"
    then have "c \<in># image_mset fst A" by force
    with z(1) show False by (metis count_eq_zero_iff)
  qed
  show "c \<notin># parked l" "c \<notin># finished l" using z(2,3) by (simp_all add: not_in_iff)
qed

lemma life_ok_step:
  assumes "life_step l l'" and "life_ok l"
  shows "life_ok l'"
proof -
  have ev: "everything l' = everything l" by (rule everything_step [OF assms(1)])
  have once: "\<forall>c. count (everything l) c \<le> 1" using assms(2) by (simp add: life_ok_def)
  from assms(1) show ?thesis
  proof (cases rule: life_step.cases)
    case (succeed d m)
    then obtain B where B: "alive l = add_mset (d, m) B" by (metis mset_add)
    show ?thesis
      using assms(2) ev alive_once [OF once B] succeed(1) B unfolding life_ok_def by (auto dest: in_diffD)
  next
    case (retry d m)
    then obtain B where B: "alive l = add_mset (d, m) B" by (metis mset_add)
    have "d \<in># everything l" using B by (simp add: everything_def)
    then show ?thesis
      using assms(2) ev alive_once [OF once B] retry(1,3) B unfolding life_ok_def by auto
  next
    case (park d m)
    then obtain B where B: "alive l = add_mset (d, m) B" by (metis mset_add)
    have "d \<in># everything l" using B by (simp add: everything_def)
    then show ?thesis
      using assms(2) ev alive_once [OF once B] park(1,3) B unfolding life_ok_def by auto
  qed
qed

section \<open>The queues of an event service\<close>

text \<open>The services that only consume events run with these options on these queues.\<close>

abbreviation event_step :: "string \<Rightarrow> 'c broker \<Rightarrow> 'c broker \<Rightarrow> bool" where
  "event_step main \<equiv>
     queue_step (event_service_options main) (assertRetryTopology main RETRY_BACKOFF_MS) main"

abbreviation event_crash :: "string \<Rightarrow> 'c broker \<Rightarrow> 'c broker \<Rightarrow> bool" where
  "event_crash main \<equiv> queue_crash (event_service_options main) main"

lemmas queue_names = retryQueueName_def dlqName_def

lemma queue_names_distinct [simp]:
  "retryQueueName q \<noteq> q" "dlqName q \<noteq> q" "retryQueueName q \<noteq> dlqName q"
  "q \<noteq> retryQueueName q" "q \<noteq> dlqName q" "dlqName q \<noteq> retryQueueName q"
  by (simp_all add: queue_names)

lemma given_text_names [simp]:
  "given_text (Some (retryQueueName q))" "given_text (Some (dlqName q))"
  by (simp_all add: queue_names given_text_def)

lemma expires_to_topology:
  "expires_to (assertRetryTopology main ms) q = (if q = retryQueueName main then [main] else [])"
  by (simp add: expires_to_def assertRetryTopology_def no_args_def)

lemma map_of_set_header [simp]: "map_of (set_header k v hs) k = Some v"
  by (induction k v hs rule: set_header.induct) auto

lemma end_of_success: "end_of opts m True = [Ack]"
  by (simp add: end_of_def intercept_def)

lemma end_of_failure:
  "end_of opts m False = (if given_text (replyTo m) then [Ack] else handleEventFailure opts m)"
  by (simp add: end_of_def intercept_def)

text \<open>What the interceptor does with an event that failed, in the event services.\<close>

definition sent_again :: "'c rmq_message \<Rightarrow> 'c rmq_message" where
  "sent_again m = \<lparr>content = content m, replyTo = None,
     headers = set_header RETRY_COUNT_HEADER (HNumber (retryCount m + 1)) (headers m)\<rparr>"

definition sent_on :: "'c rmq_message \<Rightarrow> 'c rmq_message" where
  "sent_on m = \<lparr>content = content m, replyTo = None, headers = headers m\<rparr>"

lemma sent_simps [simp]:
  "content (sent_again m) = content m" "replyTo (sent_again m) = None"
  "retryCount (sent_again m) = retryCount m + 1"
  "content (sent_on m) = content m" "replyTo (sent_on m) = None"
  by (simp_all add: sent_again_def sent_on_def retryCount_def)

lemma event_failure:
  "handleEventFailure (event_service_options main) m =
     (if retryCount m < MAX_RETRIES
      then [SendToQueue (retryQueueName main) (content m) (headers (sent_again m)), Ack]
      else [SendToQueue (dlqName main) (content m) (headers m), Ack])"
  by (simp add: handleEventFailure_def event_service_options_def configureRmqMicroservice_def
      max_retries_def sent_again_def)

definition put_on :: "string \<Rightarrow> 'c rmq_message \<Rightarrow> 'c broker \<Rightarrow> 'c broker" where
  "put_on q m b = b\<lparr>queues := (queues b)(q := queues b q @ [m])\<rparr>"

text \<open>The end of a handler, event by event.\<close>

definition finished_event :: "string \<Rightarrow> 'c rmq_message \<Rightarrow> bool \<Rightarrow> 'c broker \<Rightarrow> 'c broker" where
  "finished_event main m ok b =
     (let b' = (log_outcome m ok b)\<lparr>unacked := None\<rparr> in
      if ok \<or> given_text (replyTo m) then b'
      else if retryCount m < MAX_RETRIES then put_on (retryQueueName main) (sent_again m) b'
      else put_on (dlqName main) (sent_on m) b')"

lemma finish_event:
  "channel_run (end_of (event_service_options main) m ok) (log_outcome m ok b) = finished_event main m ok b"
  by (cases ok)
    (simp_all add: end_of_success end_of_failure event_failure channel_run_def finished_event_def
      put_on_def log_outcome_def sent_again_def sent_on_def Let_def)

inductive_cases queue_stepE: "queue_step opts ds main b b'"

lemma event_step_cases [consumes 1, case_names deliver finish expire]:
  assumes "event_step main b b'"
  obtains m ms where "queues b main = m # ms" and "unacked b = None"
      and "b' = b\<lparr>queues := (queues b)(main := ms), unacked := Some m\<rparr>"
  | m ok where "unacked b = Some m" and "b' = finished_event main m ok b"
  | m ms where "queues b (retryQueueName main) = m # ms"
      and "b' = b\<lparr>queues := (queues b)(retryQueueName main := ms, main := queues b main @ [m])\<rparr>"
  using assms
proof (cases rule: queue_step.cases)
  case (deliver m ms)
  then show ?thesis by (intro that(1))
next
  case (finish m ok)
  then show ?thesis by (intro that(2)) (simp_all add: finish_event)
next
  case (expire q m ms q')
  then show ?thesis by (intro that(3) [of m ms]) (simp_all add: expires_to_topology split: if_splits)
qed

end
