(* ===== verification/RmqEvents.thy ===== *)
theory RmqEvents
  imports RmqLifecycle
begin

text \<open>
  What the retry and dead-letter queues give an event service: without deaths of the consumer
  the broker and the interceptor simulate the lifecycle of \<open>RmqLifecycle\<close>; with them no event is
  lost. And what a service without these queues does with an event. Theory RmqTries counts
  the places and the tries of an event when the consumer dies.
\<close>

section \<open>The lifecycle of the messages in the broker\<close>

definition entry :: "'c rmq_message \<Rightarrow> 'c \<times> int" where
  "entry m = (content m, retryCount m)"

definition in_flight :: "'c broker \<Rightarrow> 'c rmq_message list" where
  "in_flight b = (case unacked b of None \<Rightarrow> [] | Some m \<Rightarrow> [m])"

definition waiting :: "string \<Rightarrow> 'c broker \<Rightarrow> 'c rmq_message list" where
  "waiting main b = queues b main @ queues b (retryQueueName main) @ in_flight b"

definition life_of :: "string \<Rightarrow> 'c broker \<Rightarrow> 'c life" where
  "life_of main b =
     \<lparr>alive = mset (map entry (waiting main b)),
      parked = mset (map content (queues b (dlqName main))),
      finished = mset (map content (handled b)),
      failures = mset (map content (failed b))\<rparr>"

text \<open>Events, unlike requests, have no \<open>replyTo\<close>.\<close>

definition only_events :: "string \<Rightarrow> 'c broker \<Rightarrow> bool" where
  "only_events main b \<longleftrightarrow> (\<forall>m \<in> set (waiting main b). replyTo m = None)"

lemmas life_simps = life_of_def waiting_def in_flight_def entry_def only_events_def

lemma given_text_None [simp]: "\<not> given_text None"
  by (simp add: given_text_def)

lemmas ended_simps = finished_event_def put_on_def log_outcome_def Let_def

lemma only_events_step:
  assumes "event_step main b b'" and "only_events main b"
  shows "only_events main b'"
  using assms
proof (cases rule: event_step_cases)
  case (deliver m ms)
  then show ?thesis using assms(2) by (auto simp: life_simps)
next
  case (finish m ok)
  then show ?thesis using assms(2) by (auto simp: life_simps ended_simps)
next
  case (expire m ms)
  then show ?thesis using assms(2) by (auto simp: life_simps)
qed

text \<open>Every step of the broker is a step of the lifecycle, or invisible to it.\<close>

lemma finish_simulates:
  assumes "unacked b = Some m" and "replyTo m = None"
  shows "life_step (life_of main b) (life_of main (finished_event main m ok b))"
proof -
  let ?l = "life_of main b" and ?l' = "life_of main (finished_event main m ok b)"
  have at: "(content m, retryCount m) \<in># alive ?l"
    using assms(1) by (simp add: life_simps)
  consider (done_ok) "ok" | (again) "\<not> ok" "retryCount m < MAX_RETRIES"
    | (last) "\<not> ok" "\<not> retryCount m < MAX_RETRIES" by blast
  then show ?thesis
  proof cases
    case done_ok
    have "?l' = ?l\<lparr>alive := alive ?l - {#(content m, retryCount m)#}, finished := finished ?l + {#content m#}\<rparr>"
      using assms done_ok by (simp add: life_simps ended_simps)
    with life_step.succeed [OF at] show ?thesis by simp
  next
    case again
    have "?l' = ?l\<lparr>alive := alive ?l - {#(content m, retryCount m)#} + {#(content m, retryCount m + 1)#},
                   failures := failures ?l + {#content m#}\<rparr>"
      using assms again by (simp add: life_simps ended_simps)
    with life_step.retry [OF at again(2)] show ?thesis by simp
  next
    case last
    have "?l' = ?l\<lparr>alive := alive ?l - {#(content m, retryCount m)#}, parked := parked ?l + {#content m#},
                   failures := failures ?l + {#content m#}\<rparr>"
      using assms last by (simp add: life_simps ended_simps)
    with life_step.park [OF at last(2)] show ?thesis by simp
  qed
qed

lemma event_step_simulates:
  assumes "event_step main b b'" and "only_events main b"
  shows "life_of main b' = life_of main b \<or> life_step (life_of main b) (life_of main b')"
  using assms(1)
proof (cases rule: event_step_cases)
  case (deliver m ms)
  then have "life_of main b' = life_of main b" by (simp add: life_simps)
  then show ?thesis ..
next
  case (finish m ok)
  then have "replyTo m = None" using assms(2) by (simp add: life_simps)
  with finish show ?thesis using finish_simulates by blast
next
  case (expire m ms)
  then have "life_of main b' = life_of main b" by (simp add: life_simps)
  then show ?thesis ..
qed

section \<open>Runs of an event service\<close>

definition empty_broker :: "'c broker" where
  "empty_broker = \<lparr>queues = (\<lambda>_. []), unacked = None, handled = [], failed = [], dropped = []\<rparr>"

text \<open>A new event: nobody published it before and it was never retried.\<close>

definition new_event :: "'c list \<Rightarrow> 'c rmq_message \<Rightarrow> bool" where
  "new_event ps m \<longleftrightarrow> content m \<notin> set ps \<and> replyTo m = None \<and> retryCount m = 0"

inductive event_run :: "string \<Rightarrow> 'c list \<Rightarrow> 'c broker \<Rightarrow> bool" for main where
  start: "event_run main [] empty_broker"
| publish: "event_run main ps b \<Longrightarrow> new_event ps m \<Longrightarrow> event_run main (ps @ [content m]) (put_on main m b)"
| event: "event_run main ps b \<Longrightarrow> event_step main b b' \<Longrightarrow> event_run main ps b'"

definition run_ok :: "string \<Rightarrow> 'c list \<Rightarrow> 'c broker \<Rightarrow> bool" where
  "run_ok main ps b \<longleftrightarrow>
     distinct ps \<and> only_events main b \<and> everything (life_of main b) = mset ps \<and> life_ok (life_of main b)"

lemma run_ok_publish:
  assumes "run_ok main ps b" and "new_event ps m"
  shows "run_ok main (ps @ [content m]) (put_on main m b)"
proof -
  let ?l = "life_of main b"
  have l': "life_of main (put_on main m b) = ?l\<lparr>alive := add_mset (content m, 0) (alive ?l)\<rparr>"
    using assms(2) by (simp add: life_simps put_on_def new_event_def)
  have new: "content m \<notin># everything ?l"
    using assms by (simp add: run_ok_def new_event_def)
  have old: "life_ok ?l" using assms(1) by (simp add: run_ok_def)
  have ev: "everything (life_of main (put_on main m b)) = add_mset (content m) (everything ?l)"
    by (simp add: l' everything_def)
  have 0: "count (failures ?l) (content m) = 0" using old new by (simp add: life_ok_def)
  have "life_ok (life_of main (put_on main m b))"
    using old new 0 ev unfolding life_ok_def l'
    by (auto simp: not_in_iff MAX_RETRIES_def)
  then show ?thesis
    using assms ev by (auto simp: run_ok_def new_event_def life_simps put_on_def)
qed

lemma run_ok_step:
  assumes "run_ok main ps b" and "event_step main b b'"
  shows "run_ok main ps b'"
  using event_step_simulates [OF assms(2)] only_events_step [OF assms(2)] assms(1)
    everything_step life_ok_step
  unfolding run_ok_def by metis

lemma run_ok_always: "event_run main ps b \<Longrightarrow> run_ok main ps b"
proof (induction rule: event_run.induct)
  case start
  show ?case by (simp add: run_ok_def life_simps empty_broker_def everything_def life_ok_def)
next
  case (publish ps b m)
  then show ?case by (blast intro: run_ok_publish)
next
  case (event ps b b')
  then show ?case by (blast intro: run_ok_step)
qed

section \<open>One place, at most four tries\<close>

definition times_failed :: "'c broker \<Rightarrow> 'c \<Rightarrow> int" where
  "times_failed b c = int (count_list (map content (failed b)) c)"

lemma times_failed_life: "times_failed b c = int (count (failures (life_of main b)) c)"
  by (simp add: times_failed_def life_of_def count_mset del: mset_map)

lemma run_okD:
  assumes "run_ok main ps b"
  shows "distinct ps"
    and "mset (map content (waiting main b)) + mset (map content (queues b (dlqName main)))
           + mset (map content (handled b)) = mset ps"
    and "m \<in> set (waiting main b) \<Longrightarrow> retryCount m \<le> 3 \<and> times_failed b (content m) = retryCount m"
    and "m \<in> set (queues b (dlqName main)) \<Longrightarrow> times_failed b (content m) = 4"
    and "m \<in> set (handled b) \<Longrightarrow> times_failed b (content m) \<le> 3"
    and "c \<notin> set ps \<Longrightarrow> times_failed b c = 0"
proof -
  have ev: "everything (life_of main b) = mset ps" and ok: "life_ok (life_of main b)"
    using assms by (simp_all add: run_ok_def)
  show "distinct ps" using assms by (simp add: run_ok_def)
  show "mset (map content (waiting main b)) + mset (map content (queues b (dlqName main)))
           + mset (map content (handled b)) = mset ps"
    using ev by (simp add: everything_def life_of_def entry_def multiset.map_comp comp_def)
  show "m \<in> set (waiting main b) \<Longrightarrow> retryCount m \<le> 3 \<and> times_failed b (content m) = retryCount m"
  proof -
    assume "m \<in> set (waiting main b)"
    then have "(content m, retryCount m) \<in># alive (life_of main b)" by (simp add: life_of_def entry_def)
    with ok show ?thesis
      unfolding life_ok_def times_failed_life [of b "content m" main] MAX_RETRIES_def by blast
  qed
  show "m \<in> set (queues b (dlqName main)) \<Longrightarrow> times_failed b (content m) = 4"
  proof -
    assume "m \<in> set (queues b (dlqName main))"
    then have "content m \<in># parked (life_of main b)" by (simp add: life_of_def)
    with ok show ?thesis
      unfolding life_ok_def times_failed_life [of b "content m" main] MAX_RETRIES_def by fastforce
  qed
  show "m \<in> set (handled b) \<Longrightarrow> times_failed b (content m) \<le> 3"
  proof -
    assume "m \<in> set (handled b)"
    then have "content m \<in># finished (life_of main b)" by (simp add: life_of_def)
    with ok show ?thesis
      unfolding life_ok_def times_failed_life [of b "content m" main] MAX_RETRIES_def by blast
  qed
  show "c \<notin> set ps \<Longrightarrow> times_failed b c = 0"
  proof -
    assume "c \<notin> set ps"
    then have "c \<notin># everything (life_of main b)" by (simp add: ev)
    with ok show ?thesis
      unfolding life_ok_def times_failed_life [of b c main] by simp
  qed
qed

text \<open>Runs for examples: the choice of the next step, and the broker after it.\<close>

datatype event_choice = Publish "nat rmq_message" | Deliver | Finish bool | Expire

fun take_choice :: "string \<Rightarrow> event_choice \<Rightarrow> nat list \<times> nat broker \<Rightarrow> (nat list \<times> nat broker) option" where
  "take_choice main (Publish m) (ps, b) =
     (if new_event ps m then Some (ps @ [content m], put_on main m b) else None)"
| "take_choice main Deliver (ps, b) =
     (case (queues b main, unacked b) of
        (m # ms, None) \<Rightarrow> Some (ps, b\<lparr>queues := (queues b)(main := ms), unacked := Some m\<rparr>)
      | _ \<Rightarrow> None)"
| "take_choice main (Finish ok) (ps, b) =
     (case unacked b of Some m \<Rightarrow> Some (ps, finished_event main m ok b) | None \<Rightarrow> None)"
| "take_choice main Expire (ps, b) =
     (case queues b (retryQueueName main) of
        m # ms \<Rightarrow> Some (ps, b\<lparr>queues := (queues b)(retryQueueName main := ms, main := queues b main @ [m])\<rparr>)
      | [] \<Rightarrow> None)"

fun take_choices :: "string \<Rightarrow> event_choice list \<Rightarrow> nat list \<times> nat broker \<Rightarrow> (nat list \<times> nat broker) option" where
  "take_choices main [] x = Some x"
| "take_choices main (c # cs) x = Option.bind (take_choice main c x) (take_choices main cs)"

lemma event_step_finish:
  assumes "unacked b = Some m"
  shows "event_step main b (finished_event main m ok b)"
  using queue_step.finish [OF assms] by (simp flip: finish_event)

lemma event_step_expire:
  assumes "queues b (retryQueueName main) = m # ms"
  shows "event_step main b (b\<lparr>queues := (queues b)(retryQueueName main := ms, main := queues b main @ [m])\<rparr>)"
  using assms by (rule queue_step.expire) (simp_all add: expires_to_topology)

lemma take_choice_sound:
  assumes "take_choice main c (ps, b) = Some (ps', b')" and "event_run main ps b"
  shows "event_run main ps' b'"
  using assms
  by (cases c)
    (auto split: if_splits list.splits option.splits
      intro: event_run.publish event_run.event [OF _ queue_step.deliver]
        event_run.event [OF _ event_step_finish] event_run.event [OF _ event_step_expire])

lemma take_choices_sound:
  "take_choices main cs (ps, b) = Some (ps', b') \<Longrightarrow> event_run main ps b \<Longrightarrow> event_run main ps' b'"
  by (induction cs arbitrary: ps b) (auto simp: bind_eq_Some_conv dest: take_choice_sound)

definition demo_event :: "nat \<Rightarrow> nat rmq_message" where
  "demo_event c = \<lparr>content = c, replyTo = None, headers = []\<rparr>"

definition demo_life :: "nat list \<times> nat broker" where
  "demo_life = the (take_choices ''q''
     ([Publish (demo_event 7), Publish (demo_event 8), Deliver, Finish False, Deliver, Finish True, Expire,
       Deliver, Finish False, Expire, Deliver, Finish False, Expire, Deliver, Finish False])
     ([], empty_broker))"

lemma demo_life_values:
  "fst demo_life = [7, 8]"
  "map content (queues (snd demo_life) (dlqName ''q'')) = [7]"
  "map content (handled (snd demo_life)) = [8]"
  "queues (snd demo_life) ''q'' = []" "queues (snd demo_life) (retryQueueName ''q'') = []"
  "unacked (snd demo_life) = None"
  "map content (failed (snd demo_life)) = [7, 7, 7, 7]"
  by code_simp+

lemma demo_life_some: "take_choices ''q''
     ([Publish (demo_event 7), Publish (demo_event 8), Deliver, Finish False, Deliver, Finish True, Expire,
       Deliver, Finish False, Expire, Deliver, Finish False, Expire, Deliver, Finish False])
     ([], empty_broker) \<noteq> None"
  by code_simp

lemma demo_life_run: "event_run ''q'' (fst demo_life) (snd demo_life)"
  using demo_life_some take_choices_sound [OF _ event_run.start] unfolding demo_life_def
  by (metis option.collapse prod.collapse)

text \<open>
  The lifecycle read back on the broker, for runs in which the consumer does not die and no
  content is published twice: every published event is in exactly one place, its retry header
  counts its failures, a parked event has failed exactly four times and a handled one at most
  three times.
\<close>

theorem lifecycle_of_events:
  assumes "event_run main ps b"
  shows "distinct ps
    \<and> mset (map content (waiting main b)) + mset (map content (queues b (dlqName main)))
           + mset (map content (handled b)) = mset ps
    \<and> (\<forall>m \<in> set (waiting main b). retryCount m \<le> 3 \<and> times_failed b (content m) = retryCount m)
    \<and> (\<forall>m \<in> set (queues b (dlqName main)). times_failed b (content m) = 4)
    \<and> (\<forall>m \<in> set (handled b). times_failed b (content m) \<le> 3)"
  using run_okD [OF run_ok_always [OF assms]] by blast

section \<open>The queues run dry\<close>

text \<open>How many steps a message still has: from the main queue, from the consumer, from the retry queue.\<close>

definition tries_left :: "'c rmq_message \<Rightarrow> nat" where
  "tries_left m = nat (3 * (3 - retryCount m))"

definition steps_left :: "string \<Rightarrow> 'c broker \<Rightarrow> nat" where
  "steps_left main b =
     sum_list (map (\<lambda>m. tries_left m + 2) (queues b main))
     + sum_list (map (\<lambda>m. tries_left m + 3) (queues b (retryQueueName main)))
     + sum_list (map (\<lambda>m. tries_left m + 1) (in_flight b))"

lemma steps_left_finish:
  assumes "unacked b = Some m"
  shows "steps_left main (finished_event main m ok b) < steps_left main b"
proof -
  have "retryCount m < 3 \<Longrightarrow> tries_left (sent_again m) + 3 \<le> tries_left m"
    by (simp add: tries_left_def nat_le_iff)
  then show ?thesis
    using assms by (auto simp: steps_left_def ended_simps in_flight_def MAX_RETRIES_def)
qed

lemma steps_left_decreases:
  assumes "event_step main b b'"
  shows "steps_left main b' < steps_left main b"
  using assms
proof (cases rule: event_step_cases)
  case (finish m ok)
  then show ?thesis by (simp add: steps_left_finish)
qed (simp_all add: steps_left_def in_flight_def)

lemma event_stuck:
  assumes "\<nexists>b'. event_step main b b'"
  shows "waiting main b = []"
proof -
  have 1: "unacked b = None" using assms event_step_finish by (cases "unacked b") blast+
  have 2: "queues b (retryQueueName main) = []" using assms event_step_expire by (metis neq_Nil_conv)
  have 3: "queues b main = []" using assms queue_step.deliver [OF _ 1] by (metis neq_Nil_conv)
  from 1 2 3 show ?thesis by (simp add: waiting_def in_flight_def)
qed

lemma no_endless_steps: "\<nexists>s. s 0 = b \<and> (\<forall>i. event_step main (s i) (s (Suc i)))"
proof
  assume "\<exists>s. s 0 = b \<and> (\<forall>i. event_step main (s i) (s (Suc i)))"
  then obtain s where "s 0 = b" "\<forall>i. event_step main (s i) (s (Suc i))" by blast
  then have "\<forall>i. (s (Suc i), s i) \<in> measure (steps_left main)"
    by (auto intro: steps_left_decreases)
  then show False using wf_measure wf_iff_no_infinite_down_chain by metis
qed

lemma demo_life_stuck: "\<nexists>c. event_step ''q'' (snd demo_life) c"
  using demo_life_values(4-6) by (auto elim!: event_step_cases)

section \<open>Deaths of the consumer\<close>

text \<open>A published event is somewhere: no step and no crash loses it.\<close>

definition somewhere :: "string \<Rightarrow> 'c broker \<Rightarrow> 'c set" where
  "somewhere main b =
     content ` (set (waiting main b) \<union> set (queues b (dlqName main)) \<union> set (handled b))"

inductive crashing_run :: "string \<Rightarrow> 'c list \<Rightarrow> 'c broker \<Rightarrow> bool" for main where
  start: "crashing_run main [] empty_broker"
| publish: "crashing_run main ps b \<Longrightarrow> replyTo m = None \<Longrightarrow> crashing_run main (ps @ [content m]) (put_on main m b)"
| event: "crashing_run main ps b \<Longrightarrow> event_step main b b' \<Longrightarrow> crashing_run main ps b'"
| crash: "crashing_run main ps b \<Longrightarrow> event_crash main b b' \<Longrightarrow> crashing_run main ps b'"

lemma somewhere_step:
  assumes "event_step main b b'" and "only_events main b"
  shows "somewhere main b \<subseteq> somewhere main b'"
  using assms(1)
proof (cases rule: event_step_cases)
  case (finish m ok)
  moreover have "replyTo m = None" using finish assms(2) by (simp add: life_simps)
  ultimately show ?thesis by (auto simp: somewhere_def waiting_def in_flight_def ended_simps)
qed (auto simp: somewhere_def waiting_def in_flight_def)

text \<open>A prefix of the interceptor's actions that leaves the message unacknowledged adds at most a copy.\<close>

lemma partial_end:
  assumes "unacked b = Some m" and "replyTo m = None"
    and "b1 = channel_run (take k (end_of (event_service_options main) m ok)) (log_outcome m ok b)"
    and "unacked b1 = Some m"
  shows "b1 = log_outcome m ok b
    \<or> \<not> ok \<and> retryCount m < MAX_RETRIES \<and> b1 = put_on (retryQueueName main) (sent_again m) (log_outcome m ok b)
    \<or> \<not> ok \<and> \<not> retryCount m < MAX_RETRIES \<and> b1 = put_on (dlqName main) (sent_on m) (log_outcome m ok b)"
proof (cases k)
  case 0
  then show ?thesis using assms by (simp add: channel_run_def)
next
  case (Suc j)
  show ?thesis
  proof (cases j)
    case 0
    then show ?thesis
      using Suc assms by (cases ok)
        (auto simp: end_of_success end_of_failure event_failure channel_run_def put_on_def sent_again_def sent_on_def)
  next
    case (Suc i)
    with \<open>k = Suc j\<close> assms have False
      by (cases ok) (auto simp: end_of_success end_of_failure event_failure channel_run_def split: if_splits)
    then show ?thesis ..
  qed
qed

definition requeued :: "string \<Rightarrow> 'c rmq_message \<Rightarrow> 'c broker \<Rightarrow> 'c broker" where
  "requeued main m b = b\<lparr>unacked := None, queues := (queues b)(main := m # queues b main)\<rparr>"

lemma event_crash_cases [consumes 2, case_names crash]:
  assumes "event_crash main b b'" and "only_events main b"
  obtains m b1 ok where "unacked b = Some m" and "replyTo m = None" and "b' = requeued main m b1"
    and "b1 = b \<or> b1 = log_outcome m ok b
      \<or> \<not> ok \<and> retryCount m < MAX_RETRIES \<and> b1 = put_on (retryQueueName main) (sent_again m) (log_outcome m ok b)
      \<or> \<not> ok \<and> \<not> retryCount m < MAX_RETRIES \<and> b1 = put_on (dlqName main) (sent_on m) (log_outcome m ok b)"
  using assms(1)
proof (cases rule: queue_crash.cases)
  case (before_end m)
  then show ?thesis using assms(2) by (intro that [of m b]) (simp_all add: requeued_def life_simps)
next
  case (during_end m b1 k ok)
  then have "replyTo m = None" using assms(2) by (simp add: life_simps)
  then show ?thesis
    using during_end partial_end [OF during_end(2) _ during_end(3,4)]
    by (intro that [of m b1 ok]) (simp_all add: requeued_def)
qed

lemma crash_keeps:
  assumes "event_crash main b b'" and "only_events main b"
  shows "somewhere main b \<subseteq> somewhere main b' \<and> only_events main b'"
  using assms
proof (cases rule: event_crash_cases)
  case (crash m b1 ok)
  from crash(4) have "somewhere main b \<subseteq> somewhere main b'"
    using crash(1,3)
    by (elim disjE) (auto simp: somewhere_def waiting_def in_flight_def requeued_def put_on_def log_outcome_def split: if_splits)
  moreover from crash(4) have "only_events main b'"
    using crash(1-3) assms(2)
    by (elim disjE) (auto simp: only_events_def waiting_def in_flight_def requeued_def put_on_def log_outcome_def split: if_splits)
  ultimately show ?thesis ..
qed

lemma crashing_run_keeps: "crashing_run main ps b \<Longrightarrow> set ps \<subseteq> somewhere main b \<and> only_events main b"
proof (induction rule: crashing_run.induct)
  case start
  show ?case by (simp add: life_simps empty_broker_def)
next
  case (publish ps b m)
  then show ?case by (auto simp: somewhere_def only_events_def waiting_def in_flight_def put_on_def)
next
  case (event ps b b')
  then show ?case using somewhere_step only_events_step by blast
next
  case (crash ps b b')
  then show ?case using crash_keeps by blast
qed

text \<open>
  C14. The consumer may die at any moment, before or between the interceptor's calls on the
  channel, and be started again: every event that was ever published is still waiting,
  parked or handled. (An event may then be there twice: delivery is at least once.)
\<close>

theorem no_event_is_lost:
  assumes "crashing_run main ps b"
  shows "set ps \<subseteq> content ` (set (waiting main b) \<union> set (queues b (dlqName main)) \<union> set (handled b))"
  using crashing_run_keeps [OF assms] by (simp add: somewhere_def)

text \<open>The consumer dies after the copy for the retry queue is sent and before the message is acknowledged.\<close>

definition demo_held :: "nat broker" where
  "demo_held = empty_broker\<lparr>unacked := Some (demo_event 7)\<rparr>"

definition demo_half :: "nat broker" where
  "demo_half = channel_run (take 1 (end_of (event_service_options ''q'') (demo_event 7) False))
     (log_outcome (demo_event 7) False demo_held)"

lemma demo_held_run: "crashing_run ''q'' [7] demo_held"
proof -
  have 1: "crashing_run ''q'' [7] (put_on ''q'' (demo_event 7) empty_broker)"
    using crashing_run.publish [OF crashing_run.start, of "demo_event 7" "''q''"] by (simp add: demo_event_def)
  let ?b = "put_on ''q'' (demo_event 7) empty_broker"
  have "demo_held = ?b\<lparr>queues := (queues ?b)(''q'' := []), unacked := Some (demo_event 7)\<rparr>"
    by (simp add: put_on_def demo_held_def empty_broker_def fun_eq_iff)
  moreover have "queues ?b ''q'' = demo_event 7 # []" "unacked ?b = None"
    by (simp_all add: put_on_def empty_broker_def)
  ultimately have 2: "event_step ''q'' ?b demo_held" by (metis queue_step.deliver)
  show ?thesis by (rule crashing_run.event [OF 1 2])
qed

lemma demo_half_values:
  "unacked demo_half = Some (demo_event 7)"
  "queues (requeued ''q'' (demo_event 7) demo_half) ''q'' = [demo_event 7]"
  "map content (queues (requeued ''q'' (demo_event 7) demo_half) (retryQueueName ''q'')) = [7]"
  by code_simp+

theorem no_event_is_lost_witness:
  "crashing_run ''q'' [7] (requeued ''q'' (demo_event 7) demo_half)
     \<and> 7 \<in> content ` (set (waiting ''q'' (requeued ''q'' (demo_event 7) demo_half))
         \<union> set (queues (requeued ''q'' (demo_event 7) demo_half) (dlqName ''q''))
         \<union> set (handled (requeued ''q'' (demo_event 7) demo_half)))"
proof -
  have "event_crash ''q'' demo_held (requeued ''q'' (demo_event 7) demo_half)"
    unfolding requeued_def
    by (rule queue_crash.during_end [where k = 1 and ok = False])
      (simp_all add: demo_half_values(1), simp_all add: demo_half_def demo_held_def)
  then have r: "crashing_run ''q'' [7] (requeued ''q'' (demo_event 7) demo_half)"
    by (rule crashing_run.crash [OF demo_held_run])
  then show ?thesis using no_event_is_lost [OF r] by simp
qed

section \<open>Services without retry and dead-letter queues\<close>

text \<open>
  The farms and auth services start without retry options. When the handler of an event
  fails there (the projection of a user, say), the message is rejected without requeueing:
  after the first failure the event is in no queue, whereas a request, which has a
  replyTo, is acknowledged, its caller being told of the error.
\<close>

theorem failing_event_is_dropped:
  assumes "unacked b = Some m"
  shows "queue_step rpc_service_options ds main b
           (b\<lparr>unacked := None, failed := failed b @ [m],
              dropped := (if given_text (replyTo m) then dropped b else dropped b @ [m])\<rparr>)"
proof -
  have "channel_run (end_of rpc_service_options m False) (log_outcome m False b)
    = b\<lparr>unacked := None, failed := failed b @ [m],
        dropped := (if given_text (replyTo m) then dropped b else dropped b @ [m])\<rparr>"
    using assms
    by (simp add: end_of_failure handleEventFailure_def rpc_service_options_def configureRmqMicroservice_def
        default_options_def given_text_def channel_run_def log_outcome_def)
  then show ?thesis using queue_step.finish [OF assms, of rpc_service_options ds main False] by simp
qed

theorem failing_event_is_dropped_witness:
  "queue_step rpc_service_options [] ''farms_queue'' demo_held
     (empty_broker\<lparr>failed := [demo_event 7], dropped := [demo_event 7]\<rparr>)"
  using failing_event_is_dropped [of demo_held "demo_event 7" "[]" "''farms_queue''"]
  by (simp add: demo_held_def demo_event_def empty_broker_def)

end
