(* ===== verification/RmqTries.thy ===== *)
theory RmqTries
  imports RmqEvents
begin

text \<open>
  The whole history of an event service: publications, steps of the queue, and deaths of the
  consumer in any order. How often an event is in the queues and how often it is tried is
  bounded by how often it was published and how often the consumer died with it in hand,
  and so is the number of steps the queue can take.
\<close>

section \<open>Histories\<close>

text \<open>
  \<open>history main n ps ds b\<close>: the broker \<open>b\<close> after \<open>n\<close> steps, with the contents published so far
  and the contents the consumer had in hand when it died (or lost its connection), in order.
  A content may be published more than once, as the relay does after a crash.
\<close>

inductive history :: "string \<Rightarrow> nat \<Rightarrow> 'c list \<Rightarrow> 'c list \<Rightarrow> 'c broker \<Rightarrow> bool" for main where
  start: "history main 0 [] [] empty_broker"
| publish: "history main n ps ds b \<Longrightarrow> replyTo m = None \<Longrightarrow> retryCount m = 0
    \<Longrightarrow> history main n (ps @ [content m]) ds (put_on main m b)"
| event: "history main n ps ds b \<Longrightarrow> event_step main b b' \<Longrightarrow> history main (Suc n) ps ds b'"
| death: "history main n ps ds b \<Longrightarrow> unacked b = Some m \<Longrightarrow> event_crash main b b'
    \<Longrightarrow> history main n ps (ds @ [content m]) b'"

section \<open>Counting\<close>

definition copies :: "'c \<Rightarrow> 'c rmq_message list \<Rightarrow> nat" where
  "copies c ms = count_list (map content ms) c"

text \<open>Where an event is: waiting (in the main queue, the retry queue, in hand), parked, handled.\<close>

definition places :: "string \<Rightarrow> 'c broker \<Rightarrow> 'c \<Rightarrow> nat" where
  "places main b c = copies c (waiting main b) + copies c (queues b (dlqName main)) + copies c (handled b)"

text \<open>The failures the waiting copies of an event may still have, one more for each that was handled.\<close>

definition worth :: "'c \<Rightarrow> 'c rmq_message list \<Rightarrow> int" where
  "worth c ms = sum_list (map (\<lambda>m. if content m = c then 4 - retryCount m else 0) ms)"

definition failures_ahead :: "string \<Rightarrow> 'c broker \<Rightarrow> 'c \<Rightarrow> int" where
  "failures_ahead main b c = worth c (waiting main b) + int (copies c (handled b))"

lemma copies_simps [simp]:
  "copies c [] = 0" "copies c (m # ms) = (if content m = c then 1 else 0) + copies c ms"
  "copies c (ms @ ms') = copies c ms + copies c ms'"
  by (simp_all add: copies_def)

lemma worth_simps [simp]:
  "worth c [] = 0" "worth c (m # ms) = (if content m = c then 4 - retryCount m else 0) + worth c ms"
  "worth c (ms @ ms') = worth c ms + worth c ms'"
  by (simp_all add: worth_def)

lemma copies_pos: "m \<in> set ms \<Longrightarrow> 1 \<le> copies (content m) ms"
  by (induction ms) auto

lemma copies_member: "0 < copies c ms \<longleftrightarrow> (\<exists>m \<in> set ms. content m = c)"
  by (induction ms) auto

lemma worth_member:
  assumes "m \<in> set ms" and "\<forall>x \<in> set ms. retryCount x \<le> 3"
  shows "4 - retryCount m \<le> worth (content m) ms"
proof -
  obtain xs ys where ms: "ms = xs @ m # ys" using assms(1) by (auto dest: split_list)
  have "0 \<le> worth c zs" if "set zs \<subseteq> set ms" for c zs
    unfolding worth_def by (rule sum_list_nonneg) (use that assms(2) in fastforce)
  then have "0 \<le> worth (content m) xs" "0 \<le> worth (content m) ys" by (simp_all add: ms subset_insertI2)
  then show ?thesis by (simp add: ms)
qed

lemma worth_nonneg: "\<forall>x \<in> set ms. retryCount x \<le> 3 \<Longrightarrow> 0 \<le> worth c ms"
  unfolding worth_def by (rule sum_list_nonneg) fastforce

section \<open>The invariant\<close>

text \<open>The retry header of a waiting message and the failures of its event; \<open>k c\<close> bounds the lives of \<open>c\<close>.\<close>

definition headers_ok :: "string \<Rightarrow> 'c broker \<Rightarrow> bool" where
  "headers_ok main b \<longleftrightarrow> only_events main b
     \<and> (\<forall>m \<in> set (waiting main b). 0 \<le> retryCount m \<and> retryCount m \<le> 3 \<and> retryCount m \<le> times_failed b (content m))
     \<and> (\<forall>m \<in> set (queues b (dlqName main)). 4 \<le> times_failed b (content m))"

definition tries_ok :: "string \<Rightarrow> 'c list \<Rightarrow> 'c list \<Rightarrow> 'c broker \<Rightarrow> bool" where
  "tries_ok main ps ds b \<longleftrightarrow> headers_ok main b
     \<and> (\<forall>c. count_list ps c \<le> places main b c \<and> places main b c \<le> count_list ps c + count_list ds c)
     \<and> (\<forall>c. times_failed b c + failures_ahead main b c \<le> 4 * int (count_list ps c + count_list ds c))"

lemma broker_simps [simp]:
  "queues (log_outcome m ok b) = queues b" "unacked (log_outcome m ok b) = unacked b"
  "handled (log_outcome m ok b) = handled b @ (if ok then [m] else [])"
  "times_failed (log_outcome m ok b) c = times_failed b c + (if \<not> ok \<and> content m = c then 1 else 0)"
  "queues (put_on q m b) q' = (if q' = q then queues b q @ [m] else queues b q')" "unacked (put_on q m b) = unacked b"
  "handled (put_on q m b) = handled b" "times_failed (put_on q m b) c = times_failed b c"
  "times_failed (b\<lparr>queues := qs\<rparr>) c = times_failed b c" "times_failed (b\<lparr>unacked := x\<rparr>) c = times_failed b c"
  "queues (requeued main m b) q = (if q = main then m # queues b q else queues b q)" "unacked (requeued main m b) = None"
  "handled (requeued main m b) = handled b" "times_failed (requeued main m b) c = times_failed b c"
  by (simp_all add: log_outcome_def put_on_def requeued_def times_failed_def)

lemma finished_event_cases:
  assumes "replyTo m = None"
  obtains "ok" and "finished_event main m ok b = (log_outcome m ok b)\<lparr>unacked := None\<rparr>"
  | "\<not> ok" and "retryCount m < 3"
      and "finished_event main m ok b = put_on (retryQueueName main) (sent_again m) ((log_outcome m ok b)\<lparr>unacked := None\<rparr>)"
  | "\<not> ok" and "\<not> retryCount m < 3"
      and "finished_event main m ok b = put_on (dlqName main) (sent_on m) ((log_outcome m ok b)\<lparr>unacked := None\<rparr>)"
  using assms by (auto simp: finished_event_def Let_def MAX_RETRIES_def split: if_splits)

lemmas where_simps = waiting_def in_flight_def MAX_RETRIES_def

lemma set_waiting:
  "set (waiting main b) = set (queues b main) \<union> set (queues b (retryQueueName main)) \<union> set_option (unacked b)"
  by (auto simp: waiting_def in_flight_def split: option.splits)

text \<open>Failures are only added: what was in order stays so, and only new messages need a look.\<close>

lemma headers_okI:
  assumes "headers_ok main b" and "\<And>c. times_failed b c \<le> times_failed b' c"
    and "\<And>m. m \<in> set (waiting main b') \<Longrightarrow> m \<in> set (waiting main b)
      \<or> replyTo m = None \<and> 0 \<le> retryCount m \<and> retryCount m \<le> 3 \<and> retryCount m \<le> times_failed b' (content m)"
    and "\<And>m. m \<in> set (queues b' (dlqName main)) \<Longrightarrow> m \<in> set (queues b (dlqName main)) \<or> 4 \<le> times_failed b' (content m)"
  shows "headers_ok main b'"
  using assms unfolding headers_ok_def only_events_def by (blast intro: order_trans)

lemma headers_ok_step:
  assumes "event_step main b b'" and "headers_ok main b"
  shows "headers_ok main b'"
  using assms(1)
proof (cases rule: event_step_cases)
  case (deliver m ms)
  then show ?thesis by (intro headers_okI [OF assms(2)]) (auto simp: set_waiting)
next
  case (finish m ok)
  then have m: "replyTo m = None" "0 \<le> retryCount m" "retryCount m \<le> 3" "retryCount m \<le> times_failed b (content m)"
    using assms(2) by (simp_all add: headers_ok_def only_events_def where_simps)
  from m(1) show ?thesis
  proof (cases rule: finished_event_cases [of m ok main b])
    case 1
    then show ?thesis unfolding finish(2) 1(2)
      by (intro headers_okI [OF assms(2)]) (auto simp: set_waiting)
  next
    case 2
    show ?thesis unfolding finish(2) 2(3)
      by (intro headers_okI [OF assms(2)]) (use m 2(1,2) finish(1) in \<open>simp add: set_waiting; (elim disjE)?; simp\<close>)+
  next
    case 3
    show ?thesis unfolding finish(2) 3(3)
      by (intro headers_okI [OF assms(2)]) (use m 3(1,2) finish(1) in \<open>simp add: set_waiting; (elim disjE)?; simp\<close>)+
  qed
next
  case (expire m ms)
  then show ?thesis by (intro headers_okI [OF assms(2)]) (auto simp: set_waiting split: if_splits)
qed

lemma tries_ok_step:
  assumes "event_step main b b'" and "tries_ok main ps ds b"
  shows "tries_ok main ps ds b'"
proof -
  have h: "headers_ok main b" using assms(2) by (simp add: tries_ok_def)
  have same: "places main b' c = places main b c \<and>
      times_failed b' c + failures_ahead main b' c \<le> times_failed b c + failures_ahead main b c" for c
    using assms(1)
  proof (cases rule: event_step_cases)
    case (finish m ok)
    then have m: "replyTo m = None" "0 \<le> retryCount m" "retryCount m \<le> 3"
      using h by (simp_all add: headers_ok_def only_events_def where_simps)
    from m(1) show ?thesis
      by (cases rule: finished_event_cases [of m ok main b])
        (use finish m in \<open>simp_all add: places_def failures_ahead_def where_simps\<close>)
  qed (simp_all add: places_def failures_ahead_def where_simps)
  show ?thesis
    using assms(2) headers_ok_step [OF assms(1) h] same unfolding tries_ok_def by (auto intro: order_trans)
qed

lemma tries_ok_publish:
  assumes "tries_ok main ps ds b" and "replyTo m = None" and "retryCount m = 0"
  shows "tries_ok main (ps @ [content m]) ds (put_on main m b)"
proof -
  have h: "headers_ok main b" using assms(1) by (simp add: tries_ok_def)
  have "headers_ok main (put_on main m b)"
    using assms(2,3) by (intro headers_okI [OF h]) (simp_all add: set_waiting, auto simp: times_failed_def)
  moreover have "places main (put_on main m b) c = places main b c + (if content m = c then 1 else 0)
      \<and> times_failed (put_on main m b) c + failures_ahead main (put_on main m b) c
        = times_failed b c + failures_ahead main b c + (if content m = c then 4 else 0)" for c
    using assms(3) by (simp add: places_def failures_ahead_def where_simps)
  ultimately show ?thesis using assms(1) by (simp add: tries_ok_def algebra_simps)
qed

lemma tries_ok_death:
  assumes "event_crash main b b'" and "unacked b = Some d" and "tries_ok main ps ds b"
  shows "tries_ok main ps (ds @ [content d]) b'"
proof -
  have h: "headers_ok main b" and ev: "only_events main b" using assms(3) by (simp_all add: tries_ok_def headers_ok_def)
  have rc: "0 \<le> retryCount d" "retryCount d \<le> 3" "retryCount d \<le> times_failed b (content d)"
    using h assms(2) by (simp_all add: headers_ok_def waiting_def in_flight_def)
  from assms(1) ev show ?thesis
  proof (cases rule: event_crash_cases)
    case (crash m b1 ok)
    then have m: "m = d" using assms(2) by simp
    have h': "headers_ok main b'"
      using crash(4)
    proof (elim disjE conjE)
      assume b1: "b1 = b"
      show ?thesis unfolding crash(3) b1
        by (intro headers_okI [OF h]) (use crash(1) in \<open>auto simp: set_waiting split: if_splits\<close>)
    next
      assume b1: "b1 = log_outcome m ok b"
      show ?thesis unfolding crash(3) b1
        by (intro headers_okI [OF h]) (use crash(1) in \<open>auto simp: set_waiting split: if_splits\<close>)
    next
      assume b1: "b1 = put_on (retryQueueName main) (sent_again m) (log_outcome m ok b)"
        and "\<not> ok" "retryCount m < MAX_RETRIES"
      then show ?thesis unfolding crash(3) b1
        by (intro headers_okI [OF h]) (use crash(1) m rc in \<open>simp add: set_waiting MAX_RETRIES_def; (elim disjE)?; simp\<close>)+
    next
      assume b1: "b1 = put_on (dlqName main) (sent_on m) (log_outcome m ok b)"
        and "\<not> ok" "\<not> retryCount m < MAX_RETRIES"
      then show ?thesis unfolding crash(3) b1
        by (intro headers_okI [OF h]) (use crash(1) m rc in \<open>simp add: set_waiting MAX_RETRIES_def; (elim disjE)?; simp\<close>)+
    qed
    have b': "places main b c \<le> places main b' c
        \<and> places main b' c \<le> places main b c + (if content d = c then 1 else 0)
        \<and> times_failed b' c + failures_ahead main b' c
            \<le> times_failed b c + failures_ahead main b c + (if content d = c then 4 else 0)" for c
      using crash(4)
    proof (elim disjE conjE)
      assume b1: "b1 = b"
      show ?thesis unfolding crash(3) b1 using crash(1) m by (simp add: places_def failures_ahead_def where_simps)
    next
      assume b1: "b1 = log_outcome m ok b"
      show ?thesis unfolding crash(3) b1 using crash(1) m by (simp add: places_def failures_ahead_def where_simps)
    next
      assume b1: "b1 = put_on (retryQueueName main) (sent_again m) (log_outcome m ok b)" and "\<not> ok"
      then show ?thesis unfolding crash(3) b1 using crash(1) m rc by (simp add: places_def failures_ahead_def where_simps)
    next
      assume b1: "b1 = put_on (dlqName main) (sent_on m) (log_outcome m ok b)" and "\<not> ok"
      then show ?thesis unfolding crash(3) b1 using crash(1) m rc by (simp add: places_def failures_ahead_def where_simps)
    qed
    show ?thesis
      unfolding tries_ok_def
    proof (intro conjI allI)
      fix c
      have old: "count_list ps c \<le> places main b c" "places main b c \<le> count_list ps c + count_list ds c"
        "times_failed b c + failures_ahead main b c \<le> 4 * int (count_list ps c + count_list ds c)"
        using assms(3) by (simp_all add: tries_ok_def)
      show "count_list ps c \<le> places main b' c" using b' [of c] old by linarith
      show "places main b' c \<le> count_list ps c + count_list (ds @ [content d]) c"
        using b' [of c] old by (auto split: if_splits)
      show "times_failed b' c + failures_ahead main b' c \<le> 4 * int (count_list ps c + count_list (ds @ [content d]) c)"
        using b' [of c] old by (auto split: if_splits)
    qed (rule h')
  qed
qed

lemma history_tries_ok: "history main n ps ds b \<Longrightarrow> tries_ok main ps ds b"
proof (induction rule: history.induct)
  case start
  show ?case
    by (simp add: tries_ok_def headers_ok_def only_events_def places_def failures_ahead_def waiting_def in_flight_def
        empty_broker_def times_failed_def)
next
  case (publish n ps ds b m)
  then show ?case by (blast intro: tries_ok_publish)
next
  case (event n ps ds b b')
  then show ?case by (blast intro: tries_ok_step)
next
  case (death n ps ds b m b')
  then show ?case by (blast intro: tries_ok_death)
qed

lemma history_facts:
  assumes "history main n ps ds b"
  shows "headers_ok main b"
    and "count_list ps c \<le> places main b c" "places main b c \<le> count_list ps c + count_list ds c"
    and "times_failed b c + failures_ahead main b c \<le> 4 * int (count_list ps c + count_list ds c)"
    and "0 \<le> worth c (waiting main b)" "0 \<le> failures_ahead main b c"
proof -
  have ok: "tries_ok main ps ds b" by (rule history_tries_ok [OF assms])
  then show h: "headers_ok main b" and "count_list ps c \<le> places main b c" "places main b c \<le> count_list ps c + count_list ds c"
    "times_failed b c + failures_ahead main b c \<le> 4 * int (count_list ps c + count_list ds c)"
    by (simp_all add: tries_ok_def)
  show w: "0 \<le> worth c (waiting main b)" using h by (intro worth_nonneg) (simp add: headers_ok_def)
  then show "0 \<le> failures_ahead main b c" by (simp add: failures_ahead_def)
qed

text \<open>An event that was published once and never in hand at a death.\<close>

lemma single_life:
  assumes "history main n ps ds b" and "count_list ps c = 1" and "count_list ds c = 0"
  shows "places main b c = 1"
    and "m \<in> set (waiting main b) \<Longrightarrow> content m = c \<Longrightarrow> retryCount m = times_failed b c"
    and "m \<in> set (queues b (dlqName main)) \<Longrightarrow> content m = c \<Longrightarrow> times_failed b c = 4"
    and "m \<in> set (handled b) \<Longrightarrow> content m = c \<Longrightarrow> times_failed b c \<le> 3"
proof -
  note facts = history_facts [OF assms(1)]
  have le: "times_failed b c + worth c (waiting main b) + int (copies c (handled b)) \<le> 4"
    using facts(4) [of c] assms(2,3) by (simp add: failures_ahead_def)
  show "places main b c = 1" using facts(2,3) [of c] assms(2,3) by simp
  show "retryCount m = times_failed b c" if "m \<in> set (waiting main b)" "content m = c"
  proof -
    have "4 - retryCount m \<le> worth c (waiting main b)"
      using worth_member [OF that(1)] facts(1) that(2) by (simp add: headers_ok_def)
    moreover have "retryCount m \<le> times_failed b c" using facts(1) that by (auto simp: headers_ok_def)
    ultimately show ?thesis using le by linarith
  qed
  show "times_failed b c = 4" if "m \<in> set (queues b (dlqName main))" "content m = c"
    using facts(1) facts(5) [of c] that le by (force simp: headers_ok_def)
  show "times_failed b c \<le> 3" if "m \<in> set (handled b)" "content m = c"
    using copies_pos [OF that(1)] facts(5) [of c] that(2) le by simp
qed

section \<open>Places and tries\<close>

text \<open>
  C12. In a service that consumes events from a main queue with its retry and dead-letter
  queues, and whose consumer may die at any moment, even between two of the interceptor's
  calls: an event is always in at least as many places (waiting, parked, handled) as it was
  published, and in at most one more for each death of the consumer with this event in hand.
  Its handler fails at most four times for each of these; a waiting message has a retry header
  of at most three that does not exceed the failures, and an event is parked only after four
  failures. So an event that was published once, and that the consumer never died with, is in
  exactly one place, its retry header counts its failures, a parked one has failed exactly
  four times and a handled one at most three times.
\<close>

theorem event_tries_are_bounded:
  assumes "history main n ps ds b"
  shows "count_list ps c \<le> places main b c \<and> places main b c \<le> count_list ps c + count_list ds c
    \<and> times_failed b c \<le> 4 * int (count_list ps c + count_list ds c)
    \<and> (\<forall>m \<in> set (waiting main b). 0 \<le> retryCount m \<and> retryCount m \<le> 3 \<and> retryCount m \<le> times_failed b (content m))
    \<and> (\<forall>m \<in> set (queues b (dlqName main)). 4 \<le> times_failed b (content m))
    \<and> (count_list ps c = 1 \<and> count_list ds c = 0 \<longrightarrow> places main b c = 1
        \<and> (\<forall>m \<in> set (waiting main b). content m = c \<longrightarrow> retryCount m = times_failed b c)
        \<and> (\<forall>m \<in> set (queues b (dlqName main)). content m = c \<longrightarrow> times_failed b c = 4)
        \<and> (\<forall>m \<in> set (handled b). content m = c \<longrightarrow> times_failed b c \<le> 3))"
proof -
  have "times_failed b c \<le> 4 * int (count_list ps c + count_list ds c)"
    using history_facts(4,6) [OF assms, of c] by linarith
  then show ?thesis
    using history_facts(1-3) [OF assms] single_life [OF assms, of c] by (auto simp: headers_ok_def)
qed

text \<open>The consumer of \<open>demo_half\<close>: the copy for the retry queue was sent, the message not acknowledged.\<close>

lemma demo_held_history: "history ''q'' 1 [7] [] demo_held"
proof -
  let ?b = "put_on ''q'' (demo_event 7) empty_broker"
  have 1: "history ''q'' 0 [7] [] ?b"
    using history.publish [OF history.start, of "demo_event 7" "''q''"] by (simp add: demo_event_def retryCount_def)
  have "demo_held = ?b\<lparr>queues := (queues ?b)(''q'' := []), unacked := Some (demo_event 7)\<rparr>"
    by (simp add: put_on_def demo_held_def empty_broker_def fun_eq_iff)
  moreover have "queues ?b ''q'' = demo_event 7 # []" "unacked ?b = None"
    by (simp_all add: put_on_def empty_broker_def)
  ultimately have 2: "event_step ''q'' ?b demo_held" by (metis queue_step.deliver)
  show ?thesis using history.event [OF 1 2] by simp
qed

lemma demo_half_history: "history ''q'' 1 [7] [7] (requeued ''q'' (demo_event 7) demo_half)"
proof -
  have "event_crash ''q'' demo_held (requeued ''q'' (demo_event 7) demo_half)"
    unfolding requeued_def
    by (rule queue_crash.during_end [where k = 1 and ok = False])
      (simp_all add: demo_half_values(1), simp_all add: demo_half_def demo_held_def)
  from history.death [OF demo_held_history _ this, of "demo_event 7"] show ?thesis
    by (simp add: demo_held_def demo_event_def)
qed

theorem event_tries_are_bounded_witness:
  "history ''q'' 1 [7] [7] (requeued ''q'' (demo_event 7) demo_half)
     \<and> places ''q'' (requeued ''q'' (demo_event 7) demo_half) 7 = 2
     \<and> times_failed (requeued ''q'' (demo_event 7) demo_half) 7 \<le> 8"
proof -
  have "places ''q'' (requeued ''q'' (demo_event 7) demo_half) 7 = 2" by code_simp
  then show ?thesis
    using demo_half_history event_tries_are_bounded [OF demo_half_history, of 7] by simp
qed

section \<open>The queues run dry\<close>

lemma steps_left_put_on_main:
  "steps_left main (put_on main m b) = steps_left main b + tries_left m + 2"
  by (simp add: steps_left_def in_flight_def)

lemma steps_left_death:
  assumes "event_crash main b b'" and "headers_ok main b"
  shows "steps_left main b' \<le> steps_left main b + 10"
proof -
  have "only_events main b" using assms(2) by (simp add: headers_ok_def)
  with assms(1) show ?thesis
  proof (cases rule: event_crash_cases)
    case (crash m b1 ok)
    have "0 \<le> retryCount m" using assms(2) crash(1) by (simp add: headers_ok_def waiting_def in_flight_def)
    then have t: "tries_left m \<le> 9" "retryCount m < 3 \<Longrightarrow> tries_left (sent_again m) + 3 = tries_left m"
      by (simp_all add: tries_left_def nat_eq_iff)
    have left: "steps_left main b = sum_list (map (\<lambda>m. tries_left m + 2) (queues b main))
        + sum_list (map (\<lambda>m. tries_left m + 3) (queues b (retryQueueName main))) + tries_left m + 1"
      using crash(1) by (simp add: steps_left_def in_flight_def)
    from crash(4) show ?thesis
    proof (elim disjE conjE)
      assume b1: "b1 = b"
      show ?thesis unfolding crash(3) b1 left by (simp add: steps_left_def in_flight_def)
    next
      assume b1: "b1 = log_outcome m ok b"
      show ?thesis unfolding crash(3) b1 left by (simp add: steps_left_def in_flight_def)
    next
      assume b1: "b1 = put_on (retryQueueName main) (sent_again m) (log_outcome m ok b)" and "retryCount m < MAX_RETRIES"
      then show ?thesis unfolding crash(3) b1 left using t by (simp add: steps_left_def in_flight_def MAX_RETRIES_def)
    next
      assume b1: "b1 = put_on (dlqName main) (sent_on m) (log_outcome m ok b)"
      show ?thesis unfolding crash(3) b1 left by (simp add: steps_left_def in_flight_def)
    qed
  qed
qed

lemma history_length: "history main n ps ds b \<Longrightarrow> n + steps_left main b \<le> 11 * length ps + 10 * length ds"
proof (induction rule: history.induct)
  case start
  show ?case by (simp add: steps_left_def in_flight_def empty_broker_def)
next
  case (publish n ps ds b m)
  then show ?case by (simp add: steps_left_put_on_main tries_left_def)
next
  case (event n ps ds b b')
  then show ?case using steps_left_decreases [OF event.hyps(2)] by simp
next
  case (death n ps ds b m b')
  then show ?case using steps_left_death [OF death.hyps(3) history_facts(1) [OF death.hyps(1)]] by simp
qed

text \<open>
  C13. The consumption of a queue goes on only as long as events are published or the
  consumer dies: in every history the queue takes at most eleven steps for each publication
  and ten for each death, so from any moment on without either it stops, whatever handlers
  succeed or fail and in whatever order messages are delivered and expire. When no step is
  left, nothing waits, every published event has been handled or is parked after at least four
  failures, and an event that was published once and that the consumer never died with is in
  one of the two alone: handled after at most three failures, or parked after exactly four.
\<close>

theorem event_queue_settles:
  assumes "history main n ps ds b"
  shows "n \<le> 11 * length ps + 10 * length ds
    \<and> (\<nexists>s. s 0 = b \<and> (\<forall>i. event_step main (s i) (s (Suc i))))
    \<and> ((\<nexists>b'. event_step main b b') \<longrightarrow> waiting main b = []
        \<and> set ps \<subseteq> content ` (set (handled b) \<union> set (queues b (dlqName main)))
        \<and> (\<forall>m \<in> set (queues b (dlqName main)). 4 \<le> times_failed b (content m))
        \<and> (\<forall>c. count_list ps c = 1 \<and> count_list ds c = 0 \<longrightarrow>
             copies c (handled b) = 1 \<and> copies c (queues b (dlqName main)) = 0 \<and> times_failed b c \<le> 3 \<or>
             copies c (handled b) = 0 \<and> copies c (queues b (dlqName main)) = 1 \<and> times_failed b c = 4))"
proof (intro conjI impI)
  show "n \<le> 11 * length ps + 10 * length ds" using history_length [OF assms] by simp
  show "\<nexists>s. s 0 = b \<and> (\<forall>i. event_step main (s i) (s (Suc i)))" by (rule no_endless_steps)
next
  assume "\<nexists>b'. event_step main b b'"
  then show dry: "waiting main b = []" by (rule event_stuck)
  show "\<forall>m \<in> set (queues b (dlqName main)). 4 \<le> times_failed b (content m)"
    using history_facts(1) [OF assms] by (simp add: headers_ok_def)
  have at: "places main b c = copies c (handled b) + copies c (queues b (dlqName main))" for c
    by (simp add: places_def dry)
  show "set ps \<subseteq> content ` (set (handled b) \<union> set (queues b (dlqName main)))"
  proof
    fix c
    assume "c \<in> set ps"
    then have "0 < count_list ps c" by (simp add: count_list_0_iff zero_less_iff_neq_zero)
    then have "0 < copies c (handled b) + copies c (queues b (dlqName main))"
      using history_facts(2) [OF assms, of c] at [of c] by linarith
    then show "c \<in> content ` (set (handled b) \<union> set (queues b (dlqName main)))"
      using copies_member [of c "handled b"] copies_member [of c "queues b (dlqName main)"] by auto
  qed
  show "\<forall>c. count_list ps c = 1 \<and> count_list ds c = 0 \<longrightarrow>
      copies c (handled b) = 1 \<and> copies c (queues b (dlqName main)) = 0 \<and> times_failed b c \<le> 3 \<or>
      copies c (handled b) = 0 \<and> copies c (queues b (dlqName main)) = 1 \<and> times_failed b c = 4"
  proof (intro allI impI)
    fix c
    assume "count_list ps c = 1 \<and> count_list ds c = 0"
    then have one: "count_list ps c = 1" "count_list ds c = 0" by simp_all
    note life = single_life [OF assms one]
    have "copies c (handled b) + copies c (queues b (dlqName main)) = 1" using life(1) by (simp add: at)
    then consider "copies c (handled b) = 1" "copies c (queues b (dlqName main)) = 0"
      | "copies c (handled b) = 0" "copies c (queues b (dlqName main)) = 1" by linarith
    then show "copies c (handled b) = 1 \<and> copies c (queues b (dlqName main)) = 0 \<and> times_failed b c \<le> 3 \<or>
      copies c (handled b) = 0 \<and> copies c (queues b (dlqName main)) = 1 \<and> times_failed b c = 4"
    proof cases
      case 1
      then obtain m where "m \<in> set (handled b)" "content m = c" using copies_member [of c "handled b"] by auto
      with life(4) 1 show ?thesis by simp
    next
      case 2
      then obtain m where "m \<in> set (queues b (dlqName main))" "content m = c"
        using copies_member [of c "queues b (dlqName main)"] by auto
      with life(3) 2 show ?thesis by simp
    qed
  qed
qed

text \<open>A run without deaths is a history.\<close>

lemma event_run_history: "event_run main ps b \<Longrightarrow> \<exists>n. history main n ps [] b"
proof (induction rule: event_run.induct)
  case (publish ps b m)
  then show ?case by (auto simp: new_event_def intro: history.publish)
qed (auto intro: history.start history.event)

theorem event_queue_settles_witness:
  "\<exists>n. history ''q'' n [7, 8] [] (snd demo_life) \<and> n \<le> 22 \<and> (\<nexists>b'. event_step ''q'' (snd demo_life) b')
     \<and> copies 7 (queues (snd demo_life) (dlqName ''q'')) = 1 \<and> times_failed (snd demo_life) 7 = 4"
proof -
  have "event_run ''q'' [7, 8] (snd demo_life)" using demo_life_run by (simp add: demo_life_values)
  then obtain n where n: "history ''q'' n [7, 8] [] (snd demo_life)" using event_run_history by blast
  have "copies 7 (queues (snd demo_life) (dlqName ''q'')) = 1" by (simp add: copies_def demo_life_values)
  moreover have "count_list [7, 8] (7::nat) = 1" "count_list [] (7::nat) = 0" by simp_all
  moreover have "n \<le> 22" using event_queue_settles [OF n] by simp
  moreover have "times_failed (snd demo_life) 7 = 4"
    using event_queue_settles [OF n] demo_life_stuck calculation(1-3) by (metis zero_neq_one)
  ultimately show ?thesis using n demo_life_stuck by blast
qed

end
