(* ===== verification/HttpErrors.thy ===== *)
theory HttpErrors
  imports Exceptions
begin

text \<open>
  How an error reaches the HTTP client: \<open>RpcExceptionFilter\<close> in a microservice turns what
  a handler throws into a plain object that travels over RabbitMQ, and the gateway's
  \<open>HttpExceptionFilter\<close> turns what arrives into a response
  (\<open>libs/common/src/filters\<close>).
\<close>

definition internal_error :: message_body where
  "internal_error = Text ''Internal server error''"

text \<open>\<open>typeof body === 'string' ? body : body.message ?? exception.message\<close>.\<close>

definition body_message :: "http_body \<Rightarrow> string \<Rightarrow> message_body" where
  "body_message body m =
     (case body of
        BodyText s \<Rightarrow> Text s
      | BodyObject (Some b) \<Rightarrow> b
      | BodyObject None \<Rightarrow> Text m)"

definition or_internal :: "message_body option \<Rightarrow> message_body" where
  "or_internal m = (case m of Some b \<Rightarrow> b | None \<Rightarrow> internal_error)"

fun rpc_exception_filter :: "exn \<Rightarrow> exn" where
  "rpc_exception_filter (HttpException code body m) =
     ThrownObject (StatusNumber code) (Some (body_message body m))"
| "rpc_exception_filter (RpcException (RpcObject code m)) =
     ThrownObject (StatusNumber (case code of Some n \<Rightarrow> n | None \<Rightarrow> 500)) (Some (or_internal m))"
| "rpc_exception_filter (RpcException (RpcText s)) = ThrownObject (StatusNumber 500) (Some (Text s))"
| "rpc_exception_filter (RpcException RpcOther) = ThrownObject (StatusNumber 500) (Some internal_error)"
| "rpc_exception_filter (ErrorExc n m) = ThrownObject (StatusNumber 500) (Some (Text m))"
| "rpc_exception_filter e = ThrownObject (StatusNumber 500) (Some internal_error)"

record http_error =
  he_statusCode :: int
  he_message :: message_body
  he_path :: string

fun http_exception_filter :: "string \<Rightarrow> exn \<Rightarrow> http_error" where
  "http_exception_filter url (HttpException code body m) =
     \<lparr>he_statusCode = code, he_message = body_message body m, he_path = url\<rparr>"
| "http_exception_filter url (ThrownObject (StatusNumber code) m) =
     \<lparr>he_statusCode = code, he_message = or_internal m, he_path = url\<rparr>"
| "http_exception_filter url (ThrownObject StatusOther m) =
     \<lparr>he_statusCode = 500, he_message = or_internal m, he_path = url\<rparr>"
| "http_exception_filter url e =
     \<lparr>he_statusCode = 500, he_message = internal_error, he_path = url\<rparr>"

text \<open>An error of a microservice, as the gateway's client sees it.\<close>

definition service_error :: "string \<Rightarrow> exn \<Rightarrow> http_error" where
  "service_error url e = http_exception_filter url (rpc_exception_filter e)"

lemma service_error_domain [simp]:
  "service_error url (BadRequestException m) = \<lparr>he_statusCode = 400, he_message = Text m, he_path = url\<rparr>"
  "service_error url (UnauthorizedException m) = \<lparr>he_statusCode = 401, he_message = Text m, he_path = url\<rparr>"
  "service_error url (ForbiddenException m) = \<lparr>he_statusCode = 403, he_message = Text m, he_path = url\<rparr>"
  "service_error url (NotFoundException m) = \<lparr>he_statusCode = 404, he_message = Text m, he_path = url\<rparr>"
  "service_error url (ConflictException m) = \<lparr>he_statusCode = 409, he_message = Text m, he_path = url\<rparr>"
  by (simp_all add: service_error_def exception_defs body_message_def or_internal_def)

lemma service_error_library: "is_library_error e \<Longrightarrow> he_statusCode (service_error url e) = 500"
  by (cases e) (simp_all add: service_error_def)

text \<open>
  An HttpException that a microservice throws ends as the same response as if the
  gateway itself had thrown it: its status and its message survive the hop over RabbitMQ
  (a 404 is a 404, a 409 a 409), and anything else that is thrown ends as a 500.
\<close>

theorem status_survives_the_hop:
  "service_error url (HttpException code body m) = http_exception_filter url (HttpException code body m)
   \<and> he_statusCode (service_error url (ErrorExc n msg)) = 500
   \<and> he_statusCode (service_error url (ThrownObject st mb)) = 500
   \<and> he_statusCode (service_error url ThrownOther) = 500"
  by (simp add: service_error_def or_internal_def)

end
