(* ===== verification/Guards.thy ===== *)
theory Guards
  imports HttpErrors Contracts
begin

text \<open>
  The guards of the gateway's routes: \<open>AuthGuard\<close> asks the auth service to verify the
  bearer token and attaches the user it names, \<open>RolesGuard\<close> compares that user's role with
  the roles of the route (\<open>libs/common/src/guards\<close>).
\<close>

text \<open>What \<open>login\<close> leaves of the user in the token: the id and the role.\<close>

record claims =
  cl_id :: int
  cl_rol :: "string option"

definition Admin :: string where
  "Admin = ''admin''"

definition Farmer :: string where
  "Farmer = ''farmer''"

text \<open>
  The answer of \<open>verify-jwt\<close>: the expiry time in seconds and the user, either of which a
  token may lack.
\<close>

record verified =
  vf_exp :: "int option"
  vf_user :: "claims option"

record 'w auth_client =
  ac_verify_jwt :: "string \<Rightarrow> ('w, verified) op"
  ac_now :: "('w, int) op"

text \<open>
  \<open>canActivate\<close>: the answer, and the user that is attached to the request. Errors of the
  lookup, an answer that cannot be read among them, become one \<open>UnauthorizedException\<close>.
\<close>

definition check_token :: "'w auth_client \<Rightarrow> string \<Rightarrow> ('w, bool \<times> claims option) prog" where
  "check_token A jwt =
     try_catch
       (bind (atom (ac_verify_jwt A jwt)) (\<lambda>v.
        bind (throw_if (vf_exp v = None \<or> vf_exp v = Some 0)
          (UnauthorizedException ''JWT token has no expiration date'')) (\<lambda>_.
        bind (atom (ac_now A)) (\<lambda>now.
        bind (throw_if (\<not> now < the (vf_exp v) * 1000) (UnauthorizedException ''JWT token expired'')) (\<lambda>_.
        Return (True, vf_user v))))))
       (\<lambda>err. Throw (UnauthorizedException ''Authentication error''))"

definition auth_guard :: "'w auth_client \<Rightarrow> string \<Rightarrow> string option \<Rightarrow> ('w, bool \<times> claims option) prog" where
  "auth_guard A context_type authorization =
     (if context_type \<noteq> ''http'' then Return (False, None)
      else case authorization of
        None \<Rightarrow> Throw (UnauthorizedException ''Missing authorization header'')
      | Some header \<Rightarrow>
          (if header = [] then Throw (UnauthorizedException ''Missing authorization header'')
           else case split_on (CHR '' '') header of
             [scheme, jwt] \<Rightarrow>
               (if scheme \<noteq> ''Bearer'' then Throw (UnauthorizedException ''Authorization scheme must be Bearer'')
                else check_token A jwt)
           | _ \<Rightarrow> Throw (UnauthorizedException ''Malformed authorization header'')))"

definition roles_guard :: "string list option \<Rightarrow> claims option \<Rightarrow> exn + bool" where
  "roles_guard required user =
     (if required = None \<or> required = Some [] then Inr True
      else case user of
        None \<Rightarrow> Inl (ForbiddenException ''Insufficient role'')
      | Some u \<Rightarrow>
          (case cl_rol u of
             Some r \<Rightarrow> if r \<in> set (the required) then Inr True
                       else Inl (ForbiddenException ''Insufficient role'')
           | None \<Rightarrow> Inl (ForbiddenException ''Insufficient role'')))"

section \<open>What the guards let through\<close>

definition bearer :: "string option \<Rightarrow> string \<Rightarrow> bool" where
  "bearer authorization jwt \<longleftrightarrow> authorization = Some (''Bearer '' @ jwt) \<and> CHR '' '' \<notin> set jwt"

lemma bearer_split: "bearer a jwt \<longleftrightarrow> (\<exists>h. a = Some h \<and> split_on (CHR '' '') h = [''Bearer'', jwt])"
  by (auto simp: bearer_def split_on_two)

lemma auth_guard_bearer:
  assumes "bearer a jwt"
  shows "auth_guard A ''http'' a = check_token A jwt"
proof -
  obtain h where h: "a = Some h" "split_on (CHR '' '') h = [''Bearer'', jwt]"
    using assms unfolding bearer_split by blast
  then have "h \<noteq> []" by auto
  with h show ?thesis by (simp add: auth_guard_def)
qed

lemma auth_guard_no_bearer:
  assumes "\<nexists>jwt. bearer a jwt"
  shows "\<exists>m. auth_guard A ''http'' a = Throw (UnauthorizedException m)"
proof (cases a)
  case None
  then show ?thesis by (auto simp: auth_guard_def)
next
  case (Some h)
  have "\<nexists>jwt. split_on (CHR '' '') h = [''Bearer'', jwt]"
    using assms Some unfolding bearer_split by blast
  then show ?thesis
    using Some by (auto simp: auth_guard_def split: list.splits)
qed

lemma check_token_run:
  "run (check_token A jwt) w =
     (case ac_verify_jwt A jwt w of
        (Inl e, w1) \<Rightarrow> (Inl (UnauthorizedException ''Authentication error''), w1)
      | (Inr v, w1) \<Rightarrow>
          (if vf_exp v = None \<or> vf_exp v = Some 0
           then (Inl (UnauthorizedException ''Authentication error''), w1)
           else (case ac_now A w1 of
               (Inl e, w2) \<Rightarrow> (Inl (UnauthorizedException ''Authentication error''), w2)
             | (Inr now, w2) \<Rightarrow>
                 (if now < the (vf_exp v) * 1000 then (Inr (True, vf_user v), w2)
                  else (Inl (UnauthorizedException ''Authentication error''), w2)))))"
  by (auto simp: check_token_def run_simps split: prod.splits sum.splits)

text \<open>
  C15. The guard lets an HTTP request through exactly if its authorization header is
  Bearer, one space and a token without spaces, the auth service verifies that token, and
  the expiry time it reports is there and still ahead on the gateway's clock; the request
  then carries exactly the user of the token. In every other case the guard throws, and
  what it throws is always a 401: an outage of the auth service never lets anyone in.
\<close>

theorem auth_guard_admits_exactly_valid_tokens:
  "(\<forall>user w'. run (auth_guard A ''http'' a) w = (Inr (True, user), w') \<longleftrightarrow>
      (\<exists>jwt v w1 now t. bearer a jwt \<and> ac_verify_jwt A jwt w = (Inr v, w1) \<and> vf_exp v = Some t \<and> t \<noteq> 0
         \<and> ac_now A w1 = (Inr now, w') \<and> now < t * 1000 \<and> user = vf_user v))
   \<and> (case fst (run (auth_guard A ''http'' a) w) of
        Inr (ok, user) \<Rightarrow> ok
      | Inl e \<Rightarrow> (\<exists>m. e = UnauthorizedException m))"
proof (cases "\<exists>jwt. bearer a jwt")
  case True
  then obtain jwt where b: "bearer a jwt" ..
  have only: "bearer a j \<longleftrightarrow> j = jwt" for j
    using b by (auto simp: bearer_def)
  show ?thesis
    unfolding auth_guard_bearer [OF b] check_token_run only
    by (auto split: prod.splits sum.splits if_splits)
next
  case False
  then obtain m where "auth_guard A ''http'' a = Throw (UnauthorizedException m)"
    using auth_guard_no_bearer by blast
  with False show ?thesis by auto
qed

text \<open>
  On a route that asks for roles the second guard lets a request through exactly if
  its user has one of them; without a user, or without a role, it answers 403 instead of
  failing; a route that asks for none is open to every authenticated request.
\<close>

theorem roles_guard_admits_exactly_the_roles:
  "(roles_guard (Some (r # rs)) user = Inr True \<longleftrightarrow> (\<exists>u. user = Some u \<and> (\<exists>x \<in> set (r # rs). cl_rol u = Some x)))
   \<and> roles_guard (Some (r # rs)) user \<in> {Inr True, Inl (ForbiddenException ''Insufficient role'')}
   \<and> roles_guard None user = Inr True \<and> roles_guard (Some []) user = Inr True"
  by (auto simp: roles_guard_def split: option.splits)

end
