(* ===== verification/FarmsGateway.thy ===== *)
theory FarmsGateway
  imports FarmsApp Guards
begin

text \<open>
  The gateway's controllers for the farms service
  (\<open>apps/gateway/src/controllers/{farms,crops,activities,harvests}.controller.ts\<close>): what
  each route sends over RabbitMQ, how the service's \<open>@MessagePattern\<close> handlers take it
  apart, and the whole way of an HTTP request: guard, pipes, message, handler, error
  filters. The NestJS pipes are parameters: \<open>ParseIntPipe\<close>, \<open>ParseFilePipe\<close> with the two
  validators of the routes, and the \<open>ValidationPipe\<close> for each DTO.
\<close>

section \<open>Messages\<close>

text \<open>A message is a pattern and a payload: a bare value, or an object with properties.\<close>

datatype wire =
    WNum int
  | WNewFarm CreateFarmDto
  | WFarmChange UpdateFarmDto
  | WNewCrop CreateCropDto
  | WCropChange UpdateCropDto
  | WNewActivity CreateActivityDto
  | WActivityChange UpdateActivityDto
  | WNewHarvest CreateHarvestDto
  | WHarvestChange UpdateHarvestDto
  | WFile upload

datatype payload = Bare wire | Fields "(string \<times> wire) list"

text \<open>\<open>payload.k\<close>, read as a value of the type the handler declares.\<close>

definition field :: "string \<Rightarrow> payload \<Rightarrow> wire option" where
  "field k p = (case p of Bare v \<Rightarrow> None | Fields fs \<Rightarrow> map_of fs k)"

definition num_field :: "string \<Rightarrow> payload \<Rightarrow> int option" where
  "num_field k p = (case field k p of Some (WNum n) \<Rightarrow> Some n | _ \<Rightarrow> None)"

definition file_field :: "string \<Rightarrow> payload \<Rightarrow> upload option" where
  "file_field k p = (case field k p of Some (WFile f) \<Rightarrow> Some f | _ \<Rightarrow> None)"

text \<open>The handlers that need the caller and one id, and those that need a file with them.\<close>

definition with_id :: "(int \<Rightarrow> int \<Rightarrow> 'c) \<Rightarrow> string \<Rightarrow> payload \<Rightarrow> 'c option" where
  "with_id mk k p =
     Option.bind (num_field ''userId'' p) (\<lambda>u. map_option (mk u) (num_field k p))"

definition with_file :: "(int \<Rightarrow> int \<Rightarrow> upload \<Rightarrow> 'c) \<Rightarrow> string \<Rightarrow> payload \<Rightarrow> 'c option" where
  "with_file mk k p =
     Option.bind (num_field ''userId'' p) (\<lambda>u.
     Option.bind (num_field k p) (\<lambda>i. map_option (mk i u) (file_field ''file'' p)))"

text \<open>
  The \<open>@MessagePattern\<close> handlers of the four controllers of the service: the pattern, and
  the properties each handler reads. \<open>None\<close> is a message no handler takes as it is meant.
\<close>

definition farms_handler :: "string \<Rightarrow> payload \<Rightarrow> farms_request option" where
  "farms_handler cmd p =
     (if cmd = ''farms'' then
        Option.bind (num_field ''userId'' p) (\<lambda>u.
        case field ''createFarmDto'' p of Some (WNewFarm d) \<Rightarrow> Some (CreateFarm u d) | _ \<Rightarrow> None)
      else if cmd = ''farmsByUser'' then (case p of Bare (WNum u) \<Rightarrow> Some (FarmsByUser u) | _ \<Rightarrow> None)
      else if cmd = ''updateFarm'' then
        Option.bind (num_field ''userId'' p) (\<lambda>u.
        case (field ''updateFarmDto'' p, num_field ''farmId'' p) of
          (Some (WFarmChange d), Some i) \<Rightarrow> Some (UpdateFarm u d i) | _ \<Rightarrow> None)
      else if cmd = ''deleteFarm'' then with_id DeleteFarm ''farmId'' p
      else if cmd = ''farm-image'' then with_file FarmImage ''farmId'' p
      else if cmd = ''get-farm-image'' then with_id GetFarmImage ''farmId'' p
      else None)"

definition crops_handler :: "string \<Rightarrow> payload \<Rightarrow> crops_request option" where
  "crops_handler cmd p =
     (if cmd = ''crops'' then
        Option.bind (num_field ''userId'' p) (\<lambda>u.
        case field ''createCropDto'' p of Some (WNewCrop d) \<Rightarrow> Some (CreateCrop u d) | _ \<Rightarrow> None)
      else if cmd = ''getCropById'' then with_id GetCropById ''id'' p
      else if cmd = ''cropsByFarm'' then with_id CropsByFarm ''farmId'' p
      else if cmd = ''updateCrop'' then
        Option.bind (num_field ''userId'' p) (\<lambda>u.
        case (field ''updateCropDto'' p, num_field ''cropId'' p) of
          (Some (WCropChange d), Some i) \<Rightarrow> Some (UpdateCrop u d i) | _ \<Rightarrow> None)
      else if cmd = ''deleteCrop'' then with_id DeleteCrop ''cropId'' p
      else if cmd = ''crop-photo'' then with_file CropPhoto ''cropId'' p
      else if cmd = ''get-crop-photo'' then with_id GetCropPhoto ''cropId'' p
      else None)"

definition activities_handler :: "string \<Rightarrow> payload \<Rightarrow> activities_request option" where
  "activities_handler cmd p =
     (if cmd = ''activities'' then
        Option.bind (num_field ''userId'' p) (\<lambda>u.
        case field ''createActivityDto'' p of Some (WNewActivity d) \<Rightarrow> Some (CreateActivity u d) | _ \<Rightarrow> None)
      else if cmd = ''activitiesByFarm'' then with_id ActivitiesByCrop ''cropId'' p
      else if cmd = ''updateActivity'' then
        Option.bind (num_field ''userId'' p) (\<lambda>u.
        case (field ''updateActivityDto'' p, num_field ''activityId'' p) of
          (Some (WActivityChange d), Some i) \<Rightarrow> Some (UpdateActivity u d i) | _ \<Rightarrow> None)
      else if cmd = ''deleteActivity'' then with_id DeleteActivity ''activityId'' p
      else if cmd = ''activity-photo'' then with_file ActivityPhoto ''activityId'' p
      else if cmd = ''get-activity-photo'' then with_id GetActivityPhoto ''activityId'' p
      else None)"

definition harvests_handler :: "string \<Rightarrow> payload \<Rightarrow> harvests_request option" where
  "harvests_handler cmd p =
     (if cmd = ''harvest'' then
        Option.bind (num_field ''userId'' p) (\<lambda>u.
        case field ''createHarvestDto'' p of Some (WNewHarvest d) \<Rightarrow> Some (CreateHarvest u d) | _ \<Rightarrow> None)
      else if cmd = ''harvestByCrop'' then with_id HarvestByCrop ''cropId'' p
      else if cmd = ''updateHarvest'' then
        Option.bind (num_field ''userId'' p) (\<lambda>u.
        case (field ''updateHarvestDto'' p, num_field ''harvestId'' p) of
          (Some (WHarvestChange d), Some i) \<Rightarrow> Some (UpdateHarvest u d i) | _ \<Rightarrow> None)
      else if cmd = ''deleteHarvest'' then with_id DeleteHarvest ''harvestId'' p
      else if cmd = ''harvest-photo'' then with_file HarvestPhoto ''harvestId'' p
      else if cmd = ''get-harvest-photo'' then with_id GetHarvestPhoto ''harvestId'' p
      else None)"

definition farms_handlers :: "string \<Rightarrow> payload \<Rightarrow> farms_command option" where
  "farms_handlers cmd p =
     (case farms_handler cmd p of Some r \<Rightarrow> Some (FarmsCmd r) | None \<Rightarrow>
     (case crops_handler cmd p of Some r \<Rightarrow> Some (CropsCmd r) | None \<Rightarrow>
     (case activities_handler cmd p of Some r \<Rightarrow> Some (ActivitiesCmd r) | None \<Rightarrow>
      map_option HarvestsCmd (harvests_handler cmd p))))"

section \<open>Routes\<close>

record http_request =
  rq_url :: string
  rq_authorization :: "string option"
  rq_query :: "(string \<times> string) list"
  rq_params :: "(string \<times> string) list"
  rq_body :: json
  rq_file :: "upload option"

record pipes =
  parse_int :: "string option \<Rightarrow> exn + int"
  parse_file :: "int \<Rightarrow> string \<Rightarrow> upload option \<Rightarrow> exn + upload"
  valid_CreateFarmDto :: "json \<Rightarrow> exn + CreateFarmDto"
  valid_UpdateFarmDto :: "json \<Rightarrow> exn + UpdateFarmDto"
  valid_CreateCropDto :: "json \<Rightarrow> exn + CreateCropDto"
  valid_UpdateCropDto :: "json \<Rightarrow> exn + UpdateCropDto"
  valid_CreateActivityDto :: "json \<Rightarrow> exn + CreateActivityDto"
  valid_UpdateActivityDto :: "json \<Rightarrow> exn + UpdateActivityDto"
  valid_CreateHarvestDto :: "json \<Rightarrow> exn + CreateHarvestDto"
  valid_UpdateHarvestDto :: "json \<Rightarrow> exn + UpdateHarvestDto"

fun and_then :: "exn + 'a \<Rightarrow> ('a \<Rightarrow> exn + 'b) \<Rightarrow> exn + 'b" where
  "and_then (Inl e) g = Inl e"
| "and_then (Inr a) g = g a"

lemma and_then_Inr: "and_then x g = Inr b \<longleftrightarrow> (\<exists>a. x = Inr a \<and> g a = Inr b)"
  by (cases x) auto

text \<open>\<open>req.user.id\<close>: a token without a user leaves \<open>req.user\<close> undefined.\<close>

definition user_id :: "claims option \<Rightarrow> exn + int" where
  "user_id user =
     (case user of
        Some u \<Rightarrow> Inr (cl_id u)
      | None \<Rightarrow> Inl (ErrorExc ''TypeError'' ''Cannot read properties of undefined''))"

definition query_int :: "pipes \<Rightarrow> http_request \<Rightarrow> string \<Rightarrow> exn + int" where
  "query_int P rq k = parse_int P (map_of (rq_query rq) k)"

definition param_int :: "pipes \<Rightarrow> http_request \<Rightarrow> string \<Rightarrow> exn + int" where
  "param_int P rq k = parse_int P (map_of (rq_params rq) k)"

definition image_file :: "pipes \<Rightarrow> http_request \<Rightarrow> exn + upload" where
  "image_file P rq = parse_file P 1048576 ''image'' (rq_file rq)"

datatype farms_route = PostFarm | GetFarms | PatchFarm | DeleteFarmRoute | PostFarmPhoto | GetFarmPhoto
datatype crops_route = PostCrop | GetCrops | PatchCrop | FindOneCrop | DeleteCropRoute | PostCropPhoto | GetCropPhotoRoute
datatype activities_route = GetActivities | PostActivity | PatchActivity | DeleteActivityRoute
  | PostActivityPhoto | GetActivityPhotoRoute
datatype harvests_route = PostHarvest | GetHarvests | PatchHarvest | DeleteHarvestRoute
  | PostHarvestPhoto | GetHarvestPhotoRoute

type_synonym sent = "string \<times> payload"

text \<open>A route with one id in the query, and one with a photo as well.\<close>

definition send_id :: "pipes \<Rightarrow> http_request \<Rightarrow> claims option \<Rightarrow> string \<Rightarrow> string \<Rightarrow> exn + sent" where
  "send_id P rq user cmd k =
     and_then (query_int P rq k) (\<lambda>i.
     and_then (user_id user) (\<lambda>u.
     Inr (cmd, Fields [(''userId'', WNum u), (k, WNum i)])))"

definition send_photo :: "pipes \<Rightarrow> http_request \<Rightarrow> claims option \<Rightarrow> string \<Rightarrow> string \<Rightarrow> exn + sent" where
  "send_photo P rq user cmd k =
     and_then (image_file P rq) (\<lambda>f.
     and_then (query_int P rq k) (\<lambda>i.
     and_then (user_id user) (\<lambda>u.
     Inr (cmd, Fields [(''file'', WFile f), (''userId'', WNum u), (k, WNum i)]))))"

fun gw_farms :: "pipes \<Rightarrow> http_request \<Rightarrow> claims option \<Rightarrow> farms_route \<Rightarrow> exn + sent" where
  "gw_farms P rq user PostFarm =
     and_then (valid_CreateFarmDto P (rq_body rq)) (\<lambda>dto.
     and_then (user_id user) (\<lambda>u.
     Inr (''farms'', Fields [(''userId'', WNum u), (''createFarmDto'', WNewFarm dto)])))"
| "gw_farms P rq user GetFarms = and_then (user_id user) (\<lambda>u. Inr (''farmsByUser'', Bare (WNum u)))"
| "gw_farms P rq user PatchFarm =
     and_then (query_int P rq ''farmId'') (\<lambda>i.
     and_then (valid_UpdateFarmDto P (rq_body rq)) (\<lambda>dto.
     and_then (user_id user) (\<lambda>u.
     Inr (''updateFarm'', Fields [(''userId'', WNum u), (''updateFarmDto'', WFarmChange dto), (''farmId'', WNum i)]))))"
| "gw_farms P rq user DeleteFarmRoute = send_id P rq user ''deleteFarm'' ''farmId''"
| "gw_farms P rq user PostFarmPhoto = send_photo P rq user ''farm-image'' ''farmId''"
| "gw_farms P rq user GetFarmPhoto = send_id P rq user ''get-farm-image'' ''farmId''"

fun gw_crops :: "pipes \<Rightarrow> http_request \<Rightarrow> claims option \<Rightarrow> crops_route \<Rightarrow> exn + sent" where
  "gw_crops P rq user PostCrop =
     and_then (valid_CreateCropDto P (rq_body rq)) (\<lambda>dto.
     and_then (user_id user) (\<lambda>u.
     Inr (''crops'', Fields [(''userId'', WNum u), (''createCropDto'', WNewCrop dto)])))"
| "gw_crops P rq user GetCrops = send_id P rq user ''cropsByFarm'' ''farmId''"
| "gw_crops P rq user PatchCrop =
     and_then (query_int P rq ''cropId'') (\<lambda>i.
     and_then (valid_UpdateCropDto P (rq_body rq)) (\<lambda>dto.
     and_then (user_id user) (\<lambda>u.
     Inr (''updateCrop'', Fields [(''userId'', WNum u), (''updateCropDto'', WCropChange dto), (''cropId'', WNum i)]))))"
| "gw_crops P rq user FindOneCrop =
     and_then (param_int P rq ''id'') (\<lambda>i.
     and_then (user_id user) (\<lambda>u.
     Inr (''getCropById'', Fields [(''userId'', WNum u), (''id'', WNum i)])))"
| "gw_crops P rq user DeleteCropRoute = send_id P rq user ''deleteCrop'' ''cropId''"
| "gw_crops P rq user PostCropPhoto = send_photo P rq user ''crop-photo'' ''cropId''"
| "gw_crops P rq user GetCropPhotoRoute = send_id P rq user ''get-crop-photo'' ''cropId''"

fun gw_activities :: "pipes \<Rightarrow> http_request \<Rightarrow> claims option \<Rightarrow> activities_route \<Rightarrow> exn + sent" where
  "gw_activities P rq user GetActivities = send_id P rq user ''activitiesByFarm'' ''cropId''"
| "gw_activities P rq user PostActivity =
     and_then (valid_CreateActivityDto P (rq_body rq)) (\<lambda>dto.
     and_then (user_id user) (\<lambda>u.
     Inr (''activities'', Fields [(''userId'', WNum u), (''createActivityDto'', WNewActivity dto)])))"
| "gw_activities P rq user PatchActivity =
     and_then (query_int P rq ''activityId'') (\<lambda>i.
     and_then (valid_UpdateActivityDto P (rq_body rq)) (\<lambda>dto.
     and_then (user_id user) (\<lambda>u.
     Inr (''updateActivity'',
       Fields [(''userId'', WNum u), (''updateActivityDto'', WActivityChange dto), (''activityId'', WNum i)]))))"
| "gw_activities P rq user DeleteActivityRoute = send_id P rq user ''deleteActivity'' ''activityId''"
| "gw_activities P rq user PostActivityPhoto = send_photo P rq user ''activity-photo'' ''activityId''"
| "gw_activities P rq user GetActivityPhotoRoute = send_id P rq user ''get-activity-photo'' ''activityId''"

fun gw_harvests :: "pipes \<Rightarrow> http_request \<Rightarrow> claims option \<Rightarrow> harvests_route \<Rightarrow> exn + sent" where
  "gw_harvests P rq user PostHarvest =
     and_then (valid_CreateHarvestDto P (rq_body rq)) (\<lambda>dto.
     and_then (user_id user) (\<lambda>u.
     Inr (''harvest'', Fields [(''userId'', WNum u), (''createHarvestDto'', WNewHarvest dto)])))"
| "gw_harvests P rq user GetHarvests = send_id P rq user ''harvestByCrop'' ''cropId''"
| "gw_harvests P rq user PatchHarvest =
     and_then (query_int P rq ''harvestId'') (\<lambda>i.
     and_then (valid_UpdateHarvestDto P (rq_body rq)) (\<lambda>dto.
     and_then (user_id user) (\<lambda>u.
     Inr (''updateHarvest'',
       Fields [(''userId'', WNum u), (''updateHarvestDto'', WHarvestChange dto), (''harvestId'', WNum i)]))))"
| "gw_harvests P rq user DeleteHarvestRoute = send_id P rq user ''deleteHarvest'' ''harvestId''"
| "gw_harvests P rq user PostHarvestPhoto = send_photo P rq user ''harvest-photo'' ''harvestId''"
| "gw_harvests P rq user GetHarvestPhotoRoute = send_id P rq user ''get-harvest-photo'' ''harvestId''"

datatype route =
    FarmsRoute farms_route
  | CropsRoute crops_route
  | ActivitiesRoute activities_route
  | HarvestsRoute harvests_route

fun gw_route :: "pipes \<Rightarrow> http_request \<Rightarrow> claims option \<Rightarrow> route \<Rightarrow> exn + sent" where
  "gw_route P rq user (FarmsRoute r) = gw_farms P rq user r"
| "gw_route P rq user (CropsRoute r) = gw_crops P rq user r"
| "gw_route P rq user (ActivitiesRoute r) = gw_activities P rq user r"
| "gw_route P rq user (HarvestsRoute r) = gw_harvests P rq user r"

section \<open>The way of a request\<close>

text \<open>
  The service's end of a message: its handlers, behind \<open>RpcExceptionFilter\<close>. A message
  without a handler is answered with the transport's own error.
\<close>

definition farms_rpc :: "'w farms_env \<Rightarrow> sent \<Rightarrow> ('w, command_answer) prog" where
  "farms_rpc E m =
     (case farms_handlers (fst m) (snd m) of
        Some c \<Rightarrow> try_catch (farms_service E c) (\<lambda>e. Throw (rpc_exception_filter e))
      | None \<Rightarrow> Throw ThrownOther)"

datatype http_answer = Answered command_answer | Failed http_error

fun of_sum :: "exn + 'a \<Rightarrow> ('w, 'a) prog" where
  "of_sum (Inl e) = Throw e"
| "of_sum (Inr a) = Return a"

definition http_request_run :: "'w auth_client \<Rightarrow> pipes \<Rightarrow> 'w farms_env \<Rightarrow> route \<Rightarrow> http_request
    \<Rightarrow> ('w, http_answer) prog" where
  "http_request_run A P E route rq =
     try_catch
       (bind (auth_guard A ''http'' (rq_authorization rq)) (\<lambda>(ok, user).
        bind (throw_if (\<not> ok) (ForbiddenException ''Forbidden resource'')) (\<lambda>_.
        bind (of_sum (gw_route P rq user route)) (\<lambda>m.
        bind (farms_rpc E m) (\<lambda>a.
        Return (Answered a))))))
       (\<lambda>e. Return (Failed (http_exception_filter (rq_url rq) e)))"


section \<open>Every route reaches its handler, for the user of the token\<close>

fun route_of :: "farms_command \<Rightarrow> route" where
  "route_of (FarmsCmd (CreateFarm u d)) = FarmsRoute PostFarm"
| "route_of (FarmsCmd (FarmsByUser u)) = FarmsRoute GetFarms"
| "route_of (FarmsCmd (UpdateFarm u d i)) = FarmsRoute PatchFarm"
| "route_of (FarmsCmd (DeleteFarm u i)) = FarmsRoute DeleteFarmRoute"
| "route_of (FarmsCmd (FarmImage i u f)) = FarmsRoute PostFarmPhoto"
| "route_of (FarmsCmd (GetFarmImage u i)) = FarmsRoute GetFarmPhoto"
| "route_of (CropsCmd (CreateCrop u d)) = CropsRoute PostCrop"
| "route_of (CropsCmd (GetCropById u i)) = CropsRoute FindOneCrop"
| "route_of (CropsCmd (CropsByFarm u i)) = CropsRoute GetCrops"
| "route_of (CropsCmd (UpdateCrop u d i)) = CropsRoute PatchCrop"
| "route_of (CropsCmd (DeleteCrop u i)) = CropsRoute DeleteCropRoute"
| "route_of (CropsCmd (CropPhoto i u f)) = CropsRoute PostCropPhoto"
| "route_of (CropsCmd (GetCropPhoto u i)) = CropsRoute GetCropPhotoRoute"
| "route_of (ActivitiesCmd (CreateActivity u d)) = ActivitiesRoute PostActivity"
| "route_of (ActivitiesCmd (ActivitiesByCrop u i)) = ActivitiesRoute GetActivities"
| "route_of (ActivitiesCmd (UpdateActivity u d i)) = ActivitiesRoute PatchActivity"
| "route_of (ActivitiesCmd (DeleteActivity u i)) = ActivitiesRoute DeleteActivityRoute"
| "route_of (ActivitiesCmd (ActivityPhoto i u f)) = ActivitiesRoute PostActivityPhoto"
| "route_of (ActivitiesCmd (GetActivityPhoto u i)) = ActivitiesRoute GetActivityPhotoRoute"
| "route_of (HarvestsCmd (CreateHarvest u d)) = HarvestsRoute PostHarvest"
| "route_of (HarvestsCmd (HarvestByCrop u i)) = HarvestsRoute GetHarvests"
| "route_of (HarvestsCmd (UpdateHarvest u d i)) = HarvestsRoute PatchHarvest"
| "route_of (HarvestsCmd (DeleteHarvest u i)) = HarvestsRoute DeleteHarvestRoute"
| "route_of (HarvestsCmd (HarvestPhoto i u f)) = HarvestsRoute PostHarvestPhoto"
| "route_of (HarvestsCmd (GetHarvestPhoto u i)) = HarvestsRoute GetHarvestPhotoRoute"

lemmas field_simps = field_def num_field_def file_field_def with_id_def with_file_def

lemma send_idE:
  assumes "send_id P rq user cmd k = Inr m"
  obtains u i where "user = Some u" and "m = (cmd, Fields [(''userId'', WNum (cl_id u)), (k, WNum i)])"
  using assms by (auto simp: send_id_def and_then_Inr user_id_def split: option.splits)

lemma send_photoE:
  assumes "send_photo P rq user cmd k = Inr m"
  obtains u i f where "user = Some u"
    and "m = (cmd, Fields [(''file'', WFile f), (''userId'', WNum (cl_id u)), (k, WNum i)])"
  using assms by (auto simp: send_photo_def and_then_Inr user_id_def split: option.splits)

definition well_routed :: "route \<Rightarrow> claims option \<Rightarrow> sent \<Rightarrow> bool" where
  "well_routed route user m \<longleftrightarrow>
     (\<exists>u c. user = Some u \<and> farms_handlers (fst m) (snd m) = Some c \<and> caller c = cl_id u \<and> route_of c = route)"

lemmas handler_defs = farms_handlers_def farms_handler_def crops_handler_def activities_handler_def
  harvests_handler_def field_simps

text \<open>The messages of the routes at the handlers.\<close>

lemma handled_farms [simp]:
  "farms_handlers ''farms'' (Fields [(''userId'', WNum u), (''createFarmDto'', WNewFarm d)])
     = Some (FarmsCmd (CreateFarm u d))"
  "farms_handlers ''updateFarm'' (Fields [(''userId'', WNum u), (''updateFarmDto'', WFarmChange d'), (''farmId'', WNum i)])
     = Some (FarmsCmd (UpdateFarm u d' i))"
  "farms_handlers ''deleteFarm'' (Fields [(''userId'', WNum u), (''farmId'', WNum i)])
     = Some (FarmsCmd (DeleteFarm u i))"
  "farms_handlers ''get-farm-image'' (Fields [(''userId'', WNum u), (''farmId'', WNum i)])
     = Some (FarmsCmd (GetFarmImage u i))"
  "farms_handlers ''farm-image'' (Fields [(''file'', WFile f), (''userId'', WNum u), (''farmId'', WNum i)])
     = Some (FarmsCmd (FarmImage i u f))"
  "farms_handlers ''farmsByUser'' (Bare (WNum u)) = Some (FarmsCmd (FarmsByUser u))"
  by (simp_all add: handler_defs)

lemma handled_crops [simp]:
  "farms_handlers ''crops'' (Fields [(''userId'', WNum u), (''createCropDto'', WNewCrop d)])
     = Some (CropsCmd (CreateCrop u d))"
  "farms_handlers ''updateCrop'' (Fields [(''userId'', WNum u), (''updateCropDto'', WCropChange d'), (''cropId'', WNum i)])
     = Some (CropsCmd (UpdateCrop u d' i))"
  "farms_handlers ''getCropById'' (Fields [(''userId'', WNum u), (''id'', WNum i)])
     = Some (CropsCmd (GetCropById u i))"
  "farms_handlers ''cropsByFarm'' (Fields [(''userId'', WNum u), (''farmId'', WNum i)])
     = Some (CropsCmd (CropsByFarm u i))"
  "farms_handlers ''deleteCrop'' (Fields [(''userId'', WNum u), (''cropId'', WNum i)])
     = Some (CropsCmd (DeleteCrop u i))"
  "farms_handlers ''get-crop-photo'' (Fields [(''userId'', WNum u), (''cropId'', WNum i)])
     = Some (CropsCmd (GetCropPhoto u i))"
  "farms_handlers ''crop-photo'' (Fields [(''file'', WFile f), (''userId'', WNum u), (''cropId'', WNum i)])
     = Some (CropsCmd (CropPhoto i u f))"
  by (simp_all add: handler_defs)

lemma handled_activities [simp]:
  "farms_handlers ''activities'' (Fields [(''userId'', WNum u), (''createActivityDto'', WNewActivity d)])
     = Some (ActivitiesCmd (CreateActivity u d))"
  "farms_handlers ''updateActivity'' (Fields [(''userId'', WNum u), (''updateActivityDto'', WActivityChange d'), (''activityId'', WNum i)])
     = Some (ActivitiesCmd (UpdateActivity u d' i))"
  "farms_handlers ''activitiesByFarm'' (Fields [(''userId'', WNum u), (''cropId'', WNum i)])
     = Some (ActivitiesCmd (ActivitiesByCrop u i))"
  "farms_handlers ''deleteActivity'' (Fields [(''userId'', WNum u), (''activityId'', WNum i)])
     = Some (ActivitiesCmd (DeleteActivity u i))"
  "farms_handlers ''get-activity-photo'' (Fields [(''userId'', WNum u), (''activityId'', WNum i)])
     = Some (ActivitiesCmd (GetActivityPhoto u i))"
  "farms_handlers ''activity-photo'' (Fields [(''file'', WFile f), (''userId'', WNum u), (''activityId'', WNum i)])
     = Some (ActivitiesCmd (ActivityPhoto i u f))"
  by (simp_all add: handler_defs)

lemma handled_harvests [simp]:
  "farms_handlers ''harvest'' (Fields [(''userId'', WNum u), (''createHarvestDto'', WNewHarvest d)])
     = Some (HarvestsCmd (CreateHarvest u d))"
  "farms_handlers ''updateHarvest'' (Fields [(''userId'', WNum u), (''updateHarvestDto'', WHarvestChange d'), (''harvestId'', WNum i)])
     = Some (HarvestsCmd (UpdateHarvest u d' i))"
  "farms_handlers ''harvestByCrop'' (Fields [(''userId'', WNum u), (''cropId'', WNum i)])
     = Some (HarvestsCmd (HarvestByCrop u i))"
  "farms_handlers ''deleteHarvest'' (Fields [(''userId'', WNum u), (''harvestId'', WNum i)])
     = Some (HarvestsCmd (DeleteHarvest u i))"
  "farms_handlers ''get-harvest-photo'' (Fields [(''userId'', WNum u), (''harvestId'', WNum i)])
     = Some (HarvestsCmd (GetHarvestPhoto u i))"
  "farms_handlers ''harvest-photo'' (Fields [(''file'', WFile f), (''userId'', WNum u), (''harvestId'', WNum i)])
     = Some (HarvestsCmd (HarvestPhoto i u f))"
  by (simp_all add: handler_defs)

lemma gw_farms_routed: "gw_farms P rq user r = Inr m \<Longrightarrow> well_routed (FarmsRoute r) user m"
  by (cases r)
    (auto simp: well_routed_def and_then_Inr user_id_def split: option.splits elim!: send_idE send_photoE)

lemma gw_crops_routed: "gw_crops P rq user r = Inr m \<Longrightarrow> well_routed (CropsRoute r) user m"
  by (cases r)
    (auto simp: well_routed_def and_then_Inr user_id_def split: option.splits elim!: send_idE send_photoE)

lemma gw_activities_routed: "gw_activities P rq user r = Inr m \<Longrightarrow> well_routed (ActivitiesRoute r) user m"
  by (cases r)
    (auto simp: well_routed_def and_then_Inr user_id_def split: option.splits elim!: send_idE send_photoE)

lemma gw_harvests_routed: "gw_harvests P rq user r = Inr m \<Longrightarrow> well_routed (HarvestsRoute r) user m"
  by (cases r)
    (auto simp: well_routed_def and_then_Inr user_id_def split: option.splits elim!: send_idE send_photoE)

lemma gw_routed: "gw_route P rq user route = Inr m \<Longrightarrow> well_routed route user m"
  by (cases route) (auto intro: gw_farms_routed gw_crops_routed gw_activities_routed gw_harvests_routed)


section \<open>A request from end to end\<close>

text \<open>
  Verifying a token and reading the clock leave the tables of the farms service alone,
  whatever they answer or throw.
\<close>

definition guard_contract :: "('w \<Rightarrow> 'v) \<Rightarrow> 'w auth_client \<Rightarrow> bool" where
  "guard_contract view A \<longleftrightarrow>
     (\<forall>jwt w. view (snd (ac_verify_jwt A jwt w)) = view w) \<and> (\<forall>w. view (snd (ac_now A w)) = view w)"

text \<open>The request's bearer token is one that the auth service verifies as this user's.\<close>

definition authenticated :: "'w auth_client \<Rightarrow> http_request \<Rightarrow> 'w \<Rightarrow> claims \<Rightarrow> bool" where
  "authenticated A rq w u \<longleftrightarrow>
     (\<exists>jwt v w1. bearer (rq_authorization rq) jwt \<and> ac_verify_jwt A jwt w = (Inr v, w1) \<and> vf_user v = Some u)"

lemma auth_guard_run:
  assumes "guard_contract view A" and "run (auth_guard A ''http'' (rq_authorization rq)) w = (r, w')"
  shows "view w' = view w \<and>
    (\<forall>ok u. r = Inr (ok, Some u) \<longrightarrow> authenticated A rq w u)"
proof (cases "\<exists>jwt. bearer (rq_authorization rq) jwt")
  case True
  then obtain jwt where b: "bearer (rq_authorization rq) jwt" ..
  obtain v w1 where v: "ac_verify_jwt A jwt w = (v, w1)" by fastforce
  obtain n w2 where n: "ac_now A w1 = (n, w2)" by fastforce
  have "view (snd (ac_verify_jwt A jwt w)) = view w" "view (snd (ac_now A w1)) = view w1"
    using assms(1) by (simp_all add: guard_contract_def)
  then have views: "view w1 = view w" "view w2 = view w" using v n by simp_all
  show ?thesis
    using assms(2) b v n views unfolding auth_guard_bearer [OF b] check_token_run authenticated_def
    by (cases v; cases n) (auto split: if_splits)
next
  case False
  then obtain m where "auth_guard A ''http'' (rq_authorization rq) = Throw (UnauthorizedException m)"
    using auth_guard_no_bearer by blast
  with assms(2) show ?thesis by auto
qed

lemma run_of_sum [simp]: "run (of_sum x) w = (x, w)"
  by (cases x) simp_all

lemma http_request_runE:
  assumes "guard_contract view A" and "run (http_request_run A P E route rq) w = (r, w')"
  obtains (stopped) he where "r = Inr (Failed he)" and "view w' = view w"
  | (served) u m c w1 r1 where "authenticated A rq w u" and "gw_route P rq (Some u) route = Inr m"
      and "farms_handlers (fst m) (snd m) = Some c" and "caller c = cl_id u" and "route_of c = route"
      and "view w1 = view w" and "run (farms_service E c) w1 = (r1, w')"
      and "r = Inr (case r1 of Inr a \<Rightarrow> Answered a | Inl e \<Rightarrow> Failed (service_error (rq_url rq) e))"
proof -
  obtain g w1 where g: "run (auth_guard A ''http'' (rq_authorization rq)) w = (g, w1)" by fastforce
  note guard = auth_guard_run [OF assms(1) g]
  show ?thesis
  proof (cases "\<exists>user m. g = Inr (True, user) \<and> gw_route P rq user route = Inr m")
    case True
    then obtain user m where um: "g = Inr (True, user)" "gw_route P rq user route = Inr m" by blast
    then obtain u c where c: "user = Some u" "farms_handlers (fst m) (snd m) = Some c"
        "caller c = cl_id u" "route_of c = route"
      using gw_routed unfolding well_routed_def by blast
    obtain r1 w2 where s: "run (farms_service E c) w1 = (r1, w2)" by fastforce
    have "(r, w') = (Inr (case r1 of Inr a \<Rightarrow> Answered a | Inl e \<Rightarrow> Failed (service_error (rq_url rq) e)), w2)"
      using assms(2) g um c s
      by (auto simp: http_request_run_def run_simps farms_rpc_def service_error_def split: sum.splits)
    with guard um c s show ?thesis by (intro served [of u m c w1 r1]) auto
  next
    case False
    have "\<exists>he. (r, w') = (Inr (Failed he), w1)"
    proof (cases g)
      case (Inl e)
      then show ?thesis using assms(2) g by (auto simp: http_request_run_def run_simps)
    next
      case (Inr p)
      obtain ok user where p: "p = (ok, user)" by fastforce
      show ?thesis
      proof (cases ok)
        case True
        then obtain e where "gw_route P rq user route = Inl e"
          using False Inr p by (cases "gw_route P rq user route") auto
        then show ?thesis using assms(2) g Inr p True by (auto simp: http_request_run_def run_simps)
      next
        case False
        then show ?thesis using assms(2) g Inr p by (auto simp: http_request_run_def run_simps)
      qed
    qed
    with guard show ?thesis using stopped by blast
  qed
qed

text \<open>
  C16. An HTTP request to any route of the farms, crops, activities and harvests controllers
  always ends in a response. It is served only if its bearer token was verified, and then
  the service runs the command of exactly that route on behalf of exactly the user of the
  token, whatever the request's body, query or file contain: an answer comes with the
  effect specified for that command, a refusal ends as the status and message of that
  refusal with nothing changed, and everything else is a 500 of the service or an error of
  the gateway that changed nothing.
\<close>

theorem http_request_acts_for_the_token_user:
  assumes "farms_contract view E" and "guard_contract view A" and "tables_ok (committed (view w))"
    and "run (http_request_run A P E route rq) w = (r, w')"
  shows "\<exists>x. r = Inr x \<and>
    (case x of
       Answered a \<Rightarrow>
         (\<exists>u c. authenticated A rq w u \<and> caller c = cl_id u \<and> route_of c = route
            \<and> service_refusal c (committed (view w)) = None
            \<and> service_effect c (committed (view w)) a (committed (view w')))
     | Failed he \<Rightarrow>
         view w' = view w \<or>
         (\<exists>u c. authenticated A rq w u \<and> caller c = cl_id u \<and> route_of c = route
            \<and> service_refusal c (committed (view w)) = None \<and> he_statusCode he = 500))"
  using assms(2,4)
proof (cases rule: http_request_runE)
  case (stopped he)
  then show ?thesis by simp
next
  case (served u m c w1 r1)
  have ok: "tables_ok (committed (view w1))" using assms(3) served(6) by simp
  note run = farms_refines_run [OF service_refines [OF assms(1)] ok served(7)]
  show ?thesis
  proof (cases r1)
    case (Inr a)
    with run(2) [OF Inr] served show ?thesis by auto
  next
    case (Inl e)
    then consider "service_refusal c (committed (view w)) \<noteq> None"
      | "service_refusal c (committed (view w)) = None" "is_library_error e"
      using run(3) [OF Inl] served(6) by auto
    then show ?thesis
    proof cases
      case 1
      with run(4) served Inl show ?thesis by simp
    next
      case 2
      with served Inl show ?thesis using service_error_library [of e "rq_url rq"] by auto
    qed
  qed
qed

text \<open>
  C17. The status of a refusal: a request whose command the service has to refuse (a record
  that does not exist, someone else's record, a name already taken, a second harvest) is
  answered with the status and the message of that refusal, or with a 500 when a library
  failed first; its tables, open transactions and stored objects are as before.
\<close>

theorem refusal_is_the_http_status:
  assumes "farms_contract view E" and "guard_contract view A" and "tables_ok (committed (view w))"
    and "run (auth_guard A ''http'' (rq_authorization rq)) w = (Inr (True, Some u), w0)"
    and "gw_route P rq (Some u) route = Inr m" and "farms_handlers (fst m) (snd m) = Some c"
    and "service_refusal c (committed (view w)) = Some e"
    and "run (http_request_run A P E route rq) w = (r, w')"
  shows "view w' = view w \<and>
    (\<exists>he. r = Inr (Failed he) \<and> (he = service_error (rq_url rq) e \<or> he_statusCode he = 500))"
proof -
  have w0: "view w0 = view w" using auth_guard_run [OF assms(2,4)] by simp
  obtain r1 w2 where s: "run (farms_service E c) w0 = (r1, w2)" by fastforce
  have ok: "tables_ok (committed (view w0))" using assms(3) w0 by simp
  note run = farms_refines_run [OF service_refines [OF assms(1)] ok s]
  have "r1 \<noteq> Inr a" for a using run(2) [of a] assms(7) w0 by auto
  then obtain e1 where e1: "r1 = Inl e1" by (cases r1) auto
  have "(r, w') = (Inr (Failed (service_error (rq_url rq) e1)), w2)"
    using assms(4-6,8) s e1
    by (auto simp: http_request_run_def run_simps farms_rpc_def service_error_def split: sum.splits)
  moreover have "e1 = e \<or> he_statusCode (service_error (rq_url rq) e1) = 500"
    using run(3) [OF e1] assms(7) w0 service_error_library by auto
  moreover have "view w2 = view w" using run(4) assms(7) w0 by simp
  ultimately show ?thesis by auto
qed

section \<open>Examples\<close>

definition demo_auth :: "'w auth_client" where
  "demo_auth =
     \<lparr>ac_verify_jwt = (\<lambda>jwt w.
        (if jwt = ''t8'' then Inr \<lparr>vf_exp = Some 1000, vf_user = Some \<lparr>cl_id = 8, cl_rol = None\<rparr>\<rparr>
         else if jwt = ''t7'' then Inr \<lparr>vf_exp = Some 1000, vf_user = Some \<lparr>cl_id = 7, cl_rol = None\<rparr>\<rparr>
         else Inl (ThrownObject (StatusNumber 401) None), w)),
      ac_now = (\<lambda>w. (Inr 5000, w))\<rparr>"

definition demo_pipes :: pipes where
  "demo_pipes =
     \<lparr>parse_int = (\<lambda>s. case s of
        Some t \<Rightarrow> Inr (int (read_nat t)) | None \<Rightarrow> Inl (BadRequestException ''Validation failed'')),
      parse_file = (\<lambda>size type f. case f of
        Some u \<Rightarrow> Inr u | None \<Rightarrow> Inl (BadRequestException ''File is required'')),
      valid_CreateFarmDto = (\<lambda>_. Inl (BadRequestException ''invalid'')),
      valid_UpdateFarmDto = (\<lambda>_. Inl (BadRequestException ''invalid'')),
      valid_CreateCropDto = (\<lambda>_. Inl (BadRequestException ''invalid'')),
      valid_UpdateCropDto = (\<lambda>_. Inl (BadRequestException ''invalid'')),
      valid_CreateActivityDto = (\<lambda>_. Inl (BadRequestException ''invalid'')),
      valid_UpdateActivityDto = (\<lambda>_. Inl (BadRequestException ''invalid'')),
      valid_CreateHarvestDto = (\<lambda>_. Inl (BadRequestException ''invalid'')),
      valid_UpdateHarvestDto = (\<lambda>_. Inl (BadRequestException ''invalid''))\<rparr>"

definition demo_request :: "string \<Rightarrow> http_request" where
  "demo_request token =
     \<lparr>rq_url = ''/api/v1/crops'', rq_authorization = Some (''Bearer '' @ token), rq_query = [(''cropId'', ''1'')],
      rq_params = [], rq_body = JNull, rq_file = None\<rparr>"

lemma demo_guard: "guard_contract view demo_auth"
  by (simp add: guard_contract_def demo_auth_def)

theorem http_request_acts_for_the_token_user_witness:
  "\<exists>a v'. run (http_request_run demo_auth demo_pipes mem_farms (CropsRoute DeleteCropRoute) (demo_request ''t7'')) demo_view
       = (Inr (Answered a), v')
     \<and> (\<exists>u c. authenticated demo_auth (demo_request ''t7'') demo_view u \<and> caller c = cl_id u
          \<and> route_of c = CropsRoute DeleteCropRoute \<and> service_effect c demo_tables a (committed v'))"
proof -
  let ?p = "http_request_run demo_auth demo_pipes mem_farms (CropsRoute DeleteCropRoute) (demo_request ''t7'')"
  obtain r v' where run: "run ?p demo_view = (r, v')" by fastforce
  have "case fst (run ?p demo_view) of Inr (Answered a) \<Rightarrow> True | _ \<Rightarrow> False" by code_simp
  with run obtain a where "r = Inr (Answered a)" by (auto split: sum.splits http_answer.splits)
  with run http_request_acts_for_the_token_user [OF mem_farms_contract demo_guard demo_ok run]
  show ?thesis by (fastforce simp: demo_view_def)
qed

theorem refusal_is_the_http_status_witness:
  "fst (run (http_request_run demo_auth demo_pipes mem_farms (CropsRoute DeleteCropRoute) (demo_request ''t8'')) demo_view)
     = Inr (Failed \<lparr>he_statusCode = 403, he_message = Text ''You do not have access to this resource'',
         he_path = ''/api/v1/crops''\<rparr>)
   \<and> snd (run (http_request_run demo_auth demo_pipes mem_farms (CropsRoute DeleteCropRoute) (demo_request ''t8'')) demo_view)
     = demo_view"
proof -
  let ?p = "http_request_run demo_auth demo_pipes mem_farms (CropsRoute DeleteCropRoute) (demo_request ''t8'')"
  let ?u = "\<lparr>cl_id = 8, cl_rol = None\<rparr>" and ?m = "(''deleteCrop'', Fields [(''userId'', WNum 8), (''cropId'', WNum 1)])"
  obtain r v' where run: "run ?p demo_view = (r, v')" by fastforce
  have g: "run (auth_guard demo_auth ''http'' (rq_authorization (demo_request ''t8''))) demo_view
      = (Inr (True, Some ?u), demo_view)"
    by (simp add: auth_guard_def check_token_def demo_auth_def demo_request_def run_simps)
  have m: "gw_route demo_pipes (demo_request ''t8'') (Some ?u) (CropsRoute DeleteCropRoute) = Inr ?m" by code_simp
  have c: "farms_handlers (fst ?m) (snd ?m) = Some (CropsCmd (DeleteCrop 8 1))" by simp
  have e: "service_refusal (CropsCmd (DeleteCrop 8 1)) (committed (id demo_view))
      = Some (ForbiddenException ''You do not have access to this resource'')" by code_simp
  have "fst (run ?p demo_view) = Inr (Failed \<lparr>he_statusCode = 403,
      he_message = Text ''You do not have access to this resource'', he_path = ''/api/v1/crops''\<rparr>)" by code_simp
  moreover have "v' = demo_view"
    using refusal_is_the_http_status [OF mem_farms_contract demo_guard demo_ok g m c e run] by simp
  ultimately show ?thesis using run by simp
qed

end
