(* ===== verification/Redis.thy ===== *)
theory Redis
  imports Contracts
begin

text \<open>
  \<open>RedisService\<close> (\<open>libs/common/src/services/redis.service.ts\<close>) over an ioredis client,
  which is a parameter. The documented behaviour of the commands is stated on a view with
  a clock: an entry lives until its time to live has passed, and time may pass at every
  command. \<open>'x\<close> is the type of the values, text in the code.
\<close>

section \<open>The service\<close>

record ('w, 'x) redis_client =
  rc_get :: "string \<Rightarrow> ('w, 'x option) op"
  rc_set_ex :: "string \<Rightarrow> 'x \<Rightarrow> int \<Rightarrow> ('w, unit) op"
  rc_set_ex_nx :: "string \<Rightarrow> 'x \<Rightarrow> int \<Rightarrow> ('w, string option) op"
  rc_exists :: "string \<Rightarrow> ('w, int) op"
  rc_del :: "string \<Rightarrow> ('w, unit) op"

definition redis_get :: "('w, 'x) redis_client \<Rightarrow> string \<Rightarrow> ('w, 'x option) prog" where
  "redis_get C k = atom (rc_get C k)"

definition setWithTtl :: "('w, 'x) redis_client \<Rightarrow> string \<Rightarrow> 'x \<Rightarrow> int \<Rightarrow> ('w, unit) prog" where
  "setWithTtl C k x ttl = atom (rc_set_ex C k x ttl)"

definition setIfAbsent :: "('w, 'x) redis_client \<Rightarrow> string \<Rightarrow> 'x \<Rightarrow> int \<Rightarrow> ('w, bool) prog" where
  "setIfAbsent C k x ttl = bind (atom (rc_set_ex_nx C k x ttl)) (\<lambda>result. Return (result = Some ''OK''))"

definition redis_exists :: "('w, 'x) redis_client \<Rightarrow> string \<Rightarrow> ('w, bool) prog" where
  "redis_exists C k = bind (atom (rc_exists C k)) (\<lambda>n. Return (n = 1))"

definition redis_del :: "('w, 'x) redis_client \<Rightarrow> string \<Rightarrow> ('w, unit) prog" where
  "redis_del C k = atom (rc_del C k)"

section \<open>The documented behaviour\<close>

record 'x cache_view =
  clock :: int
  cache :: "string \<Rightarrow> ('x \<times> int) option"

definition live :: "('x, 'm) cache_view_scheme \<Rightarrow> string \<Rightarrow> 'x option" where
  "live v k = (case cache v k of Some (x, until) \<Rightarrow> if clock v < until then Some x else None | None \<Rightarrow> None)"

text \<open>An effect that happens at some time that is not before now.\<close>

definition in_time :: "(('x, 'm) cache_view_scheme \<Rightarrow> 'a \<Rightarrow> ('x, 'm) cache_view_scheme \<Rightarrow> bool)
    \<Rightarrow> ('x, 'm) cache_view_scheme \<Rightarrow> 'a \<Rightarrow> ('x, 'm) cache_view_scheme \<Rightarrow> bool" where
  "in_time R v a v' \<longleftrightarrow> (\<exists>c \<ge> clock v. R (v\<lparr>clock := c\<rparr>) a v')"

definition put_key :: "string \<Rightarrow> 'x \<Rightarrow> int \<Rightarrow> ('x, 'm) cache_view_scheme \<Rightarrow> ('x, 'm) cache_view_scheme" where
  "put_key k x ttl v = v\<lparr>cache := (cache v)(k \<mapsto> (x, clock v + ttl))\<rparr>"

definition drop_key :: "string \<Rightarrow> ('x, 'm) cache_view_scheme \<Rightarrow> ('x, 'm) cache_view_scheme" where
  "drop_key k v = v\<lparr>cache := (cache v)(k := None)\<rparr>"

definition redis_contract :: "('w \<Rightarrow> ('x, 'm) cache_view_scheme) \<Rightarrow> ('w, 'x) redis_client \<Rightarrow> bool" where
  "redis_contract view C \<longleftrightarrow>
     (\<forall>k. implements view (rc_get C k) (in_time (\<lambda>v a v'. v' = v \<and> a = live v k))) \<and>
     (\<forall>k x ttl. implements view (rc_set_ex C k x ttl) (in_time (\<lambda>v a v'. v' = put_key k x ttl v))) \<and>
     (\<forall>k x ttl. implements view (rc_set_ex_nx C k x ttl)
        (in_time (\<lambda>v a v'. if live v k = None then a = Some ''OK'' \<and> v' = put_key k x ttl v
                           else a = None \<and> v' = v))) \<and>
     (\<forall>k. implements view (rc_exists C k) (in_time (\<lambda>v a v'. v' = v \<and> a = (if live v k = None then 0 else 1)))) \<and>
     (\<forall>k. implements view (rc_del C k) (in_time (\<lambda>v a v'. v' = drop_key k v)))"

lemma redis_contractD:
  assumes "redis_contract view C"
  shows "implements view (rc_get C k) (in_time (\<lambda>v a v'. v' = v \<and> a = live v k))"
    and "implements view (rc_set_ex C k x ttl) (in_time (\<lambda>v a v'. v' = put_key k x ttl v))"
    and "implements view (rc_set_ex_nx C k x ttl)
        (in_time (\<lambda>v a v'. if live v k = None then a = Some ''OK'' \<and> v' = put_key k x ttl v
                           else a = None \<and> v' = v))"
    and "implements view (rc_exists C k) (in_time (\<lambda>v a v'. v' = v \<and> a = (if live v k = None then 0 else 1)))"
    and "implements view (rc_del C k) (in_time (\<lambda>v a v'. v' = drop_key k v))"
  using assms by (simp_all add: redis_contract_def)

text \<open>The four methods, through the view.\<close>

lemma vwp_redis_get:
  assumes "redis_contract view C" and "I v" and "\<And>e. is_library_error e \<Longrightarrow> X e v"
    and "\<And>c. c \<ge> clock v \<Longrightarrow> I (v\<lparr>clock := c\<rparr>) \<and> Q (live (v\<lparr>clock := c\<rparr>) k) (v\<lparr>clock := c\<rparr>)"
  shows "vwp view I (redis_get C k) Q X v"
  unfolding redis_get_def
  by (rule vwp_atom [OF redis_contractD(1) [OF assms(1)]]) (use assms(2-4) in \<open>auto simp: in_time_def\<close>)

lemma vwp_setWithTtl:
  assumes "redis_contract view C" and "I v" and "\<And>e. is_library_error e \<Longrightarrow> X e v"
    and "\<And>c. c \<ge> clock v \<Longrightarrow> I (put_key k x ttl (v\<lparr>clock := c\<rparr>)) \<and> Q () (put_key k x ttl (v\<lparr>clock := c\<rparr>))"
  shows "vwp view I (setWithTtl C k x ttl) Q X v"
  unfolding setWithTtl_def
  by (rule vwp_atom [OF redis_contractD(2) [OF assms(1)]]) (use assms(2-4) in \<open>auto simp: in_time_def\<close>)

lemma vwp_redis_exists:
  assumes "redis_contract view C" and "I v" and "\<And>e. is_library_error e \<Longrightarrow> X e v"
    and "\<And>c. c \<ge> clock v \<Longrightarrow> I (v\<lparr>clock := c\<rparr>) \<and> Q (live (v\<lparr>clock := c\<rparr>) k \<noteq> None) (v\<lparr>clock := c\<rparr>)"
  shows "vwp view I (redis_exists C k) Q X v"
  unfolding redis_exists_def
proof (rule vwp_bind, rule vwp_atom [OF redis_contractD(4) [OF assms(1)]], rule assms(2), erule assms(3))
  fix a :: int and v'
  assume "in_time (\<lambda>v a v'. v' = v \<and> a = (if live v k = None then 0 else 1)) v a v'"
  then obtain c where c: "c \<ge> clock v" "v' = v\<lparr>clock := c\<rparr>" "(a = 1) = (live v' k \<noteq> None)"
    by (auto simp: in_time_def split: if_splits)
  with assms(4) [OF c(1)] show "I v' \<and> vwp view I (Return (a = 1)) Q X v'"
    by (simp del: not_None_eq add: vwp_return)
qed

lemma vwp_setIfAbsent:
  assumes "redis_contract view C" and "I v" and "\<And>e. is_library_error e \<Longrightarrow> X e v"
    and "\<And>c. c \<ge> clock v \<Longrightarrow> live (v\<lparr>clock := c\<rparr>) k = None
      \<Longrightarrow> I (put_key k x ttl (v\<lparr>clock := c\<rparr>)) \<and> Q True (put_key k x ttl (v\<lparr>clock := c\<rparr>))"
    and "\<And>c. c \<ge> clock v \<Longrightarrow> live (v\<lparr>clock := c\<rparr>) k \<noteq> None \<Longrightarrow> I (v\<lparr>clock := c\<rparr>) \<and> Q False (v\<lparr>clock := c\<rparr>)"
  shows "vwp view I (setIfAbsent C k x ttl) Q X v"
  unfolding setIfAbsent_def
  by (rule vwp_bind, rule vwp_atom [OF redis_contractD(3) [OF assms(1)]])
    (use assms(2-5) in \<open>auto simp: in_time_def split: if_splits intro!: vwp_return\<close>)

lemma vwp_redis_del:
  assumes "redis_contract view C" and "I v" and "\<And>e. is_library_error e \<Longrightarrow> X e v"
    and "\<And>c. c \<ge> clock v \<Longrightarrow> I (drop_key k (v\<lparr>clock := c\<rparr>)) \<and> Q () (drop_key k (v\<lparr>clock := c\<rparr>))"
  shows "vwp view I (redis_del C k) Q X v"
  unfolding redis_del_def
  by (rule vwp_atom [OF redis_contractD(5) [OF assms(1)]]) (use assms(2-4) in \<open>auto simp: in_time_def\<close>)

section \<open>Keys in memory\<close>

text \<open>A client that keeps its entries in the view and whose clock stands still.\<close>

definition mem_redis :: "(('x, 'm) cache_view_scheme, 'x) redis_client" where
  "mem_redis =
     \<lparr>rc_get = (\<lambda>k v. (Inr (live v k), v)),
      rc_set_ex = (\<lambda>k x ttl v. (Inr (), put_key k x ttl v)),
      rc_set_ex_nx = (\<lambda>k x ttl v.
        if live v k = None then (Inr (Some ''OK''), put_key k x ttl v) else (Inr None, v)),
      rc_exists = (\<lambda>k v. (Inr (if live v k = None then 0 else 1), v)),
      rc_del = (\<lambda>k v. (Inr (), drop_key k v))\<rparr>"

lemma in_timeI: "R v a v' \<Longrightarrow> in_time R v a v'"
  unfolding in_time_def by (rule exI [of _ "clock v"]) simp

lemma mem_redis_contract: "redis_contract id mem_redis"
  unfolding redis_contract_def implements_def mem_redis_def
  by (auto intro!: in_timeI)

end
