(* ===== verification/Tracing.thy ===== *)
theory Tracing
  imports Redis Outbox
begin

text \<open>
  The tracing service (\<open>apps/tracing/src\<close>): it records the events of the farms service as
  documents, once each. The event store (a Mongoose model) and the wall clock are
  parameters; a document lacking a required property is rejected.
\<close>

section \<open>The code\<close>

datatype tracing_event_type = CROP_INITIALIZED | ACTIVITY_CREATED | HARVEST_CREATED

fun type_name :: "tracing_event_type \<Rightarrow> string" where
  "type_name CROP_INITIALIZED = ''CROP_INITIALIZED''"
| "type_name ACTIVITY_CREATED = ''ACTIVITY_CREATED''"
| "type_name HARVEST_CREATED = ''HARVEST_CREATED''"

record TracingEventPayloadDto =
  tp_cropId :: "json option"
  tp_farmId :: "json option"
  tp_userId :: "json option"
  tp_payload :: "json option"

record tracing_event =
  te_eventType :: tracing_event_type
  te_cropId :: "json option"
  te_farmId :: "json option"
  te_userId :: "json option"
  te_payload :: "json option"
  te_occurredAt :: int

definition IDEM_TTL_SECONDS :: int where
  "IDEM_TTL_SECONDS = 24 * 60 * 60"

text \<open>\<open>(data.payload as { id?: number })?.id\<close>, and how it looks inside a template string.\<close>

definition entity_id :: "TracingEventPayloadDto \<Rightarrow> json option" where
  "entity_id d = (case tp_payload d of Some (JObj ps) \<Rightarrow> map_of ps ''id'' | _ \<Rightarrow> None)"

fun join_commas :: "string list \<Rightarrow> string" where
  "join_commas [] = []"
| "join_commas [x] = x"
| "join_commas (x # xs) = x @ '','' @ join_commas xs"

fun js_text :: "json \<Rightarrow> string" where
  "js_text (JNum n) = show_int n"
| "js_text (JStr s) = s"
| "js_text (JBool b) = (if b then ''true'' else ''false'')"
| "js_text JNull = ''null''"
| "js_text (JObj ps) = ''[object Object]''"
| "js_text (JArr xs) = join_commas (map (\<lambda>x. if x = JNull then [] else js_text x) xs)"

definition template_text :: "json option \<Rightarrow> string" where
  "template_text x = (case x of None \<Rightarrow> ''undefined'' | Some j \<Rightarrow> js_text j)"

definition idem_key :: "tracing_event_type \<Rightarrow> TracingEventPayloadDto \<Rightarrow> string" where
  "idem_key ty d = ''idem:tracing:'' @ type_name ty @ '':'' @ template_text (entity_id d)"

record 'w tracing_env =
  tv_redis :: "('w, string) redis_client"
  tv_now :: "('w, int) op"
  tv_save :: "tracing_event \<Rightarrow> ('w, tracing_event) op"
  tv_find :: "int \<Rightarrow> ('w, tracing_event list) op"

datatype record_result = Deduped | Recorded tracing_event

definition tracing_document :: "tracing_event_type \<Rightarrow> TracingEventPayloadDto \<Rightarrow> int \<Rightarrow> tracing_event" where
  "tracing_document ty d now =
     \<lparr>te_eventType = ty, te_cropId = tp_cropId d, te_farmId = tp_farmId d, te_userId = tp_userId d,
      te_payload = tp_payload d, te_occurredAt = now\<rparr>"

definition write_event :: "'w tracing_env \<Rightarrow> tracing_event_type \<Rightarrow> TracingEventPayloadDto
    \<Rightarrow> ('w, tracing_event) prog" where
  "write_event E ty d =
     try_catch
       (bind (atom (tv_now E)) (\<lambda>now. atom (tv_save E (tracing_document ty d now))))
       (\<lambda>err. bind (redis_del (tv_redis E) (idem_key ty d)) (\<lambda>_. Throw err))"

definition recordEvent :: "'w tracing_env \<Rightarrow> tracing_event_type \<Rightarrow> TracingEventPayloadDto
    \<Rightarrow> ('w, record_result) prog" where
  "recordEvent E ty d =
     bind (setIfAbsent (tv_redis E) (idem_key ty d) ''1'' IDEM_TTL_SECONDS) (\<lambda>firstTime.
     if \<not> firstTime then Return Deduped
     else bind (write_event E ty d) (\<lambda>event. Return (Recorded event)))"

definition getHistory :: "'w tracing_env \<Rightarrow> int \<Rightarrow> ('w, tracing_event list) prog" where
  "getHistory E cropId = atom (tv_find E cropId)"

text \<open>
  The handlers: an event's body as the DTO sees it, and the pattern's event type.
\<close>

definition tracing_dto :: "object \<Rightarrow> TracingEventPayloadDto" where
  "tracing_dto body =
     \<lparr>tp_cropId = map_of body ''cropId'', tp_farmId = map_of body ''farmId'',
      tp_userId = map_of body ''userId'', tp_payload = map_of body ''payload''\<rparr>"

definition event_type_of :: "string \<Rightarrow> tracing_event_type option" where
  "event_type_of pattern =
     (if pattern = ''crop.initialized'' then Some CROP_INITIALIZED
      else if pattern = ''activity.created'' then Some ACTIVITY_CREATED
      else if pattern = ''harvest.created'' then Some HARVEST_CREATED
      else None)"

definition tracing_controller :: "'w tracing_env \<Rightarrow> string \<Rightarrow> object \<Rightarrow> ('w, record_result) prog option" where
  "tracing_controller E pattern body =
     map_option (\<lambda>ty. recordEvent E ty (tracing_dto body)) (event_type_of pattern)"

section \<open>The contract\<close>

record trace_view = "string cache_view" +
  events :: "tracing_event list"

text \<open>The schema's required properties: present and not null.\<close>

definition present :: "json option \<Rightarrow> bool" where
  "present x \<longleftrightarrow> x \<noteq> None \<and> x \<noteq> Some JNull"

definition valid_document :: "tracing_event \<Rightarrow> bool" where
  "valid_document e \<longleftrightarrow>
     present (te_cropId e) \<and> present (te_farmId e) \<and> present (te_userId e) \<and> present (te_payload e)"

definition tracing_contract :: "('w \<Rightarrow> trace_view) \<Rightarrow> 'w tracing_env \<Rightarrow> bool" where
  "tracing_contract view E \<longleftrightarrow>
     redis_contract view (tv_redis E) \<and>
     implements view (tv_now E) (reads (\<lambda>_ _. True)) \<and>
     (\<forall>e. implements view (tv_save E e)
        (\<lambda>v a v'. valid_document e \<and> a = e \<and> v' = v\<lparr>events := events v @ [e]\<rparr>))"

lemma tracing_contractD:
  assumes "tracing_contract view E"
  shows "redis_contract view (tv_redis E)"
    and "implements view (tv_now E) (reads (\<lambda>_ _. True))"
    and "implements view (tv_save E e)
        (\<lambda>v a v'. valid_document e \<and> a = e \<and> v' = v\<lparr>events := events v @ [e]\<rparr>)"
  using assms by (simp_all add: tracing_contract_def)

section \<open>One delivery\<close>

text \<open>
  What a delivery does: it finds the claim of an earlier one and leaves the events alone,
  or it claims the key and adds the one document, or it fails and adds none; after a
  failure that also removed the claim, the key is free again.
\<close>

definition delivery_ok :: "string \<Rightarrow> tracing_event_type \<Rightarrow> TracingEventPayloadDto \<Rightarrow> trace_view
    \<Rightarrow> record_result \<Rightarrow> trace_view \<Rightarrow> bool" where
  "delivery_ok k ty d v r v' \<longleftrightarrow>
     clock v \<le> clock v' \<and>
     (case r of
        Deduped \<Rightarrow> events v' = events v \<and> cache v' = cache v \<and> live v' k \<noteq> None
      | Recorded e \<Rightarrow>
          (\<exists>now. e = tracing_document ty d now) \<and> events v' = events v @ [e] \<and>
          live (v\<lparr>clock := clock v'\<rparr>) k = None \<and>
          cache v' = (cache v)(k \<mapsto> (''1'', clock v' + IDEM_TTL_SECONDS)))"

lemma recordEvent_delivers:
  assumes "tracing_contract view E"
  shows "vwp view (\<lambda>_. True) (recordEvent E ty d)
     (delivery_ok (idem_key ty d) ty d v) (\<lambda>e v'. events v' = events v) v"
proof -
  note C = tracing_contractD [OF assms]
  let ?k = "idem_key ty d"
  have saving: "vwp view (\<lambda>_. True) (write_event E ty d)
      (\<lambda>e v'. (\<exists>now. e = tracing_document ty d now) \<and> v' = u\<lparr>events := events u @ [e]\<rparr>)
      (\<lambda>e v'. events v' = events u) u" for u
    unfolding write_event_def
    by (intro vwp_try_catch vwp_bind, rule vwp_atom [OF C(2)])
      (auto simp: reads_def drop_key_def intro!: vwp_bind vwp_throw vwp_atom [OF C(3)] vwp_redis_del [OF C(1)])
  show ?thesis
    unfolding recordEvent_def
  proof (intro vwp_bind, rule vwp_setIfAbsent [OF C(1)], goal_cases)
    case (3 c)
    have "vwp view (\<lambda>_. True) (write_event E ty d)
        (\<lambda>a. vwp view (\<lambda>_. True) (Return (Recorded a)) (delivery_ok ?k ty d v) (\<lambda>e v'. events v' = events v))
        (\<lambda>e v'. events v' = events v) (put_key ?k ''1'' IDEM_TTL_SECONDS (v\<lparr>clock := c\<rparr>))"
      by (rule vwp_mono [OF saving]) (use 3 in \<open>auto simp: delivery_ok_def put_key_def intro!: vwp_return\<close>)
    then show ?case by (auto intro: vwp_bind)
  next
    case (4 c)
    then show ?case by (auto simp: delivery_ok_def intro!: vwp_return)
  qed simp_all
qed

end
