(* ===== verification/TracingOnce.thy ===== *)
theory TracingOnce
  imports Tracing
begin

text \<open>
  Process-once: a redelivered event adds nothing, two concurrent deliveries add one
  document, a failed write frees the event for a retry; and what a crash between the claim
  and the write does.
\<close>

section \<open>One step of a delivery\<close>

text \<open>A delivery that has claimed its key and not finished: it still has to write or to clean up.\<close>

definition holding :: "'w tracing_env \<Rightarrow> tracing_event_type \<Rightarrow> TracingEventPayloadDto
    \<Rightarrow> ('w, record_result) prog \<Rightarrow> bool" where
  "holding E ty d p \<longleftrightarrow>
     p = bind (write_event E ty d) (\<lambda>event. Return (Recorded event)) \<or>
     (\<exists>now. p = bind (try_catch (atom (tv_save E (tracing_document ty d now)))
                 (\<lambda>err. bind (redis_del (tv_redis E) (idem_key ty d)) (\<lambda>_. Throw err)))
              (\<lambda>event. Return (Recorded event))) \<or>
     (\<exists>err. p = bind (bind (redis_del (tv_redis E) (idem_key ty d)) (\<lambda>_. Throw err))
              (\<lambda>event. Return (Recorded event)))"

definition finished_prog :: "('w, 'a) prog \<Rightarrow> bool" where
  "finished_prog p \<longleftrightarrow> (\<exists>a. p = Return a) \<or> (\<exists>e. p = Throw e)"

lemma advance_finished [simp]: "finished_prog p \<Longrightarrow> advance p w = (p, w)"
  by (auto simp: finished_prog_def)

lemma implementsD:
  assumes "implements view f R" and "f w = (r, w')"
  shows "r = Inl e \<Longrightarrow> is_library_error e \<and> view w' = view w"
    and "r = Inr a \<Longrightarrow> R (view w) a (view w')"
  using assms unfolding implements_def by (auto split: prod.splits sum.splits dest!: spec [of _ w])

text \<open>The first step: the key is claimed, or the delivery is over.\<close>

lemma claim_step:
  assumes "tracing_contract view E" and "advance (recordEvent E ty d) w = (p', w')"
  shows "(finished_prog p' \<and> events (view w') = events (view w) \<and> cache (view w') = cache (view w)
            \<and> clock (view w) \<le> clock (view w'))
    \<or> (holding E ty d p' \<and> clock (view w) \<le> clock (view w')
         \<and> live ((view w)\<lparr>clock := clock (view w')\<rparr>) (idem_key ty d) = None
         \<and> events (view w') = events (view w)
         \<and> cache (view w') = (cache (view w))(idem_key ty d \<mapsto> (''1'', clock (view w') + IDEM_TTL_SECONDS)))"
proof -
  let ?f = "rc_set_ex_nx (tv_redis E) (idem_key ty d) ''1'' IDEM_TTL_SECONDS"
  obtain r w1 where f: "?f w = (r, w1)" by fastforce
  note R = implementsD [OF redis_contractD(3) [OF tracing_contractD(1) [OF assms(1)]] f]
  show ?thesis
  proof (cases r)
    case (Inl e)
    with R(1) [OF Inl] assms(2) f show ?thesis
      by (auto simp: recordEvent_def setIfAbsent_def atom_def finished_prog_def)
  next
    case (Inr a)
    from R(2) [OF Inr] obtain c where c: "c \<ge> clock (view w)"
      "if live ((view w)\<lparr>clock := c\<rparr>) (idem_key ty d) = None
       then a = Some ''OK'' \<and> view w1 = put_key (idem_key ty d) ''1'' IDEM_TTL_SECONDS ((view w)\<lparr>clock := c\<rparr>)
       else a = None \<and> view w1 = (view w)\<lparr>clock := c\<rparr>"
      unfolding in_time_def by blast
    with assms(2) f Inr show ?thesis
      by (auto simp: recordEvent_def setIfAbsent_def atom_def finished_prog_def holding_def put_key_def
          split: if_splits)
  qed
qed

text \<open>A further step: the claim is kept, or the one document is there, or the claim may be gone.\<close>

lemma holding_step:
  assumes "tracing_contract view E" and "holding E ty d p" and "advance p w = (p', w')"
  shows "(holding E ty d p' \<and> view w' = view w)
    \<or> (finished_prog p' \<and> clock (view w) \<le> clock (view w') \<and> cache (view w') = cache (view w)
         \<and> (\<exists>now. events (view w') = events (view w) @ [tracing_document ty d now]))
    \<or> (finished_prog p' \<and> clock (view w) \<le> clock (view w') \<and> events (view w') = events (view w))"
  using assms(2) [unfolded holding_def]
proof (elim disjE exE)
  assume p: "p = bind (write_event E ty d) (\<lambda>event. Return (Recorded event))"
  obtain r w1 where f: "tv_now E w = (r, w1)" by fastforce
  note R = implementsD [OF tracing_contractD(2) [OF assms(1)] f]
  show ?thesis
    using assms(3) p f R by (cases r) (auto simp: write_event_def atom_def holding_def reads_def)
next
  fix now
  assume p: "p = bind (try_catch (atom (tv_save E (tracing_document ty d now)))
      (\<lambda>err. bind (redis_del (tv_redis E) (idem_key ty d)) (\<lambda>_. Throw err)))
    (\<lambda>event. Return (Recorded event))"
  obtain r w1 where f: "tv_save E (tracing_document ty d now) w = (r, w1)" by fastforce
  note R = implementsD [OF tracing_contractD(3) [OF assms(1)] f]
  show ?thesis
    using assms(3) p f R by (cases r) (auto simp: atom_def holding_def finished_prog_def)
next
  fix err
  assume p: "p = bind (bind (redis_del (tv_redis E) (idem_key ty d)) (\<lambda>_. Throw err))
    (\<lambda>event. Return (Recorded event))"
  obtain r w1 where f: "rc_del (tv_redis E) (idem_key ty d) w = (r, w1)" by fastforce
  note R = implementsD [OF redis_contractD(5) [OF tracing_contractD(1) [OF assms(1)]] f]
  show ?thesis
    using assms(3) p f R
    by (cases r) (auto simp: redis_del_def atom_def finished_prog_def in_time_def drop_key_def)
qed

section \<open>Two deliveries at once\<close>

datatype phase = Starting | Claimed | Over

fun in_phase :: "'w tracing_env \<Rightarrow> tracing_event_type \<Rightarrow> TracingEventPayloadDto \<Rightarrow> phase
    \<Rightarrow> ('w, record_result) prog \<Rightarrow> bool" where
  "in_phase E ty d Starting p = (p = recordEvent E ty d)"
| "in_phase E ty d Claimed p = holding E ty d p"
| "in_phase E ty d Over p = finished_prog p"

fun claim_count :: "phase \<Rightarrow> nat" where
  "claim_count Claimed = 1"
| "claim_count _ = 0"

text \<open>
  The documents written since the start and the deliveries that hold the claim are at most
  one together, and while there is one the claim stays in the cache until the horizon.
\<close>

definition one_claim :: "string \<Rightarrow> int \<Rightarrow> nat \<Rightarrow> nat \<Rightarrow> trace_view \<Rightarrow> bool" where
  "one_claim k horizon old h v \<longleftrightarrow>
     horizon \<le> clock v \<or>
     (old \<le> length (events v) \<and> length (events v) - old + h \<le> 1 \<and>
      (length (events v) - old + h = 1 \<longrightarrow> (\<exists>x until. cache v k = Some (x, until) \<and> horizon \<le> until)))"

lemma phase_step:
  assumes "tracing_contract view E" and "in_phase E ty d ph p" and "advance p w = (p', w')"
    and "one_claim (idem_key ty d) horizon old (claim_count ph + h) (view w)"
    and "horizon \<le> start + IDEM_TTL_SECONDS" and "start \<le> clock (view w)"
  shows "\<exists>ph'. in_phase E ty d ph' p' \<and> start \<le> clock (view w') \<and>
    one_claim (idem_key ty d) horizon old (claim_count ph' + h) (view w')"
proof (cases ph)
  case Starting
  then have "advance (recordEvent E ty d) w = (p', w')" using assms(2,3) by simp
  from claim_step [OF assms(1) this] show ?thesis
  proof (elim disjE conjE)
    assume "finished_prog p'" "events (view w') = events (view w)" "cache (view w') = cache (view w)"
      "clock (view w) \<le> clock (view w')"
    then show ?thesis
      using assms(4,6) Starting by (intro exI [of _ Over]) (auto simp: one_claim_def)
  next
    assume new: "holding E ty d p'" "clock (view w) \<le> clock (view w')"
      "live ((view w)\<lparr>clock := clock (view w')\<rparr>) (idem_key ty d) = None"
      "events (view w') = events (view w)"
      "cache (view w') = (cache (view w))(idem_key ty d \<mapsto> (''1'', clock (view w') + IDEM_TTL_SECONDS))"
    have "horizon \<le> clock (view w') \<or> length (events (view w)) - old + h = 0"
      using assms(4) Starting new(2,3) by (auto simp: one_claim_def live_def split: if_splits)
    then show ?thesis
      using assms(4-6) Starting new by (intro exI [of _ Claimed]) (auto simp: one_claim_def)
  qed
next
  case Claimed
  then have "holding E ty d p" using assms(2) by simp
  from holding_step [OF assms(1) this assms(3)] show ?thesis
  proof (elim disjE conjE)
    assume "holding E ty d p'" "view w' = view w"
    then show ?thesis using assms(4,6) Claimed by (intro exI [of _ Claimed]) auto
  next
    assume "finished_prog p'" "clock (view w) \<le> clock (view w')" "cache (view w') = cache (view w)"
      "\<exists>now. events (view w') = events (view w) @ [tracing_document ty d now]"
    then show ?thesis
      using assms(4,6) Claimed by (intro exI [of _ Over]) (auto simp: one_claim_def)
  next
    assume "finished_prog p'" "clock (view w) \<le> clock (view w')" "events (view w') = events (view w)"
    then show ?thesis
      using assms(4,6) Claimed by (intro exI [of _ Over]) (auto simp: one_claim_def)
  qed
next
  case Over
  then have "p' = p" "w' = w" using assms(2,3) by simp_all
  then show ?thesis using assms Over by (intro exI [of _ Over]) auto
qed

lemma interleaved_claims:
  assumes "tracing_contract view E" and "horizon \<le> start + IDEM_TTL_SECONDS"
  shows "interleave bs p q w = (p', q', w') \<Longrightarrow> in_phase E ty d ph p \<Longrightarrow> in_phase E ty d ph2 q
    \<Longrightarrow> start \<le> clock (view w) \<Longrightarrow> one_claim (idem_key ty d) horizon old (claim_count ph + claim_count ph2) (view w)
    \<Longrightarrow> \<exists>h. one_claim (idem_key ty d) horizon old h (view w')"
proof (induction bs p q w arbitrary: ph ph2 rule: interleave.induct)
  case (1 p q w)
  then show ?case by auto
next
  case (2 bs p q w)
  obtain p1 w1 where s: "advance p w = (p1, w1)" by fastforce
  obtain ph' where "in_phase E ty d ph' p1" "start \<le> clock (view w1)"
      "one_claim (idem_key ty d) horizon old (claim_count ph' + claim_count ph2) (view w1)"
    using phase_step [OF assms(1) 2(3) s 2(6) assms(2) 2(5)] by blast
  with 2(1) [OF s [symmetric] _ _ 2(4)] 2(2) s show ?case by auto
next
  case (3 bs p q w)
  obtain q1 w1 where s: "advance q w = (q1, w1)" by fastforce
  have "one_claim (idem_key ty d) horizon old (claim_count ph2 + claim_count ph) (view w)"
    using 3(6) by (simp add: add.commute)
  then obtain ph' where "in_phase E ty d ph' q1" "start \<le> clock (view w1)"
      "one_claim (idem_key ty d) horizon old (claim_count ph' + claim_count ph) (view w1)"
    using phase_step [OF assms(1) 3(4) s _ assms(2) 3(5)] by blast
  with 3(1) [OF s [symmetric] _ 3(3)] 3(2) s show ?case by (auto simp: add.commute)
qed

section \<open>Events in memory\<close>

definition mem_tracing :: "trace_view tracing_env" where
  "mem_tracing =
     \<lparr>tv_redis = mem_redis, tv_now = (\<lambda>v. (Inr 500, v)),
      tv_save = (\<lambda>e v. if valid_document e then (Inr e, v\<lparr>events := events v @ [e]\<rparr>)
                       else (Inl (ErrorExc ''ValidationError'' ''validation failed''), v)),
      tv_find = (\<lambda>cropId v.
        (Inr (sort_key te_occurredAt (filter (\<lambda>e. te_cropId e = Some (JNum cropId)) (events v))), v))\<rparr>"

lemma mem_tracing_contract: "tracing_contract id mem_tracing"
  unfolding tracing_contract_def mem_tracing_def
  using mem_redis_contract by (auto simp: implements_def reads_def)

definition empty_trace :: trace_view where
  "empty_trace = \<lparr>clock = 0, cache = (\<lambda>_. None), events = []\<rparr>"

definition demo_dto :: TracingEventPayloadDto where
  "demo_dto =
     \<lparr>tp_cropId = Some (JNum 1), tp_farmId = Some (JNum 1), tp_userId = Some (JNum 7),
      tp_payload = Some (JObj [(''id'', JNum 1)])\<rparr>"

section \<open>Process once\<close>

text \<open>
  C18. Two consumers that handle the same event at the same time, their library calls
  interleaved in any way and stopped at any moment, together store at most one document,
  within the life time of the claim (a day).
\<close>

theorem concurrent_deliveries_record_once:
  assumes "tracing_contract view E"
    and "interleave bs (recordEvent E ty d) (recordEvent E ty d) w = (p, q, w')"
    and "clock (view w') < clock (view w) + IDEM_TTL_SECONDS"
  shows "length (events (view w')) \<le> length (events (view w)) + 1"
proof -
  let ?horizon = "clock (view w) + IDEM_TTL_SECONDS" and ?old = "length (events (view w))"
  have "\<exists>h. one_claim (idem_key ty d) ?horizon ?old h (view w')"
    by (rule interleaved_claims [OF assms(1) order_refl assms(2), of ty d Starting Starting])
      (simp_all add: one_claim_def)
  with assms(3) show ?thesis by (auto simp: one_claim_def)
qed

theorem concurrent_deliveries_record_once_witness:
  "length (events (snd (snd (interleave [True, False, True, True, False]
      (recordEvent mem_tracing CROP_INITIALIZED demo_dto) (recordEvent mem_tracing CROP_INITIALIZED demo_dto)
      empty_trace)))) = 1"
proof -
  obtain p q v where i: "interleave [True, False, True, True, False]
      (recordEvent mem_tracing CROP_INITIALIZED demo_dto) (recordEvent mem_tracing CROP_INITIALIZED demo_dto)
      empty_trace = (p, q, v)" by (metis prod_cases3)
  have "clock (snd (snd (interleave [True, False, True, True, False]
      (recordEvent mem_tracing CROP_INITIALIZED demo_dto) (recordEvent mem_tracing CROP_INITIALIZED demo_dto)
      empty_trace))) = 0" by code_simp
  with i have "length (events v) \<le> 1"
    using concurrent_deliveries_record_once [OF mem_tracing_contract i]
    by (simp add: empty_trace_def IDEM_TTL_SECONDS_def)
  moreover have "events (snd (snd (interleave [True, False, True, True, False]
      (recordEvent mem_tracing CROP_INITIALIZED demo_dto) (recordEvent mem_tracing CROP_INITIALIZED demo_dto)
      empty_trace))) \<noteq> []" by code_simp
  ultimately show ?thesis using i by (cases "events v") auto
qed

text \<open>
  C19. Once an event is recorded, a redelivery within a day, whatever its body says besides
  the id, changes no document and answers that it was a duplicate (or fails in the cache).
\<close>

theorem redelivery_is_ignored:
  assumes "tracing_contract view E" and "run (recordEvent E ty d) w = (Inr (Recorded e), w1)"
    and "idem_key ty d' = idem_key ty d"
    and "run (recordEvent E ty d') w1 = (r, w2)" and "clock (view w2) < clock (view w1) + IDEM_TTL_SECONDS"
  shows "events (view w2) = events (view w1) \<and> events (view w1) = events (view w) @ [e]
    \<and> (r = Inr Deduped \<or> (\<exists>err. r = Inl err))"
proof -
  note first = vwp_run [OF recordEvent_delivers [OF assms(1), of ty d "view w"] assms(2)]
  note second = vwp_run [OF recordEvent_delivers [OF assms(1), of ty d' "view w1"] assms(4)]
  have claimed: "cache (view w1) (idem_key ty d) = Some (''1'', clock (view w1) + IDEM_TTL_SECONDS)"
    "events (view w1) = events (view w) @ [e]"
    using first by (simp_all add: delivery_ok_def)
  show ?thesis
  proof (cases r)
    case (Inl err)
    with second claimed show ?thesis by simp
  next
    case (Inr a)
    with second assms(3,5) claimed show ?thesis
      by (cases a) (auto simp: delivery_ok_def live_def)
  qed
qed

theorem redelivery_is_ignored_witness:
  "let w1 = snd (run (recordEvent mem_tracing CROP_INITIALIZED demo_dto) empty_trace);
       w2 = snd (run (recordEvent mem_tracing CROP_INITIALIZED demo_dto) w1)
   in length (events w1) = 1 \<and> events w2 = events w1"
proof -
  obtain r w1 where 1: "run (recordEvent mem_tracing CROP_INITIALIZED demo_dto) empty_trace = (r, w1)" by fastforce
  have "case fst (run (recordEvent mem_tracing CROP_INITIALIZED demo_dto) empty_trace) of
      Inr (Recorded e) \<Rightarrow> True | _ \<Rightarrow> False" by code_simp
  with 1 obtain e where e: "r = Inr (Recorded e)" by (auto split: sum.splits record_result.splits)
  obtain r2 w2 where 2: "run (recordEvent mem_tracing CROP_INITIALIZED demo_dto) w1 = (r2, w2)" by fastforce
  have c1: "clock (snd (run (recordEvent mem_tracing CROP_INITIALIZED demo_dto) empty_trace)) = 0" by code_simp
  have "clock (snd (run (recordEvent mem_tracing CROP_INITIALIZED demo_dto)
      (snd (run (recordEvent mem_tracing CROP_INITIALIZED demo_dto) empty_trace)))) = 0" by code_simp
  with c1 have "events w2 = events w1 \<and> events w1 = events empty_trace @ [e]"
    using redelivery_is_ignored [OF mem_tracing_contract 1 [unfolded e] refl 2] 1 2
    by (simp add: IDEM_TTL_SECONDS_def)
  then show ?thesis using 1 2 by (simp add: empty_trace_def Let_def)
qed

text \<open>
  A delivery that fails stores nothing, and unless the cache fails as well the claim it
  took is given back: the key is as it was or free, so the retry of the event records it.
\<close>

theorem failed_write_gives_the_claim_back:
  assumes "tracing_contract view E" and "\<And>k w. \<exists>w'. rc_del (tv_redis E) k w = (Inr (), w')"
    and "run (recordEvent E ty d) w = (Inl err, w')"
  shows "events (view w') = events (view w) \<and>
    (cache (view w') = cache (view w) \<or> cache (view w') = (cache (view w))(idem_key ty d := None))"
proof -
  let ?k = "idem_key ty d"
  note C = tracing_contractD [OF assms(1)]
  have del: "vwp view (\<lambda>_. True) (redis_del (tv_redis E) ?k) (\<lambda>_ v'. events v' = events v \<and> cache v' = (cache v)(?k := None))
      (\<lambda>e v'. False) v" for v
    unfolding vwp_def redis_del_def wp_atom
  proof (intro allI impI conjI TrueI)
    fix w :: 'a
    assume w: "view w = v"
    obtain w' where f: "rc_del (tv_redis E) ?k w = (Inr (), w')" using assms(2) by blast
    have "in_time (\<lambda>v a v'. v' = drop_key ?k v) (view w) () (view w')"
      using implementsD(2) [OF redis_contractD(5) [OF C(1)] f] by blast
    with f w show "case rc_del (tv_redis E) ?k w of
        (Inl e, w') \<Rightarrow> True \<and> False | (Inr a, w') \<Rightarrow> True \<and> events (view w') = events v \<and> cache (view w') = (cache v)(?k := None)"
      by (auto simp: in_time_def drop_key_def)
  qed
  have saving: "vwp view (\<lambda>_. True) (write_event E ty d) (\<lambda>_ _. True)
      (\<lambda>e v'. events v' = events u \<and> cache v' = (cache u)(?k := None)) u" for u
    unfolding write_event_def
    by (intro vwp_try_catch vwp_bind, rule vwp_atom [OF C(2)])
      (auto simp: reads_def intro!: vwp_bind vwp_throw vwp_atom [OF C(3)] vwp_mono [OF del])
  have "vwp view (\<lambda>_. True) (recordEvent E ty d) (\<lambda>_ _. True)
      (\<lambda>e v'. events v' = events v \<and> (cache v' = cache v \<or> cache v' = (cache v)(?k := None))) v" for v
    unfolding recordEvent_def
    by (intro vwp_bind, rule vwp_setIfAbsent [OF C(1)])
      (auto simp: put_key_def intro!: vwp_return vwp_bind vwp_mono [OF saving])
  from vwp_run [OF this assms(3)] show ?thesis by auto
qed

definition demo_bad_dto :: TracingEventPayloadDto where
  "demo_bad_dto = demo_dto\<lparr>tp_farmId := None\<rparr>"

theorem failed_write_gives_the_claim_back_witness:
  "\<exists>err v'. run (recordEvent mem_tracing CROP_INITIALIZED demo_bad_dto) empty_trace = (Inl err, v')
     \<and> events v' = [] \<and> cache v' (idem_key CROP_INITIALIZED demo_bad_dto) = None"
proof -
  obtain r v' where 1: "run (recordEvent mem_tracing CROP_INITIALIZED demo_bad_dto) empty_trace = (r, v')" by fastforce
  have "case fst (run (recordEvent mem_tracing CROP_INITIALIZED demo_bad_dto) empty_trace) of
      Inr _ \<Rightarrow> False | Inl _ \<Rightarrow> True" by code_simp
  with 1 obtain e where e: "r = Inl e" by (auto split: sum.splits)
  have "\<exists>w'. rc_del (tv_redis mem_tracing) k w = (Inr (), w')" for k w
    by (simp add: mem_tracing_def mem_redis_def)
  from failed_write_gives_the_claim_back [OF mem_tracing_contract this 1 [unfolded e]]
  show ?thesis using 1 e by (auto simp: empty_trace_def)
qed

text \<open>
  C20. The claim is taken before the document is written, in another database: when the
  process dies in between, no document exists, and for a day every redelivery of the event
  is taken for a duplicate and acknowledged without one. The event is then lost.
\<close>

theorem crash_after_claim_swallows_the_event:
  assumes "tracing_contract view E" and "crash_after 1 (recordEvent E ty d) w = w1"
    and "cache (view w1) \<noteq> cache (view w)"
    and "run (recordEvent E ty d) w1 = (r, w2)" and "clock (view w2) < clock (view w1) + IDEM_TTL_SECONDS"
  shows "events (view w2) = events (view w) \<and> (r = Inr Deduped \<or> (\<exists>err. r = Inl err))"
proof -
  obtain p' where a: "advance (recordEvent E ty d) w = (p', w1)"
    using assms(2) by (cases "recordEvent E ty d") (auto split: prod.splits)
  have claimed: "events (view w1) = events (view w)"
    "cache (view w1) (idem_key ty d) = Some (''1'', clock (view w1) + IDEM_TTL_SECONDS)"
    using claim_step [OF assms(1) a] assms(3) by auto
  note second = vwp_run [OF recordEvent_delivers [OF assms(1), of ty d "view w1"] assms(4)]
  show ?thesis
  proof (cases r)
    case (Inl err)
    with second claimed show ?thesis by simp
  next
    case (Inr x)
    with second assms(5) claimed show ?thesis
      by (cases x) (auto simp: delivery_ok_def live_def)
  qed
qed

theorem crash_after_claim_swallows_the_event_witness:
  "events (snd (run (recordEvent mem_tracing CROP_INITIALIZED demo_dto)
      (crash_after 1 (recordEvent mem_tracing CROP_INITIALIZED demo_dto) empty_trace))) = []"
proof -
  let ?p = "recordEvent mem_tracing CROP_INITIALIZED demo_dto"
  obtain r w2 where r: "run ?p (crash_after 1 ?p empty_trace) = (r, w2)" by fastforce
  have c: "cache (crash_after 1 ?p empty_trace) \<noteq> cache empty_trace"
  proof
    assume "cache (crash_after 1 ?p empty_trace) = cache empty_trace"
    moreover have "cache (crash_after 1 ?p empty_trace) (idem_key CROP_INITIALIZED demo_dto) \<noteq> None" by code_simp
    ultimately show False by (simp add: empty_trace_def)
  qed
  have "clock (snd (run ?p (crash_after 1 ?p empty_trace))) = 0" "clock (crash_after 1 ?p empty_trace) = 0"
    by code_simp+
  then have "events w2 = events empty_trace"
    using c r crash_after_claim_swallows_the_event
        [OF mem_tracing_contract refl, of CROP_INITIALIZED demo_dto empty_trace r w2]
    by (simp add: IDEM_TTL_SECONDS_def)
  then show ?thesis using r by (simp add: empty_trace_def)
qed

end
