(* ===== verification/TraceFlow.thy ===== *)
theory TraceFlow
  imports FarmsReach OutboxRelay TracingOnce
begin

text \<open>
  From a command of the farms service to a document of the tracing service: the event that
  a creation leaves in the outbox, as the relay sends it, is one the tracing service has a
  handler for and can store.
\<close>

text \<open>The body a consumer receives of an outbox row.\<close>

definition relayed_body :: "outbox_row \<Rightarrow> object" where
  "relayed_body r = drop_prop TRACE_CARRIER_KEY (ob_payload r)"

lemma map_of_drop_prop: "map_of (drop_prop k obj) k' = (if k' = k then None else map_of obj k')"
  by (induction obj) (auto simp: drop_prop_def)

lemma relayed_keys:
  "map_of (relayed_body r) ''cropId'' = map_of (ob_payload r) ''cropId''"
  "map_of (relayed_body r) ''farmId'' = map_of (ob_payload r) ''farmId''"
  "map_of (relayed_body r) ''userId'' = map_of (ob_payload r) ''userId''"
  "map_of (relayed_body r) ''payload'' = map_of (ob_payload r) ''payload''"
  by (simp_all add: relayed_body_def map_of_drop_prop TRACE_CARRIER_KEY_def)

lemma announces_types:
  "announces cmd = Some pat \<Longrightarrow> \<exists>ty. event_type_of pat = Some ty"
  by (cases cmd rule: announces.cases) (auto simp: event_type_of_def)

lemma announced_is_valid:
  assumes "announced t u pat row" and "event_type_of pat = Some ty"
  shows "event_type_of (ob_pattern row) = Some ty
    \<and> valid_document (tracing_document ty (tracing_dto (relayed_body row)) now)
    \<and> te_userId (tracing_document ty (tracing_dto (relayed_body row)) now) = Some (JNum u)
    \<and> (\<exists>i. entity_id (tracing_dto (relayed_body row)) = Some (JNum i))"
  using assms unfolding announced_def
  by (auto simp: valid_document_def present_def tracing_document_def tracing_dto_def entity_id_def relayed_keys)

text \<open>
  C21. Every crop, activity and harvest that is created can be traced: the one outbox row
  the command leaves is, once relayed, an event the tracing service has a handler for,
  whose document carries all required properties and names the caller as the user, and the
  first delivery of it stores exactly that document (or fails, for the event to be
  delivered again).
\<close>

theorem created_record_is_traced:
  assumes "farms_contract view E" and "tables_ok (committed (view w))"
    and "run (farms_service E cmd) w = (Inr a, w')" and "announces cmd = Some pat"
    and "tracing_contract tview T"
  shows "\<exists>row ty p. outbox_rows (committed (view w')) = outbox_rows (committed (view w)) @ [row]
    \<and> tracing_controller T (ob_pattern row) (relayed_body row) = Some p
    \<and> (\<forall>now. valid_document (tracing_document ty (tracing_dto (relayed_body row)) now)
         \<and> te_userId (tracing_document ty (tracing_dto (relayed_body row)) now) = Some (JNum (caller cmd)))
    \<and> (\<forall>x r x'. run p x = (r, x') \<longrightarrow> (\<forall>c \<ge> clock (tview x).
           live ((tview x)\<lparr>clock := c\<rparr>) (idem_key ty (tracing_dto (relayed_body row))) = None) \<longrightarrow>
         (\<exists>now. r = Inr (Recorded (tracing_document ty (tracing_dto (relayed_body row)) now))
            \<and> events (tview x') = events (tview x) @ [tracing_document ty (tracing_dto (relayed_body row)) now])
         \<or> ((\<exists>e. r = Inl e) \<and> events (tview x') = events (tview x)))"
proof -
  have "new_events cmd (committed (view w)) (committed (view w'))"
    using farms_refines_run(2) [OF service_refines [OF assms(1)] assms(2,3)]
    by (auto intro: command_events [OF assms(2)])
  then obtain row where row: "outbox_rows (committed (view w')) = outbox_rows (committed (view w)) @ [row]"
      "announced (committed (view w)) (caller cmd) pat row"
    using assms(4) by (auto simp: new_events_def)
  obtain ty where ty: "event_type_of pat = Some ty" using announces_types [OF assms(4)] by blast
  note valid = announced_is_valid [OF row(2) ty]
  let ?d = "tracing_dto (relayed_body row)"
  have first: "(\<exists>now. r = Inr (Recorded (tracing_document ty ?d now))
        \<and> events (tview x') = events (tview x) @ [tracing_document ty ?d now])
      \<or> ((\<exists>e. r = Inl e) \<and> events (tview x') = events (tview x))"
    if "run (recordEvent T ty ?d) x = (r, x')"
      and free: "\<forall>c \<ge> clock (tview x). live ((tview x)\<lparr>clock := c\<rparr>) (idem_key ty ?d) = None" for x r x'
  proof (cases r)
    case (Inl e)
    with vwp_run [OF recordEvent_delivers [OF assms(5), of ty ?d "tview x"] that(1)] show ?thesis by simp
  next
    case (Inr y)
    with vwp_run [OF recordEvent_delivers [OF assms(5), of ty ?d "tview x"] that(1)]
    have ok: "delivery_ok (idem_key ty ?d) ty ?d (tview x) y (tview x')" by simp
    then have "live ((tview x)\<lparr>clock := clock (tview x')\<rparr>) (idem_key ty ?d) = None"
      using free by (simp add: delivery_ok_def)
    with ok Inr show ?thesis by (cases y) (auto simp: delivery_ok_def live_def split: option.splits if_splits)
  qed
  show ?thesis
    using row(1) valid first
    by (intro exI [of _ row] exI [of _ ty] exI [of _ "recordEvent T ty ?d"]) (auto simp: tracing_controller_def)
qed

theorem created_record_is_traced_witness:
  "\<exists>v' row p. snd (run (farms_service mem_farms (CropsCmd (CreateCrop 7 demo_crop_dto))) demo_view) = v'
     \<and> outbox_rows (committed v') = outbox_rows demo_tables @ [row]
     \<and> tracing_controller mem_tracing (ob_pattern row) (relayed_body row) = Some p"
proof -
  let ?cmd = "CropsCmd (CreateCrop 7 demo_crop_dto)"
  have "case fst (run (farms_service mem_farms ?cmd) demo_view) of Inr a \<Rightarrow> True | Inl e \<Rightarrow> False" by code_simp
  then obtain a v' where run: "run (farms_service mem_farms ?cmd) demo_view = (Inr a, v')"
    by (cases "run (farms_service mem_farms ?cmd) demo_view") (auto split: sum.splits)
  have "announces ?cmd = Some ''crop.initialized''" by simp
  from created_record_is_traced [OF mem_farms_contract demo_ok run this mem_tracing_contract] run
  show ?thesis by (auto simp: demo_view_def)
qed

end
