(* ===== verification/Reports.thy ===== *)
theory Reports
  imports FarmsStore Redis Guards
begin

text \<open>
  \<open>ReportService\<close> (\<open>apps/farms/src/report/report.service.ts\<close>): the farms of everyone,
  grouped by owner, for an administrator, and a farmer's own farms; both are cached for a
  minute. The repositories and the cache are parameters; the cache's text is represented by
  the value it is the JSON of.
\<close>

section \<open>Rows with their relations\<close>

record loaded_crop =
  lc_crop :: crop
  lc_activities :: "activity list option"
  lc_harvest :: "harvest list option"

record loaded_farm =
  lf_farm :: farm
  lf_crops :: "loaded_crop list option"

record shaped_crop =
  sc_crop :: crop
  sc_activities :: "activity list"
  sc_harvest :: "harvest list option"
  sc_harvests :: "harvest list"

record shaped_farm =
  sf_farm :: farm
  sf_crops :: "shaped_crop list"

record owner_profile =
  op_firstName :: string
  op_lastName :: "string option"
  op_email :: string
  op_rol :: "string option"

record owner_summary =
  os_id :: int
  os_profile :: "owner_profile option"

record report_entry =
  en_owner :: owner_summary
  en_farms :: "shaped_farm list"

datatype report = AdminReport "report_entry list" | FarmerReport "shaped_farm list"

section \<open>The service\<close>

definition REPORT_CACHE_TTL_SECONDS :: int where
  "REPORT_CACHE_TTL_SECONDS = 60"

definition ADMIN_REPORT_KEY :: string where
  "ADMIN_REPORT_KEY = ''report:admin''"

definition farmerReportKey :: "int \<Rightarrow> string" where
  "farmerReportKey farmerId = ''report:farmer:'' @ show_int farmerId"

definition FARM_REPORT_RELATIONS :: "string list" where
  "FARM_REPORT_RELATIONS = [''crops'', ''crops.activities'', ''crops.harvest'']"

record 'w report_env =
  rp_user :: "int \<Rightarrow> ('w, user_projection option) op"
  rp_users :: "('w, user_projection list) op"
  rp_farms :: "string list \<Rightarrow> int option \<Rightarrow> ('w, loaded_farm list) op"
  rp_redis :: "('w, report) redis_client"

definition or_empty :: "'a list option \<Rightarrow> 'a list" where
  "or_empty x = (case x of None \<Rightarrow> [] | Some xs \<Rightarrow> xs)"

definition shape_crop :: "loaded_crop \<Rightarrow> shaped_crop" where
  "shape_crop c =
     \<lparr>sc_crop = lc_crop c, sc_activities = or_empty (lc_activities c), sc_harvest = lc_harvest c,
      sc_harvests = or_empty (lc_harvest c)\<rparr>"

definition shapeFarm :: "loaded_farm \<Rightarrow> shaped_farm" where
  "shapeFarm f = \<lparr>sf_farm = lf_farm f, sf_crops = map shape_crop (or_empty (lf_crops f))\<rparr>"

text \<open>\<open>new Map(owners.map((owner) => [owner.id, owner]))\<close>: a later entry replaces an earlier one.\<close>

definition owner_map :: "user_projection list \<Rightarrow> int \<Rightarrow> user_projection option" where
  "owner_map owners = map_of (rev (map (\<lambda>o_row. (up_id o_row, o_row)) owners))"

definition summary_of :: "(int \<Rightarrow> user_projection option) \<Rightarrow> int \<Rightarrow> owner_summary" where
  "summary_of ownerById userId =
     (case ownerById userId of
        Some u \<Rightarrow> \<lparr>os_id = up_id u, os_profile = Some
            \<lparr>op_firstName = up_firstName u, op_lastName = up_lastName u, op_email = up_email u, op_rol = up_rol u\<rparr>\<rparr>
      | None \<Rightarrow> \<lparr>os_id = userId, os_profile = None\<rparr>)"

text \<open>The loop's map from owners to entries, in the order of insertion.\<close>

type_synonym by_owner = "(int \<times> report_entry) list"

definition push_farm :: "int \<Rightarrow> shaped_farm \<Rightarrow> by_owner \<Rightarrow> by_owner" where
  "push_farm userId f m = map (\<lambda>(k, en). (k, if k = userId then en\<lparr>en_farms := en_farms en @ [f]\<rparr> else en)) m"

definition group_step :: "(int \<Rightarrow> user_projection option) \<Rightarrow> loaded_farm \<Rightarrow> by_owner \<Rightarrow> by_owner" where
  "group_step ownerById f m =
     (let userId = farm_userId (lf_farm f);
          m' = (if map_of m userId = None
                then m @ [(userId, \<lparr>en_owner = summary_of ownerById userId, en_farms = []\<rparr>)] else m)
      in push_farm userId (shapeFarm f) m')"

definition groupByOwner :: "loaded_farm list \<Rightarrow> (int \<Rightarrow> user_projection option) \<Rightarrow> report_entry list" where
  "groupByOwner farms ownerById = map snd (fold (group_step ownerById) farms [])"

definition generateAdminReport :: "'w report_env \<Rightarrow> int \<Rightarrow> ('w, report) prog" where
  "generateAdminReport E req_id =
     bind (atom (rp_user E req_id)) (\<lambda>requester.
     bind (throw_if (\<not> (case requester of Some u \<Rightarrow> up_rol u = Some Admin | None \<Rightarrow> False))
       (ForbiddenException ''Admin role required'')) (\<lambda>_.
     bind (redis_get (rp_redis E) ADMIN_REPORT_KEY) (\<lambda>cached.
     case cached of
       Some r \<Rightarrow> Return r
     | None \<Rightarrow>
         bind (atom (rp_farms E FARM_REPORT_RELATIONS None)) (\<lambda>farms.
         bind (atom (rp_users E)) (\<lambda>owners.
         let result = AdminReport (groupByOwner farms (owner_map owners)) in
         bind (setWithTtl (rp_redis E) ADMIN_REPORT_KEY result REPORT_CACHE_TTL_SECONDS) (\<lambda>_.
         Return result))))))"

definition generateFarmerReport :: "'w report_env \<Rightarrow> int \<Rightarrow> int \<Rightarrow> ('w, report) prog" where
  "generateFarmerReport E farmer_id req_id =
     bind (throw_if (farmer_id \<noteq> req_id) (ForbiddenException ''You can only access your own report'')) (\<lambda>_.
     bind (redis_get (rp_redis E) (farmerReportKey farmer_id)) (\<lambda>cached.
     case cached of
       Some r \<Rightarrow> Return r
     | None \<Rightarrow>
         bind (atom (rp_farms E FARM_REPORT_RELATIONS (Some farmer_id))) (\<lambda>farms.
         let result = FarmerReport (map shapeFarm farms) in
         bind (setWithTtl (rp_redis E) (farmerReportKey farmer_id) result REPORT_CACHE_TTL_SECONDS) (\<lambda>_.
         Return result))))"

text \<open>The controller's two handlers.\<close>

datatype report_request = GetAdminReport int | GetFarmerReport int int

fun report_controller :: "'w report_env \<Rightarrow> report_request \<Rightarrow> ('w, report) prog" where
  "report_controller E (GetAdminReport req_id) = generateAdminReport E req_id"
| "report_controller E (GetFarmerReport farmer_id req_id) = generateFarmerReport E farmer_id req_id"

section \<open>Grouping\<close>

text \<open>The owners in the order in which their first farm comes, and each with its farms in order.\<close>

fun first_seen :: "int list \<Rightarrow> int list" where
  "first_seen [] = []"
| "first_seen (x # xs) = x # filter (\<lambda>y. y \<noteq> x) (first_seen xs)"

definition grouped :: "loaded_farm list \<Rightarrow> (int \<Rightarrow> user_projection option) \<Rightarrow> report_entry list" where
  "grouped farms ownerById =
     map (\<lambda>u. \<lparr>en_owner = summary_of ownerById u,
               en_farms = map shapeFarm (filter (\<lambda>f. farm_userId (lf_farm f) = u) farms)\<rparr>)
       (first_seen (map (\<lambda>f. farm_userId (lf_farm f)) farms))"

lemma first_seen_set [simp]: "set (first_seen xs) = set xs"
  by (induction xs) auto

lemma first_seen_distinct: "distinct (first_seen xs)"
  by (induction xs) auto

lemma first_seen_snoc: "first_seen (xs @ [x]) = first_seen xs @ (if x \<in> set xs then [] else [x])"
  by (induction xs) auto

definition grouped_map :: "loaded_farm list \<Rightarrow> (int \<Rightarrow> user_projection option) \<Rightarrow> by_owner" where
  "grouped_map farms ownerById =
     map (\<lambda>u. (u, \<lparr>en_owner = summary_of ownerById u,
                   en_farms = map shapeFarm (filter (\<lambda>f. farm_userId (lf_farm f) = u) farms)\<rparr>))
       (first_seen (map (\<lambda>f. farm_userId (lf_farm f)) farms))"

lemma map_of_grouped: "map_of (grouped_map farms own) u = None \<longleftrightarrow> u \<notin> (\<lambda>f. farm_userId (lf_farm f)) ` set farms"
  by (auto simp: grouped_map_def map_of_eq_None_iff image_image)

lemma group_step_grouped: "group_step own f (grouped_map fs own) = grouped_map (fs @ [f]) own"
proof (cases "farm_userId (lf_farm f) \<in> (\<lambda>f. farm_userId (lf_farm f)) ` set fs")
  case True
  then have "map_of (grouped_map fs own) (farm_userId (lf_farm f)) \<noteq> None"
    using map_of_grouped by simp
  with True show ?thesis
    by (simp add: group_step_def Let_def push_farm_def grouped_map_def first_seen_snoc comp_def)
next
  case False
  then have none: "map_of (grouped_map fs own) (farm_userId (lf_farm f)) = None"
    using map_of_grouped by simp
  have "filter (\<lambda>g. farm_userId (lf_farm g) = farm_userId (lf_farm f)) fs = []"
    using False by (auto simp: filter_empty_conv image_iff)
  with False none show ?thesis
    by (auto simp: group_step_def Let_def push_farm_def grouped_map_def first_seen_snoc comp_def)
qed

lemma fold_group_step: "fold (group_step own) fs (grouped_map gs own) = grouped_map (gs @ fs) own"
  by (induction fs arbitrary: gs) (simp_all add: group_step_grouped)

lemma groupByOwner_grouped: "groupByOwner farms own = grouped farms own"
  using fold_group_step [of own farms "[]"]
  by (simp add: groupByOwner_def grouped_def grouped_map_def comp_def)

end
