(* ===== verification/ReportSpec.thy ===== *)
theory ReportSpec
  imports Reports FarmsMemory
begin

text \<open>
  What the report service promises: who may ask, whose farms an answer holds, how old an
  answer from the cache can be, and that a fresh one is complete.
\<close>

section \<open>The contract\<close>

record report_view = "report cache_view" +
  report_tables :: farms_tables

text \<open>A farm with all its crops, each with all its activities and harvests, in any order.\<close>

definition loads_crop :: "farms_tables \<Rightarrow> crop \<Rightarrow> loaded_crop \<Rightarrow> bool" where
  "loads_crop t c lc \<longleftrightarrow>
     lc_crop lc = load_crop t [] c \<and>
     (\<exists>as. lc_activities lc = Some as \<and>
        mset as = image_mset (load_activity t [])
          (filter_mset (\<lambda>a. rel_crop_id (act_crop a) = Some (crop_id c)) (mset (activity_rows t)))) \<and>
     (\<exists>hs. lc_harvest lc = Some hs \<and>
        mset hs = image_mset (load_harvest t [])
          (filter_mset (\<lambda>h. rel_crop_id (harv_crop h) = Some (crop_id c)) (mset (harvest_rows t))))"

definition loads_farm :: "farms_tables \<Rightarrow> farm \<Rightarrow> loaded_farm \<Rightarrow> bool" where
  "loads_farm t f lf \<longleftrightarrow>
     lf_farm lf = f \<and>
     (\<exists>cs lcs. lf_crops lf = Some lcs \<and> list_all2 (loads_crop t) cs lcs \<and>
        mset cs = filter_mset (\<lambda>c. crop_farm_id c = Some (farm_id f)) (mset (crop_rows t)))"

definition asked :: "int option \<Rightarrow> farm \<Rightarrow> bool" where
  "asked wh f \<longleftrightarrow> (case wh of None \<Rightarrow> True | Some i \<Rightarrow> farm_userId f = i)"

definition report_contract :: "('w \<Rightarrow> report_view) \<Rightarrow> 'w report_env \<Rightarrow> bool" where
  "report_contract view E \<longleftrightarrow>
     redis_contract view (rp_redis E) \<and>
     (\<forall>i. implements view (rp_user E i)
        (reads (\<lambda>v a. a = row_of up_id i (projection_rows (report_tables v))))) \<and>
     implements view (rp_users E) (reads (\<lambda>v a. mset a = mset (projection_rows (report_tables v)))) \<and>
     (\<forall>wh. implements view (rp_farms E FARM_REPORT_RELATIONS wh)
        (reads (\<lambda>v a. \<exists>fs. mset fs = filter_mset (asked wh) (mset (farm_rows (report_tables v)))
            \<and> list_all2 (loads_farm (report_tables v)) fs a)))"

lemma report_contractD:
  assumes "report_contract view E"
  shows "redis_contract view (rp_redis E)"
    and "implements view (rp_user E i)
        (reads (\<lambda>v a. a = row_of up_id i (projection_rows (report_tables v))))"
    and "implements view (rp_users E) (reads (\<lambda>v a. mset a = mset (projection_rows (report_tables v))))"
    and "implements view (rp_farms E FARM_REPORT_RELATIONS wh)
        (reads (\<lambda>v a. \<exists>fs. mset fs = filter_mset (asked wh) (mset (farm_rows (report_tables v)))
            \<and> list_all2 (loads_farm (report_tables v)) fs a))"
  using assms by (simp_all add: report_contract_def)

section \<open>Who may see what\<close>

definition is_admin :: "farms_tables \<Rightarrow> int \<Rightarrow> bool" where
  "is_admin t i \<longleftrightarrow> (\<exists>u. row_of up_id i (projection_rows t) = Some u \<and> up_rol u = Some Admin)"

fun may_see :: "farms_tables \<Rightarrow> report_request \<Rightarrow> bool" where
  "may_see t (GetAdminReport i) = is_admin t i"
| "may_see t (GetFarmerReport i j) = (i = j)"

fun suits :: "report_request \<Rightarrow> report \<Rightarrow> bool" where
  "suits (GetAdminReport i) r = (\<exists>es. r = AdminReport es)"
| "suits (GetFarmerReport i j) r = (\<exists>fs. r = FarmerReport fs \<and> (\<forall>f \<in> set fs. farm_userId (sf_farm f) = i))"

text \<open>
  The entries of the report keys: a farmer's key holds only this farmer's farms, and no
  entry has more than a minute to live.
\<close>

definition report_cache_ok :: "report_view \<Rightarrow> bool" where
  "report_cache_ok v \<longleftrightarrow>
     (\<forall>r until. cache v ADMIN_REPORT_KEY = Some (r, until) \<longrightarrow>
        (\<exists>es. r = AdminReport es) \<and> until \<le> clock v + REPORT_CACHE_TTL_SECONDS) \<and>
     (\<forall>i r until. cache v (farmerReportKey i) = Some (r, until) \<longrightarrow>
        (\<exists>fs. r = FarmerReport fs \<and> (\<forall>f \<in> set fs. farm_userId (sf_farm f) = i))
        \<and> until \<le> clock v + REPORT_CACHE_TTL_SECONDS)"

lemma report_keys [simp]:
  "farmerReportKey i = farmerReportKey j \<longleftrightarrow> i = j"
  "ADMIN_REPORT_KEY \<noteq> farmerReportKey i" "farmerReportKey i \<noteq> ADMIN_REPORT_KEY"
  by (simp_all add: farmerReportKey_def ADMIN_REPORT_KEY_def)

lemma report_cache_later:
  "report_cache_ok v \<Longrightarrow> clock v \<le> c \<Longrightarrow> report_cache_ok (v\<lparr>clock := c\<rparr>)"
  unfolding report_cache_ok_def by (auto; fastforce)

lemma report_cache_put_admin:
  "report_cache_ok v \<Longrightarrow> report_cache_ok (put_key ADMIN_REPORT_KEY (AdminReport es) REPORT_CACHE_TTL_SECONDS v)"
  unfolding report_cache_ok_def put_key_def by auto

lemma report_cache_put_farmer:
  "report_cache_ok v \<Longrightarrow> \<forall>f \<in> set fs. farm_userId (sf_farm f) = i
    \<Longrightarrow> report_cache_ok (put_key (farmerReportKey i) (FarmerReport fs) REPORT_CACHE_TTL_SECONDS v)"
  unfolding report_cache_ok_def put_key_def by auto

lemma live_Some: "live v k = Some x \<Longrightarrow> \<exists>until. cache v k = Some (x, until)"
  by (auto simp: live_def split: option.splits if_splits)

lemma live_admin: "report_cache_ok v \<Longrightarrow> live v ADMIN_REPORT_KEY = Some r \<Longrightarrow> \<exists>es. r = AdminReport es"
  by (auto simp: report_cache_ok_def dest!: live_Some)

lemma live_farmer:
  "report_cache_ok v \<Longrightarrow> live v (farmerReportKey i) = Some r
    \<Longrightarrow> \<exists>fs. r = FarmerReport fs \<and> (\<forall>f \<in> set fs. farm_userId (sf_farm f) = i)"
  by (auto simp: report_cache_ok_def dest!: live_Some)

lemma loads_farm_rows:
  "list_all2 (loads_farm t) fs lfs \<Longrightarrow> map lf_farm lfs = fs"
  by (induction fs lfs rule: list_all2_induct) (auto simp: loads_farm_def)

lemma asked_owner:
  assumes "mset fs = filter_mset (asked (Some i)) (mset (farm_rows t))" and "list_all2 (loads_farm t) fs lfs"
  shows "\<forall>f \<in> set (map shapeFarm lfs). farm_userId (sf_farm f) = i"
proof -
  have "set fs \<subseteq> {f. farm_userId f = i}"
    using assms(1) by (auto simp: asked_def dest!: arg_cong [of _ _ set_mset])
  moreover have "lf_farm ` set lfs = set fs"
    using loads_farm_rows [OF assms(2)] by (metis set_map)
  ultimately show ?thesis by (auto simp: shapeFarm_def)
qed

text \<open>What a step keeps: the tables, and the cache in order.\<close>

definition report_inv :: "farms_tables \<Rightarrow> report_view \<Rightarrow> bool" where
  "report_inv t v \<longleftrightarrow> report_cache_ok v \<and> report_tables v = t"

definition denied :: "farms_tables \<Rightarrow> report_request \<Rightarrow> exn \<Rightarrow> bool" where
  "denied t req e \<longleftrightarrow> is_library_error e \<or> (\<not> may_see t req \<and> (\<exists>m. e = ForbiddenException m))"

text \<open>An answer is computed from the tables, or it is an entry of the cache that is alive.\<close>

fun fresh_report :: "farms_tables \<Rightarrow> report_request \<Rightarrow> report \<Rightarrow> bool" where
  "fresh_report t (GetAdminReport i) a =
     (\<exists>fs lfs owners. a = AdminReport (groupByOwner lfs (owner_map owners)) \<and>
        mset fs = mset (farm_rows t) \<and> list_all2 (loads_farm t) fs lfs \<and> mset owners = mset (projection_rows t))"
| "fresh_report t (GetFarmerReport i j) a =
     (\<exists>fs lfs. a = FarmerReport (map shapeFarm lfs) \<and>
        mset fs = filter_mset (asked (Some i)) (mset (farm_rows t)) \<and> list_all2 (loads_farm t) fs lfs)"

fun report_key :: "report_request \<Rightarrow> string" where
  "report_key (GetAdminReport i) = ADMIN_REPORT_KEY"
| "report_key (GetFarmerReport i j) = farmerReportKey i"

definition answered :: "report_view \<Rightarrow> report_request \<Rightarrow> report \<Rightarrow> bool" where
  "answered v req a \<longleftrightarrow>
     may_see (report_tables v) req \<and> suits req a \<and>
     (fresh_report (report_tables v) req a \<or> (\<exists>until. cache v (report_key req) = Some (a, until) \<and> clock v < until))"

lemma fresh_suits:
  assumes "fresh_report t req a"
  shows "suits req a"
  using assms by (cases req) (auto dest: asked_owner)

lemma live_answer:
  assumes "report_cache_ok v" and "may_see (report_tables v) req" and "clock v \<le> c"
    and "live (v\<lparr>clock := c\<rparr>) (report_key req) = Some a"
  shows "answered v req a"
proof -
  have "\<exists>until. cache v (report_key req) = Some (a, until) \<and> clock v < until"
    using assms(3,4) by (auto simp: live_def split: option.splits if_splits)
  moreover have "suits req a"
    using live_admin live_farmer report_cache_later [OF assms(1,3)] assms(4) by (cases req) fastforce+
  ultimately show ?thesis using assms(2) by (simp add: answered_def)
qed

text \<open>The steps of the two reports.\<close>

lemma vwp_report_read:
  assumes "implements view f (reads A)" and "report_inv t v"
    and "\<And>e. is_library_error e \<Longrightarrow> X e v" and "\<And>a. A v a \<Longrightarrow> Q a v"
  shows "vwp view (report_inv t) (atom f) Q X v"
  by (rule vwp_atom [OF assms(1)]) (use assms(2-4) in \<open>auto simp: reads_def\<close>)

lemma vwp_report_get:
  assumes "redis_contract view C" and "report_inv t v" and "\<And>e. is_library_error e \<Longrightarrow> X e v"
    and "\<And>a c. clock v \<le> c \<Longrightarrow> live (v\<lparr>clock := c\<rparr>) k = a \<Longrightarrow> report_inv t (v\<lparr>clock := c\<rparr>) \<Longrightarrow> Q a (v\<lparr>clock := c\<rparr>)"
  shows "vwp view (report_inv t) (redis_get C k) Q X v"
  by (rule vwp_redis_get [OF assms(1)])
    (use assms(2-4) in \<open>auto simp: report_inv_def intro!: report_cache_later\<close>)

lemma vwp_report_put:
  assumes "redis_contract view C" and "report_inv t v" and "\<And>e. is_library_error e \<Longrightarrow> X e v"
    and "(\<exists>es. k = ADMIN_REPORT_KEY \<and> r = AdminReport es) \<or>
      (\<exists>i fs. k = farmerReportKey i \<and> r = FarmerReport fs \<and> (\<forall>f \<in> set fs. farm_userId (sf_farm f) = i))"
    and "\<And>v'. report_inv t v' \<Longrightarrow> Q () v'"
  shows "vwp view (report_inv t) (setWithTtl C k r REPORT_CACHE_TTL_SECONDS) Q X v"
proof (rule vwp_setWithTtl, rule assms(1), rule assms(2), erule assms(3))
  fix c
  assume "clock v \<le> c"
  then have ok: "report_cache_ok (v\<lparr>clock := c\<rparr>)"
    using report_cache_later assms(2) by (simp add: report_inv_def)
  have "report_cache_ok (put_key k r REPORT_CACHE_TTL_SECONDS (v\<lparr>clock := c\<rparr>))"
    using assms(4) report_cache_put_admin [OF ok] report_cache_put_farmer [OF ok] by blast
  then show "report_inv t (put_key k r REPORT_CACHE_TTL_SECONDS (v\<lparr>clock := c\<rparr>))
      \<and> Q () (put_key k r REPORT_CACHE_TTL_SECONDS (v\<lparr>clock := c\<rparr>))"
    using assms(2,5) by (simp add: report_inv_def put_key_def)
qed

lemma vwp_report_return:
  "report_inv t v \<Longrightarrow> P a \<Longrightarrow> vwp view (report_inv t) (Return a) (\<lambda>a v'. P a) X v"
  by (rule vwp_return)

text \<open>The end of both: look into the cache, or compute a fresh report and store it.\<close>

lemma report_from_cache:
  assumes "redis_contract view C" and "report_cache_ok v" and "may_see (report_tables v) req"
    and "\<And>v'. report_inv (report_tables v) v' \<Longrightarrow>
       vwp view (report_inv (report_tables v)) p (\<lambda>a v'. answered v req a) (\<lambda>e v'. denied (report_tables v) req e) v'"
  shows "vwp view (report_inv (report_tables v))
     (bind (redis_get C (report_key req)) (\<lambda>cached. case cached of Some r \<Rightarrow> Return r | None \<Rightarrow> p))
     (\<lambda>a v'. answered v req a) (\<lambda>e v'. denied (report_tables v) req e) v"
proof (rule vwp_bind, rule vwp_report_get [OF assms(1)])
  show "report_inv (report_tables v) v" using assms(2) by (simp add: report_inv_def)
  show "is_library_error e \<Longrightarrow> denied (report_tables v) req e" for e by (simp add: denied_def)
  fix a c
  assume c: "clock v \<le> c" and a: "live (v\<lparr>clock := c\<rparr>) (report_key req) = a"
    and inv: "report_inv (report_tables v) (v\<lparr>clock := c\<rparr>)"
  show "vwp view (report_inv (report_tables v)) (case a of Some r \<Rightarrow> Return r | None \<Rightarrow> p)
      (\<lambda>a v'. answered v req a) (\<lambda>e v'. denied (report_tables v) req e) (v\<lparr>clock := c\<rparr>)"
  proof (cases a)
    case None
    with assms(4) [OF inv] show ?thesis by simp
  next
    case (Some r)
    then have "answered v req r" using live_answer [OF assms(2,3) c] a by simp
    with Some inv show ?thesis by (simp add: vwp_report_return)
  qed
qed

lemma report_stored:
  assumes "redis_contract view C" and "report_inv t v'" and "t = report_tables v"
    and "may_see t req" and "fresh_report t req r"
  shows "vwp view (report_inv t)
     (bind (setWithTtl C (report_key req) r REPORT_CACHE_TTL_SECONDS) (\<lambda>_. Return r))
     (\<lambda>a v'. answered v req a) (\<lambda>e v'. denied t req e) v'"
proof (rule vwp_bind, rule vwp_report_put [OF assms(1,2)])
  show "is_library_error e \<Longrightarrow> denied t req e" for e by (simp add: denied_def)
  have suits: "suits req r" by (rule fresh_suits [OF assms(5)])
  then show "(\<exists>es. report_key req = ADMIN_REPORT_KEY \<and> r = AdminReport es) \<or>
      (\<exists>i fs. report_key req = farmerReportKey i \<and> r = FarmerReport fs \<and> (\<forall>f \<in> set fs. farm_userId (sf_farm f) = i))"
    by (cases req) auto
  have "answered v req r" using assms(3-5) suits by (simp add: answered_def)
  then show "report_inv t u \<Longrightarrow> vwp view (report_inv t) (Return r) (\<lambda>a v'. answered v req a) (\<lambda>e v'. denied t req e) u" for u
    by (rule vwp_report_return [rotated])
qed

lemma asked_None [simp]: "filter_mset (asked None) M = M"
  by (simp add: asked_def filter_mset_eq_conv)

lemma admin_report_spec:
  assumes "report_contract view E" and "report_cache_ok v"
  shows "vwp view (report_inv (report_tables v)) (generateAdminReport E i)
     (\<lambda>a v'. answered v (GetAdminReport i) a) (\<lambda>e v'. denied (report_tables v) (GetAdminReport i) e) v"
proof -
  note C = report_contractD [OF assms(1)]
  let ?t = "report_tables v" and ?req = "GetAdminReport i"
  have inv: "report_inv ?t v" using assms(2) by (simp add: report_inv_def)
  have lib: "is_library_error e \<Longrightarrow> denied ?t ?req e" for e by (simp add: denied_def)
  have fresh: "vwp view (report_inv ?t)
      (bind (atom (rp_farms E FARM_REPORT_RELATIONS None)) (\<lambda>farms.
       bind (atom (rp_users E)) (\<lambda>owners.
       let result = AdminReport (groupByOwner farms (owner_map owners)) in
       bind (setWithTtl (rp_redis E) ADMIN_REPORT_KEY result REPORT_CACHE_TTL_SECONDS) (\<lambda>_. Return result))))
     (\<lambda>a v'. answered v ?req a) (\<lambda>e v'. denied ?t ?req e) v1"
    if inv1: "report_inv ?t v1" and admin: "is_admin ?t i" for v1
  proof (rule vwp_bind, rule vwp_report_read [OF C(4) inv1 lib], assumption,
      rule vwp_bind, rule vwp_report_read [OF C(3) inv1 lib], assumption)
    fix farms owners
    assume farms: "\<exists>fs. mset fs = filter_mset (asked None) (mset (farm_rows (report_tables v1)))
        \<and> list_all2 (loads_farm (report_tables v1)) fs farms"
      and owners: "mset owners = mset (projection_rows (report_tables v1))"
    have "fresh_report ?t ?req (AdminReport (groupByOwner farms (owner_map owners)))"
      using farms owners inv1 unfolding fresh_report.simps report_inv_def asked_None by metis
    from report_stored [OF C(1) inv1 refl _ this] admin
    show "vwp view (report_inv ?t)
        (let result = AdminReport (groupByOwner farms (owner_map owners)) in
         bind (setWithTtl (rp_redis E) ADMIN_REPORT_KEY result REPORT_CACHE_TTL_SECONDS) (\<lambda>_. Return result))
        (\<lambda>a v'. answered v ?req a) (\<lambda>e v'. denied ?t ?req e) v1"
      by (simp add: Let_def)
  qed
  show ?thesis
    unfolding generateAdminReport_def
  proof (rule vwp_bind, rule vwp_report_read, rule C(2), rule inv, erule lib, rule vwp_bind, rule vwp_throw_if)
    fix requester
    assume r: "requester = row_of up_id i (projection_rows ?t)"
    let ?ok = "case requester of Some u \<Rightarrow> up_rol u = Some Admin | None \<Rightarrow> False"
    have admin: "is_admin ?t i \<longleftrightarrow> ?ok" using r by (auto simp: is_admin_def split: option.splits)
    show "report_inv ?t v" by (rule inv)
    show "\<not> ?ok \<Longrightarrow> denied ?t ?req (ForbiddenException ''Admin role required'')"
      using admin by (auto simp: denied_def)
    assume "\<not> \<not> ?ok"
    then have adm: "is_admin ?t i" using admin by blast
    show "vwp view (report_inv ?t)
        (bind (redis_get (rp_redis E) ADMIN_REPORT_KEY) (\<lambda>cached. case cached of
            Some r \<Rightarrow> Return r
          | None \<Rightarrow> bind (atom (rp_farms E FARM_REPORT_RELATIONS None)) (\<lambda>farms.
              bind (atom (rp_users E)) (\<lambda>owners.
              let result = AdminReport (groupByOwner farms (owner_map owners)) in
              bind (setWithTtl (rp_redis E) ADMIN_REPORT_KEY result REPORT_CACHE_TTL_SECONDS) (\<lambda>_. Return result)))))
        (\<lambda>a v'. answered v ?req a) (\<lambda>e v'. denied ?t ?req e) v"
      using report_from_cache [OF C(1) assms(2), of ?req] fresh adm
      by simp
  qed
qed

lemma farmer_report_spec:
  assumes "report_contract view E" and "report_cache_ok v"
  shows "vwp view (report_inv (report_tables v)) (generateFarmerReport E i j)
     (\<lambda>a v'. answered v (GetFarmerReport i j) a) (\<lambda>e v'. denied (report_tables v) (GetFarmerReport i j) e) v"
proof -
  note C = report_contractD [OF assms(1)]
  let ?t = "report_tables v" and ?req = "GetFarmerReport i j"
  have inv: "report_inv ?t v" using assms(2) by (simp add: report_inv_def)
  have lib: "is_library_error e \<Longrightarrow> denied ?t ?req e" for e by (simp add: denied_def)
  have fresh: "vwp view (report_inv ?t)
      (bind (atom (rp_farms E FARM_REPORT_RELATIONS (Some i))) (\<lambda>farms.
       let result = FarmerReport (map shapeFarm farms) in
       bind (setWithTtl (rp_redis E) (farmerReportKey i) result REPORT_CACHE_TTL_SECONDS) (\<lambda>_. Return result)))
     (\<lambda>a v'. answered v ?req a) (\<lambda>e v'. denied ?t ?req e) v1"
    if inv1: "report_inv ?t v1" and own: "i = j" for v1
  proof (rule vwp_bind, rule vwp_report_read [OF C(4) inv1 lib], assumption)
    fix farms
    assume farms: "\<exists>fs. mset fs = filter_mset (asked (Some i)) (mset (farm_rows (report_tables v1)))
        \<and> list_all2 (loads_farm (report_tables v1)) fs farms"
    have "fresh_report ?t ?req (FarmerReport (map shapeFarm farms))"
      using farms inv1 unfolding fresh_report.simps report_inv_def by metis
    from report_stored [OF C(1) inv1 refl _ this] own
    show "vwp view (report_inv ?t)
        (let result = FarmerReport (map shapeFarm farms) in
         bind (setWithTtl (rp_redis E) (farmerReportKey i) result REPORT_CACHE_TTL_SECONDS) (\<lambda>_. Return result))
        (\<lambda>a v'. answered v ?req a) (\<lambda>e v'. denied ?t ?req e) v1"
      by (simp add: Let_def)
  qed
  show ?thesis
    unfolding generateFarmerReport_def
  proof (rule vwp_bind, rule vwp_throw_if)
    show "report_inv ?t v" by (rule inv)
    show "i \<noteq> j \<Longrightarrow> denied ?t ?req (ForbiddenException ''You can only access your own report'')"
      by (auto simp: denied_def)
    assume "\<not> i \<noteq> j"
    then show "vwp view (report_inv ?t)
        (bind (redis_get (rp_redis E) (farmerReportKey i)) (\<lambda>cached. case cached of
            Some r \<Rightarrow> Return r
          | None \<Rightarrow> bind (atom (rp_farms E FARM_REPORT_RELATIONS (Some i))) (\<lambda>farms.
              let result = FarmerReport (map shapeFarm farms) in
              bind (setWithTtl (rp_redis E) (farmerReportKey i) result REPORT_CACHE_TTL_SECONDS) (\<lambda>_. Return result))))
        (\<lambda>a v'. answered v ?req a) (\<lambda>e v'. denied ?t ?req e) v"
      using report_from_cache [OF C(1) assms(2), of ?req] fresh
      by simp
  qed
qed

lemma report_controller_spec:
  assumes "report_contract view E" and "report_cache_ok v"
  shows "vwp view (report_inv (report_tables v)) (report_controller E req)
     (\<lambda>a v'. answered v req a) (\<lambda>e v'. denied (report_tables v) req e) v"
  by (cases req) (simp_all add: admin_report_spec [OF assms] farmer_report_spec [OF assms])

section \<open>Reports in memory\<close>

definition mem_load_crop :: "farms_tables \<Rightarrow> crop \<Rightarrow> loaded_crop" where
  "mem_load_crop t c =
     \<lparr>lc_crop = load_crop t [] c,
      lc_activities = Some (map (load_activity t [])
        (filter (\<lambda>a. rel_crop_id (act_crop a) = Some (crop_id c)) (activity_rows t))),
      lc_harvest = Some (map (load_harvest t [])
        (filter (\<lambda>h. rel_crop_id (harv_crop h) = Some (crop_id c)) (harvest_rows t)))\<rparr>"

definition mem_load_farm :: "farms_tables \<Rightarrow> farm \<Rightarrow> loaded_farm" where
  "mem_load_farm t f =
     \<lparr>lf_farm = f, lf_crops = Some (map (mem_load_crop t)
        (filter (\<lambda>c. crop_farm_id c = Some (farm_id f)) (crop_rows t)))\<rparr>"

definition mem_report :: "report_view report_env" where
  "mem_report =
     \<lparr>rp_user = (\<lambda>i v. (Inr (row_of up_id i (projection_rows (report_tables v))), v)),
      rp_users = (\<lambda>v. (Inr (projection_rows (report_tables v)), v)),
      rp_farms = (\<lambda>rels wh v.
        (Inr (map (mem_load_farm (report_tables v)) (filter (asked wh) (farm_rows (report_tables v)))), v)),
      rp_redis = mem_redis\<rparr>"

lemma mem_loads_crop: "loads_crop t c (mem_load_crop t c)"
  by (simp add: loads_crop_def mem_load_crop_def)

lemma mem_loads_farm: "loads_farm t f (mem_load_farm t f)"
  unfolding loads_farm_def mem_load_farm_def
  by (intro conjI, simp)
    (rule exI [of _ "filter (\<lambda>c. crop_farm_id c = Some (farm_id f)) (crop_rows t)"],
     simp add: list_all2_map2 list.rel_refl mem_loads_crop)

lemma mem_report_contract: "report_contract id mem_report"
  unfolding report_contract_def
proof (intro conjI allI)
  show "implements id (rp_farms mem_report FARM_REPORT_RELATIONS wh)
        (reads (\<lambda>v a. \<exists>fs. mset fs = filter_mset (asked wh) (mset (farm_rows (report_tables v)))
            \<and> list_all2 (loads_farm (report_tables v)) fs a))" for wh
    unfolding implements_def reads_def mem_report_def
  proof (intro allI, simp)
    fix w :: report_view
    show "\<exists>fs. mset fs = filter_mset (asked wh) (mset (farm_rows (report_tables w))) \<and>
          list_all2 (loads_farm (report_tables w)) fs
           (map (mem_load_farm (report_tables w)) (filter (asked wh) (farm_rows (report_tables w))))"
      by (rule exI [of _ "filter (asked wh) (farm_rows (report_tables w))"])
        (simp add: list_all2_map2 list.rel_refl mem_loads_farm)
  qed
qed (simp_all add: mem_report_def mem_redis_contract, simp_all add: implements_def reads_def)

definition demo_report_view :: report_view where
  "demo_report_view =
     \<lparr>clock = 0, cache = (\<lambda>_. None),
      report_tables = demo_tables\<lparr>projection_rows :=
        [\<lparr>up_id = 1, up_firstName = ''Root'', up_lastName = None, up_email = ''r@x'', up_rol = Some ''admin''\<rparr>,
         \<lparr>up_id = 7, up_firstName = ''Ana'', up_lastName = None, up_email = ''a@x'', up_rol = None\<rparr>]\<rparr>\<rparr>"

lemma demo_report_cache_ok: "report_cache_ok (id demo_report_view)"
  by (simp add: report_cache_ok_def demo_report_view_def)

section \<open>The properties\<close>

text \<open>
  C22. The admin report is answered only to a user whose projected role is admin, a farmer's
  report only to that farmer; everyone else gets a 403. An answer is computed from the
  current rows, or it is the cache's entry under the key of this very report, which lives
  for a minute at most; a farmer's answer, cached or not, contains only farms of that
  farmer. The tables stay as they are, and the cache stays in order.
\<close>

theorem report_only_for_the_entitled:
  assumes "report_contract view E" and "report_cache_ok (view w)"
    and "run (report_controller E req) w = (r, w')"
  shows "report_cache_ok (view w') \<and> report_tables (view w') = report_tables (view w) \<and>
    (case r of
       Inr a \<Rightarrow> may_see (report_tables (view w)) req \<and> suits req a \<and>
         (fresh_report (report_tables (view w)) req a \<or>
          (\<exists>until. cache (view w) (report_key req) = Some (a, until) \<and> clock (view w) < until
             \<and> until \<le> clock (view w) + 60))
     | Inl e \<Rightarrow> is_library_error e \<or>
         (\<not> may_see (report_tables (view w)) req \<and> (\<exists>m. e = ForbiddenException m)))"
proof -
  have "until \<le> clock (view w) + 60" if "cache (view w) (report_key req) = Some (a, until)" for a until
    using assms(2) that by (cases req) (auto simp: report_cache_ok_def REPORT_CACHE_TTL_SECONDS_def)
  with vwp_run [OF report_controller_spec [OF assms(1,2), of req] assms(3)]
  show ?thesis by (auto simp: report_inv_def answered_def denied_def split: sum.splits)
qed

theorem report_only_for_the_entitled_witness:
  "\<exists>e v'. run (report_controller mem_report (GetAdminReport 7)) demo_report_view = (Inl e, v')
     \<and> (\<exists>m. e = ForbiddenException m) \<and> report_cache_ok v'"
proof -
  obtain r v' where run: "run (report_controller mem_report (GetAdminReport 7)) demo_report_view = (r, v')" by fastforce
  have "case fst (run (report_controller mem_report (GetAdminReport 7)) demo_report_view) of
      Inr _ \<Rightarrow> False | Inl e \<Rightarrow> \<not> is_library_error e" by code_simp
  with run obtain e where e: "r = Inl e" "\<not> is_library_error e" by (auto split: sum.splits)
  show ?thesis
    using report_only_for_the_entitled [OF mem_report_contract demo_report_cache_ok run] run e by auto
qed

lemma mset_concat_filters:
  assumes "distinct us"
  shows "mset (concat (map (\<lambda>u. filter (\<lambda>f. k f = u) fs) us)) = filter_mset (\<lambda>f. k f \<in> set us) (mset fs)"
  using assms
proof (induction us)
  case (Cons u us)
  have "filter_mset (\<lambda>f. k f = u \<or> k f \<in> set us) (mset fs)
      = filter_mset (\<lambda>f. k f = u) (mset fs) + filter_mset (\<lambda>f. k f \<in> set us) (mset fs)"
    using Cons.prems by (auto simp: multiset_eq_iff)
  with Cons show ?case by simp
qed simp

lemma mset_grouped: "mset (concat (map en_farms (grouped farms own))) = mset (map shapeFarm farms)"
proof -
  let ?k = "\<lambda>f. farm_userId (lf_farm f)"
  have "concat (map en_farms (grouped farms own))
      = map shapeFarm (concat (map (\<lambda>u. filter (\<lambda>f. ?k f = u) farms) (first_seen (map ?k farms))))"
    by (simp add: grouped_def map_concat comp_def)
  moreover have "filter_mset (\<lambda>f. ?k f \<in> set (map ?k farms)) (mset farms) = mset farms"
    by (auto simp: filter_mset_eq_conv)
  ultimately show ?thesis
    using mset_concat_filters [OF first_seen_distinct [of "map ?k farms"], of ?k farms] by simp
qed

text \<open>
  C24. The loop that groups the farms by owner computes this: one entry for each owner, in
  the order in which the owners' first farms come, each with all the owner's farms in their
  order; together the entries hold every farm exactly once. The owner of an entry is the
  projected user, or only the id when there is no projection.
\<close>

theorem admin_report_groups_by_owner:
  "groupByOwner farms ownerById =
     map (\<lambda>u. \<lparr>en_owner = summary_of ownerById u,
               en_farms = map shapeFarm (filter (\<lambda>f. farm_userId (lf_farm f) = u) farms)\<rparr>)
       (first_seen (map (\<lambda>f. farm_userId (lf_farm f)) farms))
   \<and> distinct (first_seen (map (\<lambda>f. farm_userId (lf_farm f)) farms))
   \<and> mset (concat (map en_farms (groupByOwner farms ownerById))) = mset (map shapeFarm farms)"
  using mset_grouped [of farms ownerById] first_seen_distinct groupByOwner_grouped [of farms ownerById]
  by (simp add: grouped_def)

end
