(* ===== verification/ReportCsv.thy ===== *)
theory ReportCsv
  imports Reports
begin

text \<open>
  The gateway's report controller (\<open>apps/gateway/src/controllers/report.controller.ts\<close>): the
  rows of the two CSV files, read off the JSON that the farms service answers. A cell is a
  property's value, or nothing when the property is absent; the CSV writer is not modelled.
\<close>

section \<open>Reading JSON\<close>

definition get :: "string \<Rightarrow> json \<Rightarrow> json option" where
  "get k j = (case j of JObj ps \<Rightarrow> map_of ps k | _ \<Rightarrow> None)"

text \<open>\<open>x.k && x.k.length > 0\<close> and the iteration over \<open>x.k\<close>: its elements, if it is an array.\<close>

definition items :: "string \<Rightarrow> json \<Rightarrow> json list" where
  "items k j = (case get k j of Some (JArr xs) \<Rightarrow> xs | _ \<Rightarrow> [])"

type_synonym cell = "json option"

definition cells :: "string list \<Rightarrow> json \<Rightarrow> cell list" where
  "cells ks j = map (\<lambda>k. get k j) ks"

definition label :: "string \<Rightarrow> cell" where
  "label s = Some (JStr s)"

section \<open>The rows\<close>

definition user_props :: "string list" where
  "user_props = [''firstName'', ''lastName'', ''email'', ''gender'', ''documentType'', ''documentNumber'',
    ''dateOfBirth'', ''country'', ''state'', ''city'', ''rol'']"

definition farm_props :: "string list" where
  "farm_props = [''name'', ''location'', ''state'', ''area'']"

definition crop_props :: "string list" where
  "crop_props = [''name'', ''product'', ''size'', ''location'', ''sowingDate'', ''plants'']"

definition activity_props :: "string list" where
  "activity_props =
     [''type'', ''inputDate'', ''title'', ''manufactureLocation'', ''appRatio'', ''appMethod'', ''comment'',
      ''category'', ''bioName'', ''bioType'']"

definition harvest_props :: "string list" where
  "harvest_props = [''harvestDate'', ''amount'', ''unit'', ''category'', ''description'']"

text \<open>The ten empty cells below the activity columns in a harvest's row.\<close>

definition padding :: "cell list" where
  "padding = replicate 10 (Some (JStr ''''))"

definition farm_columns :: "cell list" where
  "farm_columns = map label
    [''Farm name'', ''Location'', ''Farm state'', ''Area'']"

definition crop_columns :: "cell list" where
  "crop_columns = map label
    [''Crop name'', ''Product'', ''Size'', ''Location'', ''Sowing date'', ''Plants'']"

definition activity_columns :: "cell list" where
  "activity_columns = map label
    [''Activity type'', ''Input date'', ''Title'', ''Manufacture location'', ''Application ratio'',
    ''Application method'', ''Comment'', ''Category'', ''Biological name'', ''Biological type'']"

definition harvest_columns :: "cell list" where
  "harvest_columns = map label
    [''Harvest date'', ''Amount'', ''Unit'', ''Category'', ''Description'']"

definition user_columns :: "cell list" where
  "user_columns = map label
    [''First name'', ''Last name'', ''Email'', ''Gender'', ''Document type'', ''Document number'',
    ''Date of birth'', ''Country'', ''State'', ''City'', ''Role'']"

definition admin_columns :: "cell list" where
  "admin_columns = user_columns @ farm_columns @ crop_columns @ activity_columns @ harvest_columns"

definition farmer_columns :: "cell list" where
  "farmer_columns = farm_columns @ crop_columns @ activity_columns @ harvest_columns"

definition crop_csv_rows :: "cell list \<Rightarrow> json \<Rightarrow> cell list list" where
  "crop_csv_rows before c =
     (let row = before @ cells crop_props c in
      map (\<lambda>a. row @ cells activity_props a) (items ''activities'' c)
      @ map (\<lambda>h. row @ padding @ cells harvest_props h) (items ''harvests'' c)
      @ (if items ''activities'' c = [] \<and> items ''harvests'' c = [] then [row] else []))"

definition farm_csv_rows :: "cell list \<Rightarrow> json \<Rightarrow> cell list list" where
  "farm_csv_rows before f =
     (let row = before @ cells farm_props f in
      if items ''crops'' f \<noteq> [] then concat (map (crop_csv_rows row) (items ''crops'' f)) else [row])"

definition user_csv_rows :: "json \<Rightarrow> cell list list" where
  "user_csv_rows u =
     (let userData = cells user_props u in
      if items ''farms'' u \<noteq> [] then concat (map (farm_csv_rows userData) (items ''farms'' u)) else [userData])"

definition admin_csv :: "json list \<Rightarrow> cell list list" where
  "admin_csv content = admin_columns # concat (map user_csv_rows content)"

definition farmer_csv :: "json list \<Rightarrow> cell list list" where
  "farmer_csv content = farmer_columns # concat (map (farm_csv_rows []) content)"

text \<open>
  The two handlers: the message to the service, and what is done with its answer. An answer
  whose result is not an array cannot be iterated.
\<close>

definition admin_message :: "int \<Rightarrow> string \<times> (string \<times> int) list \<times> int option" where
  "admin_message uid = (''getAdminReport'', [], Some uid)"

definition farmer_message :: "int \<Rightarrow> int \<Rightarrow> string \<times> (string \<times> int) list \<times> int option" where
  "farmer_message farmer uid = (''getFarmerReport'', [(''id'', farmer), (''req_id'', uid)], None)"

definition csv_response :: "(json list \<Rightarrow> cell list list) \<Rightarrow> json \<Rightarrow> exn + cell list list" where
  "csv_response rows res =
     (if get ''status'' res = Some (JStr ''error'') then
        Inl (HttpException 500 (BodyObject (case get ''message'' res of Some (JStr m) \<Rightarrow> Some (Text m) | _ \<Rightarrow> None))
          ''Http Exception'')
      else case get ''result'' res of
        Some (JArr content) \<Rightarrow> Inr (rows content)
      | _ \<Rightarrow> Inl (ErrorExc ''TypeError'' ''content is not iterable''))"

definition getAdminReport_csv :: "json \<Rightarrow> exn + cell list list" where
  "getAdminReport_csv res = csv_response admin_csv res"

definition getFarmerReport_csv :: "json \<Rightarrow> exn + cell list list" where
  "getFarmerReport_csv res = csv_response farmer_csv res"

section \<open>The service's answers as JSON\<close>

definition shaped_crop_json :: "shaped_crop \<Rightarrow> json" where
  "shaped_crop_json c =
     JObj (crop_json (sc_crop c)
       @ [(''activities'', JArr (map (\<lambda>a. JObj (activity_json a)) (sc_activities c)))]
       @ (case sc_harvest c of None \<Rightarrow> []
          | Some hs \<Rightarrow> [(''harvest'', JArr (map (\<lambda>h. JObj (harvest_json h)) hs))])
       @ [(''harvests'', JArr (map (\<lambda>h. JObj (harvest_json h)) (sc_harvests c)))])"

definition shaped_farm_json :: "shaped_farm \<Rightarrow> json" where
  "shaped_farm_json f =
     JObj (farm_json (sf_farm f) @ [(''crops'', JArr (map shaped_crop_json (sf_crops f)))])"

definition owner_json :: "owner_summary \<Rightarrow> json" where
  "owner_json s =
     JObj ((''id'', JNum (os_id s)) #
       (case os_profile s of None \<Rightarrow> []
        | Some p \<Rightarrow> [(''firstName'', JStr (op_firstName p)), (''lastName'', js_str (op_lastName p)),
            (''email'', JStr (op_email p)), (''rol'', js_str (op_rol p))]))"

definition entry_json :: "report_entry \<Rightarrow> json" where
  "entry_json en = JObj [(''owner'', owner_json (en_owner en)), (''farms'', JArr (map shaped_farm_json (en_farms en)))]"

fun report_json :: "report \<Rightarrow> json list" where
  "report_json (AdminReport es) = map entry_json es"
| "report_json (FarmerReport fs) = map shaped_farm_json fs"

text \<open>\<open>{ result, status: 'success' }\<close>.\<close>

definition report_reply :: "report \<Rightarrow> json" where
  "report_reply r = JObj [(''result'', JArr (report_json r)), (''status'', JStr ''success'')]"

section \<open>What the file says\<close>

lemma items_crops [simp]: "items ''crops'' (shaped_farm_json f) = map shaped_crop_json (sf_crops f)"
  by (simp add: items_def get_def shaped_farm_json_def farm_json_def)

lemma farm_rel_json_keys:
  "k \<noteq> ''farm'' \<Longrightarrow> map_of (farm_rel_json r) k = None"
  by (auto simp: farm_rel_json_def split: option.splits rel.splits)

lemma items_activities [simp]:
  "items ''activities'' (shaped_crop_json c) = map (\<lambda>a. JObj (activity_json a)) (sc_activities c)"
  by (simp add: items_def get_def shaped_crop_json_def crop_json_def farm_rel_json_keys map_add_def split: option.splits)

lemma items_harvests [simp]:
  "items ''harvests'' (shaped_crop_json c) = map (\<lambda>h. JObj (harvest_json h)) (sc_harvests c)"
  by (auto simp: items_def get_def shaped_crop_json_def crop_json_def farm_rel_json_keys map_add_def split: option.splits)

lemma items_farms [simp]: "items ''farms'' (entry_json en) = map shaped_farm_json (en_farms en)"
  by (simp add: items_def get_def entry_json_def)

text \<open>The cells of typed rows.\<close>

definition farm_cells :: "farm \<Rightarrow> cell list" where
  "farm_cells f =
     map Some [JStr (farm_name f), JStr (farm_location f), JNum (farm_state_num (farm_state f)), JNum (farm_area f)]"

definition crop_cells :: "crop \<Rightarrow> cell list" where
  "crop_cells c =
     map Some [JStr (crop_name c), JStr (crop_product c), JNum (crop_size c), JStr (crop_location c),
       JStr (crop_sowingDate c), JNum (crop_plants c)]"

definition activity_cells :: "activity \<Rightarrow> cell list" where
  "activity_cells a =
     map Some [js_str (act_type a), js_str (act_inputDate a), js_str (act_title a),
       js_str (act_manufactureLocation a), js_str (act_appRatio a), js_str (act_appMethod a),
       js_str (act_comment a), js_str (act_category a), js_str (act_bioName a), js_str (act_bioType a)]"

definition harvest_cells :: "harvest \<Rightarrow> cell list" where
  "harvest_cells h =
     map Some [JStr (harv_harvestDate h), JNum (harv_amount h), JStr (harv_unit h), JStr (harv_category h),
       js_str (harv_description h)]"

lemma cells_farm [simp]: "cells farm_props (shaped_farm_json f) = farm_cells (sf_farm f)"
  by (simp add: cells_def get_def shaped_farm_json_def farm_props_def farm_json_def farm_cells_def)

lemma cells_crop [simp]: "cells crop_props (shaped_crop_json c) = crop_cells (sc_crop c)"
  by (simp add: cells_def get_def shaped_crop_json_def crop_props_def crop_json_def crop_cells_def)

lemma cells_activity [simp]: "cells activity_props (JObj (activity_json a)) = activity_cells a"
  by (simp add: cells_def get_def activity_props_def activity_json_def activity_cells_def)

lemma cells_harvest [simp]: "cells harvest_props (JObj (harvest_json h)) = harvest_cells h"
  by (simp add: cells_def get_def harvest_props_def harvest_json_def harvest_cells_def)

text \<open>The lines a reader expects of a crop and of a farm.\<close>

definition crop_lines :: "cell list \<Rightarrow> shaped_crop \<Rightarrow> cell list list" where
  "crop_lines before c =
     (if sc_activities c = [] \<and> sc_harvests c = [] then [before @ crop_cells (sc_crop c)]
      else map (\<lambda>a. before @ crop_cells (sc_crop c) @ activity_cells a) (sc_activities c)
         @ map (\<lambda>h. before @ crop_cells (sc_crop c) @ replicate 10 (Some (JStr '''')) @ harvest_cells h) (sc_harvests c))"

definition farm_lines :: "cell list \<Rightarrow> shaped_farm \<Rightarrow> cell list list" where
  "farm_lines before f =
     (if sf_crops f = [] then [before @ farm_cells (sf_farm f)]
      else concat (map (crop_lines (before @ farm_cells (sf_farm f))) (sf_crops f)))"

lemma crop_csv_lines: "crop_csv_rows before (shaped_crop_json c) = crop_lines before c"
  by (simp add: crop_csv_rows_def crop_lines_def padding_def Let_def comp_def)

lemma farm_csv_lines: "farm_csv_rows before (shaped_farm_json f) = farm_lines before f"
  by (simp add: farm_csv_rows_def farm_lines_def Let_def comp_def crop_csv_lines)

lemma farmer_csv_lines:
  "farmer_csv (report_json (FarmerReport fs)) = farmer_columns # concat (map (farm_lines []) fs)"
  by (simp add: farmer_csv_def comp_def farm_csv_lines)

text \<open>An entry of the admin report has no property of the names the controller reads.\<close>

lemma cells_entry: "cells user_props (entry_json en) = replicate 11 None"
  by (simp add: cells_def get_def user_props_def entry_json_def numeral_eq_Suc)

lemma admin_csv_lines:
  "admin_csv (report_json (AdminReport es)) =
     admin_columns # concat (map (\<lambda>en.
       if en_farms en = [] then [replicate 11 None]
       else concat (map (farm_lines (replicate 11 None)) (en_farms en))) es)"
proof -
  have "user_csv_rows (entry_json en) =
      (if en_farms en = [] then [replicate 11 None]
       else concat (map (farm_lines (replicate 11 None)) (en_farms en)))" for en
    by (simp add: user_csv_rows_def Let_def comp_def cells_entry farm_csv_lines)
  then show ?thesis by (simp add: admin_csv_def comp_def)
qed

lemma line_lengths:
  "length (farm_cells f) = 4" "length (crop_cells c) = 6" "length (activity_cells a) = 10"
  "length (harvest_cells h) = 5"
  by (simp_all add: farm_cells_def crop_cells_def activity_cells_def harvest_cells_def)

lemma crop_lines_length: "row \<in> set (crop_lines before c) \<Longrightarrow> length row \<in> {length before + 6, length before + 16, length before + 21}"
  by (auto simp: crop_lines_def line_lengths split: if_splits)

lemma farm_lines_length:
  "row \<in> set (farm_lines before f)
    \<Longrightarrow> length row \<in> {length before + 4, length before + 10, length before + 20, length before + 25}"
  by (auto simp: farm_lines_def line_lengths split: if_splits dest!: crop_lines_length)

section \<open>The properties\<close>

text \<open>
  C25. The farmer's file, made by the gateway from the JSON the service answers, has one
  line for each activity and each harvest of each crop, one for a crop with neither and one
  for a farm without crops, each with exactly the values of those rows under the columns
  that name them (a harvest's line has ten empty cells below the activity columns), and no
  line is longer than the header.
\<close>

theorem farmer_csv_lists_every_record:
  "getFarmerReport_csv (report_reply (FarmerReport fs)) = Inr (farmer_columns # concat (map (farm_lines []) fs))
   \<and> length farmer_columns = 25
   \<and> take 4 farmer_columns = farm_columns \<and> take 6 (drop 4 farmer_columns) = crop_columns
   \<and> take 10 (drop 10 farmer_columns) = activity_columns \<and> drop 20 farmer_columns = harvest_columns
   \<and> set (map length (concat (map (farm_lines []) fs))) \<subseteq> {4, 10, 20, 25}"
proof -
  have "set (map length (concat (map (farm_lines []) fs))) \<subseteq> {4, 10, 20, 25}"
    using farm_lines_length [of _ "[]"] by auto
  then show ?thesis
    using farmer_csv_lines [of fs]
    by (simp add: getFarmerReport_csv_def csv_response_def report_reply_def get_def
        farmer_columns_def farm_columns_def crop_columns_def activity_columns_def harvest_columns_def)
qed

text \<open>
  In the admin's file the lines of farms, crops, activities and harvests are all there
  and aligned, but the eleven columns of the owner are empty in every line, whoever the
  owner is: the service answers entries with an owner and farms, the controller reads
  firstName, email and the others off the entry itself.
\<close>

theorem admin_csv_has_no_owners:
  "getAdminReport_csv (report_reply (AdminReport es)) = Inr (admin_columns # concat (map (\<lambda>en.
       if en_farms en = [] then [replicate 11 None]
       else concat (map (farm_lines (replicate 11 None)) (en_farms en))) es))
   \<and> length admin_columns = 36 \<and> take 11 admin_columns = user_columns"
  using admin_csv_lines [of es]
  by (simp add: getAdminReport_csv_def csv_response_def report_reply_def get_def admin_columns_def
      user_columns_def farm_columns_def crop_columns_def activity_columns_def harvest_columns_def)

end
