(* ===== verification/AuthStore.thy ===== *)
theory AuthStore
  imports Database Outbox ObjectStore Redis Guards
begin

text \<open>
  The data and the parameters of the auth service: the \<open>users\<close> table
  (\<open>libs/common/src/entities/user.entity.ts\<close>), the tokens, and what the service expects of
  the database, the token library, bcrypt, the random source and Redis.
\<close>

section \<open>Users\<close>

text \<open>
  A row has all columns. A loaded entity lacks the password, which is not selected by
  default: \<open>None\<close> there is an absent property.
\<close>

record user =
  us_id :: int
  us_firstName :: string
  us_lastName :: "string option"
  us_email :: string
  us_password :: "string option"
  us_rol :: "string option"
  us_photo :: "string option"
  us_gender :: "int option"
  us_documentType :: "string option"
  us_documentNumber :: "int option"
  us_dateOfBirth :: "string option"
  us_country :: "string option"
  us_forgotPasswordToken :: "string option"
  us_state :: "string option"
  us_city :: "string option"

record CreateUserDto =
  cu_firstName :: string
  cu_lastName :: string
  cu_email :: string
  cu_password :: string
  cu_photo :: "string option"
  cu_documentType :: "string option"
  cu_documentNumber :: int
  cu_gender :: "int option"
  cu_dateOfBirth :: "string option"
  cu_country :: "string option"
  cu_state :: "string option"
  cu_city :: "string option"

text \<open>
  \<open>PartialType\<close> makes every property optional, so it also admits an explicit \<open>null\<close>: \<open>Some None\<close>
  for a nullable column. For the columns that are not nullable the database refuses it, and
  no value stands for it here.
\<close>

record UpdateUserDto =
  uu_firstName :: "string option"
  uu_lastName :: "string option option"
  uu_email :: "string option"
  uu_password :: "string option"
  uu_photo :: "string option option"
  uu_documentType :: "string option option"
  uu_documentNumber :: "int option option"
  uu_gender :: "int option option"
  uu_dateOfBirth :: "string option option"
  uu_country :: "string option option"
  uu_state :: "string option option"
  uu_city :: "string option option"

record ExistingUserDto =
  eu_email :: string
  eu_password :: string

record ResetPasswordDto =
  rp_token :: string
  rp_newPassword :: string

text \<open>What a query with a \<open>select\<close> list loads: the selected columns, the others are absent.\<close>

record credentials =
  cr_id :: int
  cr_firstName :: "string option"
  cr_lastName :: "string option"
  cr_email :: "string option"
  cr_rol :: "string option"
  cr_forgotPasswordToken :: "string option"
  cr_password :: "string option"

definition selected :: "string list \<Rightarrow> string \<Rightarrow> 'a option \<Rightarrow> 'a option" where
  "selected sel k x = (if k \<in> set sel then x else None)"

definition select_user :: "string list \<Rightarrow> user \<Rightarrow> credentials" where
  "select_user sel u =
     \<lparr>cr_id = us_id u, cr_firstName = selected sel ''firstName'' (Some (us_firstName u)),
      cr_lastName = selected sel ''lastName'' (us_lastName u), cr_email = selected sel ''email'' (Some (us_email u)),
      cr_rol = selected sel ''rol'' (us_rol u),
      cr_forgotPasswordToken = selected sel ''forgotPasswordToken'' (us_forgotPasswordToken u),
      cr_password = selected sel ''password'' (us_password u)\<rparr>"

record auth_tables =
  user_rows :: "user list"
  auth_outbox :: "outbox_row list"

text \<open>The constraints of the migration: primary key, unique address, passwords not null.\<close>

definition auth_ok :: "auth_tables \<Rightarrow> bool" where
  "auth_ok t \<longleftrightarrow>
     distinct_ids us_id (user_rows t) \<and> distinct (map us_email (user_rows t)) \<and>
     (\<forall>u \<in> set (user_rows t). us_password u \<noteq> None)"

text \<open>The row a save leaves: an absent password keeps the stored one.\<close>

definition user_row :: "auth_tables \<Rightarrow> user \<Rightarrow> user" where
  "user_row t u =
     (case us_password u of
        Some p \<Rightarrow> u
      | None \<Rightarrow> u\<lparr>us_password := Option.bind (row_of us_id (us_id u) (user_rows t)) us_password\<rparr>)"

text \<open>Saving a partially loaded entity writes the columns it has.\<close>

definition stored :: "'a option \<Rightarrow> 'a option \<Rightarrow> 'a option" where
  "stored x old = (case x of None \<Rightarrow> old | Some a \<Rightarrow> Some a)"

definition found_row :: "credentials \<Rightarrow> user \<Rightarrow> user" where
  "found_row c u =
     u\<lparr>us_firstName := given (cr_firstName c) (us_firstName u),
       us_lastName := stored (cr_lastName c) (us_lastName u),
       us_email := given (cr_email c) (us_email u),
       us_rol := stored (cr_rol c) (us_rol u),
       us_forgotPasswordToken := stored (cr_forgotPasswordToken c) (us_forgotPasswordToken u),
       us_password := stored (cr_password c) (us_password u)\<rparr>"

section \<open>Tokens\<close>

text \<open>The properties the payloads of the service's tokens may have.\<close>

record jwt_payload =
  jp_user :: "claims option"
  jp_jti :: "string option"
  jp_userId :: "int option"
  jp_email :: "string option"
  jp_timestamp :: "int option"
  jp_exp :: "int option"

definition no_payload :: jwt_payload where
  "no_payload = \<lparr>jp_user = None, jp_jti = None, jp_userId = None, jp_email = None, jp_timestamp = None, jp_exp = None\<rparr>"

datatype jwt_secret = JWT_SECRET | JWT_REFRESH_SECRET

section \<open>The parameters\<close>

record 'w auth_env =
  ae_find_email :: "string list \<Rightarrow> string option \<Rightarrow> ('w, credentials option) op"
  ae_find_id :: "int \<Rightarrow> ('w, user option) op"
  ae_insert :: "(int \<Rightarrow> user) \<Rightarrow> ('w, user) op"
  ae_save :: "user \<Rightarrow> ('w, user) op"
  ae_save_found :: "credentials \<Rightarrow> ('w, credentials) op"
  ae_tx :: "'w tx_manager"
  ae_mgr_insert :: "(int \<Rightarrow> user) \<Rightarrow> ('w, user) op"
  ae_mgr_save :: "user \<Rightarrow> ('w, user) op"
  ae_mgr_set_token :: "int \<Rightarrow> string \<Rightarrow> ('w, unit) op"
  ae_mgr_outbox :: "string \<Rightarrow> object \<Rightarrow> ('w, unit) op"
  ae_inject :: "('w, (string \<times> string) list) op"
  ae_sign :: "jwt_payload \<Rightarrow> string \<Rightarrow> jwt_secret \<Rightarrow> ('w, string) op"
  ae_verify :: "string \<Rightarrow> jwt_secret \<Rightarrow> ('w, jwt_payload) op"
  ae_hash :: "string \<Rightarrow> ('w, string) op"
  ae_compare :: "string \<Rightarrow> string option \<Rightarrow> ('w, bool) op"
  ae_uuid :: "('w, string) op"
  ae_now :: "('w, int) op"
  ae_redis :: "('w, string) redis_client"
  ae_s3 :: "'w s3_client"

section \<open>What they promise\<close>

text \<open>
  The view: the tables, the entries of the cache with its clock, the ids the random source
  has ever given, and the stored objects. The cache's commands see their part of it.
\<close>

record auth_view = "auth_tables db" +
  auth_cache :: "string \<Rightarrow> (string \<times> int) option"
  auth_clock :: int
  issued_ids :: "string set"
  auth_objects :: "string \<Rightarrow> bytes option"

definition as_cache :: "auth_view \<Rightarrow> (string, auth_tables \<times> auth_tables option \<times> string set \<times> (string \<Rightarrow> bytes option)) cache_view_scheme" where
  "as_cache v =
     \<lparr>clock = auth_clock v, cache = auth_cache v,
      \<dots> = (committed v, working v, issued_ids v, auth_objects v)\<rparr>"

definition auth_live :: "auth_view \<Rightarrow> string \<Rightarrow> string option" where
  "auth_live v k = live (as_cache v) k"

text \<open>Writes on the committed tables and in the open transaction.\<close>

definition auth_commit :: "(auth_tables \<Rightarrow> 'a \<Rightarrow> auth_tables \<Rightarrow> bool) \<Rightarrow> auth_view \<Rightarrow> 'a \<Rightarrow> auth_view \<Rightarrow> bool" where
  "auth_commit R v a v' \<longleftrightarrow> (\<exists>t'. R (committed v) a t' \<and> auth_ok t' \<and> v' = v\<lparr>committed := t'\<rparr>)"

definition auth_in_tx :: "(auth_tables \<Rightarrow> 'a \<Rightarrow> auth_tables \<Rightarrow> bool) \<Rightarrow> auth_view \<Rightarrow> 'a \<Rightarrow> auth_view \<Rightarrow> bool" where
  "auth_in_tx R v a v' \<longleftrightarrow>
     (\<exists>t t'. working v = Some t \<and> R t a t' \<and> auth_ok t' \<and> v' = v\<lparr>working := Some t'\<rparr>)"

definition insert_user :: "(int \<Rightarrow> user) \<Rightarrow> auth_tables \<Rightarrow> user \<Rightarrow> auth_tables \<Rightarrow> bool" where
  "insert_user draft t a t' \<longleftrightarrow>
     (\<exists>i. i \<notin> us_id ` set (user_rows t) \<and> a = draft i \<and> t' = t\<lparr>user_rows := user_rows t @ [a]\<rparr>)"

definition save_user :: "user \<Rightarrow> auth_tables \<Rightarrow> user \<Rightarrow> auth_tables \<Rightarrow> bool" where
  "save_user u t a t' \<longleftrightarrow> a = u \<and> t' = t\<lparr>user_rows := put_row us_id (user_row t u) (user_rows t)\<rparr>"

definition save_found :: "credentials \<Rightarrow> auth_tables \<Rightarrow> credentials \<Rightarrow> auth_tables \<Rightarrow> bool" where
  "save_found c t a t' \<longleftrightarrow> a = c \<and>
     t' = t\<lparr>user_rows := map (\<lambda>u. if us_id u = cr_id c then found_row c u else u) (user_rows t)\<rparr>"

definition set_token :: "int \<Rightarrow> string \<Rightarrow> auth_tables \<Rightarrow> unit \<Rightarrow> auth_tables \<Rightarrow> bool" where
  "set_token i h t a t' \<longleftrightarrow>
     t' = t\<lparr>user_rows := map (\<lambda>u. if us_id u = i then u\<lparr>us_forgotPasswordToken := Some h\<rparr> else u) (user_rows t)\<rparr>"

definition add_event :: "string \<Rightarrow> object \<Rightarrow> auth_tables \<Rightarrow> unit \<Rightarrow> auth_tables \<Rightarrow> bool" where
  "add_event pat payload t a t' \<longleftrightarrow>
     (\<exists>i. i \<notin> ob_id ` set (auth_outbox t) \<and>
          t' = t\<lparr>auth_outbox := auth_outbox t @ [new_outbox_row pat payload i]\<rparr>)"

text \<open>
  \<open>signs s p t\<close>: the token \<open>t\<close> carries the payload \<open>p\<close> under the secret \<open>s\<close>, and no other;
  \<open>matches p h\<close>: \<open>h\<close> is a bcrypt hash that \<open>p\<close> compares equal with. A condition on an
  address that is \<open>undefined\<close> matches every row. \<open>randomUUID\<close> does not repeat itself.
\<close>

definition auth_contract :: "('w \<Rightarrow> auth_view) \<Rightarrow> (jwt_secret \<Rightarrow> jwt_payload \<Rightarrow> string \<Rightarrow> bool)
    \<Rightarrow> (string \<Rightarrow> string \<Rightarrow> bool) \<Rightarrow> 'w auth_env \<Rightarrow> bool" where
  "auth_contract view signs matches E \<longleftrightarrow>
     (\<forall>sel e. implements view (ae_find_email E sel e) (reads (\<lambda>v a. case a of
        None \<Rightarrow> (\<forall>u \<in> set (user_rows (committed v)). e \<noteq> None \<and> e \<noteq> Some (us_email u))
      | Some c \<Rightarrow> (\<exists>u \<in> set (user_rows (committed v)). (e = None \<or> e = Some (us_email u)) \<and> c = select_user sel u)))) \<and>
     (\<forall>i. implements view (ae_find_id E i) (reads (\<lambda>v a.
        a = map_option (\<lambda>u. u\<lparr>us_password := None\<rparr>) (row_of us_id i (user_rows (committed v)))))) \<and>
     (\<forall>d. implements view (ae_insert E d) (auth_commit (insert_user d))) \<and>
     (\<forall>u. implements view (ae_save E u) (auth_commit (save_user u))) \<and>
     (\<forall>c. implements view (ae_save_found E c) (auth_commit (save_found c))) \<and>
     tx_contract view (ae_tx E) \<and>
     (\<forall>d. implements view (ae_mgr_insert E d) (auth_in_tx (insert_user d))) \<and>
     (\<forall>u. implements view (ae_mgr_save E u) (auth_in_tx (save_user u))) \<and>
     (\<forall>i h. implements view (ae_mgr_set_token E i h) (auth_in_tx (set_token i h))) \<and>
     (\<forall>pat b. implements view (ae_mgr_outbox E pat b) (auth_in_tx (add_event pat b))) \<and>
     implements view (ae_inject E) (reads (\<lambda>_ _. True)) \<and>
     (\<forall>s p p' t. signs s p t \<longrightarrow> signs s p' t \<longrightarrow> p = p') \<and>
     (\<forall>p x s. implements view (ae_sign E p x s) (reads (\<lambda>v t. \<exists>e. signs s (p\<lparr>jp_exp := Some e\<rparr>) t))) \<and>
     (\<forall>t s. implements view (ae_verify E t s) (reads (\<lambda>v p. signs s p t))) \<and>
     (\<forall>p. implements view (ae_hash E p) (reads (\<lambda>v h. matches p h))) \<and>
     (\<forall>p h. implements view (ae_compare E p h) (reads (\<lambda>v b. \<exists>x. h = Some x \<and> b = matches p x))) \<and>
     implements view (ae_uuid E)
       (\<lambda>v j v'. j \<noteq> [] \<and> j \<notin> issued_ids v \<and> v' = v\<lparr>issued_ids := insert j (issued_ids v)\<rparr>) \<and>
     implements view (ae_now E) (reads (\<lambda>_ _. True)) \<and>
     redis_contract (as_cache \<circ> view) (ae_redis E) \<and>
     (\<forall>k b m. implements view (s3_put (ae_s3 E) k b m)
        (\<lambda>v _ v'. v' = v\<lparr>auth_objects := (auth_objects v)(k \<mapsto> b)\<rparr>)) \<and>
     (\<forall>k. implements view (s3_get (ae_s3 E) k) (reads (\<lambda>v chunks. auth_objects v k = Some (concat chunks))))"

end
