(* ===== verification/Validation.thy ===== *)
theory Validation
  imports FarmsGateway AuthStore
begin

text \<open>
  The validation of request bodies: the pipe of
  \<open>libs/common/src/pipes/validation.pipe.ts\<close> and the decorators of the DTOs
  (\<open>libs/common/src/dtos\<close>), with the documented meaning of class-validator's checks. Numbers
  are whole numbers here. The check of mail addresses is a parameter.
\<close>

section \<open>Decorators\<close>

datatype check =
    IsString
  | IsNotEmpty
  | IsEmail
  | IsNumber
  | IsEnum "json list"
  | Min int
  | MinLength nat
  | IsOptional
  | Allow

fun passes :: "(string \<Rightarrow> bool) \<Rightarrow> check \<Rightarrow> json option \<Rightarrow> bool" where
  "passes is_email IsString v = (case v of Some (JStr s) \<Rightarrow> True | _ \<Rightarrow> False)"
| "passes is_email IsNotEmpty v = (v \<noteq> None \<and> v \<noteq> Some JNull \<and> v \<noteq> Some (JStr []))"
| "passes is_email IsEmail v = (case v of Some (JStr s) \<Rightarrow> is_email s | _ \<Rightarrow> False)"
| "passes is_email IsNumber v = (case v of Some (JNum n) \<Rightarrow> True | _ \<Rightarrow> False)"
| "passes is_email (IsEnum vals) v = (case v of Some x \<Rightarrow> x \<in> set vals | None \<Rightarrow> False)"
| "passes is_email (Min m) v = (case v of Some (JNum n) \<Rightarrow> m \<le> n | _ \<Rightarrow> False)"
| "passes is_email (MinLength m) v = (case v of Some (JStr s) \<Rightarrow> m \<le> length s | _ \<Rightarrow> False)"
| "passes is_email IsOptional v = True"
| "passes is_email Allow v = True"

text \<open>A property that is optional is not checked when it is absent or null.\<close>

definition prop_ok :: "(string \<Rightarrow> bool) \<Rightarrow> check list \<Rightarrow> json option \<Rightarrow> bool" where
  "prop_ok is_email cs v \<longleftrightarrow>
     (IsOptional \<in> set cs \<and> (v = None \<or> v = Some JNull)) \<or> list_all (\<lambda>c. passes is_email c v) cs"

type_synonym schema = "(string \<times> check list) list"

text \<open>
  The pipe with \<open>whitelist\<close> and \<open>forbidNonWhitelisted\<close>: a property without a decorator is
  refused, and so is a body with a property that fails one of its checks.
\<close>

definition buildValidationPipe :: "(string \<Rightarrow> bool) \<Rightarrow> schema \<Rightarrow> object \<Rightarrow> exn + object" where
  "buildValidationPipe is_email sch body =
     (if \<not> list_all (\<lambda>(k, v). map_of sch k \<noteq> None) body then Inl (BadRequestException ''Bad Request Exception'')
      else if \<not> list_all (\<lambda>(k, cs). prop_ok is_email cs (map_of body k)) sch
        then Inl (BadRequestException ''Bad Request Exception'')
      else Inr body)"

text \<open>\<open>PartialType\<close>: every property becomes optional and keeps its checks.\<close>

definition PartialType :: "schema \<Rightarrow> schema" where
  "PartialType sch = map (\<lambda>(k, cs). (k, IsOptional # cs)) sch"

text \<open>What \<open>IsEnum\<close> accepts for a numeric enum: its numbers and the names of its members.\<close>

definition numeric_enum :: "(string \<times> int) list \<Rightarrow> json list" where
  "numeric_enum ms = map (\<lambda>(name, n). JStr name) ms @ map (\<lambda>(name, n). JNum n) ms"

section \<open>The DTOs\<close>

definition farm_schema :: schema where
  "farm_schema =
     [(''name'', [IsString]), (''location'', [IsString]),
      (''state'', [IsEnum (numeric_enum [(''ownnotmorgaged'', 1), (''ownmorgaged'', 2), (''leased'', 3)])]),
      (''area'', [IsNumber])]"

definition crop_schema :: schema where
  "crop_schema =
     [(''name'', [IsNotEmpty, IsString]), (''product'', [IsNotEmpty, IsString]),
      (''size'', [IsNotEmpty, IsNumber, Min 0]), (''location'', [IsNotEmpty, IsString]),
      (''sowingDate'', [IsNotEmpty]), (''plants'', [IsNotEmpty, IsNumber, Min 0]),
      (''farmId'', [IsNotEmpty, IsNumber])]"

definition activity_schema :: schema where
  "activity_schema =
     [(''cropId'', [IsNumber]), (''type'', [IsString, IsOptional]), (''inputDate'', [IsString, IsOptional]),
      (''title'', [IsString, IsOptional]), (''manufactureLocation'', [IsString, IsOptional]),
      (''appRatio'', [IsString, IsOptional]), (''appMethod'', [IsString, IsOptional]),
      (''comment'', [IsString, IsOptional]), (''category'', [IsString, IsOptional]),
      (''bioName'', [IsString, IsOptional]), (''bioType'', [IsString, IsOptional])]"

definition harvest_schema :: schema where
  "harvest_schema =
     [(''harvestDate'', [IsString]), (''amount'', [IsNumber]), (''unit'', [IsString]), (''category'', [IsString]),
      (''description'', [IsOptional, IsString]), (''cropId'', [IsNumber])]"

definition user_schema :: schema where
  "user_schema =
     [(''firstName'', [IsString, IsNotEmpty]), (''lastName'', [IsNotEmpty, IsString]),
      (''email'', [IsNotEmpty, IsEmail]), (''password'', [IsNotEmpty, IsString]),
      (''photo'', [IsOptional, IsString]),
      (''documentType'', [IsOptional, IsString, IsEnum (numeric_enum [(''CC'', 1), (''NIT'', 2)])]),
      (''documentNumber'', [IsNumber]),
      (''gender'', [IsOptional, IsEnum (numeric_enum [(''male'', 1), (''female'', 2), (''other'', 3)])]),
      (''dateOfBirth'', [IsOptional]), (''country'', [IsOptional, IsString]),
      (''state'', [IsOptional, IsString]), (''city'', [IsOptional, IsString])]"

definition login_schema :: schema where
  "login_schema = [(''email'', [IsNotEmpty, IsEmail]), (''password'', [IsNotEmpty])]"

definition reset_schema :: schema where
  "reset_schema = [(''token'', [IsString, IsNotEmpty]), (''newPassword'', [IsString, MinLength 8])]"

section \<open>Accepted bodies\<close>

lemma accepted_prop:
  assumes "buildValidationPipe is_email sch body = Inr x" and "(k, cs) \<in> set sch"
  shows "prop_ok is_email cs (map_of body k)"
  using assms by (auto simp: buildValidationPipe_def list_all_iff split: if_splits)

lemma accepted_keys:
  "buildValidationPipe is_email sch body = Inr x \<Longrightarrow> fst ` set body \<subseteq> fst ` set sch"
  by (force simp: buildValidationPipe_def list_all_iff map_of_eq_None_iff split: if_splits)

lemma accepted_same: "buildValidationPipe is_email sch body = Inr x \<Longrightarrow> x = body"
  by (simp add: buildValidationPipe_def split: if_splits)

text \<open>Typed readings of a property.\<close>

definition text_of :: "string \<Rightarrow> object \<Rightarrow> string option" where
  "text_of k b = (case map_of b k of Some (JStr s) \<Rightarrow> Some s | _ \<Rightarrow> None)"

definition num_of :: "string \<Rightarrow> object \<Rightarrow> int option" where
  "num_of k b = (case map_of b k of Some (JNum n) \<Rightarrow> Some n | _ \<Rightarrow> None)"

definition opt_text_of :: "string \<Rightarrow> object \<Rightarrow> string option option" where
  "opt_text_of k b =
     (case map_of b k of None \<Rightarrow> Some None | Some JNull \<Rightarrow> Some None | Some (JStr s) \<Rightarrow> Some (Some s) | _ \<Rightarrow> None)"

text \<open>The checks of the DTOs, as what they say about the typed reading.\<close>

lemma prop_ok_text [simp]:
  "prop_ok is_email [IsString] (map_of b k) \<longleftrightarrow> (\<exists>s. text_of k b = Some s)"
  "prop_ok is_email [IsNotEmpty, IsString] (map_of b k) \<longleftrightarrow> (\<exists>s. text_of k b = Some s \<and> s \<noteq> [])"
  "prop_ok is_email [IsString, IsNotEmpty] (map_of b k) \<longleftrightarrow> (\<exists>s. text_of k b = Some s \<and> s \<noteq> [])"
  "prop_ok is_email [IsString, MinLength m] (map_of b k) \<longleftrightarrow> (\<exists>s. text_of k b = Some s \<and> m \<le> length s)"
  "prop_ok is_email [IsNotEmpty, IsEmail] (map_of b k) \<longleftrightarrow> (\<exists>s. text_of k b = Some s \<and> s \<noteq> [] \<and> is_email s)"
  by (auto simp: prop_ok_def text_of_def split: option.splits json.splits)

lemma prop_ok_num [simp]:
  "prop_ok is_email [IsNumber] (map_of b k) \<longleftrightarrow> (\<exists>n. num_of k b = Some n)"
  "prop_ok is_email [IsNotEmpty, IsNumber] (map_of b k) \<longleftrightarrow> (\<exists>n. num_of k b = Some n)"
  "prop_ok is_email [IsNotEmpty, IsNumber, Min m] (map_of b k) \<longleftrightarrow> (\<exists>n. num_of k b = Some n \<and> m \<le> n)"
  by (auto simp: prop_ok_def num_of_def split: option.splits json.splits)

lemma prop_ok_opt_text [simp]:
  "prop_ok is_email [IsString, IsOptional] (map_of b k) \<longleftrightarrow> (\<exists>s. opt_text_of k b = Some s)"
  "prop_ok is_email [IsOptional, IsString] (map_of b k) \<longleftrightarrow> (\<exists>s. opt_text_of k b = Some s)"
  by (auto simp: prop_ok_def opt_text_of_def split: option.splits json.splits)

section \<open>The typed DTOs\<close>

definition to_CreateHarvestDto :: "object \<Rightarrow> CreateHarvestDto option" where
  "to_CreateHarvestDto b =
     Option.bind (text_of ''harvestDate'' b) (\<lambda>d. Option.bind (num_of ''amount'' b) (\<lambda>n.
     Option.bind (text_of ''unit'' b) (\<lambda>u. Option.bind (text_of ''category'' b) (\<lambda>c.
     Option.bind (opt_text_of ''description'' b) (\<lambda>ds. Option.bind (num_of ''cropId'' b) (\<lambda>i.
     Some \<lparr>ch_harvestDate = d, ch_amount = n, ch_unit = u, ch_category = c, ch_description = ds, ch_cropId = i\<rparr>))))))"

definition to_CreateActivityDto :: "object \<Rightarrow> CreateActivityDto option" where
  "to_CreateActivityDto b =
     Option.bind (num_of ''cropId'' b) (\<lambda>i. Option.bind (opt_text_of ''type'' b) (\<lambda>ty.
     Option.bind (opt_text_of ''inputDate'' b) (\<lambda>d. Option.bind (opt_text_of ''title'' b) (\<lambda>t.
     Option.bind (opt_text_of ''manufactureLocation'' b) (\<lambda>m. Option.bind (opt_text_of ''appRatio'' b) (\<lambda>r.
     Option.bind (opt_text_of ''appMethod'' b) (\<lambda>am. Option.bind (opt_text_of ''comment'' b) (\<lambda>c.
     Option.bind (opt_text_of ''category'' b) (\<lambda>g. Option.bind (opt_text_of ''bioName'' b) (\<lambda>bn.
     Option.bind (opt_text_of ''bioType'' b) (\<lambda>bt.
     Some \<lparr>ca_cropId = i, ca_type = ty, ca_inputDate = d, ca_title = t, ca_manufactureLocation = m,
           ca_appRatio = r, ca_appMethod = am, ca_comment = c, ca_category = g, ca_bioName = bn,
           ca_bioType = bt\<rparr>)))))))))))"

definition to_ResetPasswordDto :: "object \<Rightarrow> ResetPasswordDto option" where
  "to_ResetPasswordDto b =
     Option.bind (text_of ''token'' b) (\<lambda>t. Option.bind (text_of ''newPassword'' b) (\<lambda>p.
     Some \<lparr>rp_token = t, rp_newPassword = p\<rparr>))"

definition to_CreateCropDto :: "object \<Rightarrow> CreateCropDto option" where
  "to_CreateCropDto b =
     Option.bind (text_of ''name'' b) (\<lambda>n. Option.bind (text_of ''product'' b) (\<lambda>p.
     Option.bind (num_of ''size'' b) (\<lambda>z. Option.bind (text_of ''location'' b) (\<lambda>l.
     Option.bind (text_of ''sowingDate'' b) (\<lambda>d. Option.bind (num_of ''plants'' b) (\<lambda>k.
     Option.bind (num_of ''farmId'' b) (\<lambda>i.
     Some \<lparr>cc_name = n, cc_product = p, cc_size = z, cc_location = l, cc_sowingDate = d, cc_plants = k,
           cc_farmId = i\<rparr>)))))))"

definition farm_state_of :: "int \<Rightarrow> FarmState option" where
  "farm_state_of n =
     (if n = 1 then Some ownnotmorgaged else if n = 2 then Some ownmorgaged
      else if n = 3 then Some leased else None)"

definition to_CreateFarmDto :: "object \<Rightarrow> CreateFarmDto option" where
  "to_CreateFarmDto b =
     Option.bind (text_of ''name'' b) (\<lambda>n. Option.bind (text_of ''location'' b) (\<lambda>l.
     Option.bind (Option.bind (num_of ''state'' b) farm_state_of) (\<lambda>st. Option.bind (num_of ''area'' b) (\<lambda>a.
     Some \<lparr>cf_name = n, cf_location = l, cf_state = st, cf_area = a\<rparr>))))"

definition accepts :: "(string \<Rightarrow> bool) \<Rightarrow> schema \<Rightarrow> object \<Rightarrow> bool" where
  "accepts is_email sch b \<longleftrightarrow> buildValidationPipe is_email sch b = Inr b"

lemma accepts_all: "accepts is_email sch b \<Longrightarrow> list_all (\<lambda>(k, cs). prop_ok is_email cs (map_of b k)) sch"
  by (simp add: accepts_def buildValidationPipe_def split: if_splits)

lemma harvest_typed: "accepts is_email harvest_schema b \<Longrightarrow> \<exists>d. to_CreateHarvestDto b = Some d"
  by (drule accepts_all) (auto simp: harvest_schema_def to_CreateHarvestDto_def)

lemma activity_typed: "accepts is_email activity_schema b \<Longrightarrow> \<exists>d. to_CreateActivityDto b = Some d"
  by (drule accepts_all) (auto simp: activity_schema_def to_CreateActivityDto_def)

lemma reset_typed:
  "accepts is_email reset_schema b \<Longrightarrow> \<exists>d. to_ResetPasswordDto b = Some d \<and> 8 \<le> length (rp_newPassword d)"
  by (drule accepts_all) (auto simp: reset_schema_def to_ResetPasswordDto_def)

lemma crop_typed:
  assumes "accepts is_email crop_schema b" and "text_of ''sowingDate'' b = Some s"
  shows "\<exists>d. to_CreateCropDto b = Some d \<and> 0 \<le> cc_size d \<and> 0 \<le> cc_plants d"
  using accepts_all [OF assms(1)] assms(2) by (auto simp: crop_schema_def to_CreateCropDto_def)

lemma farm_state_of_simps [simp]:
  "farm_state_of 1 = Some ownnotmorgaged" "farm_state_of 2 = Some ownmorgaged" "farm_state_of 3 = Some leased"
  by (simp_all add: farm_state_of_def)

lemma state_typed:
  "prop_ok is_email [IsEnum (numeric_enum [(''ownnotmorgaged'', 1), (''ownmorgaged'', 2), (''leased'', 3)])] (map_of b k)
    \<Longrightarrow> (\<exists>n st. num_of k b = Some n \<and> farm_state_of n = Some st) \<or> (\<exists>s. text_of k b = Some s)"
  by (auto simp: prop_ok_def numeric_enum_def num_of_def text_of_def split: option.splits)

lemma farm_typed:
  assumes "accepts is_email farm_schema b"
  shows "(\<exists>d. to_CreateFarmDto b = Some d) \<or> (\<exists>s. text_of ''state'' b = Some s)"
  using accepts_all [OF assms] state_typed [of is_email b "''state''"]
  by (auto simp: farm_schema_def to_CreateFarmDto_def)

lemma document_type_name:
  assumes "accepts is_email user_schema b" and "map_of b ''documentType'' = Some v" and "v \<noteq> JNull"
  shows "v = JStr ''CC'' \<or> v = JStr ''NIT''"
  using accepts_all [OF assms(1)] assms(2,3)
  by (auto simp: user_schema_def prop_ok_def [of _ "[IsOptional, IsString, IsEnum _]"] numeric_enum_def)

text \<open>
  C39. What the validation lets through is typed as the handlers expect: the body has only
  declared properties, a harvest, an activity and a password reset are values of their DTO
  (the new password with at least eight characters), a crop is one, with a size and a
  number of plants that are not negative, if its sowing date is a text, and a farm is one
  unless its state is given by name. A document type, in contrast, can only be one of the
  names CC and NIT, which are not labels of the column's enum, so a registration with a
  document type is never stored.
\<close>

theorem accepted_bodies_are_typed:
  "(accepts is_email sch b \<longrightarrow> fst ` set b \<subseteq> fst ` set sch)
   \<and> (accepts is_email harvest_schema b \<longrightarrow> (\<exists>d. to_CreateHarvestDto b = Some d))
   \<and> (accepts is_email activity_schema b \<longrightarrow> (\<exists>d. to_CreateActivityDto b = Some d))
   \<and> (accepts is_email reset_schema b \<longrightarrow> (\<exists>d. to_ResetPasswordDto b = Some d \<and> 8 \<le> length (rp_newPassword d)))
   \<and> (accepts is_email crop_schema b \<and> text_of ''sowingDate'' b = Some s \<longrightarrow>
        (\<exists>d. to_CreateCropDto b = Some d \<and> 0 \<le> cc_size d \<and> 0 \<le> cc_plants d))
   \<and> (accepts is_email farm_schema b \<longrightarrow> (\<exists>d. to_CreateFarmDto b = Some d) \<or> (\<exists>s. text_of ''state'' b = Some s))
   \<and> (accepts is_email user_schema b \<and> map_of b ''documentType'' = Some v \<longrightarrow>
        v = JNull \<or> (v = JStr ''CC'' \<or> v = JStr ''NIT'') \<and> v \<notin> {JStr ''1'', JStr ''2''})"
  using accepted_keys [of is_email sch b b] harvest_typed [of is_email b] activity_typed [of is_email b]
    reset_typed [of is_email b] crop_typed [of is_email b s] farm_typed [of is_email b] document_type_name [of is_email b v]
  by (auto simp: accepts_def)

definition demo_harvest_body :: object where
  "demo_harvest_body =
     [(''harvestDate'', JStr ''2024-05-01''), (''amount'', JNum 3), (''unit'', JStr ''kg''),
      (''category'', JStr ''A''), (''cropId'', JNum 1)]"

theorem accepted_bodies_are_typed_witness:
  "(\<exists>d. to_CreateHarvestDto demo_harvest_body = Some d) \<and>
   \<not> accepts (\<lambda>_. True) harvest_schema (demo_harvest_body @ [(''userId'', JNum 8)])"
proof -
  have "accepts (\<lambda>_. True) harvest_schema demo_harvest_body" by code_simp
  moreover have "\<not> accepts (\<lambda>_. True) harvest_schema (demo_harvest_body @ [(''userId'', JNum 8)])" by code_simp
  ultimately show ?thesis
    using accepted_bodies_are_typed [of "\<lambda>_. True" harvest_schema demo_harvest_body] by blast
qed

end
