(* ===== verification/UserProjections.thy ===== *)
theory UserProjections
  imports RelaySafety
begin

text \<open>
  The consumer side of the user events in the farms service
  (\<open>apps/farms/src/user-projection\<close>): an upsert by id, so a redelivered event changes
  nothing more, and what happens when events of one user arrive out of order.
\<close>

section \<open>The code\<close>

text \<open>The event's body: \<open>lastName\<close> and \<open>rol\<close> may be absent or null.\<close>

record UserProjectionEventDto =
  ue_id :: int
  ue_firstName :: string
  ue_lastName :: "string option option"
  ue_email :: string
  ue_rol :: "string option option"

definition or_null :: "'a option option \<Rightarrow> 'a option" where
  "or_null x = (case x of Some (Some a) \<Rightarrow> Some a | _ \<Rightarrow> None)"

definition projected :: "UserProjectionEventDto \<Rightarrow> user_projection" where
  "projected d =
     \<lparr>up_id = ue_id d, up_firstName = ue_firstName d, up_lastName = or_null (ue_lastName d),
      up_email = ue_email d, up_rol = or_null (ue_rol d)\<rparr>"

type_synonym 'w projection_repository = "user_projection \<Rightarrow> string list \<Rightarrow> ('w, unit) op"

definition upsert :: "'w projection_repository \<Rightarrow> UserProjectionEventDto \<Rightarrow> ('w, unit) prog" where
  "upsert R d = atom (R (projected d) [''id''])"

definition projection_controller :: "'w projection_repository \<Rightarrow> string \<Rightarrow> UserProjectionEventDto
    \<Rightarrow> ('w, unit) prog option" where
  "projection_controller R pattern d =
     (if pattern = ''user.created'' \<or> pattern = ''user.updated'' then Some (upsert R d) else None)"

section \<open>The table\<close>

text \<open>\<open>INSERT \<dots> ON CONFLICT (id) DO UPDATE\<close>.\<close>

definition projection_contract :: "('w \<Rightarrow> user_projection list) \<Rightarrow> 'w projection_repository \<Rightarrow> bool" where
  "projection_contract view R \<longleftrightarrow>
     (\<forall>u. implements view (R u [''id'']) (\<lambda>rows _ rows'. rows' = put_row up_id u rows))"

lemma upsert_run:
  assumes "projection_contract view R" and "run (upsert R d) w = (r, w')"
  shows "(r = Inr () \<and> view w' = put_row up_id (projected d) (view w))
    \<or> ((\<exists>e. r = Inl e \<and> is_library_error e) \<and> view w' = view w)"
proof -
  have "implements view (R (projected d) [''id'']) (\<lambda>rows _ rows'. rows' = put_row up_id (projected d) rows)"
    using assms(1) by (simp add: projection_contract_def)
  then show ?thesis
    using assms(2) by (cases r) (auto simp: upsert_def implements_def split: prod.splits sum.splits dest!: spec [of _ w])
qed

definition mem_projections :: "(user_projection list) projection_repository" where
  "mem_projections = (\<lambda>u conflict rows. (Inr (), put_row up_id u rows))"

lemma mem_projections_contract: "projection_contract id mem_projections"
  by (simp add: projection_contract_def implements_def mem_projections_def)

lemma put_row_again: "put_row ident r (put_row ident r rows) = put_row ident r rows"
proof (cases "ident r \<in> ident ` set rows")
  case True
  then have "ident r \<in> ident ` set (put_row ident r rows)" by (simp add: ids_put_row)
  then show ?thesis using True by (auto simp: put_row_def)
next
  case False
  then have "\<And>x. x \<in> set rows \<Longrightarrow> ident x \<noteq> ident r" by (metis imageI)
  then show ?thesis using False by (auto simp: put_row_def intro!: map_idI)
qed

definition demo_user_event :: "string \<Rightarrow> UserProjectionEventDto" where
  "demo_user_event mail =
     \<lparr>ue_id = 4, ue_firstName = ''Ana'', ue_lastName = None, ue_email = mail, ue_rol = Some (Some ''farmer'')\<rparr>"

text \<open>
  A user event that arrives again changes nothing: after the first delivery the table
  has exactly one row with the user's id, the row of the event, and the second delivery
  leaves the table as it is, whether it succeeds or fails.
\<close>

theorem redelivered_user_event_converges:
  assumes "projection_contract view R" and "distinct_ids up_id (view w)"
    and "run (upsert R d) w = (Inr (), w1)" and "run (upsert R d) w1 = (r, w2)"
  shows "view w2 = view w1 \<and> distinct_ids up_id (view w1) \<and>
    row_of up_id (ue_id d) (view w1) = Some (projected d)"
proof -
  have 1: "view w1 = put_row up_id (projected d) (view w)"
    using upsert_run [OF assms(1,3)] by simp
  have "view w2 = view w1"
    using upsert_run [OF assms(1,4)] 1 by (auto simp: put_row_again)
  moreover have "row_of up_id (ue_id d) (view w1) = Some (projected d)"
    using 1 by (simp add: row_of_put_row projected_def)
  ultimately show ?thesis using 1 assms(2) by (simp add: distinct_put_row)
qed

theorem redelivered_user_event_converges_witness:
  "run (upsert mem_projections (demo_user_event ''a''))
      (snd (run (upsert mem_projections (demo_user_event ''a'')) [])) =
     (Inr (), [projected (demo_user_event ''a'')])"
proof -
  have 1: "run (upsert mem_projections (demo_user_event ''a'')) [] = (Inr (), [projected (demo_user_event ''a'')])"
    by (simp add: upsert_def mem_projections_def put_row_def)
  obtain r w2 where 2: "run (upsert mem_projections (demo_user_event ''a''))
      [projected (demo_user_event ''a'')] = (r, w2)" by fastforce
  have "r = Inr ()" using 2 by (auto simp: upsert_def mem_projections_def)
  moreover have "w2 = [projected (demo_user_event ''a'')]"
    using redelivered_user_event_converges [OF mem_projections_contract _ 1 2] by (simp add: distinct_ids_def)
  ultimately show ?thesis using 1 2 by simp
qed

section \<open>Events that overtake each other\<close>

text \<open>A broker whose first publish fails and whose later ones succeed, next to an outbox in memory.\<close>

definition flaky_relay :: "(string relay_view \<times> bool, string) relay_env" where
  "flaky_relay =
     \<lparr>re_tx =
        \<lparr>tx_begin = \<lambda>(v, up). (Inr (), (v\<lparr>working := Some (committed v)\<rparr>, up)),
         tx_commit = \<lambda>(v, up). (case working v of
            None \<Rightarrow> (Inl (ErrorExc ''TransactionNotStartedError'' []), (v, up))
          | Some t \<Rightarrow> (Inr (), (v\<lparr>committed := t, working := None\<rparr>, up))),
         tx_rollback = \<lambda>(v, up). (Inr (), (v\<lparr>working := None\<rparr>, up))\<rparr>,
      re_pending = \<lambda>n (v, up). (case working v of
            None \<Rightarrow> (Inl (ErrorExc ''QueryFailedError'' []), (v, up))
          | Some t \<Rightarrow> (Inr (take n (pending t)), (v, up))),
      re_emit = \<lambda>k c p b (v, up).
          if up then (Inr (), (v\<lparr>sent := sent v @ [(c, p, b)]\<rparr>, True))
          else (Inl (ErrorExc ''Error'' ''Connection lost''), (v, True)),
      re_mark = \<lambda>i (v, up). (case working v of
            None \<Rightarrow> (Inl (ErrorExc ''QueryFailedError'' []), (v, up))
          | Some t \<Rightarrow> (Inr (), (v\<lparr>working := Some (mark_row 0 i t)\<rparr>, up))),
      re_bump = \<lambda>i (v, up). (case working v of
            None \<Rightarrow> (Inl (ErrorExc ''QueryFailedError'' []), (v, up))
          | Some t \<Rightarrow> (Inr (), (v\<lparr>working := Some (bump_row i t)\<rparr>, up)))\<rparr>"

lemma flaky_relay_contract: "relay_contract True fst flaky_relay"
  unfolding relay_contract_def
  by (auto simp: flaky_relay_def tx_contract_def implements_def delivers_def reads_def subseq_take
      split: option.split)

definition two_updates :: "string relay_view" where
  "two_updates =
     \<lparr>committed =
        [new_outbox_row ''user.updated'' [(''id'', JNum 4), (''email'', JStr ''old'')] 1,
         new_outbox_row ''user.updated'' [(''id'', JNum 4), (''email'', JStr ''new'')] 2],
      working = None, sent = []\<rparr>"

definition mail_event :: "object \<Rightarrow> UserProjectionEventDto" where
  "mail_event body =
     demo_user_event (case map_of body ''email'' of Some (JStr s) \<Rightarrow> s | _ \<Rightarrow> [])"

text \<open>
  The order of a user's events is not kept: the outbox has the change of the user's
  address from old to new in this order, the first publish fails once, and the relay, which
  goes on with the next row, publishes the older event after the newer one. The upserts of
  the farms service, which do not look at the age of an event, then leave the old address
  in the projection for good.
\<close>

theorem user_events_can_overtake:
  "relay_contract True fst flaky_relay \<and>
   (let w1 = snd (run (drainOnce flaky_relay (auth_targets ''farms'' ''notifications'')) (two_updates, False));
        v2 = fst (snd (run (drainOnce flaky_relay (auth_targets ''farms'' ''notifications'')) w1))
    in pending (committed v2) = [] \<and>
       map (\<lambda>(c, p, b). map_of b ''email'') (sent v2) = [Some (JStr ''new''), Some (JStr ''old'')] \<and>
       map up_email (snd (run (for_each (\<lambda>(c, p, b). upsert mem_projections (mail_event b)) (sent v2)) [])) = [''old''])"
proof (rule conjI [OF flaky_relay_contract])
  show "let w1 = snd (run (drainOnce flaky_relay (auth_targets ''farms'' ''notifications'')) (two_updates, False));
        v2 = fst (snd (run (drainOnce flaky_relay (auth_targets ''farms'' ''notifications'')) w1))
    in pending (committed v2) = [] \<and>
       map (\<lambda>(c, p, b). map_of b ''email'') (sent v2) = [Some (JStr ''new''), Some (JStr ''old'')] \<and>
       map up_email (snd (run (for_each (\<lambda>(c, p, b). upsert mem_projections (mail_event b)) (sent v2)) [])) = [''old'']"
    by code_simp
qed

end
