(* ===== verification/AuthService.thy ===== *)
theory AuthService
  imports AuthStore
begin

text \<open>
  \<open>AuthService\<close> and \<open>AuthController\<close> of the auth service
  (\<open>apps/auth/src/auth.service.ts\<close>, \<open>auth.controller.ts\<close>), the generic repository's
  \<open>update\<close> it uses, and the seed of the administrator (\<open>db/user.seed.ts\<close>).
\<close>

section \<open>Refresh tokens\<close>

definition REFRESH_TTL_SECONDS :: int where
  "REFRESH_TTL_SECONDS = 7 * 24 * 60 * 60"

definition refreshKey :: "int \<Rightarrow> string \<Rightarrow> string" where
  "refreshKey userId jti = ''refresh:'' @ show_int userId @ '':'' @ jti"

definition issueRefreshToken :: "'w auth_env \<Rightarrow> claims \<Rightarrow> ('w, string) prog" where
  "issueRefreshToken E user =
     bind (atom (ae_uuid E)) (\<lambda>jti.
     bind (atom (ae_sign E (no_payload\<lparr>jp_user := Some user, jp_jti := Some jti\<rparr>) ''7d'' JWT_REFRESH_SECRET))
       (\<lambda>refreshToken.
     bind (setWithTtl (ae_redis E) (refreshKey (cl_id user) jti) ''1'' REFRESH_TTL_SECONDS) (\<lambda>_.
     Return refreshToken)))"

section \<open>Registration\<close>

definition findByEmail :: "'w auth_env \<Rightarrow> string option \<Rightarrow> ('w, credentials option) prog" where
  "findByEmail E email =
     atom (ae_find_email E
       [''id'', ''firstName'', ''lastName'', ''email'', ''rol'', ''forgotPasswordToken'', ''password''] email)"

definition hashPassword :: "'w auth_env \<Rightarrow> string \<Rightarrow> ('w, string) prog" where
  "hashPassword E password = atom (ae_hash E password)"

definition new_user :: "CreateUserDto \<Rightarrow> string \<Rightarrow> int \<Rightarrow> user" where
  "new_user dto hashed i =
     \<lparr>us_id = i, us_firstName = cu_firstName dto, us_lastName = Some (cu_lastName dto), us_email = cu_email dto,
      us_password = Some hashed, us_rol = None, us_photo = cu_photo dto, us_gender = cu_gender dto,
      us_documentType = cu_documentType dto, us_documentNumber = Some (cu_documentNumber dto),
      us_dateOfBirth = cu_dateOfBirth dto, us_country = cu_country dto, us_forgotPasswordToken = None,
      us_state = cu_state dto, us_city = cu_city dto\<rparr>"

text \<open>The payload of \<open>user.created\<close> and \<open>user.updated\<close>.\<close>

definition user_event :: "user \<Rightarrow> object" where
  "user_event saved =
     [(''id'', JNum (us_id saved)), (''firstName'', JStr (us_firstName saved)),
      (''lastName'', json_of_option JStr (us_lastName saved)), (''email'', JStr (us_email saved)),
      (''rol'', json_of_option JStr (us_rol saved))]"

record user_reply =
  ur_user :: user
  ur_message :: string
  ur_status :: string

definition register :: "'w auth_env \<Rightarrow> CreateUserDto \<Rightarrow> ('w, user_reply) prog" where
  "register E dto =
     bind (findByEmail E (Some (cu_email dto))) (\<lambda>existingUser.
     bind (throw_if (existingUser \<noteq> None) (ConflictException ''User already exists'')) (\<lambda>_.
     bind (hashPassword E (cu_password dto)) (\<lambda>hashedPassword.
     bind (transaction (ae_tx E)
       (bind (atom (ae_mgr_insert E (new_user dto hashedPassword))) (\<lambda>saved.
        bind (enqueue (ae_inject E) (ae_mgr_outbox E) ''user.created'' (user_event saved)) (\<lambda>_.
        Return saved)))) (\<lambda>savedUser.
     Return \<lparr>ur_user = savedUser\<lparr>us_password := None\<rparr>, ur_message = ''User created successfully'',
             ur_status = ''success''\<rparr>))))"

section \<open>Login and tokens\<close>

definition doesPasswordMatch :: "'w auth_env \<Rightarrow> string \<Rightarrow> string option \<Rightarrow> ('w, bool) prog" where
  "doesPasswordMatch E password hashedPassword = atom (ae_compare E password hashedPassword)"

text \<open>\<open>undefined\<close> for an unknown user and \<open>null\<close> for a wrong password are both nothing.\<close>

definition validateUser :: "'w auth_env \<Rightarrow> string \<Rightarrow> string \<Rightarrow> ('w, credentials option) prog" where
  "validateUser E email password =
     bind (findByEmail E (Some email)) (\<lambda>user.
     case user of
       None \<Rightarrow> Return None
     | Some u \<Rightarrow>
         bind (doesPasswordMatch E password (cr_password u)) (\<lambda>ok.
         if \<not> ok then Return None else Return (Some u)))"

text \<open>The user without the properties \<open>login\<close> deletes.\<close>

definition token_user :: "credentials \<Rightarrow> claims" where
  "token_user u = \<lparr>cl_id = cr_id u, cl_rol = cr_rol u\<rparr>"

record session =
  accesToken :: string
  newRefreshToken :: string
  session_user :: claims

definition login :: "'w auth_env \<Rightarrow> ExistingUserDto \<Rightarrow> ('w, session) prog" where
  "login E dto =
     bind (validateUser E (eu_email dto) (eu_password dto)) (\<lambda>found.
     case found of
       None \<Rightarrow> Throw (UnauthorizedException ''Unauthorized'')
     | Some u \<Rightarrow>
         bind (atom (ae_sign E (no_payload\<lparr>jp_user := Some (token_user u)\<rparr>) ''15m'' JWT_SECRET)) (\<lambda>access.
         bind (issueRefreshToken E (token_user u)) (\<lambda>refresh.
         Return \<lparr>accesToken = access, newRefreshToken = refresh, session_user = token_user u\<rparr>)))"

text \<open>A verified payload without a user makes \<open>user.id\<close> a \<open>TypeError\<close>.\<close>

definition refreshToken :: "'w auth_env \<Rightarrow> string option \<Rightarrow> ('w, session) prog" where
  "refreshToken E token =
     bind (throw_if (token = None \<or> token = Some []) (UnauthorizedException ''No refresh token provided'')) (\<lambda>_.
     bind (try_catch (atom (ae_verify E (the token) JWT_REFRESH_SECRET))
       (\<lambda>error. Throw (UnauthorizedException ''Invalid refresh token''))) (\<lambda>payload.
     case jp_user payload of
       None \<Rightarrow> Throw (ErrorExc ''TypeError'' ''Cannot read properties of undefined (reading 'id')'')
     | Some user \<Rightarrow>
         bind (case jp_jti payload of
                 None \<Rightarrow> Return False
               | Some jti \<Rightarrow>
                   if jti = [] then Return False else redis_exists (ae_redis E) (refreshKey (cl_id user) jti))
           (\<lambda>known.
         bind (throw_if (\<not> known) (UnauthorizedException ''Refresh token has been revoked'')) (\<lambda>_.
         bind (redis_del (ae_redis E) (refreshKey (cl_id user) (the (jp_jti payload)))) (\<lambda>_.
         bind (issueRefreshToken E user) (\<lambda>fresh.
         bind (atom (ae_sign E (no_payload\<lparr>jp_user := Some user\<rparr>) ''15m'' JWT_SECRET)) (\<lambda>access.
         Return \<lparr>accesToken = access, newRefreshToken = fresh, session_user = user\<rparr>)))))))"

definition verifyJwt :: "'w auth_env \<Rightarrow> string option \<Rightarrow> ('w, verified) prog" where
  "verifyJwt E jwt =
     bind (throw_if (jwt = None \<or> jwt = Some []) (UnauthorizedException ''Unauthorized'')) (\<lambda>_.
     try_catch
       (bind (atom (ae_verify E (the jwt) JWT_SECRET)) (\<lambda>p.
        Return \<lparr>vf_exp = jp_exp p, vf_user = jp_user p\<rparr>))
       (\<lambda>error. Throw (UnauthorizedException ''Unauthorized'')))"

section \<open>The user's own record\<close>

text \<open>\<open>user[key] = updatedData[key]\<close> for every property that was sent, the password among them.\<close>

definition assign_user :: "UpdateUserDto \<Rightarrow> user \<Rightarrow> user" where
  "assign_user d u =
     u\<lparr>us_firstName := given (uu_firstName d) (us_firstName u),
       us_lastName := given (uu_lastName d) (us_lastName u),
       us_email := given (uu_email d) (us_email u),
       us_password := stored (uu_password d) (us_password u),
       us_photo := given (uu_photo d) (us_photo u),
       us_documentType := given (uu_documentType d) (us_documentType u),
       us_documentNumber := given (uu_documentNumber d) (us_documentNumber u),
       us_gender := given (uu_gender d) (us_gender u),
       us_dateOfBirth := given (uu_dateOfBirth d) (us_dateOfBirth u),
       us_country := given (uu_country d) (us_country u),
       us_state := given (uu_state d) (us_state u),
       us_city := given (uu_city d) (us_city u)\<rparr>"

definition updateUserInfo :: "'w auth_env \<Rightarrow> int \<Rightarrow> UpdateUserDto \<Rightarrow> ('w, user) prog" where
  "updateUserInfo E userId updatedData =
     bind (atom (ae_find_id E userId)) (\<lambda>found.
     case found of
       None \<Rightarrow> Throw (NotFoundException ''User not found'')
     | Some user \<Rightarrow>
         transaction (ae_tx E)
           (bind (atom (ae_mgr_save E (assign_user updatedData user))) (\<lambda>saved.
            bind (enqueue (ae_inject E) (ae_mgr_outbox E) ''user.updated'' (user_event saved)) (\<lambda>_.
            Return saved))))"

definition getUser :: "'w auth_env \<Rightarrow> int \<Rightarrow> ('w, user_reply) prog" where
  "getUser E userId =
     bind (atom (ae_find_id E userId)) (\<lambda>found.
     case found of
       None \<Rightarrow> Throw (NotFoundException ''User not found'')
     | Some user \<Rightarrow> Return \<lparr>ur_user = user, ur_message = ''User found'', ur_status = ''success''\<rparr>)"

section \<open>Forgotten passwords\<close>

record notice =
  nt_message :: string
  nt_status :: string

definition genericResponse :: notice where
  "genericResponse =
     \<lparr>nt_message = ''If that email exists, a reset link has been sent'', nt_status = ''OK''\<rparr>"

definition reset_event :: "string option \<Rightarrow> string \<Rightarrow> object" where
  "reset_event email token =
     (case email of None \<Rightarrow> [] | Some m \<Rightarrow> [(''email'', JStr m)]) @ [(''token'', JStr token)]"

definition forgotPassword :: "'w auth_env \<Rightarrow> string option \<Rightarrow> ('w, notice) prog" where
  "forgotPassword E email =
     bind (atom (ae_find_email E [''id'', ''firstName'', ''lastName'', ''email'', ''password''] email)) (\<lambda>found.
     case found of
       None \<Rightarrow> Return genericResponse
     | Some user \<Rightarrow>
         bind (atom (ae_now E)) (\<lambda>now.
         bind (atom (ae_sign E (no_payload\<lparr>jp_userId := Some (cr_id user), jp_email := cr_email user,
           jp_timestamp := Some now\<rparr>) ''24h'' JWT_SECRET)) (\<lambda>forgotPasswordToken.
         bind (atom (ae_hash E forgotPasswordToken)) (\<lambda>hashedToken.
         bind (transaction (ae_tx E)
           (bind (atom (ae_mgr_set_token E (cr_id user) hashedToken)) (\<lambda>_.
            enqueue (ae_inject E) (ae_mgr_outbox E) ''user.password_reset_requested''
              (reset_event (cr_email user) forgotPasswordToken)))) (\<lambda>_.
         Return genericResponse)))))"

text \<open>
  \<open>BaseAbstractRepository.update\<close> (\<open>libs/common/src/repositories/base\<close>): load the entity,
  merge the given columns into it and save it.
\<close>

definition repository_update :: "'w auth_env \<Rightarrow> int \<Rightarrow> (user \<Rightarrow> user) \<Rightarrow> ('w, user) prog" where
  "repository_update E i merge =
     bind (atom (ae_find_id E i)) (\<lambda>existingEntity.
     case existingEntity of
       None \<Rightarrow> Throw (ErrorExc ''Error'' (''Entity with ID '' @ show_int i @ '' not found''))
     | Some entity \<Rightarrow> atom (ae_save E (merge entity)))"

text \<open>A token without a timestamp compares with \<open>NaN\<close> and never expires here.\<close>

definition RESET_TTL_MS :: int where
  "RESET_TTL_MS = 24 * 60 * 60 * 1000"

definition resetPassword :: "'w auth_env \<Rightarrow> string \<Rightarrow> string \<Rightarrow> ('w, notice) prog" where
  "resetPassword E token newPassword =
     bind (try_catch (atom (ae_verify E token JWT_SECRET))
       (\<lambda>error. Throw (BadRequestException ''Invalid token''))) (\<lambda>decodedToken.
     bind (findByEmail E (jp_email decodedToken)) (\<lambda>found.
     case found of
       None \<Rightarrow> Throw (BadRequestException ''Invalid token'')
     | Some user \<Rightarrow>
         bind (atom (ae_compare E token (cr_forgotPasswordToken user))) (\<lambda>isTokenValid.
         bind (throw_if (\<not> isTokenValid) (BadRequestException ''Invalid token'')) (\<lambda>_.
         bind (atom (ae_now E)) (\<lambda>currentTime.
         bind (throw_if (case jp_timestamp decodedToken of None \<Rightarrow> False | Some ts \<Rightarrow> currentTime > ts + RESET_TTL_MS)
           (BadRequestException ''Token has expired'')) (\<lambda>_.
         bind (hashPassword E newPassword) (\<lambda>hashedNewPassword.
         bind (repository_update E (cr_id user)
           (\<lambda>u. u\<lparr>us_password := Some hashedNewPassword, us_forgotPasswordToken := None\<rparr>)) (\<lambda>_.
         Return \<lparr>nt_message = ''Password has been changed'', nt_status = ''OK''\<rparr>))))))))"

section \<open>The profile photo\<close>

definition user_photo_key :: "int \<Rightarrow> string" where
  "user_photo_key userId = ''user-'' @ show_int userId"

definition uploadUserImage :: "'w auth_env \<Rightarrow> upload \<Rightarrow> int \<Rightarrow> ('w, notice) prog" where
  "uploadUserImage E file userId =
     try_catch
       (bind (atom (ae_find_id E userId)) (\<lambda>found.
        bind (uploadFile (ae_s3 E) file (user_photo_key userId)) (\<lambda>key.
        case found of
          None \<Rightarrow> Throw (ErrorExc ''TypeError'' ''Cannot set properties of null (setting 'photo')'')
        | Some user \<Rightarrow>
            bind (atom (ae_save E (user\<lparr>us_photo := Some key\<rparr>))) (\<lambda>_.
            Return \<lparr>nt_message = ''Image uploaded successfully'', nt_status = ''success''\<rparr>))))
       (\<lambda>err. Return \<lparr>nt_message = ''Error uploading the image'', nt_status = ''error''\<rparr>)"

definition getUserImage :: "'w auth_env \<Rightarrow> int \<Rightarrow> ('w, string \<times> string option) prog" where
  "getUserImage E userId =
     bind (atom (ae_find_id E userId)) (\<lambda>found.
     case found of
       None \<Rightarrow> Throw (ErrorExc ''TypeError'' ''Cannot read properties of null (reading 'photo')'')
     | Some user \<Rightarrow>
         bind (case us_photo user of None \<Rightarrow> Return None | Some key \<Rightarrow> getFile (ae_s3 E) key) (\<lambda>image.
         Return (''Ok'', image)))"

section \<open>The commands\<close>

text \<open>
  The commands of \<open>AuthController\<close>. \<open>verify-jwt\<close> stands behind \<open>JwtGuard\<close>: the passport strategy
  takes the token from the payload and verifies it with the same secret before the handler.
\<close>

definition jwt_guard :: "'w auth_env \<Rightarrow> string option \<Rightarrow> ('w, unit) prog" where
  "jwt_guard E jwt =
     (case jwt of
        None \<Rightarrow> Throw (UnauthorizedException ''Unauthorized'')
      | Some t \<Rightarrow>
          try_catch (bind (atom (ae_verify E t JWT_SECRET)) (\<lambda>_. Return ()))
            (\<lambda>_. Throw (UnauthorizedException ''Unauthorized'')))"

datatype auth_request =
    Register CreateUserDto
  | Login ExistingUserDto
  | VerifyJwt "string option"
  | RefreshToken "string option"
  | UpdateUser int UpdateUserDto
  | GetUser int
  | ForgotPassword "string option"
  | ResetPassword ResetPasswordDto
  | UserImage int upload
  | GetUserImage int

datatype auth_answer =
    UserAnswer user_reply
  | SessionAnswer session
  | VerifiedAnswer verified
  | UpdatedUser user
  | NoticeAnswer notice
  | ImageAnswer "string \<times> string option"

definition answer_with :: "('a \<Rightarrow> auth_answer) \<Rightarrow> ('w, 'a) prog \<Rightarrow> ('w, auth_answer) prog" where
  "answer_with f p = bind p (\<lambda>a. Return (f a))"

fun auth_controller :: "'w auth_env \<Rightarrow> auth_request \<Rightarrow> ('w, auth_answer) prog" where
  "auth_controller E (Register dto) = answer_with UserAnswer (register E dto)"
| "auth_controller E (Login dto) = answer_with SessionAnswer (login E dto)"
| "auth_controller E (VerifyJwt jwt) =
     answer_with VerifiedAnswer (bind (jwt_guard E jwt) (\<lambda>_. verifyJwt E jwt))"
| "auth_controller E (RefreshToken token) = answer_with SessionAnswer (refreshToken E token)"
| "auth_controller E (UpdateUser userId newInfo) = answer_with UpdatedUser (updateUserInfo E userId newInfo)"
| "auth_controller E (GetUser userId) = answer_with UserAnswer (getUser E userId)"
| "auth_controller E (ForgotPassword email) = answer_with NoticeAnswer (forgotPassword E email)"
| "auth_controller E (ResetPassword dto) =
     answer_with NoticeAnswer (resetPassword E (rp_token dto) (rp_newPassword dto))"
| "auth_controller E (UserImage userId file) = answer_with NoticeAnswer (uploadUserImage E file userId)"
| "auth_controller E (GetUserImage userId) = answer_with ImageAnswer (getUserImage E userId)"

section \<open>The seed\<close>

definition admin_user :: "string \<Rightarrow> string \<Rightarrow> int \<Rightarrow> user" where
  "admin_user adminEmail hashed i =
     \<lparr>us_id = i, us_firstName = ''Admin'', us_lastName = None, us_email = adminEmail,
      us_password = Some hashed, us_rol = Some ''admin'', us_photo = None, us_gender = None,
      us_documentType = None, us_documentNumber = None, us_dateOfBirth = None, us_country = None,
      us_forgotPasswordToken = None, us_state = None, us_city = None\<rparr>"

definition seed_run :: "'w auth_env \<Rightarrow> string option \<Rightarrow> string option \<Rightarrow> ('w, unit) prog" where
  "seed_run E adminEmail adminPass =
     (if adminEmail = None \<or> adminEmail = Some [] \<or> adminPass = None \<or> adminPass = Some [] then Return ()
      else
        bind (atom (ae_find_email E [''id'', ''rol'', ''email'', ''password''] adminEmail)) (\<lambda>existingAdmin.
        case existingAdmin of
          None \<Rightarrow>
            bind (hashPassword E (the adminPass)) (\<lambda>hashed.
            bind (atom (ae_insert E (admin_user (the adminEmail) hashed))) (\<lambda>_. Return ()))
        | Some admin \<Rightarrow>
            bind (doesPasswordMatch E (the adminPass) (cr_password admin)) (\<lambda>passwordMatches.
            if cr_rol admin \<noteq> Some ''admin'' \<or> \<not> passwordMatches then
              bind (hashPassword E (the adminPass)) (\<lambda>hashed.
              bind (atom (ae_save_found E (admin\<lparr>cr_rol := Some ''admin'', cr_password := Some hashed\<rparr>))) (\<lambda>_.
              Return ()))
            else Return ())))"

end
