(* ===== verification/AuthRules.thy ===== *)
theory AuthRules
  imports AuthService
begin

text \<open>
  The calls of the auth service through the view: what each operation of the contract does,
  the cache's commands seen from the whole view, and invariants of whole commands.
\<close>

lemma auth_contractD:
  assumes "auth_contract view signs matches E"
  shows "implements view (ae_find_email E sel e) (reads (\<lambda>v a. case a of
        None \<Rightarrow> (\<forall>u \<in> set (user_rows (committed v)). e \<noteq> None \<and> e \<noteq> Some (us_email u))
      | Some c \<Rightarrow> (\<exists>u \<in> set (user_rows (committed v)). (e = None \<or> e = Some (us_email u)) \<and> c = select_user sel u)))"
    and "implements view (ae_find_id E i) (reads (\<lambda>v a.
        a = map_option (\<lambda>u. u\<lparr>us_password := None\<rparr>) (row_of us_id i (user_rows (committed v)))))"
    and "implements view (ae_insert E d) (auth_commit (insert_user d))"
    and "implements view (ae_save E u) (auth_commit (save_user u))"
    and "implements view (ae_save_found E c) (auth_commit (save_found c))"
    and "tx_contract view (ae_tx E)"
    and "implements view (ae_mgr_insert E d) (auth_in_tx (insert_user d))"
    and "implements view (ae_mgr_save E u) (auth_in_tx (save_user u))"
    and "implements view (ae_mgr_set_token E i h) (auth_in_tx (set_token i h))"
    and "implements view (ae_mgr_outbox E pat b) (auth_in_tx (add_event pat b))"
    and "implements view (ae_inject E) (reads (\<lambda>_ _. True))"
    and "implements view (ae_sign E p x s) (reads (\<lambda>v t. \<exists>e. signs s (p\<lparr>jp_exp := Some e\<rparr>) t))"
    and "implements view (ae_verify E t s) (reads (\<lambda>v p. signs s p t))"
    and "implements view (ae_hash E pw) (reads (\<lambda>v h. matches pw h))"
    and "implements view (ae_compare E pw ho) (reads (\<lambda>v b. \<exists>x. ho = Some x \<and> b = matches pw x))"
    and "implements view (ae_uuid E)
       (\<lambda>v j v'. j \<noteq> [] \<and> j \<notin> issued_ids v \<and> v' = v\<lparr>issued_ids := insert j (issued_ids v)\<rparr>)"
    and "implements view (ae_now E) (reads (\<lambda>_ _. True))"
    and "redis_contract (as_cache \<circ> view) (ae_redis E)"
    and "implements view (s3_put (ae_s3 E) k bs m)
        (\<lambda>v _ v'. v' = v\<lparr>auth_objects := (auth_objects v)(k \<mapsto> bs)\<rparr>)"
    and "implements view (s3_get (ae_s3 E) k) (reads (\<lambda>v chunks. auth_objects v k = Some (concat chunks)))"
  using assms by (simp_all add: auth_contract_def)

lemma signs_unique:
  "auth_contract view signs matches E \<Longrightarrow> signs s p t \<Longrightarrow> signs s p' t \<Longrightarrow> p = p'"
  unfolding auth_contract_def by blast

section \<open>Calls\<close>

lemma vwp_reads:
  assumes "implements view f (reads A)" and "I v" and "\<And>e. is_library_error e \<Longrightarrow> X e v"
    and "\<And>a. A v a \<Longrightarrow> Q a v"
  shows "vwp view I (atom f) Q X v"
  by (rule vwp_atom [OF assms(1)]) (use assms(2-4) in \<open>auto simp: reads_def\<close>)

lemma vwp_auth_commit:
  assumes "implements view f (auth_commit R)" and "I v" and "\<And>e. is_library_error e \<Longrightarrow> X e v"
    and "\<And>a t'. R (committed v) a t' \<Longrightarrow> auth_ok t' \<Longrightarrow> I (v\<lparr>committed := t'\<rparr>) \<and> Q a (v\<lparr>committed := t'\<rparr>)"
  shows "vwp view I (atom f) Q X v"
  by (rule vwp_atom [OF assms(1)]) (use assms(2-4) in \<open>auto simp: auth_commit_def\<close>)

lemma vwp_auth_in_tx:
  assumes "implements view f (auth_in_tx R)" and "I v" and "\<And>e. is_library_error e \<Longrightarrow> X e v"
    and "\<And>t a t'. working v = Some t \<Longrightarrow> R t a t' \<Longrightarrow> auth_ok t'
      \<Longrightarrow> I (v\<lparr>working := Some t'\<rparr>) \<and> Q a (v\<lparr>working := Some t'\<rparr>)"
  shows "vwp view I (atom f) Q X v"
  by (rule vwp_atom [OF assms(1)]) (use assms(2-4) in \<open>auto simp: auth_in_tx_def\<close>)

text \<open>One lookup by address: nothing, or the selected columns of a row with that address.\<close>

lemma vwp_find_email:
  assumes "auth_contract view signs matches E" and "I v" and "\<And>e. is_library_error e \<Longrightarrow> X e v"
    and "(\<forall>u \<in> set (user_rows (committed v)). e \<noteq> None \<and> e \<noteq> Some (us_email u)) \<Longrightarrow> Q None v"
    and "\<And>u. u \<in> set (user_rows (committed v)) \<Longrightarrow> e = None \<or> e = Some (us_email u) \<Longrightarrow> Q (Some (select_user sel u)) v"
  shows "vwp view I (atom (ae_find_email E sel e)) Q X v"
  by (rule vwp_reads, rule auth_contractD(1) [OF assms(1)])
    (use assms(2-5) in \<open>auto split: option.splits\<close>)

text \<open>\<open>enqueue\<close> inside the transaction adds one row, whose payload carries the event.\<close>

lemma vwp_auth_enqueue:
  assumes "auth_contract view signs matches E" and "I v" and "\<And>e. is_library_error e \<Longrightarrow> X e v"
    and "\<And>t t' carrier. working v = Some t \<Longrightarrow> add_event pat (stored_payload carrier body) t () t' \<Longrightarrow> auth_ok t'
      \<Longrightarrow> I (v\<lparr>working := Some t'\<rparr>) \<and> Q () (v\<lparr>working := Some t'\<rparr>)"
  shows "vwp view I (enqueue (ae_inject E) (ae_mgr_outbox E) pat body) Q X v"
  unfolding enqueue_def
proof (rule vwp_bind, rule vwp_reads, rule auth_contractD(11) [OF assms(1)], rule assms(2), erule assms(3))
  fix carrier
  show "vwp view I (bind (atom (ae_mgr_outbox E pat (stored_payload carrier body))) (\<lambda>_. Return ())) Q X v"
    by (rule vwp_bind, rule vwp_auth_in_tx, rule auth_contractD(10) [OF assms(1)], rule assms(2), erule assms(3))
      (use assms(4) in \<open>auto intro!: vwp_return\<close>)
qed

section \<open>The cache\<close>

definition of_cache :: "(string, auth_tables \<times> auth_tables option \<times> string set \<times> (string \<Rightarrow> bytes option)) cache_view_scheme
    \<Rightarrow> auth_view" where
  "of_cache c =
     (case cache_view.more c of (t, wt, ids, objs) \<Rightarrow>
        \<lparr>committed = t, working = wt, auth_cache = cache c, auth_clock = clock c,
         issued_ids = ids, auth_objects = objs\<rparr>)"

lemma of_as_cache [simp]: "of_cache (as_cache v) = v"
  by (simp add: of_cache_def as_cache_def)

lemma vwp_as_cache:
  assumes "vwp (as_cache \<circ> view) (\<lambda>c. I (of_cache c)) p (\<lambda>a c. Q a (of_cache c)) (\<lambda>e c. X e (of_cache c)) (as_cache v)"
  shows "vwp view I p Q X v"
  using assms by (auto simp: vwp_def)

lemma of_cache_put:
  "of_cache (put_key k x ttl ((as_cache v)\<lparr>clock := c\<rparr>)) =
     v\<lparr>auth_clock := c, auth_cache := (auth_cache v)(k \<mapsto> (x, c + ttl))\<rparr>"
  by (simp add: of_cache_def as_cache_def put_key_def)

lemma of_cache_drop:
  "of_cache (drop_key k ((as_cache v)\<lparr>clock := c\<rparr>)) =
     v\<lparr>auth_clock := c, auth_cache := (auth_cache v)(k := None)\<rparr>"
  by (simp add: of_cache_def as_cache_def drop_key_def)

lemma of_cache_clock: "of_cache ((as_cache v)\<lparr>clock := c\<rparr>) = v\<lparr>auth_clock := c\<rparr>"
  by (simp add: of_cache_def as_cache_def)

lemma auth_live_clock: "live ((as_cache v)\<lparr>clock := c\<rparr>) k = auth_live (v\<lparr>auth_clock := c\<rparr>) k"
  by (simp add: auth_live_def live_def as_cache_def)

lemma clock_as_cache: "clock (as_cache v) = auth_clock v"
  by (simp add: as_cache_def)

lemmas cache_simps = of_cache_put of_cache_drop of_cache_clock auth_live_clock clock_as_cache

lemma vwp_auth_setWithTtl:
  assumes "auth_contract view signs matches E" and "I v" and "\<And>e. is_library_error e \<Longrightarrow> X e v"
    and "\<And>c v'. c \<ge> auth_clock v \<Longrightarrow> v' = v\<lparr>auth_clock := c, auth_cache := (auth_cache v)(k \<mapsto> (x, c + ttl))\<rparr>
      \<Longrightarrow> I v' \<and> Q () v'"
  shows "vwp view I (setWithTtl (ae_redis E) k x ttl) Q X v"
  by (rule vwp_as_cache, rule vwp_setWithTtl, rule auth_contractD(18) [OF assms(1)])
    (use assms(2-4) in \<open>simp_all add: cache_simps\<close>)

lemma vwp_auth_del:
  assumes "auth_contract view signs matches E" and "I v" and "\<And>e. is_library_error e \<Longrightarrow> X e v"
    and "\<And>c v'. c \<ge> auth_clock v \<Longrightarrow> v' = v\<lparr>auth_clock := c, auth_cache := (auth_cache v)(k := None)\<rparr>
      \<Longrightarrow> I v' \<and> Q () v'"
  shows "vwp view I (redis_del (ae_redis E) k) Q X v"
  by (rule vwp_as_cache, rule vwp_redis_del, rule auth_contractD(18) [OF assms(1)])
    (use assms(2-4) in \<open>simp_all add: cache_simps\<close>)

lemma vwp_auth_exists:
  assumes "auth_contract view signs matches E" and "I v" and "\<And>e. is_library_error e \<Longrightarrow> X e v"
    and "\<And>c v'. c \<ge> auth_clock v \<Longrightarrow> v' = v\<lparr>auth_clock := c\<rparr> \<Longrightarrow> I v' \<and> Q (auth_live v' k \<noteq> None) v'"
  shows "vwp view I (redis_exists (ae_redis E) k) Q X v"
  by (rule vwp_as_cache, rule vwp_redis_exists, rule auth_contractD(18) [OF assms(1)])
    (use assms(2-4) in \<open>simp_all add: cache_simps del: not_None_eq\<close>)

section \<open>Invariants of commands\<close>

text \<open>
  \<open>keeps view J p\<close>: started where \<open>J\<close> holds, every moment and every end of \<open>p\<close> has \<open>J\<close>.
\<close>

definition keeps :: "('w \<Rightarrow> 'v) \<Rightarrow> ('v \<Rightarrow> bool) \<Rightarrow> ('w, 'a) prog \<Rightarrow> bool" where
  "keeps view J p \<longleftrightarrow> (\<forall>v. J v \<longrightarrow> vwp view J p (\<lambda>_. J) (\<lambda>_. J) v)"

named_theorems keeps_intros \<open>invariants of compound programs\<close>

lemma keeps_return [keeps_intros]: "keeps view J (Return a)"
  by (simp add: keeps_def vwp_return)

lemma keeps_throw [keeps_intros]: "keeps view J (Throw e)"
  by (simp add: keeps_def vwp_throw)

lemma keeps_bind [keeps_intros]:
  "keeps view J p \<Longrightarrow> (\<And>a. keeps view J (g a)) \<Longrightarrow> keeps view J (bind p g)"
  unfolding keeps_def by (blast intro: vwp_bind vwp_strengthen)

lemma keeps_try_catch [keeps_intros]:
  "keeps view J p \<Longrightarrow> (\<And>e. keeps view J (h e)) \<Longrightarrow> keeps view J (try_catch p h)"
  unfolding keeps_def by (blast intro: vwp_try_catch vwp_strengthen)

lemma keeps_throw_if [keeps_intros]: "keeps view J (throw_if b e)"
  by (simp add: keeps_def vwp_throw_if)

lemma keeps_if [keeps_intros]: "keeps view J p \<Longrightarrow> keeps view J q \<Longrightarrow> keeps view J (if b then p else q)"
  by simp

lemma keeps_case_option [keeps_intros]:
  "keeps view J p \<Longrightarrow> (\<And>a. keeps view J (q a)) \<Longrightarrow> keeps view J (case x of None \<Rightarrow> p | Some a \<Rightarrow> q a)"
  by (cases x) auto

lemma keeps_reads: "implements view f (reads A) \<Longrightarrow> keeps view J (atom f)"
  unfolding keeps_def by (blast intro: vwp_reads)

lemma keeps_atom:
  "implements view f R \<Longrightarrow> (\<And>v a v'. J v \<Longrightarrow> R v a v' \<Longrightarrow> J v') \<Longrightarrow> keeps view J (atom f)"
  unfolding keeps_def by (blast intro: vwp_atom)

lemma keeps_run: "keeps view J p \<Longrightarrow> J (view w) \<Longrightarrow> run p w = (r, w') \<Longrightarrow> J (view w')"
  unfolding keeps_def by (blast dest: vwp_run)

lemma keeps_crash: "keeps view J p \<Longrightarrow> J (view w) \<Longrightarrow> J (view (crash_after n p w))"
  unfolding keeps_def by (blast intro: vwp_crash)

end
