(* ===== verification/AuthMemory.thy ===== *)
theory AuthMemory
  imports AuthRules FarmsMemory
begin

text \<open>
  An instance of the auth service's parameters in memory: tables, a cache whose clock
  stands still, random ids that grow in length, tokens that spell out their payload, and
  a hash that marks the text. It keeps the contract, and the witnesses run the service on it.
\<close>

section \<open>Tokens that spell out their payload\<close>

text \<open>A word is its length in unary, a zero and its characters.\<close>

definition enc_word :: "string \<Rightarrow> string" where
  "enc_word s = replicate (length s) (CHR ''1'') @ CHR ''0'' # s"

definition opt_word :: "('a \<Rightarrow> string) \<Rightarrow> 'a option \<Rightarrow> string" where
  "opt_word f x = (case x of None \<Rightarrow> [] | Some a \<Rightarrow> CHR ''+'' # f a)"

definition claims_word :: "claims \<Rightarrow> string" where
  "claims_word c = enc_word (show_int (cl_id c)) @ enc_word (opt_word id (cl_rol c))"

fun secret_word :: "jwt_secret \<Rightarrow> string" where
  "secret_word JWT_SECRET = ''a''"
| "secret_word JWT_REFRESH_SECRET = ''r''"

definition mem_token :: "jwt_secret \<Rightarrow> jwt_payload \<Rightarrow> string" where
  "mem_token s p =
     enc_word (secret_word s) @ enc_word (opt_word claims_word (jp_user p)) @ enc_word (opt_word id (jp_jti p)) @
     enc_word (opt_word show_int (jp_userId p)) @ enc_word (opt_word id (jp_email p)) @
     enc_word (opt_word show_int (jp_timestamp p)) @ enc_word (opt_word show_int (jp_exp p))"

lemma enc_word_cancel: "enc_word s @ r = enc_word s' @ r' \<longleftrightarrow> s = s' \<and> r = r'"
proof
  assume "enc_word s @ r = enc_word s' @ r'"
  then have "replicate (length s) (CHR ''1'') @ CHR ''0'' # (s @ r)
      = replicate (length s') (CHR ''1'') @ CHR ''0'' # (s' @ r')"
    by (simp add: enc_word_def)
  from sep_prefix_unique [OF this] have "length s = length s'" "s @ r = s' @ r'"
    by (auto dest: arg_cong [of _ _ length])
  then show "s = s' \<and> r = r'" by simp
qed simp

lemma enc_word_inj: "enc_word s = enc_word s' \<longleftrightarrow> s = s'"
  using enc_word_cancel [of s "[]" s' "[]"] by simp

lemma opt_word_inj: "(\<And>a b. f a = f b \<longleftrightarrow> a = b) \<Longrightarrow> opt_word f x = opt_word f y \<longleftrightarrow> x = y"
  by (auto simp: opt_word_def split: option.splits)

lemma claims_word_inj: "claims_word c = claims_word d \<longleftrightarrow> c = d"
  by (auto simp: claims_word_def enc_word_cancel enc_word_inj opt_word_inj)

lemma mem_token_inj: "mem_token s p = mem_token s p' \<Longrightarrow> p = p'"
  by (simp add: mem_token_def enc_word_cancel enc_word_inj opt_word_inj claims_word_inj)

section \<open>The world\<close>

record auth_world =
  aw_view :: auth_view
  aw_ids :: "string list"
  aw_signed :: "(jwt_secret \<times> jwt_payload) list"

definition mem_auth_view :: "auth_world \<Rightarrow> auth_view" where
  "mem_auth_view w = (aw_view w)\<lparr>issued_ids := set (aw_ids w)\<rparr>"

definition see :: "(auth_view \<Rightarrow> (exn + 'a) \<times> auth_view) \<Rightarrow> (auth_world, 'a) op" where
  "see f w = (case f (aw_view w) of (r, v) \<Rightarrow> (r, w\<lparr>aw_view := v\<rparr>))"

definition auth_read :: "(auth_view \<Rightarrow> exn + 'a) \<Rightarrow> (auth_world, 'a) op" where
  "auth_read f = see (\<lambda>v. (f v, v))"

definition auth_put :: "(auth_tables \<Rightarrow> 'a \<times> auth_tables) \<Rightarrow> (auth_world, 'a) op" where
  "auth_put f = see (\<lambda>v. case f (committed v) of (a, t') \<Rightarrow>
     if auth_ok t' then (Inr a, v\<lparr>committed := t'\<rparr>)
     else (Inl (ErrorExc ''QueryFailedError'' ''violates a constraint''), v))"

definition auth_put_tx :: "(auth_tables \<Rightarrow> 'a \<times> auth_tables) \<Rightarrow> (auth_world, 'a) op" where
  "auth_put_tx f = see (\<lambda>v. case working v of
       None \<Rightarrow> (Inl (ErrorExc ''TransactionNotStartedError'' []), v)
     | Some t \<Rightarrow> (case f t of (a, t') \<Rightarrow>
         if auth_ok t' then (Inr a, v\<lparr>working := Some t'\<rparr>)
         else (Inl (ErrorExc ''QueryFailedError'' ''violates a constraint''), v)))"

definition ins_user :: "(int \<Rightarrow> user) \<Rightarrow> auth_tables \<Rightarrow> user \<times> auth_tables" where
  "ins_user d t = (let a = d (fresh_id us_id (user_rows t)) in (a, t\<lparr>user_rows := user_rows t @ [a]\<rparr>))"

definition put_user :: "user \<Rightarrow> auth_tables \<Rightarrow> user \<times> auth_tables" where
  "put_user u t = (u, t\<lparr>user_rows := put_row us_id (user_row t u) (user_rows t)\<rparr>)"

definition put_found :: "credentials \<Rightarrow> auth_tables \<Rightarrow> credentials \<times> auth_tables" where
  "put_found c t = (c, t\<lparr>user_rows := map (\<lambda>u. if us_id u = cr_id c then found_row c u else u) (user_rows t)\<rparr>)"

definition put_token :: "int \<Rightarrow> string \<Rightarrow> auth_tables \<Rightarrow> unit \<times> auth_tables" where
  "put_token i h t =
     ((), t\<lparr>user_rows := map (\<lambda>u. if us_id u = i then u\<lparr>us_forgotPasswordToken := Some h\<rparr> else u) (user_rows t)\<rparr>)"

definition ins_event :: "string \<Rightarrow> object \<Rightarrow> auth_tables \<Rightarrow> unit \<times> auth_tables" where
  "ins_event pat b t =
     ((), t\<lparr>auth_outbox := auth_outbox t @ [new_outbox_row pat b (fresh_id ob_id (auth_outbox t))]\<rparr>)"

definition mem_hash :: "string \<Rightarrow> string" where
  "mem_hash p = CHR ''#'' # p"

definition fresh_jti :: "string list \<Rightarrow> string" where
  "fresh_jti ids = replicate (foldr max (map length ids) 0 + 1) (CHR ''x'')"

definition mem_auth_redis :: "(auth_world, string) redis_client" where
  "mem_auth_redis =
     \<lparr>rc_get = (\<lambda>k. auth_read (\<lambda>v. Inr (auth_live v k))),
      rc_set_ex = (\<lambda>k x ttl. see (\<lambda>v. (Inr (), v\<lparr>auth_cache := (auth_cache v)(k \<mapsto> (x, auth_clock v + ttl))\<rparr>))),
      rc_set_ex_nx = (\<lambda>k x ttl. see (\<lambda>v.
        if auth_live v k = None
        then (Inr (Some ''OK''), v\<lparr>auth_cache := (auth_cache v)(k \<mapsto> (x, auth_clock v + ttl))\<rparr>)
        else (Inr None, v))),
      rc_exists = (\<lambda>k. auth_read (\<lambda>v. Inr (if auth_live v k = None then 0 else 1))),
      rc_del = (\<lambda>k. see (\<lambda>v. (Inr (), v\<lparr>auth_cache := (auth_cache v)(k := None)\<rparr>)))\<rparr>"

definition mem_auth :: "auth_world auth_env" where
  "mem_auth =
     \<lparr>ae_find_email = (\<lambda>sel e. auth_read (\<lambda>v.
        Inr (map_option (select_user sel)
          (List.find (\<lambda>u. e = None \<or> e = Some (us_email u)) (user_rows (committed v)))))),
      ae_find_id = (\<lambda>i. auth_read (\<lambda>v.
        Inr (map_option (\<lambda>u. u\<lparr>us_password := None\<rparr>) (row_of us_id i (user_rows (committed v)))))),
      ae_insert = (\<lambda>d. auth_put (ins_user d)),
      ae_save = (\<lambda>u. auth_put (put_user u)),
      ae_save_found = (\<lambda>c. auth_put (put_found c)),
      ae_tx =
        \<lparr>tx_begin = see (\<lambda>v. (Inr (), v\<lparr>working := Some (committed v)\<rparr>)),
         tx_commit = see (\<lambda>v. case working v of
             None \<Rightarrow> (Inl (ErrorExc ''TransactionNotStartedError'' []), v)
           | Some t \<Rightarrow> (Inr (), v\<lparr>committed := t, working := None\<rparr>)),
         tx_rollback = see (\<lambda>v. (Inr (), v\<lparr>working := None\<rparr>))\<rparr>,
      ae_mgr_insert = (\<lambda>d. auth_put_tx (ins_user d)),
      ae_mgr_save = (\<lambda>u. auth_put_tx (put_user u)),
      ae_mgr_set_token = (\<lambda>i h. auth_put_tx (put_token i h)),
      ae_mgr_outbox = (\<lambda>pat b. auth_put_tx (ins_event pat b)),
      ae_inject = auth_read (\<lambda>v. Inr [(''traceparent'', ''00-1'')]),
      ae_sign = (\<lambda>p x s w.
        (Inr (mem_token s (p\<lparr>jp_exp := Some 900\<rparr>)), w\<lparr>aw_signed := (s, p\<lparr>jp_exp := Some 900\<rparr>) # aw_signed w\<rparr>)),
      ae_verify = (\<lambda>t s w.
        (case List.find (\<lambda>(s', p). s' = s \<and> mem_token s p = t) (aw_signed w) of
           None \<Rightarrow> Inl (ErrorExc ''JsonWebTokenError'' ''invalid token'')
         | Some (s', p) \<Rightarrow> Inr p, w)),
      ae_hash = (\<lambda>p. auth_read (\<lambda>v. Inr (mem_hash p))),
      ae_compare = (\<lambda>p h. auth_read (\<lambda>v. case h of
          None \<Rightarrow> Inl (ErrorExc ''Error'' ''Illegal arguments: string, object'')
        | Some x \<Rightarrow> Inr (x = mem_hash p))),
      ae_uuid = (\<lambda>w. (Inr (fresh_jti (aw_ids w)), w\<lparr>aw_ids := fresh_jti (aw_ids w) # aw_ids w\<rparr>)),
      ae_now = auth_read (\<lambda>v. Inr (auth_clock v * 1000)),
      ae_redis = mem_auth_redis,
      ae_s3 =
        \<lparr>s3_put = (\<lambda>k b m. see (\<lambda>v. (Inr (), v\<lparr>auth_objects := (auth_objects v)(k \<mapsto> b)\<rparr>))),
         s3_get = (\<lambda>k. auth_read (\<lambda>v. case auth_objects v k of
            None \<Rightarrow> Inl (ErrorExc ''NoSuchKey'' ''The specified key does not exist.'')
          | Some b \<Rightarrow> Inr [b]))\<rparr>\<rparr>"

section \<open>It keeps the contract\<close>

lemma fresh_jti_fresh: "fresh_jti ids \<noteq> [] \<and> fresh_jti ids \<notin> set ids"
proof -
  have "length j \<le> foldr max (map length ids) 0" if "j \<in> set ids" for j
    using that by (induction ids) auto
  from this [of "fresh_jti ids"] show ?thesis by (auto simp: fresh_jti_def)
qed

lemma implements_auth_read:
  assumes "\<And>v. case f v of Inl e \<Rightarrow> is_library_error e | Inr a \<Rightarrow> \<forall>s. A (v\<lparr>issued_ids := s\<rparr>) a"
  shows "implements mem_auth_view (auth_read f) (reads A)"
  unfolding implements_def
proof
  fix w
  show "case auth_read f w of (Inl e, w') \<Rightarrow> is_library_error e \<and> mem_auth_view w' = mem_auth_view w
      | (Inr a, w') \<Rightarrow> reads A (mem_auth_view w) a (mem_auth_view w')"
    using assms [of "aw_view w"] by (auto simp: auth_read_def see_def reads_def mem_auth_view_def split: sum.splits)
qed

lemma commute_ids:
  "aw_view w\<lparr>committed := t, issued_ids := s\<rparr> = aw_view w\<lparr>issued_ids := s, committed := t\<rparr>"
  "aw_view w\<lparr>working := wt, issued_ids := s\<rparr> = aw_view w\<lparr>issued_ids := s, working := wt\<rparr>"
  by simp_all

lemma implements_auth_put:
  assumes "\<And>t. R t (fst (f t)) (snd (f t))"
  shows "implements mem_auth_view (auth_put f) (auth_commit R)"
proof -
  have "f t = (a, t') \<Longrightarrow> R t a t'" for t a t'
    using assms [of t] by simp
  then show ?thesis
    unfolding implements_def auth_put_def see_def auth_commit_def mem_auth_view_def
    by (auto simp: commute_ids simp del: auth_view.update_convs db.update_convs split: prod.splits)
qed

lemma implements_auth_put_tx:
  assumes "\<And>t. R t (fst (f t)) (snd (f t))"
  shows "implements mem_auth_view (auth_put_tx f) (auth_in_tx R)"
proof -
  have "f t = (a, t') \<Longrightarrow> R t a t'" for t a t'
    using assms [of t] by simp
  then show ?thesis
    unfolding implements_def auth_put_tx_def see_def auth_in_tx_def mem_auth_view_def
    by (auto simp: commute_ids split: prod.splits option.splits)
qed

lemma mem_auth_tx: "tx_contract mem_auth_view (ae_tx mem_auth)"
  by (auto simp: tx_contract_def mem_auth_def implements_def see_def mem_auth_view_def split: option.splits)

lemma mem_auth_redis_contract: "redis_contract (as_cache \<circ> mem_auth_view) mem_auth_redis"
  unfolding redis_contract_def implements_def mem_auth_redis_def
  by (auto simp: auth_read_def see_def mem_auth_view_def auth_live_def live_def as_cache_def put_key_def
      drop_key_def split: option.splits if_splits intro!: in_timeI)

lemma auth_put_rules:
  "insert_user d t (fst (ins_user d t)) (snd (ins_user d t))"
  "save_user u t (fst (put_user u t)) (snd (put_user u t))"
  "save_found c t (fst (put_found c t)) (snd (put_found c t))"
  "set_token i h t (fst (put_token i h t)) (snd (put_token i h t))"
  "add_event pat b t (fst (ins_event pat b t)) (snd (ins_event pat b t))"
  unfolding insert_user_def save_user_def save_found_def set_token_def add_event_def
    ins_user_def put_user_def put_found_def put_token_def ins_event_def Let_def fst_conv snd_conv
  by (rule exI conjI fresh_id_fresh refl)+

lemma mem_auth_find_email: "implements mem_auth_view (ae_find_email mem_auth sel e)
   (reads (\<lambda>v a. case a of
        None \<Rightarrow> (\<forall>u \<in> set (user_rows (committed v)). e \<noteq> None \<and> e \<noteq> Some (us_email u))
      | Some c \<Rightarrow> (\<exists>u \<in> set (user_rows (committed v)). (e = None \<or> e = Some (us_email u)) \<and> c = select_user sel u)))"
  unfolding mem_auth_def auth_env.simps
  by (rule implements_auth_read) (auto simp: find_None_iff split: option.splits dest!: find_SomeD)

lemma mem_auth_tokens:
  "implements mem_auth_view (ae_sign mem_auth p x s) (reads (\<lambda>v t. \<exists>e. t = mem_token s (p\<lparr>jp_exp := Some e\<rparr>)))"
  "implements mem_auth_view (ae_verify mem_auth t s) (reads (\<lambda>v p. t = mem_token s p))"
  "implements mem_auth_view (ae_uuid mem_auth)
       (\<lambda>v j v'. j \<noteq> [] \<and> j \<notin> issued_ids v \<and> v' = v\<lparr>issued_ids := insert j (issued_ids v)\<rparr>)"
  using fresh_jti_fresh
  by (auto simp: implements_def mem_auth_def reads_def mem_auth_view_def split: option.splits dest: find_SomeD)

lemma mem_auth_reads:
  "implements mem_auth_view (ae_find_id mem_auth i) (reads (\<lambda>v a.
        a = map_option (\<lambda>u. u\<lparr>us_password := None\<rparr>) (row_of us_id i (user_rows (committed v)))))"
  "implements mem_auth_view (ae_inject mem_auth) (reads (\<lambda>_ _. True))"
  "implements mem_auth_view (ae_hash mem_auth pw) (reads (\<lambda>v h. h = mem_hash pw))"
  "implements mem_auth_view (ae_compare mem_auth pw ho) (reads (\<lambda>v b. \<exists>x. ho = Some x \<and> b = (x = mem_hash pw)))"
  "implements mem_auth_view (ae_now mem_auth) (reads (\<lambda>_ _. True))"
  "implements mem_auth_view (s3_get (ae_s3 mem_auth) k) (reads (\<lambda>v chunks. auth_objects v k = Some (concat chunks)))"
  unfolding mem_auth_def auth_env.simps s3_client.simps
  by (rule implements_auth_read; simp split: option.splits)+

lemma mem_auth_contract:
  "auth_contract mem_auth_view (\<lambda>s p t. t = mem_token s p) (\<lambda>p h. h = mem_hash p) mem_auth"
proof -
  have puts: "implements mem_auth_view (ae_insert mem_auth d) (auth_commit (insert_user d))"
    "implements mem_auth_view (ae_save mem_auth u) (auth_commit (save_user u))"
    "implements mem_auth_view (ae_save_found mem_auth c) (auth_commit (save_found c))"
    "implements mem_auth_view (ae_mgr_insert mem_auth d) (auth_in_tx (insert_user d))"
    "implements mem_auth_view (ae_mgr_save mem_auth u) (auth_in_tx (save_user u))"
    "implements mem_auth_view (ae_mgr_set_token mem_auth i h) (auth_in_tx (set_token i h))"
    "implements mem_auth_view (ae_mgr_outbox mem_auth pat b) (auth_in_tx (add_event pat b))" for d u c i h pat b
    unfolding mem_auth_def auth_env.simps
    by (rule implements_auth_put implements_auth_put_tx; rule auth_put_rules)+
  have redis: "redis_contract (as_cache \<circ> mem_auth_view) (ae_redis mem_auth)"
    using mem_auth_redis_contract by (simp add: mem_auth_def)
  have s3: "implements mem_auth_view (s3_put (ae_s3 mem_auth) k b m)
     (\<lambda>v _ v'. v' = v\<lparr>auth_objects := (auth_objects v)(k \<mapsto> b)\<rparr>)" for k b m
    by (simp add: implements_def mem_auth_def see_def mem_auth_view_def)
  show ?thesis
    unfolding auth_contract_def
    by (intro conjI allI impI puts redis s3 mem_auth_tx mem_auth_find_email mem_auth_tokens mem_auth_reads)
      (auto dest: mem_token_inj)
qed

section \<open>A small directory\<close>

definition ana :: user where
  "ana =
     \<lparr>us_id = 7, us_firstName = ''Ana'', us_lastName = Some ''Diaz'', us_email = ''ana'',
      us_password = Some (mem_hash ''pw''), us_rol = Some ''farmer'', us_photo = None, us_gender = None,
      us_documentType = None, us_documentNumber = None, us_dateOfBirth = None, us_country = None,
      us_forgotPasswordToken = None, us_state = None, us_city = None\<rparr>"

definition ana_world :: auth_world where
  "ana_world =
     \<lparr>aw_view = \<lparr>committed = \<lparr>user_rows = [ana], auth_outbox = []\<rparr>, working = None,
        auth_cache = (\<lambda>_. None), auth_clock = 0, issued_ids = {}, auth_objects = (\<lambda>_. None)\<rparr>,
      aw_ids = [], aw_signed = []\<rparr>"

lemma ana_ok: "auth_ok (committed (mem_auth_view ana_world))"
  by code_simp

end
