(* ===== verification/AuthAccounts.thy ===== *)
theory AuthAccounts
  imports AuthMemory
begin

text \<open>
  How a change of the accounts commits together with its event, and the registration.
\<close>

section \<open>A row and its event\<close>

text \<open>What a transaction that changes the users and adds an event leaves.\<close>

definition with_event :: "(auth_tables \<Rightarrow> 'a \<Rightarrow> auth_tables \<Rightarrow> bool) \<Rightarrow> string \<Rightarrow> ('a \<Rightarrow> object)
    \<Rightarrow> auth_tables \<Rightarrow> 'a \<Rightarrow> auth_tables \<Rightarrow> bool" where
  "with_event R pat ev t a t' \<longleftrightarrow>
     auth_ok t' \<and> (\<exists>t1 carrier. R t a t1 \<and> add_event pat (stored_payload carrier (ev a)) t1 () t')"

lemma vwp_row_and_event:
  assumes E: "auth_contract view signs matches E" and f: "implements view f (auth_in_tx R)"
    and I: "\<And>v'. committed v' = committed v \<or> (\<exists>a. with_event R pat ev (committed v) a (committed v')) \<Longrightarrow> I v'"
    and Q: "\<And>a v'. with_event R pat ev (committed v) a (committed v') \<Longrightarrow> Q a v'"
    and X: "\<And>e v'. is_library_error e \<Longrightarrow> committed v' = committed v \<Longrightarrow> X e v'"
  shows "vwp view I
     (transaction (ae_tx E) (bind (atom f) (\<lambda>a. bind (enqueue (ae_inject E) (ae_mgr_outbox E) pat (ev a)) (\<lambda>_. Return a))))
     Q X v"
proof (rule vwp_transaction [where F = "\<lambda>e v'. is_library_error e \<and> committed v' = committed v"],
    rule auth_contractD(6) [OF E])
  let ?v = "v\<lparr>working := Some (committed v)\<rparr>"
  show "vwp view I (bind (atom f) (\<lambda>a. bind (enqueue (ae_inject E) (ae_mgr_outbox E) pat (ev a)) (\<lambda>_. Return a)))
     (\<lambda>a v1. (\<forall>e. is_library_error e \<longrightarrow> is_library_error e \<and> committed v1 = committed v) \<and>
          (\<forall>t. working v1 = Some t \<longrightarrow>
             I (v1\<lparr>committed := t, working := None\<rparr>) \<and> Q a (v1\<lparr>committed := t, working := None\<rparr>)))
     (\<lambda>e v'. is_library_error e \<and> committed v' = committed v) ?v"
  proof (rule vwp_bind, rule vwp_auth_in_tx [OF f])
    fix t a t1
    assume 1: "working ?v = Some t" "R t a t1" "auth_ok t1"
    have "vwp view I (bind (enqueue (ae_inject E) (ae_mgr_outbox E) pat (ev a)) (\<lambda>_. Return a))
       (\<lambda>a v1. (\<forall>e. is_library_error e \<longrightarrow> is_library_error e \<and> committed v1 = committed v) \<and>
          (\<forall>t. working v1 = Some t \<longrightarrow>
             I (v1\<lparr>committed := t, working := None\<rparr>) \<and> Q a (v1\<lparr>committed := t, working := None\<rparr>)))
       (\<lambda>e v'. is_library_error e \<and> committed v' = committed v) (?v\<lparr>working := Some t1\<rparr>)"
    proof (rule vwp_bind, rule vwp_auth_enqueue [OF E])
      fix t2 t3 carrier
      assume 2: "working (?v\<lparr>working := Some t1\<rparr>) = Some t2"
        "add_event pat (stored_payload carrier (ev a)) t2 () t3" "auth_ok t3"
      then have "with_event R pat ev (committed v) a t3"
        using 1 by (auto simp: with_event_def)
      then show "I (?v\<lparr>working := Some t1, working := Some t3\<rparr>) \<and>
          vwp view I (Return a)
           (\<lambda>a v1. (\<forall>e. is_library_error e \<longrightarrow> is_library_error e \<and> committed v1 = committed v) \<and>
              (\<forall>t. working v1 = Some t \<longrightarrow>
                 I (v1\<lparr>committed := t, working := None\<rparr>) \<and> Q a (v1\<lparr>committed := t, working := None\<rparr>)))
           (\<lambda>e v'. is_library_error e \<and> committed v' = committed v) (?v\<lparr>working := Some t1, working := Some t3\<rparr>)"
        by (auto intro!: vwp_return I Q)
    qed (auto intro: I)
    then show "I (?v\<lparr>working := Some t1\<rparr>) \<and>
        vwp view I (bind (enqueue (ae_inject E) (ae_mgr_outbox E) pat (ev a)) (\<lambda>_. Return a))
         (\<lambda>a v1. (\<forall>e. is_library_error e \<longrightarrow> is_library_error e \<and> committed v1 = committed v) \<and>
          (\<forall>t. working v1 = Some t \<longrightarrow>
             I (v1\<lparr>committed := t, working := None\<rparr>) \<and> Q a (v1\<lparr>committed := t, working := None\<rparr>)))
         (\<lambda>e v'. is_library_error e \<and> committed v' = committed v) (?v\<lparr>working := Some t1\<rparr>)"
      by (auto intro: I)
  qed (auto intro: I)
qed (auto intro: I X)

section \<open>Registration\<close>

definition registered :: "(string \<Rightarrow> string \<Rightarrow> bool) \<Rightarrow> CreateUserDto \<Rightarrow> auth_tables \<Rightarrow> user \<Rightarrow> auth_tables \<Rightarrow> bool" where
  "registered matches dto t saved t' \<longleftrightarrow>
     (\<exists>i h j carrier. saved = new_user dto h i \<and> matches (cu_password dto) h \<and>
        i \<notin> us_id ` set (user_rows t) \<and> j \<notin> ob_id ` set (auth_outbox t) \<and>
        t' = t\<lparr>user_rows := user_rows t @ [saved],
               auth_outbox := auth_outbox t @
                 [new_outbox_row ''user.created'' (stored_payload carrier (user_event saved)) j]\<rparr>)"

definition taken :: "auth_tables \<Rightarrow> string \<Rightarrow> bool" where
  "taken t email \<longleftrightarrow> email \<in> us_email ` set (user_rows t)"

lemma with_event_registered:
  "with_event (insert_user (new_user dto h)) ''user.created'' user_event t a t' \<Longrightarrow> matches (cu_password dto) h
    \<Longrightarrow> registered matches dto t a t' \<and> auth_ok t'"
  unfolding with_event_def insert_user_def add_event_def registered_def by (auto, blast)

lemma register_spec:
  assumes E: "auth_contract view signs matches E"
  shows "vwp view
     (\<lambda>v'. committed v' = committed v \<or>
        (\<not> taken (committed v) (cu_email dto) \<and> auth_ok (committed v') \<and>
         (\<exists>u. registered matches dto (committed v) u (committed v'))))
     (register E dto)
     (\<lambda>a v'. \<not> taken (committed v) (cu_email dto) \<and> auth_ok (committed v') \<and>
        (\<exists>u. registered matches dto (committed v) u (committed v') \<and>
          a = \<lparr>ur_user = u\<lparr>us_password := None\<rparr>, ur_message = ''User created successfully'', ur_status = ''success''\<rparr>))
     (\<lambda>e v'. committed v' = committed v \<and>
        (is_library_error e \<or> (taken (committed v) (cu_email dto) \<and> e = ConflictException ''User already exists'')))
     v"
  unfolding register_def findByEmail_def hashPassword_def
  apply (rule vwp_bind, rule vwp_find_email [OF E]; (simp; fail)?)
   apply (rule vwp_bind, rule vwp_throw_if; (simp; fail)?)
   apply (rule vwp_bind, rule vwp_reads, rule auth_contractD(14) [OF E]; (simp; fail)?)
   apply (rule vwp_bind, rule vwp_row_and_event [OF E], rule auth_contractD(7) [OF E])
     apply (fastforce simp: taken_def dest: with_event_registered)
    apply (rule vwp_return)
     apply (fastforce simp: taken_def dest: with_event_registered)
    apply (fastforce simp: taken_def dest: with_event_registered)
   apply simp
  apply (rule vwp_bind, rule vwp_throw_if)
    apply (auto simp: taken_def)
  done

text \<open>
  C26. Registration is atomic. Wherever the process dies, either nothing was committed or
  the new user, under a fresh id and with a hash of the password, together with the
  user.created event about that user; the second only if nobody had the address. A request
  that answers has committed both and shows the user without the password. A request that
  fails has committed nothing, and fails with a 409 (if the address is in use) or a
  library's error.
\<close>

theorem registration_is_atomic:
  assumes "auth_contract view signs matches E"
  shows "(let t = committed (view w); t' = committed (view (crash_after n (register E dto) w)) in
       t' = t \<or> (\<not> taken t (cu_email dto) \<and> (\<exists>u. registered matches dto t u t')))
     \<and> (case run (register E dto) w of
          (Inr a, w') \<Rightarrow> \<not> taken (committed (view w)) (cu_email dto) \<and>
            (\<exists>u. registered matches dto (committed (view w)) u (committed (view w')) \<and>
               ur_user a = u\<lparr>us_password := None\<rparr>)
        | (Inl e, w') \<Rightarrow> committed (view w') = committed (view w) \<and>
            (is_library_error e \<or>
             (taken (committed (view w)) (cu_email dto) \<and> e = ConflictException ''User already exists'')))"
proof -
  note spec = register_spec [OF assms, of "view w" dto]
  obtain r w' where r: "run (register E dto) w = (r, w')" by fastforce
  show ?thesis
    using vwp_crash [OF spec, of n] vwp_run [OF spec r] r by (auto simp: Let_def split: sum.splits)
qed

definition demo_registration :: CreateUserDto where
  "demo_registration =
     \<lparr>cu_firstName = ''Bo'', cu_lastName = ''Li'', cu_email = ''bo'', cu_password = ''pw2'', cu_photo = None,
      cu_documentType = None, cu_documentNumber = 5, cu_gender = None, cu_dateOfBirth = None,
      cu_country = None, cu_state = None, cu_city = None\<rparr>"

theorem registration_is_atomic_witness:
  "\<exists>u. registered (\<lambda>p h. h = mem_hash p) demo_registration (committed (mem_auth_view ana_world)) u
     (committed (mem_auth_view (snd (run (register mem_auth demo_registration) ana_world))))"
proof -
  obtain r w' where r: "run (register mem_auth demo_registration) ana_world = (r, w')" by fastforce
  have "case fst (run (register mem_auth demo_registration) ana_world) of Inr a \<Rightarrow> True | Inl e \<Rightarrow> False"
    by code_simp
  then obtain a where "r = Inr a" using r by (auto split: sum.splits)
  then show ?thesis
    using registration_is_atomic [OF mem_auth_contract, of ana_world 0 demo_registration] r by auto
qed

end
