(* ===== verification/AuthTokens.thy ===== *)
theory AuthTokens
  imports AuthMemory
begin

text \<open>
  Sessions: who can log in, what a session's tokens say, and what a refresh does.
\<close>

section \<open>Refresh tokens\<close>

lemma refreshKey_inj: "refreshKey i j = refreshKey i' j' \<longleftrightarrow> i = i' \<and> j = j'"
proof
  assume "refreshKey i j = refreshKey i' j'"
  then have "show_int i @ CHR '':'' # j = show_int i' @ CHR '':'' # j'"
    by (simp add: refreshKey_def)
  from sep_prefix_unique [OF this show_int_no_colon show_int_no_colon]
  show "i = i' \<and> j = j'" by simp
qed simp

text \<open>A refresh token that was issued: its id is new, and its key is stored for seven days.\<close>

definition issued :: "(jwt_secret \<Rightarrow> jwt_payload \<Rightarrow> string \<Rightarrow> bool) \<Rightarrow> claims \<Rightarrow> auth_view \<Rightarrow> string \<Rightarrow> auth_view \<Rightarrow> bool" where
  "issued signs c v t v' \<longleftrightarrow>
     (\<exists>j x. j \<noteq> [] \<and> j \<notin> issued_ids v \<and> issued_ids v' = insert j (issued_ids v) \<and>
        signs JWT_REFRESH_SECRET (no_payload\<lparr>jp_user := Some c, jp_jti := Some j, jp_exp := Some x\<rparr>) t \<and>
        auth_clock v \<le> auth_clock v' \<and> committed v' = committed v \<and>
        auth_cache v' = (auth_cache v)(refreshKey (cl_id c) j \<mapsto> (''1'', auth_clock v' + REFRESH_TTL_SECONDS)))"

lemma issuedI:
  "j \<noteq> [] \<Longrightarrow> j \<notin> issued_ids v \<Longrightarrow>
    signs JWT_REFRESH_SECRET (no_payload\<lparr>jp_user := Some c, jp_jti := Some j, jp_exp := Some x\<rparr>) t \<Longrightarrow>
    auth_clock v \<le> n \<Longrightarrow>
    issued signs c v t (v\<lparr>issued_ids := insert j (issued_ids v), auth_clock := n,
      auth_cache := (auth_cache v)(refreshKey (cl_id c) j \<mapsto> (''1'', n + REFRESH_TTL_SECONDS))\<rparr>)"
  unfolding issued_def by (rule exI [of _ j], rule exI [of _ x]) simp

lemma issued_committed: "issued signs c v t v' \<Longrightarrow> committed v' = committed v"
  by (auto simp: issued_def)

definition access_token :: "(jwt_secret \<Rightarrow> jwt_payload \<Rightarrow> string \<Rightarrow> bool) \<Rightarrow> claims \<Rightarrow> string \<Rightarrow> bool" where
  "access_token signs c t \<longleftrightarrow>
     (\<exists>x. signs JWT_SECRET (no_payload\<lparr>jp_user := Some c, jp_exp := Some x\<rparr>) t)"

lemma vwp_issue:
  assumes E: "auth_contract view signs matches E"
    and I: "\<And>v'. committed v' = committed v \<Longrightarrow> I v'"
    and X: "\<And>e v'. is_library_error e \<Longrightarrow> committed v' = committed v \<Longrightarrow> X e v'"
    and Q: "\<And>t v'. issued signs c v t v' \<Longrightarrow> Q t v'"
  shows "vwp view I (issueRefreshToken E c) Q X v"
  unfolding issueRefreshToken_def
proof (rule vwp_bind, rule vwp_atom, rule auth_contractD(16) [OF E])
  fix j v1
  assume j: "j \<noteq> [] \<and> j \<notin> issued_ids v \<and> v1 = v\<lparr>issued_ids := insert j (issued_ids v)\<rparr>"
  have "vwp view I (bind (atom (ae_sign E (no_payload\<lparr>jp_user := Some c, jp_jti := Some j\<rparr>) ''7d'' JWT_REFRESH_SECRET))
      (\<lambda>t. bind (setWithTtl (ae_redis E) (refreshKey (cl_id c) j) ''1'' REFRESH_TTL_SECONDS) (\<lambda>_. Return t))) Q X v1"
  proof (rule vwp_bind, rule vwp_reads, rule auth_contractD(12) [OF E])
    fix t
    assume t: "\<exists>e. signs JWT_REFRESH_SECRET (no_payload\<lparr>jp_user := Some c, jp_jti := Some j, jp_exp := Some e\<rparr>) t"
    show "vwp view I (bind (setWithTtl (ae_redis E) (refreshKey (cl_id c) j) ''1'' REFRESH_TTL_SECONDS) (\<lambda>_. Return t)) Q X v1"
      by (rule vwp_bind, rule vwp_auth_setWithTtl [OF E])
        (use j t issuedI [where j = j and v = v and signs = signs and c = c] in \<open>auto intro!: vwp_return I X Q\<close>)
  qed (use j in \<open>auto intro: I X\<close>)
  with j show "I v1 \<and> vwp view I (bind (atom (ae_sign E (no_payload\<lparr>jp_user := Some c, jp_jti := Some j\<rparr>) ''7d'' JWT_REFRESH_SECRET))
      (\<lambda>t. bind (setWithTtl (ae_redis E) (refreshKey (cl_id c) j) ''1'' REFRESH_TTL_SECONDS) (\<lambda>_. Return t))) Q X v1"
    by (auto intro: I)
qed (auto intro: I X)

section \<open>Login\<close>

definition has_password :: "(string \<Rightarrow> string \<Rightarrow> bool) \<Rightarrow> user \<Rightarrow> string \<Rightarrow> bool" where
  "has_password matches u p \<longleftrightarrow> (\<exists>h. us_password u = Some h \<and> matches p h)"

definition user_claims :: "user \<Rightarrow> claims" where
  "user_claims u = \<lparr>cl_id = us_id u, cl_rol = us_rol u\<rparr>"

definition entitled :: "(string \<Rightarrow> string \<Rightarrow> bool) \<Rightarrow> ExistingUserDto \<Rightarrow> auth_tables \<Rightarrow> user \<Rightarrow> bool" where
  "entitled matches dto t u \<longleftrightarrow>
     u \<in> set (user_rows t) \<and> us_email u = eu_email dto \<and> has_password matches u (eu_password dto)"

text \<open>Addresses are unique, so a row with the address decides whether anybody is entitled.\<close>

lemma not_entitled:
  assumes "auth_ok t" and "u \<in> set (user_rows t)" and "us_email u = eu_email dto"
    and "\<not> has_password matches u (eu_password dto)"
  shows "\<not> entitled matches dto t u'"
proof
  assume u': "entitled matches dto t u'"
  have "u' = u"
    using assms(1-3) u' unfolding entitled_def auth_ok_def
    by (metis distinct_map inj_onD)
  with u' assms(4) show False by (simp add: entitled_def)
qed

lemma login_spec:
  assumes E: "auth_contract view signs matches E" and ok: "auth_ok (committed v)"
  shows "vwp view (\<lambda>v'. committed v' = committed v) (login E dto)
     (\<lambda>s v'. (\<exists>u. entitled matches dto (committed v) u \<and> session_user s = user_claims u) \<and>
        access_token signs (session_user s) (accesToken s) \<and> issued signs (session_user s) v (newRefreshToken s) v')
     (\<lambda>e v'. committed v' = committed v \<and> (is_library_error e \<or>
        (e = UnauthorizedException ''Unauthorized'' \<and> (\<forall>u. \<not> entitled matches dto (committed v) u))))
     v"
  unfolding login_def validateUser_def findByEmail_def doesPasswordMatch_def
proof (rule vwp_bind, rule vwp_bind, rule vwp_find_email [OF E], goal_cases)
  case (4 u)
  let ?c = "select_user [''id'', ''firstName'', ''lastName'', ''email'', ''rol'', ''forgotPasswordToken'', ''password''] u"
  have c: "cr_password ?c = us_password u" "token_user ?c = user_claims u"
    by (simp_all add: select_user_def selected_def token_user_def user_claims_def)
  show ?case
    unfolding option.case c
    apply (rule vwp_bind, rule vwp_reads, rule auth_contractD(15) [OF E]; (simp; fail)?)
    apply (rule vwp_if; rule vwp_return; (simp; fail)?)
     apply (simp, rule vwp_throw)
      apply simp
    using 4 not_entitled [OF ok 4(1)] apply (force simp: has_password_def) [1]
    unfolding option.case c
    apply (rule vwp_bind, rule vwp_reads, rule auth_contractD(12) [OF E]; (simp; fail)?)
    apply (rule vwp_bind, rule vwp_issue [OF E]; (simp; fail)?)
    apply (rule vwp_return)
     apply (simp add: issued_def, blast?)
    using 4 apply (auto simp: entitled_def has_password_def access_token_def)
    done
next
  case 3
  then show ?case by (auto simp: entitled_def intro!: vwp_return vwp_throw) metis
qed auto

text \<open>
  C27. A login that answers names a user whose address is the given one and whose stored
  hash the given password matches. Its access token carries exactly that user's id and
  role, and its refresh token a new id, which is stored in the cache for seven days under
  a key of its own. A login without such a user never answers; an unknown address and a
  wrong password get the same 401. The users are not changed in any case.
\<close>

theorem login_needs_the_password:
  assumes "auth_contract view signs matches E" and "auth_ok (committed (view w))"
    and "run (login E dto) w = (r, w')"
  shows "committed (view w') = committed (view w) \<and>
    (case r of
       Inr s \<Rightarrow> (\<exists>u. entitled matches dto (committed (view w)) u \<and> session_user s = user_claims u) \<and>
         access_token signs (session_user s) (accesToken s) \<and>
         issued signs (session_user s) (view w) (newRefreshToken s) (view w')
     | Inl e \<Rightarrow> is_library_error e \<or>
         (e = UnauthorizedException ''Unauthorized'' \<and> (\<forall>u. \<not> entitled matches dto (committed (view w)) u)))"
  using vwp_run [OF login_spec [OF assms(1,2)] assms(3)] by (auto split: sum.splits)

definition ana_login :: ExistingUserDto where
  "ana_login = \<lparr>eu_email = ''ana'', eu_password = ''pw''\<rparr>"

theorem login_needs_the_password_witness:
  "\<exists>s w'. run (login mem_auth ana_login) ana_world = (Inr s, w') \<and> session_user s = user_claims ana"
proof -
  obtain r w' where r: "run (login mem_auth ana_login) ana_world = (r, w')" by fastforce
  have "case fst (run (login mem_auth ana_login) ana_world) of Inr a \<Rightarrow> True | Inl e \<Rightarrow> False"
    by code_simp
  then obtain s where s: "r = Inr s" using r by (auto split: sum.splits)
  moreover have "user_rows (committed (mem_auth_view ana_world)) = [ana]"
    by (simp add: ana_world_def mem_auth_view_def)
  ultimately show ?thesis
    using login_needs_the_password [OF mem_auth_contract ana_ok r] r by (auto simp: entitled_def)
qed

section \<open>Rotation\<close>

text \<open>The token was verified, its key was there, and is there no more.\<close>

definition rotates :: "(jwt_secret \<Rightarrow> jwt_payload \<Rightarrow> string \<Rightarrow> bool) \<Rightarrow> string \<Rightarrow> auth_view \<Rightarrow> session \<Rightarrow> auth_view \<Rightarrow> bool" where
  "rotates signs t v s v' \<longleftrightarrow>
     (\<exists>p j c c'. signs JWT_REFRESH_SECRET p t \<and> jp_user p = Some (session_user s) \<and> jp_jti p = Some j \<and> j \<noteq> [] \<and>
        auth_clock v \<le> c \<and> auth_live (v\<lparr>auth_clock := c\<rparr>) (refreshKey (cl_id (session_user s)) j) \<noteq> None \<and> c \<le> c' \<and>
        issued signs (session_user s)
          (v\<lparr>auth_clock := c', auth_cache := (auth_cache v)(refreshKey (cl_id (session_user s)) j := None)\<rparr>)
          (newRefreshToken s) v')"

definition refresh_refusals :: "exn set" where
  "refresh_refusals =
     {UnauthorizedException ''No refresh token provided'', UnauthorizedException ''Invalid refresh token'',
      UnauthorizedException ''Refresh token has been revoked''}"

lemma refresh_spec:
  assumes E: "auth_contract view signs matches E"
  shows "vwp view (\<lambda>v'. committed v' = committed v) (refreshToken E (Some t))
     (\<lambda>s v'. rotates signs t v s v' \<and> access_token signs (session_user s) (accesToken s))
     (\<lambda>e v'. committed v' = committed v \<and> (is_library_error e \<or> e \<in> refresh_refusals))
     v"
  unfolding refreshToken_def
proof (rule vwp_bind, rule vwp_throw_if, goal_cases)
  case 3
  show ?case
  proof (rule vwp_bind, rule vwp_try_catch, rule vwp_reads, rule auth_contractD(13) [OF E], goal_cases)
    case (3 p)
    then show ?case
    proof (cases "jp_user p")
      case None
      then show ?thesis by (auto intro!: vwp_throw)
    next
      case (Some u)
      have revoked: "vwp view (\<lambda>v'. committed v' = committed v) (Return False)
         (\<lambda>known. vwp view (\<lambda>v'. committed v' = committed v)
           (bind (throw_if (\<not> known) (UnauthorizedException ''Refresh token has been revoked'')) (g known)) Q
           (\<lambda>e v'. committed v' = committed v \<and> (is_library_error e \<or> e \<in> refresh_refusals)))
         (\<lambda>e v'. committed v' = committed v \<and> (is_library_error e \<or> e \<in> refresh_refusals)) v" for g Q
        by (auto intro!: vwp_return vwp_bind vwp_throw_if simp: refresh_refusals_def)
      show ?thesis
      proof (cases "jp_jti p = None \<or> jp_jti p = Some []")
        case True
        then show ?thesis using Some by (auto intro!: vwp_bind revoked)
      next
        case False
        then obtain j where j: "jp_jti p = Some j" "j \<noteq> []" by auto
        show ?thesis
          unfolding Some j option.case if_not_P [OF j(2)] option.sel
          apply (rule vwp_bind, rule vwp_auth_exists [OF E]; (simp; fail)?)
          apply (rule conjI, simp)
          apply (rule vwp_bind, rule vwp_throw_if; (simp add: refresh_refusals_def; fail)?)
          apply (rule vwp_bind, rule vwp_auth_del [OF E]; (simp; fail)?)
          apply (rule conjI, simp)
          apply (rule vwp_bind, rule vwp_issue [OF E]; (simp; fail)?)
          apply (rule vwp_bind, rule vwp_reads, rule auth_contractD(12) [OF E];
              (auto dest: issued_committed; fail)?)
          apply (rule vwp_return)
           apply (auto dest: issued_committed) [1]
          using 3 Some j apply (auto simp: rotates_def access_token_def)
          done
      qed
    qed
  qed (auto intro!: vwp_throw simp: refresh_refusals_def)
qed (auto simp: refresh_refusals_def)

end
