(* ===== verification/AuthReset.thy ===== *)
theory AuthReset
  imports AuthAccounts AuthTokens
begin

text \<open>
  Passwords and the administrator: a profile change stores the password as it was sent, a
  forgotten password is reset by mail, and the seed of the administrator announces nothing.
\<close>

section \<open>Profile changes\<close>

definition changed :: "int \<Rightarrow> UpdateUserDto \<Rightarrow> auth_tables \<Rightarrow> user \<Rightarrow> auth_tables \<Rightarrow> bool" where
  "changed i d t saved t' \<longleftrightarrow>
     (\<exists>u k carrier. row_of us_id i (user_rows t) = Some u \<and> saved = assign_user d (u\<lparr>us_password := None\<rparr>) \<and>
        k \<notin> ob_id ` set (auth_outbox t) \<and>
        t' = t\<lparr>user_rows := put_row us_id (user_row t saved) (user_rows t),
               auth_outbox := auth_outbox t @
                 [new_outbox_row ''user.updated'' (stored_payload carrier (user_event saved)) k]\<rparr>)"

lemma with_event_changed:
  "with_event (save_user (assign_user d (u\<lparr>us_password := None\<rparr>))) ''user.updated'' user_event t a t'
    \<Longrightarrow> row_of us_id i (user_rows t) = Some u \<Longrightarrow> changed i d t a t' \<and> auth_ok t'"
  unfolding with_event_def save_user_def add_event_def changed_def by auto

lemma update_spec:
  assumes E: "auth_contract view signs matches E"
  shows "vwp view
     (\<lambda>v'. committed v' = committed v \<or> (auth_ok (committed v') \<and> (\<exists>a. changed i d (committed v) a (committed v'))))
     (updateUserInfo E i d)
     (\<lambda>a v'. auth_ok (committed v') \<and> changed i d (committed v) a (committed v'))
     (\<lambda>e v'. committed v' = committed v \<and> (is_library_error e \<or> e = NotFoundException ''User not found''))
     v"
  unfolding updateUserInfo_def
proof (rule vwp_bind, rule vwp_reads, rule auth_contractD(2) [OF E], goal_cases)
  case (3 found)
  show ?case
  proof (cases "row_of us_id i (user_rows (committed v))")
    case None
    then show ?thesis using 3 by (auto intro!: vwp_throw)
  next
    case (Some u)
    then have found: "found = Some (u\<lparr>us_password := None\<rparr>)" using 3 by simp
    show ?thesis
      unfolding found option.case
      by (rule vwp_row_and_event [OF E auth_contractD(8) [OF E]])
        (use with_event_changed [OF _ Some] in blast)+
  qed
qed auto

text \<open>A row that was saved with a password has that password.\<close>

lemma changed_password:
  assumes "changed i d t a t'" and "uu_password d = Some p"
  shows "a \<in> set (user_rows t') \<and> us_id a = i \<and> us_password a = Some p"
proof -
  obtain u where u: "row_of us_id i (user_rows t) = Some u" "a = assign_user d (u\<lparr>us_password := None\<rparr>)"
    "user_rows t' = put_row us_id (user_row t a) (user_rows t)"
    using assms(1) by (auto simp: changed_def)
  have p: "us_password a = Some p" using u(2) assms(2) by (simp add: assign_user_def stored_def)
  then have "user_row t a = a" by (simp add: user_row_def)
  moreover have "x \<in> set (put_row us_id x rows)" for x rows
    by (auto simp: put_row_def image_iff)
  moreover have "us_id a = i" using u(1,2) row_of_Some [OF u(1)] by (simp add: assign_user_def)
  ultimately show ?thesis using p u(3) by simp
qed

text \<open>
  C29. A password changed through the profile is stored as it was sent, not as its hash.
  Unless the text happens to be a bcrypt hash of itself, the user cannot log in with it:
  right after the change, a login with the address in the answer and the new password
  is refused.
\<close>

theorem changed_password_locks_out:
  assumes "auth_contract view signs matches E"
    and "uu_password d = Some p" and "run (updateUserInfo E i d) w = (Inr a, w1)"
    and "\<not> matches p p" and "run (login E \<lparr>eu_email = us_email a, eu_password = p\<rparr>) w1 = (r, w2)"
  shows "a \<in> set (user_rows (committed (view w1))) \<and> us_id a = i \<and> us_password a = Some p \<and>
    (\<exists>e. r = Inl e \<and> (is_library_error e \<or> e = UnauthorizedException ''Unauthorized''))"
proof -
  have c: "auth_ok (committed (view w1))" "changed i d (committed (view w)) a (committed (view w1))"
    using vwp_run [OF update_spec [OF assms(1)] assms(3)] by auto
  note a = changed_password [OF c(2) assms(2)]
  have "\<not> entitled matches \<lparr>eu_email = us_email a, eu_password = p\<rparr> (committed (view w1)) u" for u
    by (rule not_entitled [OF c(1)]) (use a assms(4) in \<open>auto simp: has_password_def\<close>)
  then show ?thesis
    using a vwp_run [OF login_spec [OF assms(1) c(1)] assms(5)] by (cases r) auto
qed

definition new_password :: UpdateUserDto where
  "new_password =
     \<lparr>uu_firstName = None, uu_lastName = None, uu_email = None, uu_password = Some ''new'', uu_photo = None,
      uu_documentType = None, uu_documentNumber = None, uu_gender = None, uu_dateOfBirth = None,
      uu_country = None, uu_state = None, uu_city = None\<rparr>"

theorem changed_password_locks_out_witness:
  "\<exists>a w1 e w2. run (updateUserInfo mem_auth 7 new_password) ana_world = (Inr a, w1) \<and>
     run (login mem_auth \<lparr>eu_email = us_email a, eu_password = ''new''\<rparr>) w1 = (Inl e, w2)"
proof -
  obtain r w1 where r: "run (updateUserInfo mem_auth 7 new_password) ana_world = (r, w1)" by fastforce
  have "case fst (run (updateUserInfo mem_auth 7 new_password) ana_world) of Inr a \<Rightarrow> True | Inl e \<Rightarrow> False"
    by code_simp
  then obtain a where a: "r = Inr a" using r by (auto split: sum.splits)
  obtain r2 w2 where 2: "run (login mem_auth \<lparr>eu_email = us_email a, eu_password = ''new''\<rparr>) w1 = (r2, w2)"
    by fastforce
  have "uu_password new_password = Some ''new''" "''new'' \<noteq> mem_hash ''new''"
    by (simp_all add: new_password_def mem_hash_def)
  from changed_password_locks_out [OF mem_auth_contract this(1) r [unfolded a] this(2) 2]
  show ?thesis using r a 2 by blast
qed

section \<open>A forgotten password\<close>

definition addressed :: "string option \<Rightarrow> user \<Rightarrow> bool" where
  "addressed email u \<longleftrightarrow> email = None \<or> email = Some (us_email u)"

text \<open>The hash of a new token in the user's row, and the event that carries the token itself.\<close>

definition reset_requested :: "(jwt_secret \<Rightarrow> jwt_payload \<Rightarrow> string \<Rightarrow> bool) \<Rightarrow> (string \<Rightarrow> string \<Rightarrow> bool)
    \<Rightarrow> user \<Rightarrow> auth_tables \<Rightarrow> auth_tables \<Rightarrow> bool" where
  "reset_requested signs matches u t t' \<longleftrightarrow>
     (\<exists>p token h k carrier. signs JWT_SECRET p token \<and> jp_userId p = Some (us_id u) \<and>
        jp_email p = Some (us_email u) \<and> jp_user p = None \<and> matches token h \<and> k \<notin> ob_id ` set (auth_outbox t) \<and>
        t' = t\<lparr>user_rows := map (\<lambda>x. if us_id x = us_id u then x\<lparr>us_forgotPasswordToken := Some h\<rparr> else x) (user_rows t),
               auth_outbox := auth_outbox t @ [new_outbox_row ''user.password_reset_requested''
                 (stored_payload carrier [(''email'', JStr (us_email u)), (''token'', JStr token)]) k]\<rparr>)"

definition reset_asked :: "(jwt_secret \<Rightarrow> jwt_payload \<Rightarrow> string \<Rightarrow> bool) \<Rightarrow> (string \<Rightarrow> string \<Rightarrow> bool)
    \<Rightarrow> string option \<Rightarrow> auth_tables \<Rightarrow> auth_tables \<Rightarrow> bool" where
  "reset_asked signs matches email t t' \<longleftrightarrow>
     (\<exists>u \<in> set (user_rows t). addressed email u \<and> reset_requested signs matches u t t')"

definition reachable_by :: "auth_tables \<Rightarrow> string option \<Rightarrow> bool" where
  "reachable_by t email \<longleftrightarrow> (\<exists>u \<in> set (user_rows t). addressed email u)"

lemma with_event_reset:
  assumes "with_event (set_token (us_id u) h) ''user.password_reset_requested''
      (\<lambda>_. [(''email'', JStr (us_email u)), (''token'', JStr token)]) t () t'"
    and "matches token h"
    and "signs JWT_SECRET (no_payload\<lparr>jp_userId := Some (us_id u), jp_email := Some (us_email u),
      jp_timestamp := Some now, jp_exp := Some x\<rparr>) token"
  shows "reset_requested signs matches u t t'"
  unfolding reset_requested_def
  by (rule exI, rule exI, rule exI [of _ h]) (use assms in \<open>auto simp: with_event_def set_token_def add_event_def no_payload_def\<close>)

lemma enqueue_return: "bind (enqueue injt sv pat body) Return = enqueue injt sv pat body"
  unfolding enqueue_def bind_assoc by simp

text \<open>A write without an answer, and its event.\<close>

lemma vwp_write_and_event:
  assumes "auth_contract view signs matches E" and "implements view f (auth_in_tx R)"
    and "\<And>v'. committed v' = committed v \<or> with_event R pat (\<lambda>_. body) (committed v) () (committed v') \<Longrightarrow> I v'"
    and "\<And>v'. with_event R pat (\<lambda>_. body) (committed v) () (committed v') \<Longrightarrow> Q () v'"
    and "\<And>e v'. is_library_error e \<Longrightarrow> committed v' = committed v \<Longrightarrow> X e v'"
  shows "vwp view I (transaction (ae_tx E)
     (bind (atom f) (\<lambda>_. enqueue (ae_inject E) (ae_mgr_outbox E) pat body))) Q X v"
proof -
  have "bind (atom f) (\<lambda>_. enqueue (ae_inject E) (ae_mgr_outbox E) pat body) =
      bind (atom f) (\<lambda>a. bind (enqueue (ae_inject E) (ae_mgr_outbox E) pat ((\<lambda>_. body) a)) (\<lambda>_. Return a))"
    by (simp add: enqueue_return)
  then show ?thesis
    using vwp_row_and_event [OF assms(1,2), of v pat "\<lambda>_. body" I Q X] assms(3-5) by simp
qed

lemma forgot_spec:
  assumes E: "auth_contract view signs matches E"
  shows "vwp view
     (\<lambda>v'. committed v' = committed v \<or> reset_asked signs matches email (committed v) (committed v'))
     (forgotPassword E email)
     (\<lambda>a v'. a = genericResponse \<and>
        (if reachable_by (committed v) email then reset_asked signs matches email (committed v) (committed v')
         else committed v' = committed v))
     (\<lambda>e v'. is_library_error e \<and> committed v' = committed v) v"
  unfolding forgotPassword_def
proof (rule vwp_bind, rule vwp_find_email [OF E], goal_cases)
  case (4 u)
  let ?c = "select_user [''id'', ''firstName'', ''lastName'', ''email'', ''password''] u"
  have c: "cr_id ?c = us_id u" "cr_email ?c = Some (us_email u)"
    by (simp_all add: select_user_def selected_def)
  have ev: "reset_event (Some (us_email u)) tok = [(''email'', JStr (us_email u)), (''token'', JStr tok)]" for tok
    by (simp add: reset_event_def)
  have asked: "reset_requested signs matches u (committed v) t' \<Longrightarrow> reset_asked signs matches email (committed v) t'" for t'
    using 4 by (auto simp: reset_asked_def addressed_def)
  have found: "reachable_by (committed v) email"
    using 4 by (auto simp: reachable_by_def addressed_def)
  show ?case
    unfolding option.case c ev
    apply (rule vwp_bind, rule vwp_reads, rule auth_contractD(17) [OF E]; (simp; fail)?)
    apply (rule vwp_bind, rule vwp_reads, rule auth_contractD(12) [OF E]; (simp; fail)?)
    apply (rule vwp_bind, rule vwp_reads, rule auth_contractD(14) [OF E]; (simp; fail)?)
    apply (rule vwp_bind)
    apply (rule vwp_write_and_event [OF E auth_contractD(9) [OF E]])
      apply (auto dest: with_event_reset intro: asked) [1]
     apply (auto dest: with_event_reset simp: found intro: asked intro!: vwp_return) [1]
    apply simp
    done
qed (auto simp: addressed_def reachable_by_def intro!: vwp_return)

text \<open>
  C30. A forgotten password is answered the same way whether or not the address is known. If
  it is, the hash of a new token and the event that carries the token are committed
  together, at every crash point both or neither, and nothing else changes; if it is not,
  nothing changes. A request without an address, which no validation refuses, does the same
  for some user of the database's choice.
\<close>

theorem forgot_password_is_discreet:
  assumes "auth_contract view signs matches E" and "run (forgotPassword E email) w = (r, w')"
  shows "(case r of
      Inr a \<Rightarrow> a = genericResponse \<and>
        (if reachable_by (committed (view w)) email
         then reset_asked signs matches email (committed (view w)) (committed (view w'))
         else committed (view w') = committed (view w))
    | Inl e \<Rightarrow> is_library_error e \<and> committed (view w') = committed (view w))
    \<and> (let t' = committed (view (crash_after n (forgotPassword E email) w)) in
         t' = committed (view w) \<or> reset_asked signs matches email (committed (view w)) t')"
  using vwp_run [OF forgot_spec [OF assms(1)] assms(2)] vwp_crash [OF forgot_spec [OF assms(1)], of n email w]
  by (cases r) (auto simp: Let_def)

theorem forgot_password_is_discreet_witness:
  "\<exists>w'. run (forgotPassword mem_auth (Some ''ana'')) ana_world = (Inr genericResponse, w') \<and>
     reset_asked (\<lambda>s p t. t = mem_token s p) (\<lambda>p h. h = mem_hash p) (Some ''ana'')
       (committed (mem_auth_view ana_world)) (committed (mem_auth_view w'))"
proof -
  obtain r w' where r: "run (forgotPassword mem_auth (Some ''ana'')) ana_world = (r, w')" by fastforce
  have "case fst (run (forgotPassword mem_auth (Some ''ana'')) ana_world) of Inr a \<Rightarrow> True | Inl e \<Rightarrow> False"
    by code_simp
  then obtain a where "r = Inr a" using r by (auto split: sum.splits)
  moreover have "reachable_by (committed (mem_auth_view ana_world)) (Some ''ana'')"
    by (simp add: reachable_by_def addressed_def ana_world_def mem_auth_view_def ana_def)
  ultimately show ?thesis
    using forgot_password_is_discreet [OF mem_auth_contract r] r by auto
qed

section \<open>The reset\<close>

definition reset_user :: "string \<Rightarrow> user \<Rightarrow> user" where
  "reset_user h u = u\<lparr>us_password := Some h, us_forgotPasswordToken := None\<rparr>"

text \<open>The token is signed, names the user, and its hash is stored in the user's row.\<close>

definition reset_permitted :: "(jwt_secret \<Rightarrow> jwt_payload \<Rightarrow> string \<Rightarrow> bool) \<Rightarrow> (string \<Rightarrow> string \<Rightarrow> bool)
    \<Rightarrow> string \<Rightarrow> auth_tables \<Rightarrow> user \<Rightarrow> bool" where
  "reset_permitted signs matches token t u \<longleftrightarrow>
     u \<in> set (user_rows t) \<and> (\<exists>p. signs JWT_SECRET p token \<and> addressed (jp_email p) u) \<and>
     (\<exists>x. us_forgotPasswordToken u = Some x \<and> matches token x)"

definition reset_done :: "(jwt_secret \<Rightarrow> jwt_payload \<Rightarrow> string \<Rightarrow> bool) \<Rightarrow> (string \<Rightarrow> string \<Rightarrow> bool)
    \<Rightarrow> string \<Rightarrow> string \<Rightarrow> auth_tables \<Rightarrow> auth_tables \<Rightarrow> bool" where
  "reset_done signs matches token newPassword t t' \<longleftrightarrow>
     (\<exists>u h. reset_permitted signs matches token t u \<and> matches newPassword h \<and> auth_ok t' \<and>
        t' = t\<lparr>user_rows := put_row us_id (reset_user h u) (user_rows t)\<rparr>)"

definition reset_refusals :: "exn set" where
  "reset_refusals = {BadRequestException ''Invalid token'', BadRequestException ''Token has expired''}"

lemma reset_spec:
  assumes E: "auth_contract view signs matches E" and ok: "auth_ok (committed v)"
  shows "vwp view
     (\<lambda>v'. committed v' = committed v \<or> reset_done signs matches token newPassword (committed v) (committed v'))
     (resetPassword E token newPassword)
     (\<lambda>a v'. reset_done signs matches token newPassword (committed v) (committed v'))
     (\<lambda>e v'. committed v' = committed v \<and> (is_library_error e \<or> e \<in> reset_refusals)) v"
  unfolding resetPassword_def findByEmail_def hashPassword_def repository_update_def
proof (rule vwp_bind, rule vwp_try_catch, rule vwp_reads, rule auth_contractD(13) [OF E], goal_cases)
  case (3 p)
  show ?case
  proof (rule vwp_bind, rule vwp_find_email [OF E], goal_cases)
    case (4 u)
    let ?c = "select_user [''id'', ''firstName'', ''lastName'', ''email'', ''rol'', ''forgotPasswordToken'', ''password''] u"
    have c: "cr_id ?c = us_id u" "cr_forgotPasswordToken ?c = us_forgotPasswordToken u"
      by (simp_all add: select_user_def selected_def)
    have row: "row_of us_id (us_id u) (user_rows (committed v)) = Some u"
      using ok 4 by (simp add: auth_ok_def row_of_eq)
    have save: "save_user ((u\<lparr>us_password := None\<rparr>)\<lparr>us_password := Some h, us_forgotPasswordToken := None\<rparr>) t a t'
        \<longleftrightarrow> a = reset_user h u \<and> t' = t\<lparr>user_rows := put_row us_id (reset_user h u) (user_rows t)\<rparr>" for h a t t'
      by (auto simp: save_user_def user_row_def reset_user_def)
    have finish: "reset_done signs matches token newPassword (committed v) t'"
      if "us_forgotPasswordToken u = Some x" "matches token x" "matches newPassword h" "auth_ok t'"
        "t' = committed v\<lparr>user_rows := put_row us_id (reset_user h u) (user_rows (committed v))\<rparr>" for x h t'
      unfolding reset_done_def reset_permitted_def addressed_def
      using that 3 4 by blast
    show ?case
      unfolding option.case c
      apply (rule vwp_bind, rule vwp_reads, rule auth_contractD(15) [OF E]; (simp; fail)?)
      apply (rule vwp_bind, rule vwp_throw_if; (simp add: reset_refusals_def; fail)?)
      apply (rule vwp_bind, rule vwp_reads, rule auth_contractD(17) [OF E]; (simp; fail)?)
      apply (rule vwp_bind, rule vwp_throw_if; (simp add: reset_refusals_def; fail)?)
      apply (rule vwp_bind, rule vwp_reads, rule auth_contractD(14) [OF E]; (simp; fail)?)
      apply (rule vwp_bind, rule vwp_bind, rule vwp_reads, rule auth_contractD(2) [OF E]; (simp; fail)?)
      apply (simp only: row option.map option.case)
      apply (rule vwp_auth_commit, rule auth_contractD(4) [OF E]; (simp; fail)?)
      apply (unfold save)
      apply (elim exE conjE, intro conjI vwp_return)
        apply (simp, metis finish)+
      done
  qed (auto simp: reset_refusals_def intro!: vwp_throw)
qed (auto simp: reset_refusals_def intro!: vwp_throw)

lemma same_address:
  "auth_ok t \<Longrightarrow> u \<in> set (user_rows t) \<Longrightarrow> u' \<in> set (user_rows t) \<Longrightarrow> us_email u = us_email u' \<Longrightarrow> u = u'"
  unfolding auth_ok_def distinct_map by (auto dest: inj_onD)

lemma in_put_row: "x \<in> set (put_row ident x rows)"
  by (auto simp: put_row_def image_iff)

text \<open>What a reset leaves: the user has the new password and no token.\<close>

lemma after_reset:
  assumes E: "auth_contract view signs matches E" and p: "signs JWT_SECRET p token" "jp_email p = Some m"
    and d: "reset_done signs matches token newPassword t t'"
  shows "auth_ok t' \<and> (\<exists>u \<in> set (user_rows t'). us_email u = m \<and> has_password matches u newPassword \<and>
    us_forgotPasswordToken u = None)"
proof -
  obtain u h q where u: "signs JWT_SECRET q token" "addressed (jp_email q) u" "matches newPassword h" "auth_ok t'"
    "user_rows t' = put_row us_id (reset_user h u) (user_rows t)"
    using d unfolding reset_done_def reset_permitted_def by auto
  have "q = p" by (rule signs_unique [OF E u(1) p(1)])
  then have "us_email u = m" using u(2) p(2) by (simp add: addressed_def)
  then have "us_email (reset_user h u) = m \<and> has_password matches (reset_user h u) newPassword \<and>
      us_forgotPasswordToken (reset_user h u) = None"
    using u(3) by (simp add: reset_user_def has_password_def)
  then show ?thesis using u(4,5) in_put_row by metis
qed

text \<open>Ana has asked for a reset.\<close>

definition ana_reset_world :: auth_world where
  "ana_reset_world = snd (run (forgotPassword mem_auth (Some ''ana'')) ana_world)"

section \<open>The administrator\<close>

definition is_seeded :: "(string \<Rightarrow> string \<Rightarrow> bool) \<Rightarrow> string \<Rightarrow> string \<Rightarrow> auth_tables \<Rightarrow> bool" where
  "is_seeded matches email pw t \<longleftrightarrow>
     (\<exists>u \<in> set (user_rows t). us_email u = email \<and> us_rol u = Some ''admin'' \<and> has_password matches u pw)"

definition others :: "string \<Rightarrow> auth_tables \<Rightarrow> user list" where
  "others email t = filter (\<lambda>u. us_email u \<noteq> email) (user_rows t)"

definition seeded :: "(string \<Rightarrow> string \<Rightarrow> bool) \<Rightarrow> string \<Rightarrow> string \<Rightarrow> auth_tables \<Rightarrow> auth_tables \<Rightarrow> bool" where
  "seeded matches email pw t t' \<longleftrightarrow>
     is_seeded matches email pw t' \<and> auth_ok t' \<and> auth_outbox t' = auth_outbox t \<and> others email t' = others email t"

lemma seeded_insert:
  assumes "insert_user (admin_user email h) t a t'" and "auth_ok t'" and "matches pw h"
  shows "seeded matches email pw t t'"
  using assms
  by (auto simp: insert_user_def seeded_def is_seeded_def others_def admin_user_def has_password_def)

lemma seeded_found:
  assumes ok: "auth_ok t" and u: "u \<in> set (user_rows t)" "us_email u = email"
    and s: "save_found ((select_user [''id'', ''rol'', ''email'', ''password''] u)
      \<lparr>cr_rol := Some ''admin'', cr_password := Some h\<rparr>) t a t'"
    and t': "auth_ok t'" and h: "matches pw h"
  shows "seeded matches email pw t t'"
proof -
  let ?c = "(select_user [''id'', ''rol'', ''email'', ''password''] u)\<lparr>cr_rol := Some ''admin'', cr_password := Some h\<rparr>"
  let ?f = "\<lambda>x. if us_id x = us_id u then found_row ?c x else x"
  have rows: "user_rows t' = map ?f (user_rows t)" "auth_outbox t' = auth_outbox t"
    using s by (simp_all add: save_found_def select_user_def)
  have "?f u = u\<lparr>us_rol := Some ''admin'', us_password := Some h\<rparr>"
    using u(2) by (simp add: found_row_def select_user_def selected_def stored_def given_def)
  moreover have "?f u \<in> set (map ?f (user_rows t))"
    unfolding set_map by (rule image_eqI [where x = u, OF refl u(1)])
  ultimately have "u\<lparr>us_rol := Some ''admin'', us_password := Some h\<rparr> \<in> set (user_rows t')"
    by (simp only: rows(1))
  then have "is_seeded matches email pw t'"
    unfolding is_seeded_def has_password_def by (rule bexI [rotated]) (use u(2) h in simp)
  moreover have only: "x = u" if "x \<in> set (user_rows t)" "us_id x = us_id u" for x
    using ok u(1) that by (auto simp: auth_ok_def dest: distinct_ids_unique)
  have "filter (\<lambda>x. us_email x \<noteq> email) (map ?f xs) = filter (\<lambda>x. us_email x \<noteq> email) xs"
    if "set xs \<subseteq> set (user_rows t)" for xs
    using that u(2)
  proof (induction xs)
    case (Cons x xs)
    then show ?case using only [of x]
      by (auto simp: found_row_def select_user_def selected_def stored_def given_def)
  qed simp
  then have "others email t' = others email t" by (simp add: others_def rows(1))
  ultimately show ?thesis using rows(2) t' by (simp add: seeded_def)
qed

lemma seed_spec:
  assumes E: "auth_contract view signs matches E" and ok: "auth_ok (committed v)" and given: "email \<noteq> []" "pw \<noteq> []"
  shows "vwp view
     (\<lambda>v'. committed v' = committed v \<or> seeded matches email pw (committed v) (committed v'))
     (seed_run E (Some email) (Some pw))
     (\<lambda>_ v'. seeded matches email pw (committed v) (committed v') \<and>
        (is_seeded matches email pw (committed v) \<longrightarrow> committed v' = committed v))
     (\<lambda>e v'. is_library_error e \<and> committed v' = committed v) v"
proof -
  have args: "(Some email = None \<or> Some email = Some [] \<or> Some pw = None \<or> Some pw = Some []) = False"
    using given by simp
  show ?thesis
    unfolding seed_run_def args if_False hashPassword_def doesPasswordMatch_def option.sel
  proof (rule vwp_bind, rule vwp_find_email [OF E], goal_cases)
    case 3
    then have fresh: "\<not> is_seeded matches email pw (committed v)" by (auto simp: is_seeded_def)
    show ?case
      unfolding option.case
      apply (rule vwp_bind, rule vwp_reads, rule auth_contractD(14) [OF E]; (simp; fail)?)
      apply (rule vwp_bind, rule vwp_auth_commit, rule auth_contractD(3) [OF E]; (simp; fail)?)
      apply (auto simp: fresh intro!: vwp_return intro: seeded_insert)
      done
  next
    case (4 u)
    let ?c = "select_user [''id'', ''rol'', ''email'', ''password''] u"
    have c: "cr_password ?c = us_password u" "cr_rol ?c = us_rol u"
      by (simp_all add: select_user_def selected_def)
    have u: "u \<in> set (user_rows (committed v))" "us_email u = email" using 4 by simp_all
    have unique: "is_seeded matches email pw (committed v) \<longleftrightarrow> us_rol u = Some ''admin'' \<and> has_password matches u pw"
    proof
      assume "is_seeded matches email pw (committed v)"
      then obtain u' where u': "u' \<in> set (user_rows (committed v))" "us_email u' = email" "us_rol u' = Some ''admin''"
        "has_password matches u' pw" by (auto simp: is_seeded_def)
      have "u' = u" by (rule same_address [OF ok u'(1) u(1)]) (simp add: u'(2) u(2))
      with u'(3,4) show "us_rol u = Some ''admin'' \<and> has_password matches u pw" by simp
    next
      assume "us_rol u = Some ''admin'' \<and> has_password matches u pw"
      with u show "is_seeded matches email pw (committed v)" unfolding is_seeded_def by blast
    qed
    have keep: "is_seeded matches email pw (committed v) \<Longrightarrow> seeded matches email pw (committed v) (committed v)"
      using ok by (simp add: seeded_def)
    show ?case
      unfolding option.case c
      apply (rule vwp_bind, rule vwp_reads, rule auth_contractD(15) [OF E]; (simp; fail)?)
      apply (rule vwp_if)
       apply (rule vwp_bind, rule vwp_reads, rule auth_contractD(14) [OF E]; (simp; fail)?)
       apply (rule vwp_bind, rule vwp_auth_commit, rule auth_contractD(5) [OF E]; (simp; fail)?)
       apply (auto simp: unique has_password_def intro!: vwp_return intro: seeded_found [OF ok u]) [1]
      apply (rule vwp_return; simp)
      using keep unique apply (auto simp: has_password_def)
      done
  qed auto
qed

text \<open>
  When the seed of the administrator ends, the account with the configured address
  exists, has the role admin and the configured password; the other accounts are as they
  were, and a second run changes nothing. But no event is stored: the outbox is unchanged,
  so no projection of a newly created administrator reaches the farms service, where the
  admin report looks for the role.
\<close>

theorem admin_seed_announces_nothing:
  assumes "auth_contract view signs matches E" and "auth_ok (committed (view w))" and "email \<noteq> []" and "pw \<noteq> []"
    and "run (seed_run E (Some email) (Some pw)) w = (Inr (), w1)"
    and "run (seed_run E (Some email) (Some pw)) w1 = (r, w2)"
  shows "is_seeded matches email pw (committed (view w1)) \<and>
    others email (committed (view w1)) = others email (committed (view w)) \<and>
    auth_outbox (committed (view w1)) = auth_outbox (committed (view w)) \<and>
    committed (view w2) = committed (view w1)"
proof -
  have 1: "seeded matches email pw (committed (view w)) (committed (view w1))"
    using vwp_run [OF seed_spec [OF assms(1-4)] assms(5)] by simp
  then have "auth_ok (committed (view w1))" by (simp add: seeded_def)
  from 1 vwp_run [OF seed_spec [OF assms(1) this assms(3,4)] assms(6)] show ?thesis
    by (cases r) (auto simp: seeded_def)
qed

theorem admin_seed_announces_nothing_witness:
  "\<exists>w1 w2. run (seed_run mem_auth (Some ''root'') (Some ''pw'')) ana_world = (Inr (), w1) \<and>
     run (seed_run mem_auth (Some ''root'') (Some ''pw'')) w1 = (Inr (), w2) \<and>
     auth_outbox (committed (mem_auth_view w1)) = []"
proof -
  let ?p = "seed_run mem_auth (Some ''root'') (Some ''pw'')"
  obtain r w1 where r: "run ?p ana_world = (r, w1)" by fastforce
  have "case fst (run ?p ana_world) of Inr a \<Rightarrow> True | Inl e \<Rightarrow> False" by code_simp
  then have a: "r = Inr ()" using r by (auto split: sum.splits)
  obtain r2 w2 where 2: "run ?p w1 = (r2, w2)" by fastforce
  have "case fst (run ?p (snd (run ?p ana_world))) of Inr a \<Rightarrow> True | Inl e \<Rightarrow> False" by code_simp
  then have b: "r2 = Inr ()" using r 2 by (auto split: sum.splits)
  have "auth_outbox (committed (mem_auth_view ana_world)) = []"
    by (simp add: ana_world_def mem_auth_view_def)
  then show ?thesis
    using admin_seed_announces_nothing [OF mem_auth_contract ana_ok _ _ r [unfolded a] 2] r a 2 b by auto
qed

end
