(* ===== verification/Notifications.thy ===== *)
theory Notifications
  imports TraceFlow UserProjections AuthReset
begin

text \<open>
  The mails (\<open>apps/notifications/src/notifications.controller.ts\<close> and
  \<open>libs/common/src/services/notifications.service.ts\<close>), and the way from an event of the
  auth service to its consumers: the projection of the farms service and the mail.
\<close>

section \<open>The service\<close>

record mail =
  ml_to :: string
  ml_subject :: string
  ml_html :: string

text \<open>\<open>send\<close> logs a failure and throws it on, so that the event is tried again.\<close>

definition send_mail :: "(mail \<Rightarrow> ('w, unit) op) \<Rightarrow> mail \<Rightarrow> ('w, unit) prog" where
  "send_mail mailer message =
     try_catch (bind (atom (mailer message)) (\<lambda>_. Return ())) (\<lambda>err. Throw err)"

definition welcome_mail :: "string \<Rightarrow> string \<Rightarrow> mail" where
  "welcome_mail email name =
     \<lparr>ml_to = email, ml_subject = ''Welcome to HarvestLedger, '' @ name @ ''!'',
      ml_html = ''<b>Welcome '' @ name @ '' to HarvestLedger</b>''\<rparr>"

text \<open>\<open>process.env.FRONTEND_URL\<close> in a template: an unset variable is the word \<open>undefined\<close>.\<close>

definition reset_link :: "string option \<Rightarrow> string \<Rightarrow> string" where
  "reset_link frontend token =
     (case frontend of None \<Rightarrow> ''undefined'' | Some url \<Rightarrow> url) @ ''/home/resetpassword/'' @ token"

definition reset_mail :: "string option \<Rightarrow> string \<Rightarrow> string \<Rightarrow> mail" where
  "reset_mail frontend email token =
     \<lparr>ml_to = email, ml_subject = ''HarvestLedger - Reset Password'',
      ml_html = ''<b>Click <a href=\"'' @ reset_link frontend token @ ''\">here</a> to reset your password</b>''\<rparr>"

definition welcomeEmail :: "(mail \<Rightarrow> ('w, unit) op) \<Rightarrow> string \<Rightarrow> string \<Rightarrow> ('w, unit) prog" where
  "welcomeEmail mailer email name = send_mail mailer (welcome_mail email name)"

definition forgotPasswordEmail :: "(mail \<Rightarrow> ('w, unit) op) \<Rightarrow> string option \<Rightarrow> string \<Rightarrow> string \<Rightarrow> ('w, unit) prog" where
  "forgotPasswordEmail mailer frontend email token = send_mail mailer (reset_mail frontend email token)"

section \<open>The controller\<close>

text \<open>\<open>String.prototype.trim\<close>, on the white space of ASCII.\<close>

definition is_space :: "char \<Rightarrow> bool" where
  "is_space c \<longleftrightarrow> (9 \<le> (of_char c :: nat) \<and> (of_char c :: nat) \<le> 13) \<or> c = CHR '' ''"

definition js_trim :: "string \<Rightarrow> string" where
  "js_trim s = rev (dropWhile is_space (rev (dropWhile is_space s)))"

text \<open>The bodies of the two events, read as their DTOs; \<open>lastName\<close> and \<open>rol\<close> may be null.\<close>

definition null_text :: "json option \<Rightarrow> string option option option" where
  "null_text x =
     (case x of
        None \<Rightarrow> Some None
      | Some JNull \<Rightarrow> Some (Some None)
      | Some (JStr s) \<Rightarrow> Some (Some (Some s))
      | _ \<Rightarrow> None)"

definition user_dto :: "object \<Rightarrow> UserProjectionEventDto option" where
  "user_dto b =
     (case (map_of b ''id'', map_of b ''firstName'', map_of b ''email'',
            null_text (map_of b ''lastName''), null_text (map_of b ''rol'')) of
        (Some (JNum i), Some (JStr f), Some (JStr m), Some l, Some r) \<Rightarrow>
          Some \<lparr>ue_id = i, ue_firstName = f, ue_lastName = l, ue_email = m, ue_rol = r\<rparr>
      | _ \<Rightarrow> None)"

record PasswordResetRequestedDto =
  pr_email :: string
  pr_token :: string

definition reset_dto :: "object \<Rightarrow> PasswordResetRequestedDto option" where
  "reset_dto b =
     (case (map_of b ''email'', map_of b ''token'') of
        (Some (JStr m), Some (JStr t)) \<Rightarrow> Some \<lparr>pr_email = m, pr_token = t\<rparr>
      | _ \<Rightarrow> None)"

definition full_name :: "UserProjectionEventDto \<Rightarrow> string" where
  "full_name d = js_trim (ue_firstName d @ '' '' @ (case or_null (ue_lastName d) of None \<Rightarrow> [] | Some l \<Rightarrow> l))"

definition handleUserCreated :: "(mail \<Rightarrow> ('w, unit) op) \<Rightarrow> UserProjectionEventDto \<Rightarrow> ('w, unit) prog" where
  "handleUserCreated mailer d = welcomeEmail mailer (ue_email d) (full_name d)"

definition handlePasswordResetRequested :: "(mail \<Rightarrow> ('w, unit) op) \<Rightarrow> string option
    \<Rightarrow> PasswordResetRequestedDto \<Rightarrow> ('w, unit) prog" where
  "handlePasswordResetRequested mailer frontend d = forgotPasswordEmail mailer frontend (pr_email d) (pr_token d)"

definition notifications_controller :: "(mail \<Rightarrow> ('w, unit) op) \<Rightarrow> string option \<Rightarrow> string \<Rightarrow> object
    \<Rightarrow> ('w, unit) prog option" where
  "notifications_controller mailer frontend pattern body =
     (if pattern = ''user.created'' then map_option (handleUserCreated mailer) (user_dto body)
      else if pattern = ''user.password_reset_requested''
        then map_option (handlePasswordResetRequested mailer frontend) (reset_dto body)
      else None)"

section \<open>From the auth service to its consumers\<close>

lemma relayed_text:
  "k \<noteq> TRACE_CARRIER_KEY \<Longrightarrow> map_of (relayed_body (new_outbox_row pat (stored_payload carrier body) i)) k = map_of body k"
  by (simp add: relayed_body_def new_outbox_row_def map_of_drop_prop map_of_stored)

lemma carrier_key_fresh:
  "''id'' \<noteq> TRACE_CARRIER_KEY" "''firstName'' \<noteq> TRACE_CARRIER_KEY" "''lastName'' \<noteq> TRACE_CARRIER_KEY"
  "''email'' \<noteq> TRACE_CARRIER_KEY" "''rol'' \<noteq> TRACE_CARRIER_KEY" "''token'' \<noteq> TRACE_CARRIER_KEY"
  by (simp_all add: TRACE_CARRIER_KEY_def)

lemma relayed_user:
  "user_dto (relayed_body (new_outbox_row pat (stored_payload carrier (user_event u)) i)) =
     Some \<lparr>ue_id = us_id u, ue_firstName = us_firstName u, ue_lastName = Some (us_lastName u),
       ue_email = us_email u, ue_rol = Some (us_rol u)\<rparr>"
  by (simp add: user_dto_def relayed_text carrier_key_fresh user_event_def null_text_def json_of_option_def
      split: option.splits)

definition projection_of :: "user \<Rightarrow> user_projection" where
  "projection_of u =
     \<lparr>up_id = us_id u, up_firstName = us_firstName u, up_lastName = us_lastName u,
      up_email = us_email u, up_rol = us_rol u\<rparr>"

text \<open>
  C34. A registration reaches every consumer: the one row it adds to the outbox is routed to
  the farms and the notifications service; what they receive is taken by a handler of each,
  which stores exactly the new user's data as the projection, and sends the welcome mail to
  the registered address.
\<close>

theorem registration_reaches_its_consumers:
  assumes "auth_contract view signs matches E" and "run (register E dto) w = (Inr a, w')"
  shows "\<exists>row d. auth_outbox (committed (view w')) = auth_outbox (committed (view w)) @ [row] \<and>
    clientsFor (auth_targets farms notifications) (ob_pattern row) = [farms, notifications] \<and>
    user_dto (relayed_body row) = Some d \<and>
    projection_controller R (ob_pattern row) d = Some (upsert R d) \<and> projected d = projection_of (ur_user a) \<and>
    notifications_controller mailer frontend (ob_pattern row) (relayed_body row) =
      Some (send_mail mailer (welcome_mail (cu_email dto) (js_trim (cu_firstName dto @ '' '' @ cu_lastName dto))))"
proof -
  obtain u where u: "registered matches dto (committed (view w)) u (committed (view w'))"
    "ur_user a = u\<lparr>us_password := None\<rparr>"
    using vwp_run [OF register_spec [OF assms(1)] assms(2)] by auto
  then obtain i h j carrier where n: "u = new_user dto h i"
    "auth_outbox (committed (view w')) = auth_outbox (committed (view w)) @
       [new_outbox_row ''user.created'' (stored_payload carrier (user_event u)) j]"
    by (auto simp: registered_def)
  let ?row = "new_outbox_row ''user.created'' (stored_payload carrier (user_event u)) j"
  have pat: "ob_pattern ?row = ''user.created''" by (simp add: new_outbox_row_def)
  show ?thesis
    unfolding n(2) pat
    by (rule exI [of _ ?row], rule exI, intro conjI refl, unfold pat, simp add: clientsFor_def auth_targets_def,
        rule relayed_user)
      (simp_all add: projection_controller_def projected_def projection_of_def or_null_def u(2) n(1) new_user_def
        notifications_controller_def relayed_user [unfolded n(1)] handleUserCreated_def welcomeEmail_def full_name_def
        relayed_user split: option.splits)
qed

text \<open>A mailer in memory.\<close>

definition mem_mailer :: "mail \<Rightarrow> (mail list, unit) op" where
  "mem_mailer m box = (Inr (), box @ [m])"

theorem registration_reaches_its_consumers_witness:
  "\<exists>row. auth_outbox (committed (mem_auth_view (snd (run (register mem_auth demo_registration) ana_world)))) = [row] \<and>
     map_option (\<lambda>p. snd (run p [])) (notifications_controller mem_mailer None (ob_pattern row) (relayed_body row))
       = Some [welcome_mail ''bo'' ''Bo Li'']"
proof -
  obtain r w' where r: "run (register mem_auth demo_registration) ana_world = (r, w')" by fastforce
  have "case fst (run (register mem_auth demo_registration) ana_world) of Inr a \<Rightarrow> True | Inl e \<Rightarrow> False"
    by code_simp
  then obtain a where a: "r = Inr a" using r by (auto split: sum.splits)
  have name: "js_trim (cu_firstName demo_registration @ '' '' @ cu_lastName demo_registration) = ''Bo Li''"
    "cu_email demo_registration = ''bo''" "auth_outbox (committed (mem_auth_view ana_world)) = []"
    by code_simp+
  obtain row where row: "auth_outbox (committed (mem_auth_view w')) = [row]"
    "notifications_controller mem_mailer None (ob_pattern row) (relayed_body row) =
       Some (send_mail mem_mailer (welcome_mail ''bo'' ''Bo Li''))"
    using registration_reaches_its_consumers [OF mem_auth_contract r [unfolded a], where mailer = mem_mailer
        and frontend = None and farms = "''f''" and notifications = "''n''" and R = mem_projections] unfolding name by auto
  have "snd (run (send_mail mem_mailer (welcome_mail ''bo'' ''Bo Li'')) []) = [welcome_mail ''bo'' ''Bo Li'']"
    by (simp add: send_mail_def run_simps mem_mailer_def)
  with row r show ?thesis by simp
qed

text \<open>
  C35. The mail of a forgotten password opens the account it was asked for: the one row the
  request adds to the outbox goes to the notifications service only, which sends to the
  given address a link with a token, and the tables the request leaves are such that a
  reset with this token is permitted, for the user with that address and for nobody else.
\<close>

theorem reset_mail_opens_the_account:
  assumes "auth_contract view signs matches E" and "auth_ok (committed (view w))"
    and "run (forgotPassword E (Some m)) w = (Inr a, w')" and "taken (committed (view w)) m"
  shows "\<exists>row token u. auth_outbox (committed (view w')) = auth_outbox (committed (view w)) @ [row] \<and>
    clientsFor (auth_targets farms notifications) (ob_pattern row) = [notifications] \<and>
    notifications_controller mailer frontend (ob_pattern row) (relayed_body row) =
      Some (send_mail mailer (reset_mail frontend m token)) \<and>
    us_email u = m \<and>
    (\<forall>u'. reset_permitted signs matches token (committed (view w')) u' \<longleftrightarrow> u' = u)"
proof -
  let ?t = "committed (view w)" and ?t' = "committed (view w')"
  have "reachable_by ?t (Some m)"
    using assms(4) by (auto simp: taken_def reachable_by_def addressed_def)
  then obtain u0 where u0: "u0 \<in> set (user_rows ?t)" "us_email u0 = m" "reset_requested signs matches u0 ?t ?t'"
    using vwp_run [OF forgot_spec [OF assms(1)] assms(3)] by (auto simp: reset_asked_def addressed_def)
  then obtain p token h k carrier where p: "signs JWT_SECRET p token" "jp_email p = Some m" "matches token h"
    "user_rows ?t' = map (\<lambda>x. if us_id x = us_id u0 then x\<lparr>us_forgotPasswordToken := Some h\<rparr> else x) (user_rows ?t)"
    "auth_outbox ?t' = auth_outbox ?t @ [new_outbox_row ''user.password_reset_requested''
       (stored_payload carrier [(''email'', JStr m), (''token'', JStr token)]) k]"
    by (auto simp: reset_requested_def)
  let ?row = "new_outbox_row ''user.password_reset_requested''
       (stored_payload carrier [(''email'', JStr m), (''token'', JStr token)]) k"
  let ?u = "u0\<lparr>us_forgotPasswordToken := Some h\<rparr>"
  have only: "x = u0" if "x \<in> set (user_rows ?t)" "us_email x = m \<or> us_id x = us_id u0" for x
    using that u0(1,2) assms(2) same_address [OF assms(2) that(1) u0(1)]
    by (auto simp: auth_ok_def dest: distinct_ids_unique)
  have perm: "reset_permitted signs matches token ?t' u' \<longleftrightarrow> u' = ?u" for u'
  proof
    assume r: "reset_permitted signs matches token ?t' u'"
    then obtain q where q: "signs JWT_SECRET q token" "addressed (jp_email q) u'" "u' \<in> set (user_rows ?t')"
      by (auto simp: reset_permitted_def)
    have "q = p" by (rule signs_unique [OF assms(1) q(1) p(1)])
    then have "us_email u' = m" using q(2) p(2) by (simp add: addressed_def)
    with q(3) only show "u' = ?u" unfolding p(4) by (auto split: if_splits)
  next
    assume "u' = ?u"
    moreover have "?u \<in> set (user_rows ?t')" unfolding p(4) using u0(1) by (auto simp: image_iff)
    ultimately show "reset_permitted signs matches token ?t' u'"
      using p(1-3) u0(2) by (auto simp: reset_permitted_def addressed_def)
  qed
  have pat: "ob_pattern ?row = ''user.password_reset_requested''" by (simp add: new_outbox_row_def)
  have dto: "reset_dto (relayed_body ?row) = Some \<lparr>pr_email = m, pr_token = token\<rparr>"
    by (simp add: reset_dto_def relayed_text carrier_key_fresh)
  show ?thesis
    by (rule exI [of _ ?row], rule exI [of _ token], rule exI [of _ ?u])
      (simp add: pat dto perm p(5) u0(2) clientsFor_def auth_targets_def notifications_controller_def
        handlePasswordResetRequested_def forgotPasswordEmail_def)
qed

theorem reset_mail_opens_the_account_witness:
  "\<exists>row token. auth_outbox (committed (mem_auth_view ana_reset_world)) = [row] \<and>
     map_option (\<lambda>p. snd (run p [])) (notifications_controller mem_mailer (Some ''https://hl'') (ob_pattern row) (relayed_body row))
       = Some [reset_mail (Some ''https://hl'') ''ana'' token]"
proof -
  obtain r w' where r: "run (forgotPassword mem_auth (Some ''ana'')) ana_world = (r, w')" by fastforce
  have "case fst (run (forgotPassword mem_auth (Some ''ana'')) ana_world) of Inr a \<Rightarrow> True | Inl e \<Rightarrow> False"
    by code_simp
  then obtain a where a: "r = Inr a" using r by (auto split: sum.splits)
  have w': "ana_reset_world = w'" using r by (simp add: ana_reset_world_def)
  have t: "taken (committed (mem_auth_view ana_world)) ''ana''" "auth_outbox (committed (mem_auth_view ana_world)) = []"
    by code_simp+
  obtain row token where row: "auth_outbox (committed (mem_auth_view w')) = [row]"
    "notifications_controller mem_mailer (Some ''https://hl'') (ob_pattern row) (relayed_body row) =
       Some (send_mail mem_mailer (reset_mail (Some ''https://hl'') ''ana'' token))"
    using reset_mail_opens_the_account [OF mem_auth_contract ana_ok r [unfolded a] t(1), where mailer = mem_mailer
        and frontend = "Some ''https://hl''" and farms = "''f''" and notifications = "''n''"] unfolding t(2) by auto
  have "snd (run (send_mail mem_mailer x) []) = [x]" for x
    by (simp add: send_mail_def run_simps mem_mailer_def)
  with row w' show ?thesis by auto
qed

end
