(* ===== verification/EventValidation.thy ===== *)
theory EventValidation
  imports Validation Notifications TraceFlow
begin

text \<open>
  The validation of events. A consumer runs the same pipe as the gateway
  (\<open>libs/common/src/rmq/configure-microservice.ts\<close>), so an event with a property that its DTO
  does not declare is refused, retried and at last parked. The DTOs of the events declare
  every property with \<open>@Allow()\<close>: they are let through and not checked.
\<close>

section \<open>The DTOs\<close>

definition tracing_payload_schema :: schema where
  "tracing_payload_schema =
     [(''cropId'', [Allow]), (''farmId'', [Allow]), (''userId'', [Allow]), (''payload'', [Allow])]"

definition user_projection_schema :: schema where
  "user_projection_schema =
     [(''id'', [Allow]), (''firstName'', [Allow]), (''lastName'', [Allow]), (''email'', [Allow]), (''rol'', [Allow])]"

definition reset_requested_schema :: schema where
  "reset_requested_schema = [(''email'', [Allow]), (''token'', [Allow])]"

section \<open>What producer and consumer owe each other\<close>

text \<open>
  The producer's events have only properties that the consumer's DTO declares, the DTO checks
  nothing, and it does not know the relay's carrier.
\<close>

locale event_channel =
  fixes event :: "'a \<Rightarrow> object" and dto_schema :: schema
  assumes declared_all: "list_all (\<lambda>(k, v). map_of dto_schema k \<noteq> None) (event x)"
    and lenient_all: "list_all (\<lambda>(k, cs). cs = [Allow]) dto_schema"
    and no_carrier: "map_of dto_schema TRACE_CARRIER_KEY = None"
begin

lemma declared: "(k, v) \<in> set (event x) \<Longrightarrow> map_of dto_schema k \<noteq> None"
  using declared_all [of x] by (auto simp: list_all_iff)

lemma lenient: "(k, cs) \<in> set dto_schema \<Longrightarrow> cs = [Allow]"
  using lenient_all by (auto simp: list_all_iff)

lemma no_carrier_prop: "map_of (event x) TRACE_CARRIER_KEY = None"
proof (cases "map_of (event x) TRACE_CARRIER_KEY")
  case (Some v)
  then have "(TRACE_CARRIER_KEY, v) \<in> set (event x)" by (rule map_of_SomeD)
  with declared no_carrier show ?thesis by blast
qed

lemma stripped: "drop_prop TRACE_CARRIER_KEY (stored_payload carrier (event x)) = event x"
  using no_carrier_prop by (simp add: stored_payload_def drop_set_prop drop_prop_absent)

lemma relayed: "relayed_body (new_outbox_row pat (stored_payload carrier (event x)) i) = event x"
  using stripped by (simp add: relayed_body_def new_outbox_row_def)

lemma accepted: "accepts is_email dto_schema (event x)"
proof -
  have "prop_ok is_email cs v" if "(k, cs) \<in> set dto_schema" for k cs v
    using lenient [OF that] by (simp add: prop_ok_def)
  then have "list_all (\<lambda>(k, cs). prop_ok is_email cs (map_of (event x) k)) dto_schema"
    by (auto simp: list_all_iff)
  with declared_all show ?thesis by (simp add: accepts_def buildValidationPipe_def)
qed

lemma carrier_refused:
  assumes "carrier \<noteq> []"
  shows "\<not> accepts is_email dto_schema (stored_payload carrier (event x))"
proof -
  have "map_of (stored_payload carrier (event x)) TRACE_CARRIER_KEY = Some (carrier_json carrier)"
    using assms by (simp add: stored_payload_def map_of_set_prop)
  then have "(TRACE_CARRIER_KEY, carrier_json carrier) \<in> set (stored_payload carrier (event x))"
    by (rule map_of_SomeD)
  then have "\<not> list_all (\<lambda>(k, v). map_of dto_schema k \<noteq> None) (stored_payload carrier (event x))"
    using no_carrier by (force simp: list_all_iff)
  then show ?thesis by (simp add: accepts_def buildValidationPipe_def)
qed

end

text \<open>The events of the two services, each with the DTO of its consumers.\<close>

interpretation crop_events: event_channel "\<lambda>(f, c). crop_event f c" tracing_payload_schema
  by (unfold_locales; simp add: crop_event_def tracing_payload_schema_def TRACE_CARRIER_KEY_def split: prod.splits option.splits)

interpretation chain_events: event_channel "\<lambda>(k, c, p). chain_event k c p" tracing_payload_schema
  by (unfold_locales; simp add: chain_event_def num_prop_def tracing_payload_schema_def TRACE_CARRIER_KEY_def split: prod.splits option.splits)

interpretation user_events: event_channel user_event user_projection_schema
  by (unfold_locales; simp add: user_event_def user_projection_schema_def TRACE_CARRIER_KEY_def split: prod.splits option.splits)

interpretation reset_events: event_channel "\<lambda>(m, t). reset_event m t" reset_requested_schema
  by (unfold_locales; simp add: reset_event_def reset_requested_schema_def TRACE_CARRIER_KEY_def split: prod.splits option.splits)

section \<open>The events of a command\<close>

definition trace_event :: "object \<Rightarrow> bool" where
  "trace_event ev \<longleftrightarrow> (\<exists>f c. ev = crop_event f c) \<or> (\<exists>k c p. ev = chain_event k c p)"

lemma command_event:
  assumes "service_effect cmd t a t'" and "announces cmd = Some pat"
  shows "\<exists>ev carrier i. outbox_rows t' = outbox_rows t @ [new_outbox_row pat (stored_payload carrier ev) i] \<and> trace_event ev"
  using assms by (cases cmd rule: announces.cases) (auto simp: trace_event_def; blast)+

lemma trace_event_relayed:
  assumes "trace_event ev"
  shows "relayed_body (new_outbox_row pat (stored_payload carrier ev) i) = ev"
    and "accepts is_email tracing_payload_schema ev"
    and "carrier \<noteq> [] \<Longrightarrow> \<not> accepts is_email tracing_payload_schema (stored_payload carrier ev)"
  using assms crop_events.relayed crop_events.accepted crop_events.carrier_refused
    chain_events.relayed chain_events.accepted chain_events.carrier_refused
  by (auto simp: trace_event_def)

text \<open>
  C37. Every event passes the validation of its consumers: the row a creation leaves in the
  outbox of the farms service is, as the relay sends it, accepted by the tracing service,
  and so is every event about a user and every request for a reset by theirs. What makes
  this true is that the relay takes the trace carrier out of the body: with it, every
  event stored under an active trace would be refused.
\<close>

theorem relayed_events_pass_the_pipe:
  assumes "farms_contract view E" and "tables_ok (committed (view w))"
    and "run (farms_service E cmd) w = (Inr a, w')" and "announces cmd = Some pat"
  shows "(\<exists>row. outbox_rows (committed (view w')) = outbox_rows (committed (view w)) @ [row]
      \<and> accepts is_email tracing_payload_schema (relayed_body row)
      \<and> (map_of (ob_payload row) TRACE_CARRIER_KEY \<noteq> None \<longrightarrow> \<not> accepts is_email tracing_payload_schema (ob_payload row)))
   \<and> accepts is_email user_projection_schema (relayed_body (new_outbox_row p (stored_payload carrier (user_event u)) i))
   \<and> accepts is_email reset_requested_schema (relayed_body (new_outbox_row p (stored_payload carrier (reset_event m tok)) i))
   \<and> (carrier \<noteq> [] \<longrightarrow> \<not> accepts is_email user_projection_schema (stored_payload carrier (user_event u))
        \<and> \<not> accepts is_email reset_requested_schema (stored_payload carrier (reset_event m tok)))"
proof -
  obtain ev c j where row: "outbox_rows (committed (view w')) =
      outbox_rows (committed (view w)) @ [new_outbox_row pat (stored_payload c ev) j]" and ev: "trace_event ev"
    using farms_refines_run(2) [OF service_refines [OF assms(1)] assms(2,3)] command_event assms(4) by blast
  have "map_of ev TRACE_CARRIER_KEY = None"
    using trace_event_relayed(1) [OF ev, of pat "[]" j]
    by (metis map_of_drop_prop new_outbox_row_def outbox_row.select_convs(3) relayed_body_def)
  then have "map_of (ob_payload (new_outbox_row pat (stored_payload c ev) j)) TRACE_CARRIER_KEY \<noteq> None \<longrightarrow> c \<noteq> []"
    by (auto simp: new_outbox_row_def stored_payload_def)
  then show ?thesis
    using row trace_event_relayed [OF ev] user_events.relayed user_events.accepted user_events.carrier_refused
      reset_events.relayed [of p carrier "(m, tok)" i] reset_events.accepted [of _ "(m, tok)"]
      reset_events.carrier_refused [of carrier _ "(m, tok)"]
    by (auto simp: new_outbox_row_def)
qed

theorem relayed_events_pass_the_pipe_witness:
  "\<exists>row. outbox_rows (committed (snd (run (farms_service mem_farms (CropsCmd (CreateCrop 7 demo_crop_dto))) demo_view)))
      = outbox_rows demo_tables @ [row]
    \<and> accepts (\<lambda>_. True) tracing_payload_schema (relayed_body row)"
proof -
  let ?cmd = "CropsCmd (CreateCrop 7 demo_crop_dto)"
  have "case fst (run (farms_service mem_farms ?cmd) demo_view) of Inr a \<Rightarrow> True | Inl e \<Rightarrow> False" by code_simp
  then obtain a v' where run: "run (farms_service mem_farms ?cmd) demo_view = (Inr a, v')"
    by (cases "run (farms_service mem_farms ?cmd) demo_view") (auto split: sum.splits)
  have "announces ?cmd = Some ''crop.initialized''" by simp
  note relayed_events_pass_the_pipe [OF mem_farms_contract demo_ok run this, of "\<lambda>_. True", THEN conjunct1]
  then show ?thesis
    unfolding run id_apply by (auto simp: demo_view_def)
qed

end
