(* ===== verification/ValidatedRoutes.thy ===== *)
theory ValidatedRoutes
  imports Validation
begin

text \<open>
  The gateway's routes with a body, with the validation in place: the pipe on the decorators
  of the DTO, of a creation or of an update, and the command of the farms service that comes
  of it.
\<close>

section \<open>The DTOs of the updates\<close>

text \<open>
  \<open>UpdateFarmDto\<close> and the others are \<open>PartialType\<close>s: a property may be absent, and one that is
  given reads as in the DTO of the creation. Null is let through as well, and is no value of
  the column.
\<close>

definition maybe :: "(string \<Rightarrow> object \<Rightarrow> 'a option) \<Rightarrow> string \<Rightarrow> object \<Rightarrow> 'a option option" where
  "maybe rd k b = (case map_of b k of None \<Rightarrow> Some None | Some v \<Rightarrow> map_option Some (rd k b))"

definition state_of :: "string \<Rightarrow> object \<Rightarrow> FarmState option" where
  "state_of k b = Option.bind (num_of k b) farm_state_of"

definition to_UpdateFarmDto :: "object \<Rightarrow> UpdateFarmDto option" where
  "to_UpdateFarmDto b =
     Option.bind (maybe text_of ''name'' b) (\<lambda>n. Option.bind (maybe text_of ''location'' b) (\<lambda>l.
     Option.bind (maybe state_of ''state'' b) (\<lambda>st. Option.bind (maybe num_of ''area'' b) (\<lambda>a.
     Some \<lparr>uf_name = n, uf_location = l, uf_state = st, uf_area = a\<rparr>))))"

definition to_UpdateCropDto :: "object \<Rightarrow> UpdateCropDto option" where
  "to_UpdateCropDto b =
     Option.bind (maybe text_of ''name'' b) (\<lambda>n. Option.bind (maybe text_of ''product'' b) (\<lambda>p.
     Option.bind (maybe num_of ''size'' b) (\<lambda>z. Option.bind (maybe text_of ''location'' b) (\<lambda>l.
     Option.bind (maybe text_of ''sowingDate'' b) (\<lambda>d. Option.bind (maybe num_of ''plants'' b) (\<lambda>k.
     Option.bind (maybe num_of ''farmId'' b) (\<lambda>i.
     Some \<lparr>uc_name = n, uc_product = p, uc_size = z, uc_location = l, uc_sowingDate = d, uc_plants = k,
           uc_farmId = i\<rparr>)))))))"

definition to_UpdateActivityDto :: "object \<Rightarrow> UpdateActivityDto option" where
  "to_UpdateActivityDto b =
     Option.bind (maybe num_of ''cropId'' b) (\<lambda>i. Option.bind (maybe opt_text_of ''type'' b) (\<lambda>ty.
     Option.bind (maybe opt_text_of ''inputDate'' b) (\<lambda>d. Option.bind (maybe opt_text_of ''title'' b) (\<lambda>t.
     Option.bind (maybe opt_text_of ''manufactureLocation'' b) (\<lambda>m. Option.bind (maybe opt_text_of ''appRatio'' b) (\<lambda>r.
     Option.bind (maybe opt_text_of ''appMethod'' b) (\<lambda>am. Option.bind (maybe opt_text_of ''comment'' b) (\<lambda>c.
     Option.bind (maybe opt_text_of ''category'' b) (\<lambda>g. Option.bind (maybe opt_text_of ''bioName'' b) (\<lambda>bn.
     Option.bind (maybe opt_text_of ''bioType'' b) (\<lambda>bt.
     Some \<lparr>ua_cropId = i, ua_type = ty, ua_inputDate = d, ua_title = t, ua_manufactureLocation = m,
           ua_appRatio = r, ua_appMethod = am, ua_comment = c, ua_category = g, ua_bioName = bn,
           ua_bioType = bt\<rparr>)))))))))))"

definition to_UpdateHarvestDto :: "object \<Rightarrow> UpdateHarvestDto option" where
  "to_UpdateHarvestDto b =
     Option.bind (maybe text_of ''harvestDate'' b) (\<lambda>d. Option.bind (maybe num_of ''amount'' b) (\<lambda>n.
     Option.bind (maybe text_of ''unit'' b) (\<lambda>u. Option.bind (maybe text_of ''category'' b) (\<lambda>c.
     Option.bind (maybe opt_text_of ''description'' b) (\<lambda>ds. Option.bind (maybe num_of ''cropId'' b) (\<lambda>i.
     Some \<lparr>uh_harvestDate = d, uh_amount = n, uh_unit = u, uh_category = c, uh_description = ds, uh_cropId = i\<rparr>))))))"

text \<open>Optional once more: a check that may be skipped, or the check itself.\<close>

lemma prop_ok_partial:
  "prop_ok is_email (IsOptional # cs) v \<longleftrightarrow> v = None \<or> v = Some JNull \<or> prop_ok is_email cs v"
  by (auto simp: prop_ok_def)

text \<open>So a null is let through for every declared property, for a column that is not nullable too.\<close>

lemma null_accepted:
  assumes "map_of sch k \<noteq> None"
  shows "accepts is_email (PartialType sch) [(k, JNull)]"
proof -
  have "map_of (PartialType sch) k = map_option (Cons IsOptional) (map_of sch k)"
    unfolding PartialType_def by (induction sch) auto
  with assms show ?thesis
    by (auto simp: accepts_def buildValidationPipe_def prop_ok_partial PartialType_def list_all_iff)
qed

definition no_null :: "object \<Rightarrow> bool" where
  "no_null b \<longleftrightarrow> list_all (\<lambda>(k, v). v \<noteq> JNull) b"

lemma no_null_prop: "no_null b \<Longrightarrow> map_of b k \<noteq> Some JNull"
  by (auto simp: no_null_def list_all_iff dest: map_of_SomeD)

lemma partial_typed:
  assumes "accepts is_email (PartialType sch) b" and "no_null b" and "(k, cs) \<in> set sch"
    and "prop_ok is_email cs (map_of b k) \<Longrightarrow> \<exists>x. rd k b = Some x"
  shows "\<exists>x. maybe rd k b = Some x"
proof -
  have "prop_ok is_email (IsOptional # cs) (map_of b k)"
    using accepts_all [OF assms(1)] assms(3) by (auto simp: PartialType_def list_all_iff)
  then show ?thesis
    using assms(4) no_null_prop [OF assms(2), of k] by (auto simp: prop_ok_partial maybe_def split: option.splits)
qed

lemma activity_update_typed:
  assumes "accepts is_email (PartialType activity_schema) b" and "no_null b"
  shows "\<exists>d. to_UpdateActivityDto b = Some d"
proof -
  note typed = partial_typed [OF assms]
  have "list_all (\<lambda>k. \<exists>x. maybe opt_text_of k b = Some x)
      [''type'', ''inputDate'', ''title'', ''manufactureLocation'', ''appRatio'', ''appMethod'', ''comment'',
       ''category'', ''bioName'', ''bioType'']"
    unfolding list_all_iff by (intro ballI typed [of _ "[IsString, IsOptional]"]) (auto simp: activity_schema_def)
  moreover have "\<exists>x. maybe num_of ''cropId'' b = Some x"
    by (rule typed [of _ "[IsNumber]"]) (simp_all add: activity_schema_def)
  ultimately show ?thesis
    by (clarsimp simp: to_UpdateActivityDto_def)
qed

lemma harvest_update_typed:
  assumes "accepts is_email (PartialType harvest_schema) b" and "no_null b"
  shows "\<exists>d. to_UpdateHarvestDto b = Some d"
proof -
  note typed = partial_typed [OF assms]
  have "list_all (\<lambda>k. \<exists>x. maybe text_of k b = Some x) [''harvestDate'', ''unit'', ''category'']"
    unfolding list_all_iff by (intro ballI typed [of _ "[IsString]"]) (auto simp: harvest_schema_def)
  moreover have "list_all (\<lambda>k. \<exists>x. maybe num_of k b = Some x) [''amount'', ''cropId'']"
    unfolding list_all_iff by (intro ballI typed [of _ "[IsNumber]"]) (auto simp: harvest_schema_def)
  moreover have "\<exists>x. maybe opt_text_of ''description'' b = Some x"
    by (rule typed [of _ "[IsOptional, IsString]"]) (simp_all add: harvest_schema_def)
  ultimately show ?thesis
    by (clarsimp simp: to_UpdateHarvestDto_def)
qed

section \<open>Pipes that validate\<close>

text \<open>
  A pipe hands on what the validation accepts, as the value the body stands for, and throws
  what the validation throws. A body that is accepted and is no value of the DTO's type (a
  state given by name, a sowing date that is no text, a null in an update) is not
  constrained. \<open>ParseIntPipe\<close> refuses with a 400.
\<close>

definition validates :: "(string \<Rightarrow> bool) \<Rightarrow> schema \<Rightarrow> (object \<Rightarrow> 'd option) \<Rightarrow> (json \<Rightarrow> exn + 'd) \<Rightarrow> bool" where
  "validates is_email sch read f \<longleftrightarrow>
     (\<forall>b. case buildValidationPipe is_email sch b of
        Inl e \<Rightarrow> f (JObj b) = Inl e
      | Inr x \<Rightarrow> \<forall>d. read x = Some d \<longrightarrow> f (JObj b) = Inr d)"

definition validating_pipes :: "(string \<Rightarrow> bool) \<Rightarrow> pipes \<Rightarrow> bool" where
  "validating_pipes is_email P \<longleftrightarrow>
     validates is_email farm_schema to_CreateFarmDto (valid_CreateFarmDto P) \<and>
     validates is_email (PartialType farm_schema) to_UpdateFarmDto (valid_UpdateFarmDto P) \<and>
     validates is_email crop_schema to_CreateCropDto (valid_CreateCropDto P) \<and>
     validates is_email (PartialType crop_schema) to_UpdateCropDto (valid_UpdateCropDto P) \<and>
     validates is_email activity_schema to_CreateActivityDto (valid_CreateActivityDto P) \<and>
     validates is_email (PartialType activity_schema) to_UpdateActivityDto (valid_UpdateActivityDto P) \<and>
     validates is_email harvest_schema to_CreateHarvestDto (valid_CreateHarvestDto P) \<and>
     validates is_email (PartialType harvest_schema) to_UpdateHarvestDto (valid_UpdateHarvestDto P) \<and>
     (\<forall>s e. parse_int P s = Inl e \<longrightarrow> (\<exists>m. e = BadRequestException m))"

text \<open>
  The routes with a body: its schema, the query parameter that names the record to change,
  and the command it stands for, given the user and that record.
\<close>

fun body_schema :: "route \<Rightarrow> schema option" where
  "body_schema (FarmsRoute PostFarm) = Some farm_schema"
| "body_schema (FarmsRoute PatchFarm) = Some (PartialType farm_schema)"
| "body_schema (CropsRoute PostCrop) = Some crop_schema"
| "body_schema (CropsRoute PatchCrop) = Some (PartialType crop_schema)"
| "body_schema (ActivitiesRoute PostActivity) = Some activity_schema"
| "body_schema (ActivitiesRoute PatchActivity) = Some (PartialType activity_schema)"
| "body_schema (HarvestsRoute PostHarvest) = Some harvest_schema"
| "body_schema (HarvestsRoute PatchHarvest) = Some (PartialType harvest_schema)"
| "body_schema _ = None"

fun id_query :: "route \<Rightarrow> string option" where
  "id_query (FarmsRoute PatchFarm) = Some ''farmId''"
| "id_query (CropsRoute PatchCrop) = Some ''cropId''"
| "id_query (ActivitiesRoute PatchActivity) = Some ''activityId''"
| "id_query (HarvestsRoute PatchHarvest) = Some ''harvestId''"
| "id_query _ = None"

fun body_command :: "route \<Rightarrow> object \<Rightarrow> (int \<Rightarrow> int \<Rightarrow> farms_command) option" where
  "body_command (FarmsRoute PostFarm) b = map_option (\<lambda>d u i. FarmsCmd (CreateFarm u d)) (to_CreateFarmDto b)"
| "body_command (FarmsRoute PatchFarm) b = map_option (\<lambda>d u i. FarmsCmd (UpdateFarm u d i)) (to_UpdateFarmDto b)"
| "body_command (CropsRoute PostCrop) b = map_option (\<lambda>d u i. CropsCmd (CreateCrop u d)) (to_CreateCropDto b)"
| "body_command (CropsRoute PatchCrop) b = map_option (\<lambda>d u i. CropsCmd (UpdateCrop u d i)) (to_UpdateCropDto b)"
| "body_command (ActivitiesRoute PostActivity) b =
     map_option (\<lambda>d u i. ActivitiesCmd (CreateActivity u d)) (to_CreateActivityDto b)"
| "body_command (ActivitiesRoute PatchActivity) b =
     map_option (\<lambda>d u i. ActivitiesCmd (UpdateActivity u d i)) (to_UpdateActivityDto b)"
| "body_command (HarvestsRoute PostHarvest) b =
     map_option (\<lambda>d u i. HarvestsCmd (CreateHarvest u d)) (to_CreateHarvestDto b)"
| "body_command (HarvestsRoute PatchHarvest) b =
     map_option (\<lambda>d u i. HarvestsCmd (UpdateHarvest u d i)) (to_UpdateHarvestDto b)"
| "body_command _ b = None"

lemma validates_refused:
  assumes "validates is_email sch read f" and "\<not> accepts is_email sch b"
  shows "\<exists>m. f (JObj b) = Inl (BadRequestException m)"
  using assms(1) [unfolded validates_def, THEN spec, of b] assms(2)
  by (auto simp: accepts_def buildValidationPipe_def split: if_splits)

lemma validates_accepted:
  assumes "validates is_email sch read f" and "accepts is_email sch b" and "read b = Some d"
  shows "f (JObj b) = Inr d"
  using assms(1) [unfolded validates_def, THEN spec, of b] assms(2,3) by (simp add: accepts_def)

text \<open>Each conjunct of \<open>validating_pipes\<close> by itself.\<close>

lemma validating_pipesD:
  assumes "validating_pipes is_email P"
  shows "validates is_email farm_schema to_CreateFarmDto (valid_CreateFarmDto P)"
    and "validates is_email (PartialType farm_schema) to_UpdateFarmDto (valid_UpdateFarmDto P)"
    and "validates is_email crop_schema to_CreateCropDto (valid_CreateCropDto P)"
    and "validates is_email (PartialType crop_schema) to_UpdateCropDto (valid_UpdateCropDto P)"
    and "validates is_email activity_schema to_CreateActivityDto (valid_CreateActivityDto P)"
    and "validates is_email (PartialType activity_schema) to_UpdateActivityDto (valid_UpdateActivityDto P)"
    and "validates is_email harvest_schema to_CreateHarvestDto (valid_CreateHarvestDto P)"
    and "validates is_email (PartialType harvest_schema) to_UpdateHarvestDto (valid_UpdateHarvestDto P)"
    and "query_int P rq k = Inl e \<Longrightarrow> \<exists>m. e = BadRequestException m"
  using assms by (simp_all add: validating_pipes_def query_int_def)

lemma body_refused_first:
  assumes "validates is_email sch rd f" and "\<not> accepts is_email sch b"
  shows "\<exists>m. and_then (f (JObj b)) g = Inl (BadRequestException m)"
  using validates_refused [OF assms] by auto

lemma body_refused_after_id:
  assumes "validates is_email sch rd f" and "\<not> accepts is_email sch b" and "validating_pipes is_email P"
  shows "\<exists>m. and_then (query_int P rq k) (\<lambda>i. and_then (f (JObj b)) (g i)) = Inl (BadRequestException m)"
  using validates_refused [OF assms(1,2)] validating_pipesD(9) [OF assms(3), of rq k] by (cases "query_int P rq k") auto

lemma body_refused:
  assumes P: "validating_pipes is_email P" and "body_schema route = Some sch" and "rq_body rq = JObj b"
    and "\<not> accepts is_email sch b"
  shows "\<exists>m. gw_route P rq user route = Inl (BadRequestException m)"
  by (insert assms(2-4); cases route rule: body_schema.cases; clarsimp;
      (rule body_refused_first [OF validating_pipesD(1) [OF P]] body_refused_first [OF validating_pipesD(3) [OF P]]
         body_refused_first [OF validating_pipesD(5) [OF P]] body_refused_first [OF validating_pipesD(7) [OF P]]
       | rule body_refused_after_id [OF validating_pipesD(2) [OF P] _ P] body_refused_after_id [OF validating_pipesD(4) [OF P] _ P]
         body_refused_after_id [OF validating_pipesD(6) [OF P] _ P] body_refused_after_id [OF validating_pipesD(8) [OF P] _ P]); assumption)

lemma body_accepted:
  assumes P: "validating_pipes is_email P" and "body_schema route = Some sch" and "rq_body rq = JObj b"
    and "accepts is_email sch b" and "body_command route b = Some c"
    and "gw_route P rq (Some u) route = Inr m"
  shows "\<exists>i. farms_handlers (fst m) (snd m) = Some (c (cl_id u) i)
    \<and> (\<forall>k. id_query route = Some k \<longrightarrow> query_int P rq k = Inr i)"
  using assms(2-6)
  by (cases route rule: body_schema.cases)
    (auto simp: user_id_def and_then_Inr validates_accepted [OF validating_pipesD(1) [OF P]]
      validates_accepted [OF validating_pipesD(2) [OF P]] validates_accepted [OF validating_pipesD(3) [OF P]]
      validates_accepted [OF validating_pipesD(4) [OF P]] validates_accepted [OF validating_pipesD(5) [OF P]]
      validates_accepted [OF validating_pipesD(6) [OF P]] validates_accepted [OF validating_pipesD(7) [OF P]]
      validates_accepted [OF validating_pipesD(8) [OF P]])

lemma gateway_status:
  "he_statusCode (http_exception_filter url (BadRequestException m)) = 400"
  "he_statusCode (http_exception_filter url (UnauthorizedException m)) = 401"
  by (simp_all add: exception_defs)

text \<open>The guard lets the request through or throws a 401.\<close>

lemma auth_guard_outcome:
  assumes "run (auth_guard A ''http'' a) w = (g, w1)"
  shows "case g of Inr (ok, user) \<Rightarrow> ok | Inl e \<Rightarrow> \<exists>m. e = UnauthorizedException m"
proof (cases "\<exists>jwt. bearer a jwt")
  case True
  then obtain jwt where b: "bearer a jwt" ..
  show ?thesis
    using assms unfolding auth_guard_bearer [OF b] check_token_run
    by (auto split: prod.splits sum.splits if_splits)
next
  case False
  then obtain m where "auth_guard A ''http'' a = Throw (UnauthorizedException m)"
    using auth_guard_no_bearer by blast
  with assms show ?thesis by auto
qed

text \<open>A request whose route throws a 400 for every user is answered with it, or with the guard's 401.\<close>

lemma refused_request:
  assumes "guard_contract view A" and "\<And>user. \<exists>m. gw_route P rq user route = Inl (BadRequestException m)"
    and "run (http_request_run A P E route rq) w = (Inr x, w')"
  shows "view w' = view w \<and> (\<exists>he. x = Failed he \<and> he_statusCode he \<in> {400, 401})"
proof -
  obtain g w1 where g: "run (auth_guard A ''http'' (rq_authorization rq)) w = (g, w1)" by fastforce
  have w1: "view w1 = view w" using auth_guard_run [OF assms(1) g] by simp
  show ?thesis
  proof (cases g)
    case (Inl e)
    with auth_guard_outcome [OF g] w1 show ?thesis
      using assms(3) g by (auto simp: http_request_run_def run_simps gateway_status)
  next
    case (Inr p)
    with auth_guard_outcome [OF g] obtain user where "g = Inr (True, user)" by (cases p) auto
    moreover obtain m where "gw_route P rq user route = Inl (BadRequestException m)" using assms(2) by blast
    ultimately show ?thesis
      using assms(3) g w1 by (auto simp: http_request_run_def run_simps gateway_status)
  qed
qed

section \<open>From the body to the record\<close>

text \<open>
  C36. A request to create or change a farm, a crop, an activity or a harvest, with the
  validation in place: a body that breaks a rule of its DTO is answered with a 400 (or the
  401 of a missing token), and nothing is changed; a body that the validation accepts is,
  whenever the request is served, the command with exactly the body's values on behalf of
  the token's user, for the record the query names, and its effect is the one specified for
  that command. An accepted activity or harvest, or change of one without a null, always
  stands for such a command.
\<close>

theorem validated_body_is_the_command:
  assumes "farms_contract view E" and "guard_contract view A" and "tables_ok (committed (view w))"
    and "validating_pipes is_email P" and "body_schema route = Some sch" and "rq_body rq = JObj b"
    and "run (http_request_run A P E route rq) w = (r, w')"
  shows "\<exists>x. r = Inr x \<and>
    (\<not> accepts is_email sch b \<longrightarrow> view w' = view w \<and> (\<exists>he. x = Failed he \<and> he_statusCode he \<in> {400, 401})) \<and>
    (accepts is_email sch b \<longrightarrow> (\<forall>a c. x = Answered a \<and> body_command route b = Some c \<longrightarrow>
       (\<exists>u i. authenticated A rq w u \<and> (\<forall>k. id_query route = Some k \<longrightarrow> query_int P rq k = Inr i) \<and>
          service_effect (c (cl_id u) i) (committed (view w)) a (committed (view w'))))) \<and>
    (accepts is_email sch b \<and> route \<in> {ActivitiesRoute PostActivity, HarvestsRoute PostHarvest}
       \<longrightarrow> body_command route b \<noteq> None) \<and>
    (accepts is_email sch b \<and> no_null b \<and> route \<in> {ActivitiesRoute PatchActivity, HarvestsRoute PatchHarvest}
       \<longrightarrow> body_command route b \<noteq> None)"
proof -
  obtain x where x: "r = Inr x" using http_request_runE [OF assms(2,7)] by blast
  have refused: "view w' = view w \<and> (\<exists>he. x = Failed he \<and> he_statusCode he \<in> {400, 401})" if no: "\<not> accepts is_email sch b"
    by (rule refused_request [OF assms(2) body_refused [OF assms(4-6) no] assms(7) [unfolded x]])
  have served: "\<exists>u i. authenticated A rq w u \<and> (\<forall>k. id_query route = Some k \<longrightarrow> query_int P rq k = Inr i) \<and>
      service_effect (c (cl_id u) i) (committed (view w)) a (committed (view w'))"
    if yes: "accepts is_email sch b" and a: "x = Answered a" and c: "body_command route b = Some c" for a c
    using assms(2,7)
  proof (cases rule: http_request_runE)
    case (stopped he)
    with x a show ?thesis by simp
  next
    case (served u m d w1 r1)
    have r1: "r1 = Inr a" using served(8) x a by (cases r1) auto
    from body_accepted [OF assms(4-6) yes c served(2)] served(3)
    obtain i where "d = c (cl_id u) i" "\<forall>k. id_query route = Some k \<longrightarrow> query_int P rq k = Inr i" by auto
    with farms_refines_run(2) [OF service_refines [OF assms(1)] _ served(7) r1] assms(3) served(1,6)
    show ?thesis by auto
  qed
  have "body_command route b \<noteq> None"
    if "accepts is_email sch b" "route \<in> {ActivitiesRoute PostActivity, HarvestsRoute PostHarvest}"
    using that assms(5) activity_typed harvest_typed by fastforce
  moreover have "body_command route b \<noteq> None"
    if "accepts is_email sch b" "no_null b" "route \<in> {ActivitiesRoute PatchActivity, HarvestsRoute PatchHarvest}"
    using that assms(5) activity_update_typed harvest_update_typed by fastforce
  ultimately show ?thesis using x refused served by blast
qed

section \<open>An example\<close>

definition checked :: "(string \<Rightarrow> bool) \<Rightarrow> schema \<Rightarrow> (object \<Rightarrow> 'd option) \<Rightarrow> json \<Rightarrow> exn + 'd" where
  "checked is_email sch read j =
     (case j of
        JObj b \<Rightarrow> and_then (buildValidationPipe is_email sch b)
          (\<lambda>x. case read x of Some d \<Rightarrow> Inr d | None \<Rightarrow> Inl ThrownOther)
      | _ \<Rightarrow> Inl ThrownOther)"

lemma validates_checked: "validates is_email sch read (checked is_email sch read)"
  by (auto simp: validates_def checked_def split: sum.splits)

definition checking_pipes :: pipes where
  "checking_pipes = demo_pipes
     \<lparr>valid_CreateFarmDto := checked (\<lambda>_. True) farm_schema to_CreateFarmDto,
      valid_UpdateFarmDto := checked (\<lambda>_. True) (PartialType farm_schema) to_UpdateFarmDto,
      valid_CreateCropDto := checked (\<lambda>_. True) crop_schema to_CreateCropDto,
      valid_UpdateCropDto := checked (\<lambda>_. True) (PartialType crop_schema) to_UpdateCropDto,
      valid_CreateActivityDto := checked (\<lambda>_. True) activity_schema to_CreateActivityDto,
      valid_UpdateActivityDto := checked (\<lambda>_. True) (PartialType activity_schema) to_UpdateActivityDto,
      valid_CreateHarvestDto := checked (\<lambda>_. True) harvest_schema to_CreateHarvestDto,
      valid_UpdateHarvestDto := checked (\<lambda>_. True) (PartialType harvest_schema) to_UpdateHarvestDto\<rparr>"

lemma checking_pipes_ok: "validating_pipes (\<lambda>_. True) checking_pipes"
  by (simp add: validating_pipes_def checking_pipes_def validates_checked demo_pipes_def split: option.splits) blast

definition demo_crop_change :: object where
  "demo_crop_change = [(''name'', JStr ''Maiz'')]"

definition crop_request :: "object \<Rightarrow> http_request" where
  "crop_request b = (demo_request ''t7'')\<lparr>rq_body := JObj b\<rparr>"

theorem validated_body_is_the_command_witness:
  "(\<exists>a v' c. run (http_request_run demo_auth checking_pipes mem_farms (CropsRoute PatchCrop)
         (crop_request demo_crop_change)) demo_view = (Inr (Answered a), v')
       \<and> body_command (CropsRoute PatchCrop) demo_crop_change = Some c
       \<and> service_effect (c 7 1) demo_tables a (committed v'))
   \<and> (\<exists>he v'. run (http_request_run demo_auth checking_pipes mem_farms (CropsRoute PatchCrop)
         (crop_request (demo_crop_change @ [(''userId'', JNum 8)]))) demo_view = (Inr (Failed he), v')
       \<and> he_statusCode he \<in> {400, 401} \<and> v' = demo_view)"
  (is "?served \<and> ?refused")
proof
  let ?run = "\<lambda>b. run (http_request_run demo_auth checking_pipes mem_farms (CropsRoute PatchCrop) (crop_request b)) demo_view"
  have body: "rq_body (crop_request b) = JObj b" for b by (simp add: crop_request_def)
  have sch: "body_schema (CropsRoute PatchCrop) = Some (PartialType crop_schema)" by simp
  note main_fact = validated_body_is_the_command [OF mem_farms_contract demo_guard demo_ok checking_pipes_ok sch body]
  show ?served
  proof -
    obtain r v' where run: "?run demo_crop_change = (r, v')" by fastforce
    have "case fst (?run demo_crop_change) of Inr (Answered a) \<Rightarrow> True | _ \<Rightarrow> False" by code_simp
    with run obtain a where a: "r = Inr (Answered a)" by (auto split: sum.splits http_answer.splits)
    have yes: "accepts (\<lambda>_. True) (PartialType crop_schema) demo_crop_change" by code_simp
    have who: "authenticated demo_auth (crop_request demo_crop_change) demo_view u \<Longrightarrow> cl_id u = 7" for u
      by (auto simp: authenticated_def demo_auth_def crop_request_def demo_request_def bearer_def)
    have "query_int checking_pipes (crop_request demo_crop_change) ''cropId'' = Inr 1" by code_simp
    moreover have "body_command (CropsRoute PatchCrop) demo_crop_change \<noteq> None"
      by (simp add: demo_crop_change_def to_UpdateCropDto_def maybe_def text_of_def)
    ultimately show ?thesis using main_fact [OF run] a yes run who by (auto simp: demo_view_def; blast)
  qed
  show ?refused
  proof -
    let ?b = "demo_crop_change @ [(''userId'', JNum 8)]"
    obtain r v' where run: "?run ?b = (r, v')" by fastforce
    have no: "\<not> accepts (\<lambda>_. True) (PartialType crop_schema) ?b" by code_simp
    from main_fact [OF run] no run show ?thesis by auto
  qed
qed

end
