(* ===== verification/BaseRepository.thy ===== *)
theory BaseRepository
  imports AuthService
begin

text \<open>
  \<open>BaseAbstractRepository\<close> (\<open>libs/common/src/repositories/base/base.abstract.repository.ts\<close>), which
  the repositories of the services extend: everything but \<open>update\<close> is TypeORM's own operation
  under the same or another name. TypeORM's repository is a parameter.
\<close>

text \<open>
  \<open>'e\<close> is the entity, \<open>'d\<close> a partial one, \<open>'c\<close> the conditions and options of a query. TypeORM's
  \<open>save\<close> and \<open>create\<close> take one value or a list of them.
\<close>

record ('w, 'e, 'd, 'c) typeorm_repository =
  to_save :: "'d list \<Rightarrow> ('w, 'e list) op"
  to_create :: "'d list \<Rightarrow> 'e list"
  to_findOneBy :: "int \<Rightarrow> ('w, 'e option) op"
  to_findOne :: "'c \<Rightarrow> ('w, 'e option) op"
  to_find :: "'c option \<Rightarrow> ('w, 'e list) op"
  to_remove :: "'e \<Rightarrow> ('w, 'e) op"
  to_preload :: "'d \<Rightarrow> ('w, 'e option) op"
  to_merge :: "'e \<Rightarrow> 'd \<Rightarrow> 'e"
  to_save_entity :: "'e \<Rightarrow> ('w, 'e) op"

definition base_save :: "('w, 'e, 'd, 'c) typeorm_repository \<Rightarrow> 'd \<Rightarrow> ('w, 'e) prog" where
  "base_save R data = bind (atom (to_save R [data])) (\<lambda>saved. Return (hd saved))"

definition saveMany :: "('w, 'e, 'd, 'c) typeorm_repository \<Rightarrow> 'd list \<Rightarrow> ('w, 'e list) prog" where
  "saveMany R data = atom (to_save R data)"

definition base_create :: "('w, 'e, 'd, 'c) typeorm_repository \<Rightarrow> 'd \<Rightarrow> 'e" where
  "base_create R data = hd (to_create R [data])"

definition createMany :: "('w, 'e, 'd, 'c) typeorm_repository \<Rightarrow> 'd list \<Rightarrow> 'e list" where
  "createMany R data = to_create R data"

definition findOneById :: "('w, 'e, 'd, 'c) typeorm_repository \<Rightarrow> int \<Rightarrow> ('w, 'e option) prog" where
  "findOneById R i = atom (to_findOneBy R i)"

definition findByCondition :: "('w, 'e, 'd, 'c) typeorm_repository \<Rightarrow> 'c \<Rightarrow> ('w, 'e option) prog" where
  "findByCondition R filterCondition = atom (to_findOne R filterCondition)"

definition findWithRelations :: "('w, 'e, 'd, 'c) typeorm_repository \<Rightarrow> 'c \<Rightarrow> ('w, 'e list) prog" where
  "findWithRelations R relations = atom (to_find R (Some relations))"

definition findAll :: "('w, 'e, 'd, 'c) typeorm_repository \<Rightarrow> 'c option \<Rightarrow> ('w, 'e list) prog" where
  "findAll R options = atom (to_find R options)"

definition base_remove :: "('w, 'e, 'd, 'c) typeorm_repository \<Rightarrow> 'e \<Rightarrow> ('w, 'e) prog" where
  "base_remove R data = atom (to_remove R data)"

definition preload :: "('w, 'e, 'd, 'c) typeorm_repository \<Rightarrow> 'd \<Rightarrow> ('w, 'e option) prog" where
  "preload R entityLike = atom (to_preload R entityLike)"

definition base_update :: "('w, 'e, 'd, 'c) typeorm_repository \<Rightarrow> int \<Rightarrow> 'd \<Rightarrow> ('w, 'e) prog" where
  "base_update R i data =
     bind (findOneById R i) (\<lambda>existingEntity.
     case existingEntity of
       None \<Rightarrow> Throw (ErrorExc ''Error'' (''Entity with ID '' @ show_int i @ '' not found''))
     | Some entity \<Rightarrow> atom (to_save_entity R (to_merge R entity data)))"

section \<open>What an update does\<close>

text \<open>
  A repository over rows with an id: a lookup finds the row with the id, and saving an entity
  replaces it. An update then changes exactly the row with the id, by the merge, or finds none
  and changes nothing.
\<close>

definition entity_contract :: "('w \<Rightarrow> 'e list) \<Rightarrow> ('e \<Rightarrow> int) \<Rightarrow> ('w, 'e, 'd, 'c) typeorm_repository \<Rightarrow> bool" where
  "entity_contract view key R \<longleftrightarrow>
     (\<forall>i. implements view (to_findOneBy R i) (reads (\<lambda>rows a. a = row_of key i rows))) \<and>
     (\<forall>e. implements view (to_save_entity R e) (\<lambda>rows a rows'. a = e \<and> rows' = put_row key e rows)) \<and>
     (\<forall>e d. key (to_merge R e d) = key e)"

lemma base_update_spec:
  assumes "entity_contract view key R" and "run (base_update R i d) w = (r, w')"
  shows "(case r of
       Inr a \<Rightarrow> \<exists>e. row_of key i (view w) = Some e \<and> a = to_merge R e d \<and> view w' = put_row key a (view w)
     | Inl e \<Rightarrow> view w' = view w \<and> (is_library_error e
         \<or> row_of key i (view w) = None \<and> e = ErrorExc ''Error'' (''Entity with ID '' @ show_int i @ '' not found'')))"
proof -
  have find: "implements view (to_findOneBy R i) (reads (\<lambda>rows a. a = row_of key i rows))"
    and store: "\<And>e. implements view (to_save_entity R e) (\<lambda>rows a rows'. a = e \<and> rows' = put_row key e rows)"
    using assms(1) by (simp_all add: entity_contract_def)
  have "vwp view (\<lambda>_. True) (base_update R i d)
      (\<lambda>a v'. \<exists>e. row_of key i (view w) = Some e \<and> a = to_merge R e d \<and> v' = put_row key a (view w))
      (\<lambda>e v'. v' = view w \<and> (is_library_error e
         \<or> row_of key i (view w) = None \<and> e = ErrorExc ''Error'' (''Entity with ID '' @ show_int i @ '' not found'')))
      (view w)"
    unfolding base_update_def findOneById_def
    by (rule vwp_bind, rule vwp_atom [OF find])
      (auto simp: reads_def split: option.splits intro!: vwp_throw vwp_atom [OF store])
  from vwp_run [OF this assms(2)] show ?thesis by (simp split: sum.splits)
qed

text \<open>The users' repository, as the auth service uses it to set a new password.\<close>

lemma repository_update_is_base_update:
  assumes "to_findOneBy R i = ae_find_id E i" and "\<And>u. to_save_entity R u = ae_save E u"
    and "\<And>u. to_merge R u d = merge u"
  shows "repository_update E i merge = base_update R i d"
  using assms by (simp add: repository_update_def base_update_def findOneById_def cong: option.case_cong)

end
