(* ===== verification/Config.thy ===== *)
theory Config
  imports Notifications
begin

text \<open>
  The configuration the services read from their environment
  (\<open>libs/common/src/config/env.validation.ts\<close>, the option builders of
  \<open>libs/common/src/modules\<close> and \<open>apps/gateway/src/setup.ts\<close>), and the labels of the request
  metrics (\<open>libs/common/src/metrics/http-metrics.interceptor.ts\<close>). The readers of numbers and
  addresses (\<open>Number\<close>, Joi's \<open>uri\<close>) are parameters.
\<close>

type_synonym env = "string \<Rightarrow> string option"

definition template :: "string option \<Rightarrow> string" where
  "template x = (case x of None \<Rightarrow> ''undefined'' | Some s \<Rightarrow> s)"

section \<open>Validation of the environment\<close>

datatype joi = Text | AllowEmpty joi | Uri | Valid "string list"

text \<open>A Joi string is not empty unless the empty text is allowed.\<close>

fun joi_ok :: "(string \<Rightarrow> bool) \<Rightarrow> joi \<Rightarrow> string \<Rightarrow> bool" where
  "joi_ok is_uri Text s = (s \<noteq> [])"
| "joi_ok is_uri (AllowEmpty j) s = (s = [] \<or> joi_ok is_uri j s)"
| "joi_ok is_uri Uri s = (s \<noteq> [] \<and> is_uri s)"
| "joi_ok is_uri (Valid vs) s = (s \<in> set vs)"

datatype presence = Required | Optional

definition envValidationSchema :: "(string \<times> joi \<times> presence) list" where
  "envValidationSchema =
     [(''RABBITMQ_USER'', Text, Required), (''RABBITMQ_PASS'', Text, Required), (''RABBITMQ_HOST'', Text, Required),
      (''RABBITMQ_AUTH_QUEUE'', Text, Required), (''RABBITMQ_FARMS_QUEUE'', Text, Required),
      (''RABBITMQ_TRACING_QUEUE'', Text, Required), (''RABBITMQ_NOTIFICATIONS_QUEUE'', Text, Required),
      (''AUTH_POSTGRES_URI'', Text, Optional), (''FARMS_POSTGRES_URI'', Text, Optional),
      (''MONGO_URI'', Text, Required), (''REDIS_URL'', Uri, Required),
      (''DB_RUN_MIGRATIONS'', Valid [''true'', ''false''], Optional),
      (''JWT_SECRET'', Text, Required), (''JWT_REFRESH_SECRET'', Text, Required),
      (''S3_REGION'', Text, Required), (''S3_BUCKET'', Text, Required),
      (''S3_ACCESS_KEY_ID'', AllowEmpty Text, Optional), (''S3_SECRET_ACCESS_KEY'', AllowEmpty Text, Optional),
      (''S3_ENDPOINT'', Uri, Optional), (''CORS_ORIGINS'', Text, Optional),
      (''LOG_LEVEL'', Valid [''trace'', ''debug'', ''info'', ''warn'', ''error'', ''fatal''], Optional)]"

definition env_valid :: "(string \<Rightarrow> bool) \<Rightarrow> env \<Rightarrow> bool" where
  "env_valid is_uri env \<longleftrightarrow>
     list_all (\<lambda>(k, j, p). case env k of None \<Rightarrow> p = Optional | Some s \<Rightarrow> joi_ok is_uri j s) envValidationSchema"

section \<open>Postgres\<close>

record 'm postgres_options =
  pg_url :: string
  pg_autoLoadEntities :: bool
  pg_synchronize :: bool
  pg_migrations :: 'm
  pg_migrationsRun :: bool

definition buildPostgresOptions :: "'m \<Rightarrow> string \<Rightarrow> env \<Rightarrow> exn + 'm postgres_options" where
  "buildPostgresOptions migrations uriEnvKey env =
     (case env uriEnvKey of
        Some url \<Rightarrow>
          if url = [] then Inl (ErrorExc ''Error'' (uriEnvKey @ '' is required: this service owns a Postgres database and cannot start without its connection string.''))
          else Inr \<lparr>pg_url = url, pg_autoLoadEntities = True, pg_synchronize = False, pg_migrations = migrations,
                     pg_migrationsRun = (env ''DB_RUN_MIGRATIONS'' = Some ''true'')\<rparr>
      | None \<Rightarrow> Inl (ErrorExc ''Error'' (uriEnvKey @ '' is required: this service owns a Postgres database and cannot start without its connection string.'')))"

section \<open>The broker, the cache and the mailer\<close>

definition amqp_url :: "env \<Rightarrow> string" where
  "amqp_url env =
     ''amqp://'' @ template (env ''RABBITMQ_USER'') @ '':'' @ template (env ''RABBITMQ_PASS'') @ ''@'' @
     template (env ''RABBITMQ_HOST'')"

record rmq_client_options =
  rmq_urls :: "string list"
  rmq_queue :: "string option"
  rmq_durable :: bool
  rmq_noAck :: "bool option"
  rmq_prefetchCount :: "int option"

definition registerRmq :: "env \<Rightarrow> string option \<Rightarrow> rmq_client_options" where
  "registerRmq env queue =
     \<lparr>rmq_urls = [amqp_url env], rmq_queue = queue, rmq_durable = True, rmq_noAck = None, rmq_prefetchCount = None\<rparr>"

definition getRmqOptions :: "env \<Rightarrow> string option \<Rightarrow> rmq_client_options" where
  "getRmqOptions env queue =
     \<lparr>rmq_urls = [amqp_url env], rmq_queue = queue, rmq_durable = True, rmq_noAck = Some False,
      rmq_prefetchCount = Some 1\<rparr>"

definition redis_url :: "env \<Rightarrow> string" where
  "redis_url env = (case env ''REDIS_URL'' of None \<Rightarrow> ''redis://redis:6379'' | Some u \<Rightarrow> u)"

record 'n mail_transport =
  mt_service :: "string option"
  mt_host :: "string option"
  mt_port :: 'n
  mt_secure :: bool
  mt_ignoreTLS :: bool
  mt_auth :: "(string option \<times> string) option"
  mt_from :: "string option"

definition asBool :: "string option \<Rightarrow> bool" where
  "asBool v = (v = Some ''true'')"

definition truthy_text :: "string option \<Rightarrow> string option" where
  "truthy_text x = (if x = Some [] then None else x)"

definition mailer_options :: "(string option \<Rightarrow> 'n) \<Rightarrow> env \<Rightarrow> 'n mail_transport" where
  "mailer_options to_number env =
     \<lparr>mt_service = truthy_text (env ''MAIL_SERVICE''), mt_host = env ''MAIL_HOST'',
      mt_port = to_number (env ''MAIL_PORT''), mt_secure = asBool (env ''MAIL_SECURE''),
      mt_ignoreTLS = asBool (env ''MAIL_IGNORE_TLS''),
      mt_auth = map_option (\<lambda>pass. (env ''MAIL_USER'', pass)) (truthy_text (env ''MAIL_PASS'')),
      mt_from = env ''MAIL_USER''\<rparr>"

section \<open>The gateway\<close>

text \<open>\<open>None\<close> is \<open>false\<close>: no other origin is allowed.\<close>

definition cors_origins :: "env \<Rightarrow> string list option" where
  "cors_origins env =
     (case truthy_text (env ''CORS_ORIGINS'') of None \<Rightarrow> None | Some s \<Rightarrow> Some (map js_trim (split_on (CHR '','') s)))"

section \<open>What the configuration guarantees\<close>

lemma valid_required:
  "env_valid is_uri env \<Longrightarrow> (k, j, Required) \<in> set envValidationSchema \<Longrightarrow> \<exists>s. env k = Some s \<and> joi_ok is_uri j s"
  by (force simp: env_valid_def list_all_iff split: option.splits)

text \<open>In a validated environment no part of the broker's address is missing or empty.\<close>

lemma valid_amqp_url:
  assumes "env_valid is_uri env"
  shows "\<exists>u p h. u \<noteq> [] \<and> p \<noteq> [] \<and> h \<noteq> [] \<and> amqp_url env = ''amqp://'' @ u @ '':'' @ p @ ''@'' @ h"
proof -
  have req: "(k, Text, Required) \<in> set envValidationSchema \<Longrightarrow> \<exists>s. env k = Some s \<and> s \<noteq> []" for k
    using valid_required [OF assms, of k Text] by simp
  have "(''RABBITMQ_USER'', Text, Required) \<in> set envValidationSchema"
    "(''RABBITMQ_PASS'', Text, Required) \<in> set envValidationSchema"
    "(''RABBITMQ_HOST'', Text, Required) \<in> set envValidationSchema"
    by (simp_all add: envValidationSchema_def)
  from this [THEN req] obtain u p h where "env ''RABBITMQ_USER'' = Some u" "u \<noteq> []"
    "env ''RABBITMQ_PASS'' = Some p" "p \<noteq> []" "env ''RABBITMQ_HOST'' = Some h" "h \<noteq> []" by blast
  then show ?thesis by (intro exI [of _ u] exI [of _ p] exI [of _ h]) (simp add: amqp_url_def template_def)
qed

text \<open>
  A service with a database does not start without its own address, uses that address and
  no other, and never lets TypeORM change the schema by itself.
\<close>

lemma postgres_fails_fast:
  "(\<exists>o1. buildPostgresOptions m key env = Inr o1) \<longleftrightarrow> (\<exists>url. env key = Some url \<and> url \<noteq> [])"
  "buildPostgresOptions m key env = Inr o1 \<Longrightarrow> env key = Some (pg_url o1) \<and> \<not> pg_synchronize o1"
  by (auto simp: buildPostgresOptions_def split: option.splits if_splits)

text \<open>The shared schema alone does not guarantee it: it admits environments without that address.\<close>

definition bare_env :: env where
  "bare_env k =
     (if k \<in> set [''RABBITMQ_USER'', ''RABBITMQ_PASS'', ''RABBITMQ_HOST'', ''RABBITMQ_AUTH_QUEUE'', ''RABBITMQ_FARMS_QUEUE'',
        ''RABBITMQ_TRACING_QUEUE'', ''RABBITMQ_NOTIFICATIONS_QUEUE'', ''MONGO_URI'', ''REDIS_URL'', ''JWT_SECRET'',
        ''JWT_REFRESH_SECRET'', ''S3_REGION'', ''S3_BUCKET''] then Some ''x'' else None)"

lemma schema_does_not_require_databases:
  "env_valid (\<lambda>_. True) bare_env" "\<exists>e. buildPostgresOptions m ''AUTH_POSTGRES_URI'' bare_env = Inl e"
proof -
  show "env_valid (\<lambda>_. True) bare_env" by code_simp
  have "bare_env ''AUTH_POSTGRES_URI'' = None" by code_simp
  then show "\<exists>e. buildPostgresOptions m ''AUTH_POSTGRES_URI'' bare_env = Inl e"
    by (simp add: buildPostgresOptions_def)
qed

section \<open>Request metrics\<close>

text \<open>How a handler ends: with the status of the response, or with a thrown value.\<close>

datatype ending = Ended int | Threw exn

record metric_labels =
  lb_method :: string
  lb_route :: string
  lb_status :: int

definition metric_status :: "ending \<Rightarrow> int" where
  "metric_status x =
     (case x of Ended code \<Rightarrow> code | Threw (HttpException code b m) \<Rightarrow> code | Threw _ \<Rightarrow> 500)"

definition metric_route :: "string option \<Rightarrow> string option \<Rightarrow> string" where
  "metric_route route_path url =
     (case route_path of
        Some p \<Rightarrow> p
      | None \<Rightarrow> (case url of Some u \<Rightarrow> hd (split_on (CHR ''?'') u) | None \<Rightarrow> ''unknown''))"

text \<open>The labels an observation gets; a context that is not HTTP is not observed.\<close>

definition metrics_intercept :: "string \<Rightarrow> string \<Rightarrow> string option \<Rightarrow> string option \<Rightarrow> ending \<Rightarrow> metric_labels option" where
  "metrics_intercept context_type method route_path url x =
     (if context_type \<noteq> ''http'' then None
      else Some \<lparr>lb_method = method, lb_route = metric_route route_path url, lb_status = metric_status x\<rparr>)"

text \<open>
  The gateway's own exceptions are counted under their status. A refusal of a microservice
  arrives as a plain object, which is not an HttpException: it is answered with the
  refusal's status but counted as a 500.
\<close>

lemma refusals_are_counted_as_500:
  "metric_status (Threw (HttpException code b m)) = he_statusCode (http_exception_filter url (HttpException code b m))"
  "metric_status (Threw (rpc_exception_filter e)) = 500"
  "he_statusCode (http_exception_filter url (rpc_exception_filter (HttpException code b m))) = code"
proof -
  show "metric_status (Threw (HttpException code b m)) = he_statusCode (http_exception_filter url (HttpException code b m))"
    by (simp add: metric_status_def)
  show "metric_status (Threw (rpc_exception_filter e)) = 500"
    by (cases e rule: rpc_exception_filter.cases) (simp_all add: metric_status_def)
  show "he_statusCode (http_exception_filter url (rpc_exception_filter (HttpException code b m))) = code"
    by simp
qed

end
