(* ===== verification/Platform.thy ===== *)
theory Platform
  imports Config
begin

text \<open>
  What every service does around its own work: request logging
  (\<open>libs/common/src/logging/logger.module.ts\<close>), distributed tracing
  (\<open>libs/common/src/tracing/otel.ts\<close>), the health endpoint and the histogram of the metrics
  module. The values handed to the libraries are modelled; the libraries are outside.
\<close>

section \<open>Logging\<close>

text \<open>A header of a request: absent, one value, or the values of a repeated header.\<close>

datatype header = Absent | One string | Many "string list"

text \<open>
  \<open>genReqId\<close>: the id of the request and the \<open>x-correlation-id\<close> of the response. An empty
  text is an id of its own, an empty list of values has no first one.
\<close>

definition incoming_id :: "header \<Rightarrow> string option" where
  "incoming_id h = (case h of Absent \<Rightarrow> None | One s \<Rightarrow> Some s | Many ss \<Rightarrow> (case ss of [] \<Rightarrow> None | s # _ \<Rightarrow> Some s))"

record request_id =
  ri_id :: string
  ri_response_header :: string
  ri_correlationId :: string

definition genReqId :: "string \<Rightarrow> header \<Rightarrow> request_id" where
  "genReqId randomUUID h =
     (let i = (case incoming_id h of None \<Rightarrow> randomUUID | Some s \<Rightarrow> s)
      in \<lparr>ri_id = i, ri_response_header = i, ri_correlationId = i\<rparr>)"

record logger_options =
  lo_level :: string
  lo_pretty :: bool
  lo_redact :: "string list"

definition logger_options_of :: "env \<Rightarrow> logger_options" where
  "logger_options_of env =
     \<lparr>lo_level = (case env ''LOG_LEVEL'' of None \<Rightarrow> ''info'' | Some l \<Rightarrow> l),
      lo_pretty = (env ''NODE_ENV'' \<noteq> Some ''production''),
      lo_redact = [''req.headers.authorization'', ''req.headers.cookie'']\<rparr>"

definition log_ignored :: "string \<Rightarrow> bool" where
  "log_ignored url \<longleftrightarrow> url = ''/health''"

section \<open>Tracing\<close>

definition starts_with :: "string \<Rightarrow> string \<Rightarrow> bool" where
  "starts_with s p \<longleftrightarrow> take (length p) s = p"

definition ignoreIncomingRequest :: "string option \<Rightarrow> bool" where
  "ignoreIncomingRequest u =
     (let url = (case u of None \<Rightarrow> [] | Some s \<Rightarrow> s) in starts_with url ''/health'' \<or> starts_with url ''/metrics'')"

record otel_options =
  ot_service_name :: string
  ot_url :: string

definition otel_options_of :: "env \<Rightarrow> otel_options option" where
  "otel_options_of env =
     map_option (\<lambda>endpoint.
       \<lparr>ot_service_name = (case env ''OTEL_SERVICE_NAME'' of None \<Rightarrow> ''harvestledger'' | Some n \<Rightarrow> n),
        ot_url = endpoint @ ''/v1/traces''\<rparr>)
     (truthy_text (env ''OTEL_EXPORTER_OTLP_ENDPOINT''))"

section \<open>The object store\<close>

text \<open>
  The constructor of \<open>S3Service\<close> (\<open>libs/common/src/services/s3.service.ts\<close>): another endpoint
  than Amazon's is addressed by path.
\<close>

record s3_options =
  so_bucket :: "string option"
  so_region :: string
  so_accessKeyId :: "string option"
  so_secretAccessKey :: "string option"
  so_endpoint :: "string option"
  so_forcePathStyle :: bool

definition s3_options_of :: "env \<Rightarrow> s3_options" where
  "s3_options_of env =
     \<lparr>so_bucket = env ''S3_BUCKET'',
      so_region = (case truthy_text (env ''S3_REGION'') of None \<Rightarrow> ''us-east-1'' | Some r \<Rightarrow> r),
      so_accessKeyId = env ''S3_ACCESS_KEY_ID'', so_secretAccessKey = env ''S3_SECRET_ACCESS_KEY'',
      so_endpoint = truthy_text (env ''S3_ENDPOINT''), so_forcePathStyle = (truthy_text (env ''S3_ENDPOINT'') \<noteq> None)\<rparr>"

section \<open>Health and metrics\<close>

text \<open>No indicators: the process answers, and that is the check. \<open>check_indicators\<close> is the library's.\<close>

definition health_check :: "('i list \<Rightarrow> 'r) \<Rightarrow> 'r" where
  "health_check check_indicators = check_indicators []"

definition health_port :: "env \<Rightarrow> string" where
  "health_port env = (case env ''HEALTH_PORT'' of None \<Rightarrow> ''3000'' | Some p \<Rightarrow> p)"

text \<open>The upper bounds of the histogram's buckets, in milliseconds.\<close>

definition buckets_ms :: "int list" where
  "buckets_ms = [5, 10, 25, 50, 100, 250, 500, 1000, 2500, 5000]"

definition histogram_labels :: "string list" where
  "histogram_labels = [''method'', ''route'', ''status'']"

section \<open>What follows\<close>

text \<open>The id of a request is the one its sender gave, and the response always names it.\<close>

lemma correlation_id_is_kept:
  "ri_response_header (genReqId u h) = ri_id (genReqId u h)"
  "ri_correlationId (genReqId u h) = ri_id (genReqId u h)"
  "ri_id (genReqId u (One s)) = s"
  "ri_id (genReqId u (Many (s # ss))) = s"
  "ri_id (genReqId u Absent) = u"
  by (simp_all add: genReqId_def incoming_id_def Let_def)

text \<open>What is not logged is not traced either, and every path of the API is logged and traced.\<close>

lemma probes_are_silent:
  "log_ignored url \<Longrightarrow> ignoreIncomingRequest (Some url)"
  by (simp add: log_ignored_def ignoreIncomingRequest_def starts_with_def)

lemma api_requests_are_observed:
  "\<not> log_ignored (''/api/v1/'' @ path)" "\<not> ignoreIncomingRequest (Some (''/api/v1/'' @ path))"
  by (simp_all add: log_ignored_def ignoreIncomingRequest_def starts_with_def)

lemma bounds_increase: "sorted buckets_ms \<and> distinct buckets_ms"
  by (simp add: buckets_ms_def)

end
