(* ===== verification/AuthRefresh.thy ===== *)
theory AuthRefresh
  imports AuthTokens
begin

text \<open>
  A used refresh token stays refused, over all later commands and crashes of the service;
  two concurrent uses of one token can both succeed.
\<close>

section \<open>A spent key\<close>

definition spent :: "int \<Rightarrow> string \<Rightarrow> auth_view \<Rightarrow> bool" where
  "spent i j v \<longleftrightarrow> j \<in> issued_ids v \<and> auth_cache v (refreshKey i j) = None"

lemma keeps_spent_writes:
  "implements view f (auth_commit R) \<Longrightarrow> keeps view (spent i j) (atom f)"
  "implements view f (auth_in_tx R) \<Longrightarrow> keeps view (spent i j) (atom f)"
  by (erule keeps_atom, auto simp: auth_commit_def auth_in_tx_def spent_def)+

lemma keeps_spent_calls:
  assumes E: "auth_contract view signs matches E"
  shows "keeps view (spent i j) (atom (ae_find_email E sel e))"
    and "keeps view (spent i j) (atom (ae_find_id E uid))"
    and "keeps view (spent i j) (atom (ae_save E u))"
    and "keeps view (spent i j) (atom (ae_mgr_insert E d))"
    and "keeps view (spent i j) (atom (ae_mgr_save E u))"
    and "keeps view (spent i j) (atom (ae_mgr_set_token E uid h))"
    and "keeps view (spent i j) (atom (ae_mgr_outbox E pat b))"
    and "keeps view (spent i j) (atom (ae_inject E))"
    and "keeps view (spent i j) (atom (ae_sign E p x s))"
    and "keeps view (spent i j) (atom (ae_verify E t s))"
    and "keeps view (spent i j) (atom (ae_hash E pw))"
    and "keeps view (spent i j) (atom (ae_compare E pw ho))"
    and "keeps view (spent i j) (atom (ae_now E))"
  by (rule keeps_reads keeps_spent_writes, rule auth_contractD [OF E])+

lemma keeps_spent_s3:
  assumes E: "auth_contract view signs matches E"
  shows "keeps view (spent i j) (uploadFile (ae_s3 E) file k)" and "keeps view (spent i j) (getFile (ae_s3 E) k)"
proof -
  have "keeps view (spent i j) (atom (s3_put (ae_s3 E) k b m))" for b m
    by (rule keeps_atom [OF auth_contractD(19) [OF E]]) (auto simp: spent_def)
  then show "keeps view (spent i j) (uploadFile (ae_s3 E) file k)"
    unfolding uploadFile_def by (intro keeps_intros)
  have "keeps view (spent i j) (atom (s3_get (ae_s3 E) k))"
    by (rule keeps_reads [OF auth_contractD(20) [OF E]])
  then show "keeps view (spent i j) (getFile (ae_s3 E) k)"
    unfolding getFile_def by (intro keeps_intros)
qed

lemma keeps_spent_transaction:
  assumes E: "auth_contract view signs matches E" and "keeps view (spent i j) body"
  shows "keeps view (spent i j) (transaction (ae_tx E) body)"
proof -
  note tx = tx_contractD [OF auth_contractD(6) [OF E]]
  have "keeps view (spent i j) (atom (tx_begin (ae_tx E)))"
    "keeps view (spent i j) (atom (tx_commit (ae_tx E)))"
    "keeps view (spent i j) (atom (tx_rollback (ae_tx E)))"
    by (rule keeps_atom, rule tx, auto simp: spent_def)+
  then show ?thesis
    unfolding transaction_def roll_back_def by (intro keeps_intros assms(2))
qed

lemma keeps_spent_enqueue:
  "auth_contract view signs matches E
    \<Longrightarrow> keeps view (spent i j) (enqueue (ae_inject E) (ae_mgr_outbox E) pat body)"
  unfolding enqueue_def by (intro keeps_intros keeps_spent_calls)

text \<open>A new refresh token has another id, so another key.\<close>

lemma keeps_spent_issue:
  assumes E: "auth_contract view signs matches E"
  shows "keeps view (spent i j) (issueRefreshToken E c)"
  unfolding keeps_def issueRefreshToken_def
proof (intro allI impI, rule vwp_bind, rule vwp_atom, rule auth_contractD(16) [OF E], goal_cases)
  case (3 v jti v1)
  then have *: "spent i j v1" "jti \<noteq> j" by (auto simp: spent_def)
  show ?case
    apply (rule conjI [OF *(1)])
    apply (rule vwp_bind, rule vwp_reads, rule auth_contractD(12) [OF E]; (simp add: *; fail)?)
    apply (rule vwp_bind, rule vwp_auth_setWithTtl [OF E]; (simp add: *; fail)?)
    using * apply (auto simp: spent_def refreshKey_inj intro!: vwp_return)
    done
qed auto

lemma keeps_spent_cache:
  assumes E: "auth_contract view signs matches E"
  shows "keeps view (spent i j) (redis_del (ae_redis E) k)" and "keeps view (spent i j) (redis_exists (ae_redis E) k)"
  unfolding keeps_def
  by (intro allI impI, rule vwp_auth_del [OF E] vwp_auth_exists [OF E]; simp add: spent_def)+

lemma keeps_spent_controller:
  assumes E: "auth_contract view signs matches E"
  shows "keeps view (spent i j) (auth_controller E req)"
  by (cases req)
    (simp_all only: auth_controller.simps answer_with_def register_def findByEmail_def hashPassword_def login_def
      validateUser_def doesPasswordMatch_def refreshToken_def verifyJwt_def jwt_guard_def updateUserInfo_def
      getUser_def forgotPassword_def resetPassword_def repository_update_def uploadUserImage_def getUserImage_def,
     (intro keeps_intros keeps_spent_calls [OF E] keeps_spent_s3 [OF E] keeps_spent_transaction [OF E]
        keeps_spent_enqueue [OF E] keeps_spent_issue [OF E] keeps_spent_cache [OF E])+)

section \<open>Used once\<close>

text \<open>The commands the service handles from some moment on; \<open>Some n\<close> kills it after \<open>n\<close> calls.\<close>

fun later :: "'w auth_env \<Rightarrow> (auth_request \<times> nat option) list \<Rightarrow> 'w \<Rightarrow> 'w" where
  "later E [] w = w"
| "later E ((req, None) # rs) w = later E rs (snd (run (auth_controller E req) w))"
| "later E ((req, Some n) # rs) w = later E rs (crash_after n (auth_controller E req) w)"

lemma spent_later:
  assumes E: "auth_contract view signs matches E"
  shows "spent i j (view w) \<Longrightarrow> spent i j (view (later E rs w))"
proof (induction rs arbitrary: w)
  case (Cons r rs)
  obtain req death where r: "r = (req, death)" by (cases r)
  note keep = keeps_spent_controller [OF E, of i j req]
  show ?case
  proof (cases death)
    case None
    obtain x w1 where x: "run (auth_controller E req) w = (x, w1)" by fastforce
    have "spent i j (view w1)" by (rule keeps_run [OF keep Cons.prems x])
    from Cons.IH [OF this] show ?thesis using r None x by simp
  next
    case (Some n)
    from Cons.IH [OF keeps_crash [OF keep Cons.prems, of n]] show ?thesis using r Some by simp
  qed
qed simp

lemma rotates_spends:
  assumes E: "auth_contract view signs matches E" and r: "rotates signs t v s v'"
    and p: "signs JWT_REFRESH_SECRET p t" "jp_jti p = Some j" "j \<in> issued_ids v"
  shows "jp_user p = Some (session_user s) \<and> spent (cl_id (session_user s)) j v'"
proof -
  obtain q j' c' where q: "signs JWT_REFRESH_SECRET q t" "jp_user q = Some (session_user s)" "jp_jti q = Some j'"
    "issued signs (session_user s)
       (v\<lparr>auth_clock := c', auth_cache := (auth_cache v)(refreshKey (cl_id (session_user s)) j' := None)\<rparr>)
       (newRefreshToken s) v'"
    using r by (auto simp: rotates_def)
  have "q = p" by (rule signs_unique [OF E q(1) p(1)])
  then have "j' = j" using q(3) p(2) by simp
  then show ?thesis
    using q(2,4) p(3) \<open>q = p\<close> by (auto simp: issued_def spent_def refreshKey_inj)
qed

lemma spent_not_rotated:
  assumes E: "auth_contract view signs matches E"
    and p: "signs JWT_REFRESH_SECRET p t" "jp_jti p = Some j" "jp_user p = Some u" and s: "spent (cl_id u) j v"
  shows "\<not> rotates signs t v s' v'"
proof
  assume "rotates signs t v s' v'"
  then obtain q j' c where q: "signs JWT_REFRESH_SECRET q t" "jp_user q = Some (session_user s')" "jp_jti q = Some j'"
    "auth_live (v\<lparr>auth_clock := c\<rparr>) (refreshKey (cl_id (session_user s')) j') \<noteq> None"
    by (auto simp: rotates_def)
  have "q = p" by (rule signs_unique [OF E q(1) p(1)])
  then have "j' = j" "session_user s' = u" using q(2,3) p(2,3) by simp_all
  then show False using q(4) s by (simp add: auth_live_def live_def as_cache_def spent_def)
qed

text \<open>
  C28. A refresh token works once: after a refresh with it has answered, every later one
  with the same token is refused, whatever commands the service has handled in between,
  completed or cut short by a crash. (The token's id is one the service has issued.)
\<close>

theorem refresh_token_works_once:
  assumes "auth_contract view signs matches E"
    and "signs JWT_REFRESH_SECRET p t" and "jp_jti p = Some j" and "j \<in> issued_ids (view w)"
    and "run (refreshToken E (Some t)) w = (Inr s, w1)"
    and "run (refreshToken E (Some t)) (later E rs w1) = (r, w2)"
  shows "\<exists>e. r = Inl e \<and> (is_library_error e \<or> e \<in> refresh_refusals) \<and>
    committed (view w2) = committed (view (later E rs w1))"
proof -
  have rot: "rotates signs t (view w) s (view w1)"
    using vwp_run [OF refresh_spec [OF assms(1)] assms(5)] by simp
  note spend = rotates_spends [OF assms(1) rot assms(2-4)]
  then have "spent (cl_id (session_user s)) j (view (later E rs w1))"
    by (blast intro: spent_later [OF assms(1)])
  then have "\<not> rotates signs t (view (later E rs w1)) s' (view w2)" for s'
    using spent_not_rotated [OF assms(1-3)] spend by blast
  then show ?thesis
    using vwp_run [OF refresh_spec [OF assms(1)] assms(6)] by (cases r) auto
qed

text \<open>Ana's session: the world after her login, and its refresh token.\<close>

definition ana_session :: "session \<times> auth_world" where
  "ana_session =
     (case run (login mem_auth ana_login) ana_world of
        (Inr s, w) \<Rightarrow> (s, w)
      | (Inl e, w) \<Rightarrow> (\<lparr>accesToken = [], newRefreshToken = [], session_user = user_claims ana\<rparr>, w))"

definition ana_token :: string where
  "ana_token = newRefreshToken (fst ana_session)"

definition ana_token_payload :: jwt_payload where
  "ana_token_payload =
     no_payload\<lparr>jp_user := Some (user_claims ana), jp_jti := Some ''x'', jp_exp := Some 900\<rparr>"

lemma ana_token: "ana_token = mem_token JWT_REFRESH_SECRET ana_token_payload"
  by code_simp

lemma ana_token_id: "''x'' \<in> issued_ids (mem_auth_view (snd ana_session))"
  by code_simp

theorem refresh_token_works_once_witness:
  "\<exists>s w1 e w2. run (refreshToken mem_auth (Some ana_token)) (snd ana_session) = (Inr s, w1)
     \<and> run (refreshToken mem_auth (Some ana_token)) (later mem_auth [(GetUser 7, None), (Login ana_login, Some 4)] w1)
       = (Inl e, w2)"
proof -
  obtain r w1 where r: "run (refreshToken mem_auth (Some ana_token)) (snd ana_session) = (r, w1)" by fastforce
  have "case fst (run (refreshToken mem_auth (Some ana_token)) (snd ana_session)) of Inr a \<Rightarrow> True | Inl e \<Rightarrow> False"
    by code_simp
  then obtain s where s: "r = Inr s" using r by (auto split: sum.splits)
  obtain r2 w2 where 2: "run (refreshToken mem_auth (Some ana_token))
      (later mem_auth [(GetUser 7, None), (Login ana_login, Some 4)] w1) = (r2, w2)" by fastforce
  have "jp_jti ana_token_payload = Some ''x''" by (simp add: ana_token_payload_def)
  from refresh_token_works_once [OF mem_auth_contract ana_token this ana_token_id r [unfolded s] 2]
  show ?thesis using r s 2 by blast
qed

section \<open>Two refreshes at once\<close>

text \<open>
  The check of the key and its deletion are two commands: two concurrent requests with
  one refresh token both find it valid, and both answer a new session of the same user, with
  different refresh tokens that are both stored. One presented token has become two live
  ones, which in sequence is impossible.
\<close>

theorem concurrent_refreshes_fork_the_session:
  "case interleave ([True, True, False, False] @ replicate 5 True @ replicate 5 False)
       (refreshToken mem_auth (Some ana_token)) (refreshToken mem_auth (Some ana_token)) (snd ana_session) of
     (Return a, Return b, w) \<Rightarrow>
       session_user a = user_claims ana \<and> session_user b = user_claims ana \<and>
       newRefreshToken a \<noteq> newRefreshToken b \<and>
       auth_live (mem_auth_view w) (refreshKey 7 ''xx'') = Some ''1'' \<and>
       auth_live (mem_auth_view w) (refreshKey 7 ''xxx'') = Some ''1'' \<and>
       newRefreshToken a = mem_token JWT_REFRESH_SECRET (ana_token_payload\<lparr>jp_jti := Some ''xx''\<rparr>) \<and>
       newRefreshToken b = mem_token JWT_REFRESH_SECRET (ana_token_payload\<lparr>jp_jti := Some ''xxx''\<rparr>)
   | _ \<Rightarrow> False"
  by code_simp

end
