(* ===== verification/AuthGateway.thy ===== *)
theory AuthGateway
  imports FarmsGateway AuthRefresh AuthReset
begin

text \<open>
  The gateway's controller for the auth service
  (\<open>apps/gateway/src/controllers/auth.controller.ts\<close>) with the service behind it, and the
  guard of all routes closed with the \<open>verify-jwt\<close> command of that service.
\<close>

section \<open>Messages\<close>

text \<open>
  Three routes declare their body as a text, which no pipe checks: the whole JSON body is
  the payload, and the handler reads a property of it.
\<close>

datatype auth_payload =
    NewUser CreateUserDto
  | Credentials ExistingUserDto
  | RawBody json
  | NewPassword ResetPasswordDto
  | Jwt "string option"
  | UserChange int UpdateUserDto
  | OfUser int
  | Photo upload int
  | UserNumber int

text \<open>
  A property of the body that is absent is \<open>undefined\<close>. Values of other types make the
  token library or the database fail and are not followed further.
\<close>

definition text_prop :: "string \<Rightarrow> json \<Rightarrow> string option option" where
  "text_prop k body =
     (case body of
        JObj ps \<Rightarrow> (case map_of ps k of None \<Rightarrow> Some None | Some (JStr s) \<Rightarrow> Some (Some s) | _ \<Rightarrow> None)
      | _ \<Rightarrow> None)"

text \<open>The \<open>@MessagePattern\<close> handlers of the service: the command and the properties it reads.\<close>

fun auth_handler :: "string \<Rightarrow> auth_payload \<Rightarrow> auth_request option" where
  "auth_handler cmd (NewUser dto) = (if cmd = ''register'' then Some (Register dto) else None)"
| "auth_handler cmd (Credentials dto) = (if cmd = ''login'' then Some (Login dto) else None)"
| "auth_handler cmd (RawBody body) =
     (if cmd = ''refresh-token'' then map_option RefreshToken (text_prop ''refreshToken'' body)
      else if cmd = ''forgot-password'' then map_option ForgotPassword (text_prop ''email'' body)
      else None)"
| "auth_handler cmd (NewPassword dto) = (if cmd = ''reset-password'' then Some (ResetPassword dto) else None)"
| "auth_handler cmd (Jwt jwt) = (if cmd = ''verify-jwt'' then Some (VerifyJwt jwt) else None)"
| "auth_handler cmd (UserChange i dto) = (if cmd = ''update-user'' then Some (UpdateUser i dto) else None)"
| "auth_handler cmd (OfUser i) = (if cmd = ''user'' then Some (GetUser i) else None)"
| "auth_handler cmd (Photo file i) = (if cmd = ''user-image'' then Some (UserImage i file) else None)"
| "auth_handler cmd (UserNumber i) = (if cmd = ''get-user-image'' then Some (GetUserImage i) else None)"

section \<open>Routes\<close>

record auth_pipes =
  ap_parse_file :: "int \<Rightarrow> string \<Rightarrow> upload option \<Rightarrow> exn + upload"
  valid_CreateUserDto :: "json \<Rightarrow> exn + CreateUserDto"
  valid_ExistingUserDto :: "json \<Rightarrow> exn + ExistingUserDto"
  valid_ResetPasswordDto :: "json \<Rightarrow> exn + ResetPasswordDto"
  valid_UpdateUserDto :: "json \<Rightarrow> exn + UpdateUserDto"

datatype auth_route = PostRegister | PostLogin | PostRefresh | PostForgotPassword | PatchResetPassword
  | PostUpdate | GetUserRoute | PostProfilePhoto | GetProfilePhoto

fun guarded_route :: "auth_route \<Rightarrow> bool" where
  "guarded_route PostUpdate = True"
| "guarded_route GetUserRoute = True"
| "guarded_route PostProfilePhoto = True"
| "guarded_route GetProfilePhoto = True"
| "guarded_route _ = False"

fun gw_auth :: "auth_pipes \<Rightarrow> http_request \<Rightarrow> claims option \<Rightarrow> auth_route \<Rightarrow> exn + (string \<times> auth_payload)" where
  "gw_auth P rq user PostRegister =
     and_then (valid_CreateUserDto P (rq_body rq)) (\<lambda>dto. Inr (''register'', NewUser dto))"
| "gw_auth P rq user PostLogin =
     and_then (valid_ExistingUserDto P (rq_body rq)) (\<lambda>dto. Inr (''login'', Credentials dto))"
| "gw_auth P rq user PostRefresh = Inr (''refresh-token'', RawBody (rq_body rq))"
| "gw_auth P rq user PostForgotPassword = Inr (''forgot-password'', RawBody (rq_body rq))"
| "gw_auth P rq user PatchResetPassword =
     and_then (valid_ResetPasswordDto P (rq_body rq)) (\<lambda>dto. Inr (''reset-password'', NewPassword dto))"
| "gw_auth P rq user PostUpdate =
     and_then (valid_UpdateUserDto P (rq_body rq)) (\<lambda>dto.
     and_then (user_id user) (\<lambda>u. Inr (''update-user'', UserChange u dto)))"
| "gw_auth P rq user GetUserRoute = and_then (user_id user) (\<lambda>u. Inr (''user'', OfUser u))"
| "gw_auth P rq user PostProfilePhoto =
     and_then (ap_parse_file P 1048576 ''image'' (rq_file rq)) (\<lambda>f.
     and_then (user_id user) (\<lambda>u. Inr (''user-image'', Photo f u)))"
| "gw_auth P rq user GetProfilePhoto = and_then (user_id user) (\<lambda>u. Inr (''get-user-image'', UserNumber u))"

section \<open>The guard and the requests\<close>

definition auth_rpc :: "'w auth_env \<Rightarrow> string \<times> auth_payload \<Rightarrow> ('w, auth_answer) prog" where
  "auth_rpc E m =
     (case auth_handler (fst m) (snd m) of
        Some c \<Rightarrow> try_catch (auth_controller E c) (\<lambda>e. Throw (rpc_exception_filter e))
      | None \<Rightarrow> Throw ThrownOther)"

text \<open>\<open>this.authService.send({ cmd: 'verify-jwt' }, { jwt })\<close>, answered by the service.\<close>

definition verify_call :: "'w auth_env \<Rightarrow> string \<Rightarrow> ('w, verified) prog" where
  "verify_call E jwt =
     bind (auth_rpc E (''verify-jwt'', Jwt (Some jwt))) (\<lambda>a.
     case a of VerifiedAnswer v \<Rightarrow> Return v | _ \<Rightarrow> Throw ThrownOther)"

definition auth_client_of :: "'w auth_env \<Rightarrow> ('w, int) op \<Rightarrow> 'w auth_client" where
  "auth_client_of E gateway_clock =
     \<lparr>ac_verify_jwt = (\<lambda>jwt. run (verify_call E jwt)), ac_now = gateway_clock\<rparr>"

datatype auth_http_answer = AuthAnswered auth_answer | AuthFailed http_error

definition auth_request_run :: "'w auth_client \<Rightarrow> auth_pipes \<Rightarrow> 'w auth_env \<Rightarrow> auth_route \<Rightarrow> http_request
    \<Rightarrow> ('w, auth_http_answer) prog" where
  "auth_request_run A P E route rq =
     try_catch
       (bind (if guarded_route route then auth_guard A ''http'' (rq_authorization rq) else Return (True, None))
         (\<lambda>(ok, user).
        bind (throw_if (\<not> ok) (ForbiddenException ''Forbidden resource'')) (\<lambda>_.
        bind (of_sum (gw_auth P rq user route)) (\<lambda>m.
        bind (auth_rpc E m) (\<lambda>a.
        Return (AuthAnswered a))))))
       (\<lambda>e. Return (AuthFailed (http_exception_filter (rq_url rq) e)))"

section \<open>Tokens at the guard\<close>

lemma vwp_verify_call:
  assumes E: "auth_contract view signs matches E"
  shows "vwp view (\<lambda>v'. v' = v) (verify_call E jwt)
     (\<lambda>x v'. \<exists>p. signs JWT_SECRET p jwt \<and> vf_user x = jp_user p \<and> vf_exp x = jp_exp p) (\<lambda>_ _. True) v"
  unfolding verify_call_def auth_rpc_def
  apply (simp add: answer_with_def jwt_guard_def verifyJwt_def)
  apply (rule vwp_bind, rule vwp_try_catch, rule vwp_bind, rule vwp_bind, rule vwp_try_catch,
      rule vwp_bind, rule vwp_reads, rule auth_contractD(13) [OF E])
    apply (auto intro!: wp_intros vwp_reads auth_contractD(13) [OF E])
  apply blast
  done

lemma guard_of_auth:
  assumes E: "auth_contract view signs matches E" and clk: "implements view gateway_clock (reads (\<lambda>_ _. True))"
  shows "guard_contract view (auth_client_of E gateway_clock)"
proof -
  have "view (snd (run (verify_call E jwt) w)) = view w" for jwt w
    using vwp_run [OF vwp_verify_call [OF E]] by (metis prod.collapse)
  moreover have "view (snd (gateway_clock w)) = view w" for w
    using clk [unfolded implements_def reads_def, THEN spec, of w]
    by (cases "gateway_clock w"; cases "fst (gateway_clock w)") auto
  ultimately show ?thesis by (simp add: guard_contract_def auth_client_of_def)
qed

text \<open>Whoever the guard lets in has a token that the service signed, and is the user it names.\<close>

lemma guard_signed:
  assumes E: "auth_contract view signs matches E"
    and r: "run (auth_guard (auth_client_of E gateway_clock) ''http'' a) w = (Inr (ok, user), w')"
  shows "\<exists>jwt p. bearer a jwt \<and> signs JWT_SECRET p jwt \<and> user = jp_user p"
proof -
  obtain jwt where b: "bearer a jwt"
    using r auth_guard_no_bearer [of a "auth_client_of E gateway_clock"] by force
  have *: "run (check_token (auth_client_of E gateway_clock) jwt) w = (Inr (ok, user), w')"
    using r unfolding auth_guard_bearer [OF b] .
  obtain x w1 where x: "run (verify_call E jwt) w = (x, w1)" by fastforce
  obtain v where v: "x = Inr v" "user = vf_user v"
    using * x unfolding check_token_run
    by (auto simp: auth_client_of_def split: sum.splits prod.splits if_splits)
  from vwp_run [OF vwp_verify_call [OF E] x] v b show ?thesis by auto
qed

text \<open>
  C32. The access token of a login opens the gateway as the user who logged in: whenever,
  after any later events, the guard lets a request with that token through, the user it
  attaches has the id and the role of the account with the given address and password. So
  the role is the one at the time of the login, whatever it has become since.
\<close>

theorem session_token_identifies_its_user:
  assumes "auth_contract view signs matches E" and "auth_ok (committed (view w))"
    and "run (login E dto) w = (Inr s, w1)"
    and "run (auth_guard (auth_client_of E gateway_clock) ''http'' (Some (''Bearer '' @ accesToken s))) w2
      = (Inr (ok, user), w3)"
  shows "\<exists>u. entitled matches dto (committed (view w)) u \<and> user = Some (user_claims u)"
proof -
  obtain u x where u: "entitled matches dto (committed (view w)) u" "session_user s = user_claims u"
    "signs JWT_SECRET (no_payload\<lparr>jp_user := Some (user_claims u), jp_exp := Some x\<rparr>) (accesToken s)"
    using vwp_run [OF login_spec [OF assms(1,2)] assms(3)] by (auto simp: access_token_def)
  obtain jwt p where p: "bearer (Some (''Bearer '' @ accesToken s)) jwt" "signs JWT_SECRET p jwt" "user = jp_user p"
    using guard_signed [OF assms(1,4)] by blast
  have "jwt = accesToken s" using p(1) by (simp add: bearer_def)
  with p(2) u(3) have "p = no_payload\<lparr>jp_user := Some (user_claims u), jp_exp := Some x\<rparr>"
    using signs_unique [OF assms(1)] by blast
  with u(1) p(3) show ?thesis by auto
qed

theorem session_token_identifies_its_user_witness:
  "fst (run (auth_guard (auth_client_of mem_auth (\<lambda>w. (Inr 0, w))) ''http''
      (Some (''Bearer '' @ accesToken (fst ana_session)))) (snd ana_session)) = Inr (True, Some (user_claims ana))"
proof -
  let ?g = "auth_guard (auth_client_of mem_auth (\<lambda>w. (Inr 0, w))) ''http'' (Some (''Bearer '' @ accesToken (fst ana_session)))"
  have "case fst (run (login mem_auth ana_login) ana_world) of Inr a \<Rightarrow> True | Inl e \<Rightarrow> False" by code_simp
  then have s: "run (login mem_auth ana_login) ana_world = (Inr (fst ana_session), snd ana_session)"
    unfolding ana_session_def by (cases "run (login mem_auth ana_login) ana_world") (auto split: sum.splits)
  obtain r w3 where g: "run ?g (snd ana_session) = (r, w3)" by fastforce
  have "case fst (run ?g (snd ana_session)) of Inr (ok, u) \<Rightarrow> ok | Inl e \<Rightarrow> False" by code_simp
  then have "case r of Inr (ok, u) \<Rightarrow> ok | Inl e \<Rightarrow> False" unfolding g fst_conv .
  then obtain user where r: "r = Inr (True, user)" by (auto split: sum.splits)
  have "user = Some (user_claims ana)"
    using session_token_identifies_its_user [OF mem_auth_contract ana_ok s g [unfolded r]]
    by (auto simp: entitled_def ana_world_def mem_auth_view_def)
  then show ?thesis unfolding g r by simp
qed

section \<open>Requests about the own account\<close>

fun account_of :: "auth_request \<Rightarrow> int option" where
  "account_of (UpdateUser i d) = Some i"
| "account_of (GetUser i) = Some i"
| "account_of (UserImage i f) = Some i"
| "account_of (GetUserImage i) = Some i"
| "account_of _ = None"

fun auth_route_of :: "auth_request \<Rightarrow> auth_route option" where
  "auth_route_of (Register d) = Some PostRegister"
| "auth_route_of (Login d) = Some PostLogin"
| "auth_route_of (RefreshToken t) = Some PostRefresh"
| "auth_route_of (ForgotPassword e) = Some PostForgotPassword"
| "auth_route_of (ResetPassword d) = Some PatchResetPassword"
| "auth_route_of (UpdateUser i d) = Some PostUpdate"
| "auth_route_of (GetUser i) = Some GetUserRoute"
| "auth_route_of (UserImage i f) = Some PostProfilePhoto"
| "auth_route_of (GetUserImage i) = Some GetProfilePhoto"
| "auth_route_of (VerifyJwt t) = None"

lemma gw_auth_routed:
  assumes "gw_auth P rq user route = Inr m" and "auth_handler (fst m) (snd m) = Some c"
  shows "auth_route_of c = Some route \<and> account_of c = (if guarded_route route then map_option cl_id user else None)"
  using assms by (cases route) (auto simp: and_then_Inr user_id_def split: option.splits)

text \<open>A command that throws has changed no account.\<close>

lemma auth_error_keeps_tables:
  assumes E: "auth_contract view signs matches E" and ok: "auth_ok (committed (view w))"
    and r: "run (auth_controller E c) w = (Inl e, w')"
  shows "committed (view w') = committed (view w)"
proof -
  have reads: "committed (view w') = committed (view w)"
    if "vwp view (\<lambda>v'. v' = view w) (auth_controller E c) (\<lambda>_ _. True) (\<lambda>_ _. True) (view w)"
    using vwp_run [OF that r] by simp
  show ?thesis
  proof (cases c)
    case (Register d)
    then obtain e' where "run (register E d) w = (Inl e', w')"
      using r by (auto simp: answer_with_def run_bind split: prod.splits sum.splits)
    from vwp_run [OF register_spec [OF E] this] show ?thesis by simp
  next
    case (Login d)
    then obtain e' where "run (login E d) w = (Inl e', w')"
      using r by (auto simp: answer_with_def run_bind split: prod.splits sum.splits)
    from vwp_run [OF login_spec [OF E ok] this] show ?thesis by simp
  next
    case (RefreshToken t)
    then obtain e' where 1: "run (refreshToken E t) w = (Inl e', w')"
      using r by (auto simp: answer_with_def run_bind split: prod.splits sum.splits)
    show ?thesis
    proof (cases t)
      case None
      then show ?thesis using 1 by (simp add: refreshToken_def run_simps)
    next
      case (Some x)
      from vwp_run [OF refresh_spec [OF E] 1 [unfolded Some]] show ?thesis by simp
    qed
  next
    case (UpdateUser i d)
    then obtain e' where "run (updateUserInfo E i d) w = (Inl e', w')"
      using r by (auto simp: answer_with_def run_bind split: prod.splits sum.splits)
    from vwp_run [OF update_spec [OF E] this] show ?thesis by simp
  next
    case (ForgotPassword m)
    then obtain e' where "run (forgotPassword E m) w = (Inl e', w')"
      using r by (auto simp: answer_with_def run_bind split: prod.splits sum.splits)
    from vwp_run [OF forgot_spec [OF E] this] show ?thesis by simp
  next
    case (ResetPassword d)
    then obtain e' where "run (resetPassword E (rp_token d) (rp_newPassword d)) w = (Inl e', w')"
      using r by (auto simp: answer_with_def run_bind split: prod.splits sum.splits)
    from vwp_run [OF reset_spec [OF E ok] this] show ?thesis by simp
  next
    case (UserImage i f)
    then show ?thesis
      using r by (auto simp: answer_with_def uploadUserImage_def run_simps split: prod.splits sum.splits)
  next
    case (VerifyJwt t)
    show ?thesis
      by (rule reads, unfold VerifyJwt auth_controller.simps answer_with_def jwt_guard_def verifyJwt_def)
        (auto intro!: wp_intros vwp_reads auth_contractD(13) [OF E])
  next
    case (GetUser i)
    show ?thesis
      by (rule reads, unfold GetUser auth_controller.simps answer_with_def getUser_def)
        (auto intro!: wp_intros vwp_reads auth_contractD(2) [OF E])
  next
    case (GetUserImage i)
    show ?thesis
      by (rule reads, unfold GetUserImage auth_controller.simps answer_with_def getUserImage_def getFile_def)
        (auto intro!: wp_intros vwp_reads auth_contractD(2,20) [OF E])
  qed
qed

definition named_by_token :: "(jwt_secret \<Rightarrow> jwt_payload \<Rightarrow> string \<Rightarrow> bool) \<Rightarrow> http_request \<Rightarrow> claims \<Rightarrow> bool" where
  "named_by_token signs rq u \<longleftrightarrow>
     (\<exists>jwt p. bearer (rq_authorization rq) jwt \<and> signs JWT_SECRET p jwt \<and> jp_user p = Some u)"

lemma auth_request_runE:
  assumes E: "auth_contract view signs matches E" and clk: "implements view gateway_clock (reads (\<lambda>_ _. True))"
    and run: "run (auth_request_run (auth_client_of E gateway_clock) P E route rq) w = (r, w')"
  obtains (stopped) he where "r = Inr (AuthFailed he)" and "view w' = view w"
  | (served) c w1 r1 where "view w1 = view w" and "run (auth_controller E c) w1 = (r1, w')"
      and "auth_route_of c = Some route"
      and "if guarded_route route then \<exists>u. named_by_token signs rq u \<and> account_of c = Some (cl_id u)
           else account_of c = None"
      and "r = Inr (case r1 of Inr a \<Rightarrow> AuthAnswered a | Inl e \<Rightarrow> AuthFailed (service_error (rq_url rq) e))"
proof -
  let ?g = "if guarded_route route then auth_guard (auth_client_of E gateway_clock) ''http'' (rq_authorization rq)
    else Return (True, None)"
  obtain g w1 where g: "run ?g w = (g, w1)" by fastforce
  have w1: "view w1 = view w"
    using g auth_guard_run [OF guard_of_auth [OF E clk]] by (cases "guarded_route route") auto
  show ?thesis
  proof (cases "\<exists>user m c. g = Inr (True, user) \<and> gw_auth P rq user route = Inr m \<and> auth_handler (fst m) (snd m) = Some c")
    case True
    then obtain user m c where c: "g = Inr (True, user)" "gw_auth P rq user route = Inr m"
      "auth_handler (fst m) (snd m) = Some c" by blast
    obtain r1 w2 where s: "run (auth_controller E c) w1 = (r1, w2)" by fastforce
    have "(r, w') = (Inr (case r1 of Inr a \<Rightarrow> AuthAnswered a | Inl e \<Rightarrow> AuthFailed (service_error (rq_url rq) e)), w2)"
      using run g c s
      by (auto simp: auth_request_run_def run_simps auth_rpc_def service_error_def split: sum.splits)
    moreover have "if guarded_route route then \<exists>u. named_by_token signs rq u \<and> account_of c = Some (cl_id u)
        else account_of c = None"
    proof (cases "guarded_route route")
      case True
      then obtain u where u: "user = Some u"
        using c(2) by (cases route) (auto simp: and_then_Inr user_id_def split: option.splits)
      have "named_by_token signs rq u"
        using guard_signed [OF E] g True c(1) u unfolding named_by_token_def by fastforce
      then show ?thesis using gw_auth_routed [OF c(2,3)] True u by auto
    next
      case False
      then show ?thesis using gw_auth_routed [OF c(2,3)] by simp
    qed
    ultimately show ?thesis using w1 s gw_auth_routed [OF c(2,3)] by (intro served [of w1 c r1]) auto
  next
    case False
    have "\<exists>he. (r, w') = (Inr (AuthFailed he), w1)"
    proof (cases g)
      case (Inl e)
      then show ?thesis using run g by (auto simp: auth_request_run_def run_simps)
    next
      case (Inr p)
      obtain ok user where p: "p = (ok, user)" by fastforce
      show ?thesis
      proof (cases ok)
        case True
        then show ?thesis
        proof (cases "gw_auth P rq user route")
          case (Inl e)
          then show ?thesis using run g Inr p True \<open>g = Inr p\<close> by (auto simp: auth_request_run_def run_simps)
        next
          case (Inr m)
          then have "auth_handler (fst m) (snd m) = None"
            using False \<open>g = Inr p\<close> p True by (cases "auth_handler (fst m) (snd m)") auto
          then show ?thesis using run g p True Inr \<open>g = Inr p\<close>
            by (auto simp: auth_request_run_def run_simps auth_rpc_def)
        qed
      next
        case False
        then show ?thesis using run g Inr p by (auto simp: auth_request_run_def run_simps)
      qed
    qed
    with w1 show ?thesis using stopped by blast
  qed
qed

text \<open>
  C33. A request to any route of the gateway's auth controller ends in a response. An answer
  is the answer of the service to the command of that route; on the routes about an
  account it is the account of the user that the request's signed bearer token names,
  whatever its body says. A request that fails, at the guard, in a pipe or in the service,
  has changed no account and stored no event.
\<close>

theorem account_request_acts_for_the_token_user:
  assumes "auth_contract view signs matches E" and "implements view gateway_clock (reads (\<lambda>_ _. True))"
    and "auth_ok (committed (view w))"
    and "run (auth_request_run (auth_client_of E gateway_clock) P E route rq) w = (r, w')"
  shows "\<exists>x. r = Inr x \<and>
    (case x of
       AuthAnswered a \<Rightarrow>
         (\<exists>c w1. view w1 = view w \<and> run (auth_controller E c) w1 = (Inr a, w') \<and> auth_route_of c = Some route \<and>
            (if guarded_route route then \<exists>u. named_by_token signs rq u \<and> account_of c = Some (cl_id u)
             else account_of c = None))
     | AuthFailed he \<Rightarrow> committed (view w') = committed (view w))"
  using assms(1,2,4)
proof (cases rule: auth_request_runE)
  case (stopped he)
  then show ?thesis by simp
next
  case (served c w1 r1)
  show ?thesis
  proof (cases r1)
    case (Inl e)
    have "auth_ok (committed (view w1))" using assms(3) served(1) by simp
    from auth_error_keeps_tables [OF assms(1) this served(2) [unfolded Inl]]
    show ?thesis using served Inl by simp
  next
    case (Inr a)
    show ?thesis
      unfolding served(5) Inr sum.case
      by (rule exI, rule conjI [OF refl], unfold auth_http_answer.case)
        (use served(1-4) [unfolded Inr] in blast)
  qed
qed

definition ana_request :: http_request where
  "ana_request =
     \<lparr>rq_url = ''/api/v1/auth/user'', rq_authorization = Some (''Bearer '' @ accesToken (fst ana_session)),
      rq_query = [], rq_params = [], rq_body = JNull, rq_file = None\<rparr>"

definition ana_pipes :: auth_pipes where
  "ana_pipes =
     \<lparr>ap_parse_file = (\<lambda>n ty f. Inl (BadRequestException ''File is required'')),
      valid_CreateUserDto = (\<lambda>_. Inl (BadRequestException ''invalid'')),
      valid_ExistingUserDto = (\<lambda>_. Inr ana_login),
      valid_ResetPasswordDto = (\<lambda>_. Inl (BadRequestException ''invalid'')),
      valid_UpdateUserDto = (\<lambda>_. Inr new_password)\<rparr>"

theorem account_request_acts_for_the_token_user_witness:
  "\<exists>a w' c. run (auth_request_run (auth_client_of mem_auth (\<lambda>w. (Inr 0, w))) ana_pipes mem_auth GetUserRoute ana_request)
      (snd ana_session) = (Inr (AuthAnswered a), w') \<and> auth_route_of c = Some GetUserRoute \<and>
      (\<exists>u. named_by_token (\<lambda>s p t. t = mem_token s p) ana_request u \<and> account_of c = Some (cl_id u))"
proof -
  let ?p = "auth_request_run (auth_client_of mem_auth (\<lambda>w. (Inr 0, w))) ana_pipes mem_auth GetUserRoute ana_request"
  obtain r w' where run: "run ?p (snd ana_session) = (r, w')" by fastforce
  have "case fst (run ?p (snd ana_session)) of Inr (AuthAnswered a) \<Rightarrow> True | _ \<Rightarrow> False" by code_simp
  then have "case r of Inr (AuthAnswered a) \<Rightarrow> True | _ \<Rightarrow> False" unfolding run fst_conv .
  then obtain a where r: "r = Inr (AuthAnswered a)" by (auto split: sum.splits auth_http_answer.splits)
  have clk: "implements mem_auth_view (\<lambda>w. (Inr 0 :: exn + int, w)) (reads (\<lambda>_ _. True))"
    by (simp add: implements_def reads_def)
  have ok: "auth_ok (committed (mem_auth_view (snd ana_session)))" by code_simp
  from account_request_acts_for_the_token_user [OF mem_auth_contract clk ok run]
  obtain c w1 u where "auth_route_of c = Some GetUserRoute"
    "named_by_token (\<lambda>s p t. t = mem_token s p) ana_request u" "account_of c = Some (cl_id u)"
    by (auto simp: r)
  with run r show ?thesis by blast
qed

section \<open>The history route\<close>

text \<open>
  \<open>apps/gateway/src/controllers/tracing.controller.ts\<close>: behind the auth guard, but the
  message carries only the crop's id, so nobody down the line can check whose crop it is.
\<close>

definition gw_history :: "pipes \<Rightarrow> http_request \<Rightarrow> claims option \<Rightarrow> exn + (string \<times> int)" where
  "gw_history P rq user =
     and_then (param_int P rq ''cropId'') (\<lambda>i. Inr (''getTracingHistory'', i))"

lemma history_ignores_the_user: "gw_history P rq u = gw_history P rq u'"
  by (simp add: gw_history_def)

end
