(* ===== verification/ReportRoutes.thy ===== *)
theory ReportRoutes
  imports FarmsGateway ReportSpec ReportCsv
begin

text \<open>
  The two routes of the gateway's report controller from end to end: guards, the message to
  the farms service, its handler, and the file made of the answer
  (\<open>apps/gateway/src/controllers/report.controller.ts\<close>,
  \<open>apps/farms/src/report/report.controller.ts\<close>).
\<close>

section \<open>Routes and messages\<close>

datatype report_route = ReportOfAdmin | ReportOfFarmer

text \<open>\<open>@Roles(Role.Admin)\<close>; the farmer's route has no \<open>RolesGuard\<close>, which is as if it asked for none.\<close>

fun report_roles :: "report_route \<Rightarrow> string list option" where
  "report_roles ReportOfAdmin = Some [Admin]"
| "report_roles ReportOfFarmer = None"

type_synonym report_message = "string \<times> (string \<times> int) list \<times> int option"

fun gw_report :: "pipes \<Rightarrow> http_request \<Rightarrow> claims option \<Rightarrow> report_route \<Rightarrow> exn + report_message" where
  "gw_report P rq user ReportOfAdmin = and_then (user_id user) (\<lambda>u. Inr (admin_message u))"
| "gw_report P rq user ReportOfFarmer =
     and_then (param_int P rq ''id'') (\<lambda>i. and_then (user_id user) (\<lambda>u. Inr (farmer_message i u)))"

text \<open>The \<open>@MessagePattern\<close> handlers: one takes the payload itself, the other two of its properties.\<close>

definition report_handler :: "report_message \<Rightarrow> report_request option" where
  "report_handler m =
     (case m of (cmd, props, bare) \<Rightarrow>
        if cmd = ''getAdminReport'' then map_option GetAdminReport bare
        else if cmd = ''getFarmerReport'' then
          Option.bind (map_of props ''id'') (\<lambda>i. map_option (GetFarmerReport i) (map_of props ''req_id''))
        else None)"

definition report_rpc :: "'w report_env \<Rightarrow> report_message \<Rightarrow> ('w, json) prog" where
  "report_rpc E m =
     (case report_handler m of
        Some req \<Rightarrow> bind (try_catch (report_controller E req) (\<lambda>e. Throw (rpc_exception_filter e)))
          (\<lambda>r. Return (report_reply r))
      | None \<Rightarrow> Throw ThrownOther)"

fun report_csv :: "report_route \<Rightarrow> json \<Rightarrow> exn + cell list list" where
  "report_csv ReportOfAdmin res = getAdminReport_csv res"
| "report_csv ReportOfFarmer res = getFarmerReport_csv res"

datatype report_answer = CsvFile "cell list list" | ReportFailed http_error

text \<open>The guards run before the pipes and the handler.\<close>

definition report_request_run :: "'w auth_client \<Rightarrow> pipes \<Rightarrow> 'w report_env \<Rightarrow> report_route \<Rightarrow> http_request
    \<Rightarrow> ('w, report_answer) prog" where
  "report_request_run A P E route rq =
     try_catch
       (bind (auth_guard A ''http'' (rq_authorization rq)) (\<lambda>(ok, user).
        bind (throw_if (\<not> ok) (ForbiddenException ''Forbidden resource'')) (\<lambda>_.
        bind (of_sum (roles_guard (report_roles route) user)) (\<lambda>allowed.
        bind (throw_if (\<not> allowed) (ForbiddenException ''Forbidden resource'')) (\<lambda>_.
        bind (of_sum (gw_report P rq user route)) (\<lambda>m.
        bind (report_rpc E m) (\<lambda>res.
        bind (of_sum (report_csv route res)) (\<lambda>rows.
        Return (CsvFile rows)))))))))
       (\<lambda>e. Return (ReportFailed (http_exception_filter (rq_url rq) e)))"

section \<open>What reaches the service\<close>

fun asked_for :: "report_route \<Rightarrow> int \<Rightarrow> report_request" where
  "asked_for ReportOfAdmin u = GetAdminReport u"
| "asked_for ReportOfFarmer u = GetFarmerReport u u"

lemma gw_report_handled:
  assumes "gw_report P rq user route = Inr m"
  shows "\<exists>u. user = Some u \<and>
    (case route of
       ReportOfAdmin \<Rightarrow> report_handler m = Some (GetAdminReport (cl_id u))
     | ReportOfFarmer \<Rightarrow> \<exists>i. param_int P rq ''id'' = Inr i \<and> report_handler m = Some (GetFarmerReport i (cl_id u)))"
  using assms
  by (cases route)
    (auto simp: and_then_Inr user_id_def report_handler_def admin_message_def farmer_message_def split: option.splits)

lemma roles_guard_admin: "roles_guard (report_roles ReportOfAdmin) (Some u) = Inr allowed \<Longrightarrow> cl_rol u = Some Admin"
  by (auto simp: roles_guard_def split: option.splits if_splits)

text \<open>The lines of the file that is made of a report.\<close>

fun report_rows :: "report \<Rightarrow> cell list list" where
  "report_rows (AdminReport es) =
     admin_columns # concat (map (\<lambda>en.
       if en_farms en = [] then [replicate 11 None]
       else concat (map (farm_lines (replicate 11 None)) (en_farms en))) es)"
| "report_rows (FarmerReport fs) = farmer_columns # concat (map (farm_lines []) fs)"

lemma report_csv_rows: "suits (asked_for route u) a \<Longrightarrow> report_csv route (report_reply a) = Inr (report_rows a)"
  using admin_csv_lines farmer_csv_lines
  by (cases route) (auto simp: getAdminReport_csv_def getFarmerReport_csv_def csv_response_def report_reply_def get_def)

lemma report_request_runE:
  assumes "guard_contract view A" and "run (report_request_run A P E route rq) w = (r, w')"
  obtains (stopped) he where "r = Inr (ReportFailed he)" and "view w' = view w"
  | (asked) u m req w1 r1 where "authenticated A rq w u"
      and "roles_guard (report_roles route) (Some u) = Inr True"
      and "gw_report P rq (Some u) route = Inr m" and "report_handler m = Some req"
      and "view w1 = view w" and "run (report_controller E req) w1 = (r1, w')"
      and "r = Inr (case r1 of
            Inl e \<Rightarrow> ReportFailed (http_exception_filter (rq_url rq) (rpc_exception_filter e))
          | Inr a \<Rightarrow> (case report_csv route (report_reply a) of
              Inl e \<Rightarrow> ReportFailed (http_exception_filter (rq_url rq) e) | Inr rows \<Rightarrow> CsvFile rows))"
proof -
  obtain g w1 where g: "run (auth_guard A ''http'' (rq_authorization rq)) w = (g, w1)" by fastforce
  note guard = auth_guard_run [OF assms(1) g]
  show ?thesis
  proof (cases "\<exists>user m. g = Inr (True, user) \<and> roles_guard (report_roles route) user = Inr True
      \<and> gw_report P rq user route = Inr m")
    case True
    then obtain user m where um: "g = Inr (True, user)" "roles_guard (report_roles route) user = Inr True"
      "gw_report P rq user route = Inr m" by blast
    obtain u req where u: "user = Some u" "report_handler m = Some req"
      using gw_report_handled [OF um(3)] by (cases route) auto
    obtain r1 w2 where s: "run (report_controller E req) w1 = (r1, w2)" by fastforce
    have "(r, w') = (Inr (case r1 of
            Inl e \<Rightarrow> ReportFailed (http_exception_filter (rq_url rq) (rpc_exception_filter e))
          | Inr a \<Rightarrow> (case report_csv route (report_reply a) of
              Inl e \<Rightarrow> ReportFailed (http_exception_filter (rq_url rq) e) | Inr rows \<Rightarrow> CsvFile rows)), w2)"
      using assms(2) g um u s
      by (auto simp: report_request_run_def run_simps report_rpc_def split: sum.splits)
    with guard um u s show ?thesis by (intro asked [of u m req w1 r1]) auto
  next
    case False
    have "\<exists>he. (r, w') = (Inr (ReportFailed he), w1)"
      using assms(2) g False
      by (auto simp: report_request_run_def run_simps split: sum.splits prod.splits if_splits)
    with guard show ?thesis using stopped by blast
  qed
qed

section \<open>Who gets a file\<close>

text \<open>
  C23. A request to the report routes always ends in a response and leaves the tables as they
  are. The admin's file is sent only to a verified token with the role admin whose user has
  that role in the farms service's own data as well; a farmer's file only to the user whose
  id the URL names. A file has exactly the lines of the report: of one computed from the
  current rows, or of a cached one of this kind and user that is at most a minute old; a
  farmer's file has only farms of that farmer.
\<close>

theorem report_file_for_its_reader:
  assumes "report_contract view E" and "report_cache_ok (view w)" and "guard_contract view A"
    and "run (report_request_run A P E route rq) w = (r, w')"
  shows "\<exists>x. r = Inr x \<and> report_tables (view w') = report_tables (view w) \<and> report_cache_ok (view w') \<and>
    (case x of
       ReportFailed he \<Rightarrow> True
     | CsvFile rows \<Rightarrow>
         \<exists>u a. authenticated A rq w u \<and> may_see (report_tables (view w)) (asked_for route (cl_id u)) \<and>
           (case route of ReportOfAdmin \<Rightarrow> cl_rol u = Some Admin | ReportOfFarmer \<Rightarrow> param_int P rq ''id'' = Inr (cl_id u)) \<and>
           suits (asked_for route (cl_id u)) a \<and> rows = report_rows a \<and>
           (fresh_report (report_tables (view w)) (asked_for route (cl_id u)) a \<or>
            (\<exists>until. cache (view w) (report_key (asked_for route (cl_id u))) = Some (a, until)
               \<and> clock (view w) < until \<and> until \<le> clock (view w) + 60)))"
  using assms(3,4)
proof (cases rule: report_request_runE)
  case (stopped he)
  then show ?thesis using assms(2) by simp
next
  case (asked u m req w1 r1)
  have ok: "report_cache_ok (view w1)" using assms(2) asked(5) by simp
  note spec = vwp_run [OF report_controller_spec [OF assms(1) ok] asked(6), unfolded asked(5)]
  have young: "until \<le> clock (view w) + 60" if "cache (view w) (report_key req) = Some (a, until)" for a until
    using assms(2) that by (cases req) (auto simp: report_cache_ok_def REPORT_CACHE_TTL_SECONDS_def)
  show ?thesis
  proof (cases r1)
    case (Inl e)
    with spec asked show ?thesis by (simp add: report_inv_def)
  next
    case (Inr a)
    with spec have a: "answered (view w) req a" "report_inv (report_tables (view w)) (view w')" by simp_all
    have req: "req = asked_for route (cl_id u)" and who: "case route of
        ReportOfAdmin \<Rightarrow> cl_rol u = Some Admin | ReportOfFarmer \<Rightarrow> param_int P rq ''id'' = Inr (cl_id u)"
      using gw_report_handled [OF asked(3)] asked(2,4) a(1) roles_guard_admin
      by (cases route; auto simp: answered_def)+
    have "r = Inr (CsvFile (report_rows a))"
      using asked(7) Inr a(1) report_csv_rows [of route "cl_id u" a] by (simp add: req answered_def)
    moreover have "fresh_report (report_tables (view w)) req a \<or>
        (\<exists>until. cache (view w) (report_key req) = Some (a, until) \<and> clock (view w) < until \<and> until \<le> clock (view w) + 60)"
      using a(1) young by (auto simp: answered_def)
    moreover have "may_see (report_tables (view w)) req" "suits req a"
      using a(1) by (simp_all add: answered_def)
    ultimately show ?thesis
      using asked(1) a(2) who unfolding req
      by (intro exI [of _ "CsvFile (report_rows a)"]) (simp add: report_inv_def, blast)
  qed
qed

definition demo_admin_auth :: "'w auth_client" where
  "demo_admin_auth =
     \<lparr>ac_verify_jwt = (\<lambda>jwt w. (Inr \<lparr>vf_exp = Some 1000, vf_user = Some \<lparr>cl_id = 1, cl_rol = Some ''admin''\<rparr>\<rparr>, w)),
      ac_now = (\<lambda>w. (Inr 5000, w))\<rparr>"

theorem report_file_for_its_reader_witness:
  "\<exists>rows v' u. run (report_request_run demo_admin_auth demo_pipes mem_report ReportOfAdmin (demo_request ''t1'')) demo_report_view
       = (Inr (CsvFile rows), v') \<and> authenticated demo_admin_auth (demo_request ''t1'') demo_report_view u
     \<and> is_admin (report_tables demo_report_view) (cl_id u) \<and> cl_rol u = Some Admin"
proof -
  let ?p = "report_request_run demo_admin_auth demo_pipes mem_report ReportOfAdmin (demo_request ''t1'')"
  obtain r v' where run: "run ?p demo_report_view = (r, v')" by fastforce
  have "case fst (run ?p demo_report_view) of Inr (CsvFile rows) \<Rightarrow> True | _ \<Rightarrow> False" by code_simp
  with run obtain rows where rows: "r = Inr (CsvFile rows)" by (auto split: sum.splits report_answer.splits)
  have guard: "guard_contract id demo_admin_auth"
    by (simp add: guard_contract_def demo_admin_auth_def)
  from report_file_for_its_reader [OF mem_report_contract demo_report_cache_ok guard run] rows run
  show ?thesis by auto
qed

end
