(* ===== verification/Schema.thy ===== *)
theory Schema
  imports Prelude
begin

text \<open>
  The databases of the auth and farms services: the migrations
  (\<open>apps/{auth,farms}/src/db/migrations\<close>) as lists of SQL statements, what a statement does
  to the catalogue of a database, and the tables the entities
  (\<open>libs/common/src/entities\<close>) are mapped to.
\<close>

section \<open>Statements\<close>

datatype sql_type = Serial | Varchar | IntegerType | Jsonb | Timestamptz | DateType | EnumType string

record column =
  co_name :: string
  co_type :: sql_type
  co_notnull :: bool
  co_default :: "string option"

datatype table_key = PrimaryKey "string list" | UniqueKey "string list"

record sql_table =
  tb_columns :: "column list"
  tb_keys :: "(string \<times> table_key) list"

record foreign_key =
  fk_table :: string
  fk_name :: string
  fk_column :: string
  fk_ref :: string
  fk_refcolumn :: string

record table_index =
  ix_name :: string
  ix_table :: string
  ix_column :: string
  ix_where :: string

datatype ddl =
    CreateType string "string list"
  | DropType string
  | CreateTable string sql_table
  | DropTable string
  | AddForeignKey foreign_key
  | DropForeignKey string string
  | CreateIndex table_index
  | DropIndex string

section \<open>The catalogue\<close>

record schema =
  db_types :: "(string \<times> string list) list"
  db_tables :: "(string \<times> sql_table) list"
  db_fkeys :: "foreign_key list"
  db_indexes :: "table_index list"

definition empty_schema :: schema where
  "empty_schema = \<lparr>db_types = [], db_tables = [], db_fkeys = [], db_indexes = []\<rparr>"

fun enum_of :: "sql_type \<Rightarrow> string option" where
  "enum_of (EnumType n) = Some n"
| "enum_of _ = None"

definition uses_type :: "string \<Rightarrow> sql_table \<Rightarrow> bool" where
  "uses_type n t \<longleftrightarrow> list_ex (\<lambda>c. enum_of (co_type c) = Some n) (tb_columns t)"

definition types_known :: "schema \<Rightarrow> sql_table \<Rightarrow> bool" where
  "types_known s t \<longleftrightarrow>
     list_all (\<lambda>c. case enum_of (co_type c) of None \<Rightarrow> True | Some n \<Rightarrow> map_of (db_types s) n \<noteq> None) (tb_columns t)"

definition has_column :: "schema \<Rightarrow> string \<Rightarrow> string \<Rightarrow> bool" where
  "has_column s t c \<longleftrightarrow>
     (case map_of (db_tables s) t of None \<Rightarrow> False | Some tb \<Rightarrow> c \<in> set (map co_name (tb_columns tb)))"

text \<open>Tables and indexes share their names.\<close>

definition relation_named :: "schema \<Rightarrow> string \<Rightarrow> bool" where
  "relation_named s n \<longleftrightarrow> map_of (db_tables s) n \<noteq> None \<or> n \<in> set (map ix_name (db_indexes s))"

definition same_fkey :: "string \<Rightarrow> string \<Rightarrow> foreign_key \<Rightarrow> bool" where
  "same_fkey t n k \<longleftrightarrow> fk_table k = t \<and> fk_name k = n"

text \<open>
  A statement fails when it creates what is there, drops what is not, or drops what something
  else still refers to. A dropped table takes its own indexes and foreign keys along.
\<close>

fun exec :: "ddl \<Rightarrow> schema \<Rightarrow> schema option" where
  "exec (CreateType n ls) s =
     (if map_of (db_types s) n = None then Some (s\<lparr>db_types := (n, ls) # db_types s\<rparr>) else None)"
| "exec (DropType n) s =
     (if map_of (db_types s) n \<noteq> None \<and> \<not> list_ex (\<lambda>(_, t). uses_type n t) (db_tables s)
      then Some (s\<lparr>db_types := filter (\<lambda>(k, _). k \<noteq> n) (db_types s)\<rparr>) else None)"
| "exec (CreateTable n t) s =
     (if \<not> relation_named s n \<and> types_known s t \<and> distinct (map co_name (tb_columns t))
      then Some (s\<lparr>db_tables := (n, t) # db_tables s\<rparr>) else None)"
| "exec (DropTable n) s =
     (if map_of (db_tables s) n \<noteq> None \<and> list_all (\<lambda>k. fk_ref k \<noteq> n \<or> fk_table k = n) (db_fkeys s)
      then Some (s\<lparr>db_tables := filter (\<lambda>(k, _). k \<noteq> n) (db_tables s),
                   db_fkeys := filter (\<lambda>k. fk_table k \<noteq> n) (db_fkeys s),
                   db_indexes := filter (\<lambda>i. ix_table i \<noteq> n) (db_indexes s)\<rparr>) else None)"
| "exec (AddForeignKey k) s =
     (if has_column s (fk_table k) (fk_column k) \<and> has_column s (fk_ref k) (fk_refcolumn k)
         \<and> \<not> list_ex (same_fkey (fk_table k) (fk_name k)) (db_fkeys s)
      then Some (s\<lparr>db_fkeys := k # db_fkeys s\<rparr>) else None)"
| "exec (DropForeignKey t n) s =
     (if list_ex (same_fkey t n) (db_fkeys s)
      then Some (s\<lparr>db_fkeys := filter (\<lambda>k. \<not> same_fkey t n k) (db_fkeys s)\<rparr>) else None)"
| "exec (CreateIndex i) s =
     (if \<not> relation_named s (ix_name i) \<and> has_column s (ix_table i) (ix_column i)
      then Some (s\<lparr>db_indexes := i # db_indexes s\<rparr>) else None)"
| "exec (DropIndex n) s =
     (if n \<in> set (map ix_name (db_indexes s))
      then Some (s\<lparr>db_indexes := filter (\<lambda>i. ix_name i \<noteq> n) (db_indexes s)\<rparr>) else None)"

text \<open>Steps one after the other, as far as none of them fails.\<close>

fun run_steps :: "('d \<Rightarrow> 's \<Rightarrow> 's option) \<Rightarrow> 'd list \<Rightarrow> 's \<Rightarrow> 's option" where
  "run_steps f [] s = Some s"
| "run_steps f (d # ds) s = Option.bind (f d s) (run_steps f ds)"

abbreviation run_ddl :: "ddl list \<Rightarrow> schema \<Rightarrow> schema option" where
  "run_ddl \<equiv> run_steps exec"

lemma run_steps_append: "run_steps f (as @ bs) s = Option.bind (run_steps f as s) (run_steps f bs)"
  by (induction as arbitrary: s) (auto split: bind_splits)

section \<open>The migrations\<close>

record migration =
  mg_name :: string
  mg_up :: "ddl list"
  mg_down :: "ddl list"

definition col :: "string \<Rightarrow> sql_type \<Rightarrow> column" where
  "col n t = \<lparr>co_name = n, co_type = t, co_notnull = False, co_default = None\<rparr>"

definition col_nn :: "string \<Rightarrow> sql_type \<Rightarrow> column" where
  "col_nn n t = \<lparr>co_name = n, co_type = t, co_notnull = True, co_default = None\<rparr>"

definition col_def :: "string \<Rightarrow> sql_type \<Rightarrow> string \<Rightarrow> column" where
  "col_def n t d = \<lparr>co_name = n, co_type = t, co_notnull = True, co_default = Some d\<rparr>"

definition AuthInitialSchema :: migration where
  "AuthInitialSchema =
     \<lparr>mg_name = ''AuthInitialSchema1785100000000'',
      mg_up =
        [CreateType ''users_gender_enum'' [''1'', ''2'', ''3''],
         CreateType ''users_documenttype_enum'' [''1'', ''2''],
         CreateTable ''users''
           \<lparr>tb_columns =
              [col_nn ''id'' Serial, col_nn ''firstName'' Varchar, col ''lastName'' Varchar, col_nn ''email'' Varchar,
               col_nn ''password'' Varchar, col ''rol'' Varchar, col ''photo'' Varchar,
               col ''gender'' (EnumType ''users_gender_enum''), col ''documentType'' (EnumType ''users_documenttype_enum''),
               col ''documentNumber'' IntegerType, col ''dateOfBirth'' DateType, col ''country'' Varchar,
               col ''forgotPasswordToken'' Varchar, col ''state'' Varchar, col ''city'' Varchar],
            tb_keys = [(''UQ_97672ac88f789774dd47f7c8be3'', UniqueKey [''email'']),
                       (''PK_a3ffb1c0c8416b9fc6f907b7433'', PrimaryKey [''id''])]\<rparr>],
      mg_down =
        [DropTable ''users'', DropType ''users_documenttype_enum'', DropType ''users_gender_enum'']\<rparr>"

definition outbox_columns :: "column list" where
  "outbox_columns =
     [col_nn ''id'' Serial, col_nn ''pattern'' Varchar, col_nn ''payload'' Jsonb, col ''publishedAt'' Timestamptz,
      col_def ''attempts'' IntegerType ''0'', col_def ''createdAt'' Timestamptz ''now()'']"

definition AuthOutbox :: migration where
  "AuthOutbox =
     \<lparr>mg_name = ''AuthOutbox1785100000001'',
      mg_up =
        [CreateTable ''outbox'' \<lparr>tb_columns = outbox_columns, tb_keys = [(''PK_auth_outbox_id'', PrimaryKey [''id''])]\<rparr>,
         CreateIndex \<lparr>ix_name = ''IDX_auth_outbox_pending'', ix_table = ''outbox'', ix_column = ''publishedAt'',
                      ix_where = ''\"publishedAt\" IS NULL''\<rparr>],
      mg_down = [DropIndex ''IDX_auth_outbox_pending'', DropTable ''outbox'']\<rparr>"

definition auth_migrations :: "migration list" where
  "auth_migrations = [AuthInitialSchema, AuthOutbox]"

definition crop_key :: "string \<Rightarrow> string \<Rightarrow> string \<Rightarrow> string \<Rightarrow> foreign_key" where
  "crop_key t n c ref = \<lparr>fk_table = t, fk_name = n, fk_column = c, fk_ref = ref, fk_refcolumn = ''id''\<rparr>"

definition FarmsInitialSchema :: migration where
  "FarmsInitialSchema =
     \<lparr>mg_name = ''FarmsInitialSchema1785100000000'',
      mg_up =
        [CreateTable ''farms''
           \<lparr>tb_columns =
              [col_nn ''id'' Serial, col_nn ''name'' Varchar, col_nn ''location'' Varchar, col ''photo'' Varchar,
               col_nn ''state'' IntegerType, col_nn ''area'' IntegerType, col ''userId'' IntegerType],
            tb_keys = [(''UQ_8dfb4ca1531d2f3c41f102783e2'', UniqueKey [''name'', ''userId'']),
                       (''PK_39aff9c35006b14025bba5a43d9'', PrimaryKey [''id''])]\<rparr>,
         CreateTable ''harvests''
           \<lparr>tb_columns =
              [col_nn ''id'' Serial, col ''photo'' Varchar, col_nn ''harvestDate'' Varchar, col_nn ''amount'' IntegerType,
               col_nn ''unit'' Varchar, col_nn ''category'' Varchar, col ''description'' Varchar, col ''cropId'' IntegerType],
            tb_keys = [(''PK_fb748ae28bc0000875b1949a0a6'', PrimaryKey [''id''])]\<rparr>,
         CreateTable ''crops''
           \<lparr>tb_columns =
              [col_nn ''id'' Serial, col_nn ''name'' Varchar, col_nn ''product'' Varchar, col_nn ''size'' IntegerType,
               col_nn ''location'' Varchar, col ''photo'' Varchar, col_nn ''sowingDate'' Varchar,
               col_nn ''plants'' IntegerType, col ''farmId'' IntegerType],
            tb_keys = [(''PK_098dbeb7c803dc7c08a7f02b805'', PrimaryKey [''id''])]\<rparr>,
         CreateTable ''activities''
           \<lparr>tb_columns =
              [col_nn ''id'' Serial, col ''photo'' Varchar, col ''type'' Varchar, col ''inputDate'' Varchar,
               col ''title'' Varchar, col ''manufactureLocation'' Varchar, col ''appRatio'' Varchar,
               col ''appMethod'' Varchar, col ''comment'' Varchar, col ''category'' Varchar, col ''bioName'' Varchar,
               col ''bioType'' Varchar, col ''cropId'' IntegerType],
            tb_keys = [(''PK_7f4004429f731ffb9c88eb486a8'', PrimaryKey [''id''])]\<rparr>,
         AddForeignKey (crop_key ''harvests'' ''FK_e849e688de0a0119e0cff46234d'' ''cropId'' ''crops''),
         AddForeignKey (crop_key ''crops'' ''FK_22c38f5ca32439c43bf2a9142a2'' ''farmId'' ''farms''),
         AddForeignKey (crop_key ''activities'' ''FK_581a63e66f7ddbb12acc2267bb3'' ''cropId'' ''crops'')],
      mg_down =
        [DropForeignKey ''activities'' ''FK_581a63e66f7ddbb12acc2267bb3'',
         DropForeignKey ''crops'' ''FK_22c38f5ca32439c43bf2a9142a2'',
         DropForeignKey ''harvests'' ''FK_e849e688de0a0119e0cff46234d'',
         DropTable ''activities'', DropTable ''crops'', DropTable ''harvests'', DropTable ''farms'']\<rparr>"

definition FarmsOutbox :: migration where
  "FarmsOutbox =
     \<lparr>mg_name = ''FarmsOutbox1785100000001'',
      mg_up =
        [CreateTable ''outbox'' \<lparr>tb_columns = outbox_columns, tb_keys = [(''PK_farms_outbox_id'', PrimaryKey [''id''])]\<rparr>,
         CreateIndex \<lparr>ix_name = ''IDX_farms_outbox_pending'', ix_table = ''outbox'', ix_column = ''publishedAt'',
                      ix_where = ''\"publishedAt\" IS NULL''\<rparr>],
      mg_down = [DropIndex ''IDX_farms_outbox_pending'', DropTable ''outbox'']\<rparr>"

definition FarmsUserProjection :: migration where
  "FarmsUserProjection =
     \<lparr>mg_name = ''FarmsUserProjection1785100000002'',
      mg_up =
        [CreateTable ''user_projection''
           \<lparr>tb_columns =
              [col_nn ''id'' IntegerType, col_nn ''firstName'' Varchar, col ''lastName'' Varchar, col_nn ''email'' Varchar,
               col ''rol'' Varchar, col_def ''updatedAt'' Timestamptz ''now()''],
            tb_keys = [(''PK_user_projection_id'', PrimaryKey [''id''])]\<rparr>],
      mg_down = [DropTable ''user_projection'']\<rparr>"

definition farms_migrations :: "migration list" where
  "farms_migrations = [FarmsInitialSchema, FarmsOutbox, FarmsUserProjection]"

text \<open>\<open>migration:run\<close> applies the migrations in their order, \<open>migration:revert\<close> undoes the last one.\<close>

definition migrate :: "migration list \<Rightarrow> schema \<Rightarrow> schema option" where
  "migrate = run_steps (\<lambda>m. run_ddl (mg_up m))"

definition revert :: "migration list \<Rightarrow> schema \<Rightarrow> schema option" where
  "revert ms = run_steps (\<lambda>m. run_ddl (mg_down m)) (rev ms)"

lemmas migration_defs = auth_migrations_def farms_migrations_def AuthInitialSchema_def AuthOutbox_def
  FarmsInitialSchema_def FarmsOutbox_def FarmsUserProjection_def outbox_columns_def crop_key_def col_def col_nn_def col_def_def

lemmas catalogue_defs = migrate_def empty_schema_def relation_named_def types_known_def has_column_def same_fkey_def

section \<open>Undoing\<close>

text \<open>
  Steps that can be taken back one by one, as long as the state is in order, can be taken
  back together, the last one first.
\<close>

locale reversible =
  fixes forth :: "'d \<Rightarrow> 's \<Rightarrow> 's option" and back_step :: "'e \<Rightarrow> 's \<Rightarrow> 's option"
    and undone_by :: "'d \<Rightarrow> 'e \<Rightarrow> bool" and in_order :: "'s \<Rightarrow> bool"
  assumes step_back: "undone_by d e \<Longrightarrow> in_order s \<Longrightarrow> forth d s = Some s1 \<Longrightarrow> back_step e s1 = Some s"
    and stays_in_order: "undone_by d e \<Longrightarrow> in_order s \<Longrightarrow> forth d s = Some s1 \<Longrightarrow> in_order s1"
begin

lemma steps_back:
  assumes "list_all2 undone_by ds es" and "in_order s" and "run_steps forth ds s = Some s1"
  shows "run_steps back_step (rev es) s1 = Some s \<and> in_order s1"
  using assms
proof (induction ds es arbitrary: s rule: list_all2_induct)
  case (Cons d ds e es)
  then obtain s0 where s0: "forth d s = Some s0" "run_steps forth ds s0 = Some s1"
    by (auto split: bind_splits)
  have "run_steps back_step (rev es) s1 = Some s0 \<and> in_order s1"
    using Cons.IH [OF stays_in_order [OF Cons.hyps(1) Cons.prems(1) s0(1)] s0(2)] .
  then show ?case
    using step_back [OF Cons.hyps(1) Cons.prems(1) s0(1)] by (simp add: run_steps_append)
qed simp

end

text \<open>Every foreign key and index belongs to tables that are there, and every enum that a table uses exists.\<close>

definition schema_wf :: "schema \<Rightarrow> bool" where
  "schema_wf s \<longleftrightarrow>
     list_all (\<lambda>k. map_of (db_tables s) (fk_table k) \<noteq> None \<and> map_of (db_tables s) (fk_ref k) \<noteq> None) (db_fkeys s) \<and>
     list_all (\<lambda>i. map_of (db_tables s) (ix_table i) \<noteq> None) (db_indexes s) \<and>
     list_all (\<lambda>(n, t). types_known s t) (db_tables s)"

fun undoes :: "ddl \<Rightarrow> ddl \<Rightarrow> bool" where
  "undoes (CreateType n ls) u = (u = DropType n)"
| "undoes (CreateTable n t) u = (u = DropTable n)"
| "undoes (AddForeignKey k) u = (u = DropForeignKey (fk_table k) (fk_name k))"
| "undoes (CreateIndex i) u = (u = DropIndex (ix_name i))"
| "undoes _ u = False"

lemma filter_fresh: "map_of xs k = None \<Longrightarrow> filter (\<lambda>(k', _). k' \<noteq> k) xs = xs"
  by (induction xs) (auto split: if_splits)

lemma list_ex_fresh: "\<not> list_ex P xs \<Longrightarrow> filter (\<lambda>x. \<not> P x) xs = xs"
  by (induction xs) auto

lemma unused_type:
  "types_known s t \<Longrightarrow> map_of (db_types s) n = None \<Longrightarrow> \<not> uses_type n t"
  by (auto simp: types_known_def uses_type_def list_all_iff list_ex_iff split: option.splits)

lemma types_known_tables:
  assumes "\<forall>(n, t) \<in> set ts. types_known s t" and "(a, b) \<in> set ts"
  shows "types_known (s\<lparr>db_types := (n, ls) # db_types s\<rparr>) b"
  using assms by (fastforce simp: types_known_def list_all_iff split: option.splits)

lemma types_known_simps:
  "types_known (s\<lparr>db_tables := ts\<rparr>) t = types_known s t"
  "types_known (s\<lparr>db_fkeys := ks\<rparr>) t = types_known s t"
  "types_known (s\<lparr>db_indexes := is\<rparr>) t = types_known s t"
  by (auto simp: types_known_def list_all_iff split: option.splits)

lemma exec_wf:
  assumes "undoes d u" and "schema_wf s" and "exec d s = Some s1"
  shows "schema_wf s1"
  using assms
  by (cases d)
    (auto simp: schema_wf_def list_all_iff has_column_def types_known_tables types_known_simps
      split: if_splits option.splits)

lemma exec_undo:
  assumes "undoes d u" and "schema_wf s" and "exec d s = Some s1"
  shows "exec u s1 = Some s"
proof (cases d)
  case (CreateType n ls)
  with assms show ?thesis
    by (fastforce simp: filter_fresh schema_wf_def list_all_iff list_ex_iff dest: unused_type split: if_splits)
next
  case (CreateTable n t)
  then have new: "\<not> relation_named s n" and s1: "s1 = s\<lparr>db_tables := (n, t) # db_tables s\<rparr>"
    and u: "u = DropTable n"
    using assms by (auto split: if_splits)
  then have none: "map_of (db_tables s) n = None" by (auto simp: relation_named_def)
  then have "\<forall>k \<in> set (db_fkeys s). fk_table k \<noteq> n \<and> fk_ref k \<noteq> n" "\<forall>i \<in> set (db_indexes s). ix_table i \<noteq> n"
    using assms(2) unfolding schema_wf_def list_all_iff by (metis)+
  then have "filter (\<lambda>k. fk_table k \<noteq> n) (db_fkeys s) = db_fkeys s"
    "filter (\<lambda>i. ix_table i \<noteq> n) (db_indexes s) = db_indexes s"
    "list_all (\<lambda>k. fk_ref k \<noteq> n \<or> fk_table k = n) (db_fkeys s)"
    by (auto simp: filter_id_conv list_all_iff)
  then show ?thesis using none by (simp add: u s1 filter_fresh)
next
  case (AddForeignKey k)
  moreover have "same_fkey (fk_table k) (fk_name k) k" by (simp add: same_fkey_def)
  ultimately show ?thesis
    using assms by (auto simp: list_ex_fresh split: if_splits)
next
  case (CreateIndex i)
  then have "\<forall>j \<in> set (db_indexes s). ix_name j \<noteq> ix_name i"
    using assms by (auto simp: relation_named_def image_iff split: if_splits)
  then have "filter (\<lambda>j. ix_name j \<noteq> ix_name i) (db_indexes s) = db_indexes s"
    by (simp add: filter_id_conv)
  with CreateIndex assms show ?thesis by (auto split: if_splits)
qed (use assms in auto)

interpretation statement: reversible exec exec undoes schema_wf
  by unfold_locales (fact exec_undo, fact exec_wf)

definition mirrored :: "migration \<Rightarrow> bool" where
  "mirrored m \<longleftrightarrow> list_all2 undoes (mg_up m) (rev (mg_down m))"

lemma down_undoes_up:
  "mirrored m \<Longrightarrow> schema_wf s \<Longrightarrow> run_ddl (mg_up m) s = Some s1 \<Longrightarrow> run_ddl (mg_down m) s1 = Some s \<and> schema_wf s1"
  using statement.steps_back [of "mg_up m" "rev (mg_down m)"] by (simp add: mirrored_def)

interpretation migrating: reversible "\<lambda>m. run_ddl (mg_up m)" "\<lambda>m. run_ddl (mg_down m)"
    "\<lambda>m m'. m' = m \<and> mirrored m" schema_wf
  by unfold_locales (auto dest: down_undoes_up)

lemma revert_migrate:
  assumes "list_all mirrored ms" and "schema_wf s" and "migrate ms s = Some s1"
  shows "revert ms s1 = Some s \<and> schema_wf s1"
proof -
  have "list_all2 (\<lambda>m m'. m' = m \<and> mirrored m) ms ms"
    using assms(1) by (induction ms) auto
  with assms(2,3) show ?thesis
    using migrating.steps_back by (simp add: migrate_def revert_def)
qed

lemma auth_mirrored: "list_all mirrored auth_migrations"
  by (simp add: mirrored_def migration_defs)

lemma farms_mirrored: "list_all mirrored farms_migrations"
  by (simp add: mirrored_def migration_defs)

text \<open>
  C40. Reverting the migrations of a service in the opposite order, from any catalogue that
  they could be applied to, restores exactly the catalogue that was there before: no
  statement of a down fails on something that still refers to what it drops, and nothing
  is left behind. Both services can be migrated from an empty database.
\<close>

theorem migrations_are_reversible:
  assumes "ms = auth_migrations \<or> ms = farms_migrations" and "schema_wf s" and "migrate ms s = Some s1"
  shows "revert ms s1 = Some s \<and> schema_wf s1"
  using assms revert_migrate auth_mirrored farms_mirrored by blast

lemma empty_wf: "schema_wf empty_schema"
  by (simp add: schema_wf_def empty_schema_def)

theorem migrations_are_reversible_witness:
  "\<exists>s1. migrate farms_migrations empty_schema = Some s1 \<and> revert farms_migrations s1 = Some empty_schema
      \<and> map fst (db_tables s1) = [''user_projection'', ''outbox'', ''activities'', ''crops'', ''harvests'', ''farms'']"
proof -
  obtain s1 where "migrate farms_migrations empty_schema = Some s1"
      "map fst (db_tables s1) = [''user_projection'', ''outbox'', ''activities'', ''crops'', ''harvests'', ''farms'']"
    by (simp add: migration_defs catalogue_defs)
  then show ?thesis
    using migrations_are_reversible [of farms_migrations empty_schema s1] empty_wf by (intro exI [of _ s1]) simp
qed

section \<open>The entities\<close>

datatype ts_type = TsNumber | TsString | TsObject | TsDate
datatype column_kind = PrimaryGeneratedColumn | PrimaryColumn | Column | CreateDateColumn | UpdateDateColumn

record entity_column =
  ec_name :: string
  ec_kind :: column_kind
  ec_ts :: ts_type
  ec_nullable :: bool
  ec_type :: "sql_type option"
  ec_default :: "string option"

record entity =
  et_name :: string
  et_columns :: "entity_column list"
  et_joins :: "(string \<times> string) list"
  et_uniques :: "string list list"
  et_enums :: "(string \<times> string list) list"
  et_indexes :: "(string \<times> string) list"

text \<open>The decorators: a plain column, a nullable one, and one with a type of its own.\<close>

definition plain :: "string \<Rightarrow> ts_type \<Rightarrow> entity_column" where
  "plain n t = \<lparr>ec_name = n, ec_kind = Column, ec_ts = t, ec_nullable = False, ec_type = None, ec_default = None\<rparr>"

definition nullable :: "string \<Rightarrow> ts_type \<Rightarrow> entity_column" where
  "nullable n t = (plain n t)\<lparr>ec_nullable := True\<rparr>"

definition typed :: "sql_type \<Rightarrow> entity_column \<Rightarrow> entity_column" where
  "typed t c = c\<lparr>ec_type := Some t\<rparr>"

definition generated_id :: entity_column where
  "generated_id = (plain ''id'' TsNumber)\<lparr>ec_kind := PrimaryGeneratedColumn\<rparr>"

definition table_entity :: "string \<Rightarrow> entity_column list \<Rightarrow> (string \<times> string) list \<Rightarrow> string list list \<Rightarrow> entity" where
  "table_entity n cs joins us =
     \<lparr>et_name = n, et_columns = cs, et_joins = joins, et_uniques = us, et_enums = [], et_indexes = []\<rparr>"

definition UserEntity :: entity where
  "UserEntity =
     (table_entity ''users''
        [generated_id, plain ''firstName'' TsString, nullable ''lastName'' TsString, plain ''email'' TsString,
         plain ''password'' TsString, nullable ''rol'' TsString, nullable ''photo'' TsString,
         typed (EnumType ''users_gender_enum'') (nullable ''gender'' TsNumber),
         typed (EnumType ''users_documenttype_enum'') (nullable ''documentType'' TsNumber),
         nullable ''documentNumber'' TsNumber, typed DateType (nullable ''dateOfBirth'' TsString),
         nullable ''country'' TsString, nullable ''forgotPasswordToken'' TsString, nullable ''state'' TsString,
         nullable ''city'' TsString] [] [[''email'']])
     \<lparr>et_enums := [(''users_gender_enum'', [''1'', ''2'', ''3'']), (''users_documenttype_enum'', [''1'', ''2''])]\<rparr>"

definition OutboxEntity :: entity where
  "OutboxEntity =
     (table_entity ''outbox''
        [generated_id, plain ''pattern'' TsString, typed Jsonb (plain ''payload'' TsObject),
         typed Timestamptz (nullable ''publishedAt'' TsDate),
         (typed IntegerType (plain ''attempts'' TsNumber))\<lparr>ec_default := Some ''0''\<rparr>,
         (typed Timestamptz (plain ''createdAt'' TsDate))\<lparr>ec_kind := CreateDateColumn\<rparr>] [] [])
     \<lparr>et_indexes := [(''IDX_outbox_pending'', ''publishedAt'')]\<rparr>"

definition UserProjectionEntity :: entity where
  "UserProjectionEntity =
     table_entity ''user_projection''
       [(plain ''id'' TsNumber)\<lparr>ec_kind := PrimaryColumn\<rparr>, plain ''firstName'' TsString, nullable ''lastName'' TsString,
        plain ''email'' TsString, nullable ''rol'' TsString,
        (typed Timestamptz (plain ''updatedAt'' TsDate))\<lparr>ec_kind := UpdateDateColumn\<rparr>] [] []"

definition FarmEntity :: entity where
  "FarmEntity =
     table_entity ''farms''
       [generated_id, plain ''name'' TsString, plain ''location'' TsString, nullable ''photo'' TsString,
        plain ''state'' TsNumber, plain ''area'' TsNumber, plain ''userId'' TsNumber] [] [[''name'', ''userId'']]"

definition CropEntity :: entity where
  "CropEntity =
     table_entity ''crops''
       [generated_id, plain ''name'' TsString, plain ''product'' TsString, plain ''size'' TsNumber,
        plain ''location'' TsString, nullable ''photo'' TsString, plain ''sowingDate'' TsString,
        plain ''plants'' TsNumber] [(''farm'', ''farms'')] []"

definition ActivitiesEntity :: entity where
  "ActivitiesEntity =
     table_entity ''activities''
       [generated_id, nullable ''photo'' TsString, nullable ''type'' TsString, nullable ''inputDate'' TsString,
        nullable ''title'' TsString, nullable ''manufactureLocation'' TsString, nullable ''appRatio'' TsString,
        nullable ''appMethod'' TsString, nullable ''comment'' TsString, nullable ''category'' TsString,
        nullable ''bioName'' TsString, nullable ''bioType'' TsString] [(''crop'', ''crops'')] []"

definition HarvestEntity :: entity where
  "HarvestEntity =
     table_entity ''harvests''
       [generated_id, nullable ''photo'' TsString, plain ''harvestDate'' TsString, plain ''amount'' TsNumber,
        plain ''unit'' TsString, plain ''category'' TsString, nullable ''description'' TsString]
       [(''crop'', ''crops'')] []"

section \<open>The data sources\<close>

text \<open>The TypeORM command line and the services use the same entities and migrations.\<close>

record data_source =
  ds_url :: "string option"
  ds_entities :: "entity list"
  ds_migrations :: "migration list"
  ds_synchronize :: bool

definition auth_data_source :: "(string \<Rightarrow> string option) \<Rightarrow> data_source" where
  "auth_data_source env =
     \<lparr>ds_url = env ''AUTH_POSTGRES_URI'', ds_entities = [UserEntity, OutboxEntity], ds_migrations = auth_migrations,
      ds_synchronize = False\<rparr>"

definition farms_data_source :: "(string \<Rightarrow> string option) \<Rightarrow> data_source" where
  "farms_data_source env =
     \<lparr>ds_url = env ''FARMS_POSTGRES_URI'',
      ds_entities = [FarmEntity, CropEntity, ActivitiesEntity, HarvestEntity, OutboxEntity, UserProjectionEntity],
      ds_migrations = farms_migrations, ds_synchronize = False\<rparr>"

section \<open>Entities against tables\<close>

text \<open>
  TypeORM's mapping onto Postgres: a number is an integer and a string a varchar unless the
  decorator says otherwise, a generated key is a serial, a relation is a nullable integer
  column named after it, and the dates it keeps itself default to the present.
\<close>

fun default_type :: "ts_type \<Rightarrow> sql_type" where
  "default_type TsNumber = IntegerType"
| "default_type TsString = Varchar"
| "default_type TsObject = Jsonb"
| "default_type TsDate = Timestamptz"

definition table_column :: "entity_column \<Rightarrow> column" where
  "table_column c =
     \<lparr>co_name = ec_name c,
      co_type = (if ec_kind c = PrimaryGeneratedColumn then Serial
                 else case ec_type c of Some t \<Rightarrow> t | None \<Rightarrow> default_type (ec_ts c)),
      co_notnull = (\<not> ec_nullable c),
      co_default = (if ec_kind c = CreateDateColumn \<or> ec_kind c = UpdateDateColumn then Some ''now()'' else ec_default c)\<rparr>"

definition join_column :: "string \<times> string \<Rightarrow> column" where
  "join_column j = col (fst j @ ''Id'') IntegerType"

definition mapped_columns :: "entity \<Rightarrow> column list" where
  "mapped_columns e = map table_column (et_columns e) @ map join_column (et_joins e)"

definition primary_key :: "entity \<Rightarrow> string list" where
  "primary_key e =
     map ec_name (filter (\<lambda>c. ec_kind c = PrimaryGeneratedColumn \<or> ec_kind c = PrimaryColumn) (et_columns e))"

text \<open>What of an entity is not as the tables have it.\<close>

datatype mismatch = NoTable string | Unmapped string string | Differs string string | Keys string | Joins string | Enums string

definition mismatches :: "schema \<Rightarrow> entity \<Rightarrow> mismatch list" where
  "mismatches s e =
     (case map_of (db_tables s) (et_name e) of
        None \<Rightarrow> [NoTable (et_name e)]
      | Some t \<Rightarrow>
          map (\<lambda>c. Differs (et_name e) (co_name c)) (filter (\<lambda>c. c \<notin> set (tb_columns t)) (mapped_columns e))
          @ map (\<lambda>c. Unmapped (et_name e) (co_name c))
              (filter (\<lambda>c. co_name c \<notin> set (map co_name (mapped_columns e))) (tb_columns t))
          @ (if set (map snd (tb_keys t)) = set (PrimaryKey (primary_key e) # map UniqueKey (et_uniques e))
             then [] else [Keys (et_name e)])
          @ (if set (map (\<lambda>k. (fk_column k, fk_ref k, fk_refcolumn k)) (filter (\<lambda>k. fk_table k = et_name e) (db_fkeys s)))
                = set (map (\<lambda>(p, r). (p @ ''Id'', r, ''id'')) (et_joins e))
             then [] else [Joins (et_name e)])
          @ (if list_all (\<lambda>(n, ls). map_of (db_types s) n = Some ls) (et_enums e) then [] else [Enums (et_name e)]))"

definition all_mismatches :: "data_source \<Rightarrow> mismatch list option" where
  "all_mismatches d =
     map_option (\<lambda>s. concat (map (mismatches s) (ds_entities d))) (migrate (ds_migrations d) empty_schema)"

lemmas entity_defs = UserEntity_def OutboxEntity_def UserProjectionEntity_def FarmEntity_def CropEntity_def
  ActivitiesEntity_def HarvestEntity_def table_entity_def plain_def nullable_def typed_def generated_id_def
  table_column_def join_column_def primary_key_def

text \<open>
  The migrations build, from an empty database, exactly the tables the entities are mapped
  to: columns, types, nullability, defaults, keys, relations and enum labels, with one
  exception: the owner of a farm is required in the entity and nullable in the table.
\<close>

lemma entities_fit_the_tables:
  "all_mismatches (auth_data_source env) = Some []"
  "all_mismatches (farms_data_source env) = Some [Differs ''farms'' ''userId'']"
  by (simp_all add: all_mismatches_def auth_data_source_def farms_data_source_def mismatches_def mapped_columns_def
      entity_defs migration_defs catalogue_defs insert_commute)

end
