(* ===== verification/Wiring.thy ===== *)
theory Wiring
  imports Platform AuthGateway ReportRoutes Tracing Schema
begin

text \<open>
  How the five services are joined (\<open>apps/*/src/*.module.ts\<close> and \<open>main.ts\<close>): the queue each
  one consumes, the broker clients it registers under which name, the patterns its
  controllers are decorated with, and, for the gateway, the rate limit and the prefix of the
  URLs. The events of the two outboxes reach exactly the services that subscribe to them,
  and every message of a gateway route reaches the service that handles it.
\<close>

datatype app = GatewayModule | AuthModule | FarmsModule | TracingModule | NotificationsAppModule

definition all_apps :: "app list" where
  "all_apps = [GatewayModule, AuthModule, FarmsModule, TracingModule, NotificationsAppModule]"

section \<open>Queues\<close>

text \<open>\<open>configService.get('RABBITMQ_..._QUEUE')\<close> in each \<open>main.ts\<close>; the gateway consumes no queue.\<close>

fun consumed_queue :: "env \<Rightarrow> app \<Rightarrow> string option" where
  "consumed_queue env GatewayModule = None"
| "consumed_queue env AuthModule = env ''RABBITMQ_AUTH_QUEUE''"
| "consumed_queue env FarmsModule = env ''RABBITMQ_FARMS_QUEUE''"
| "consumed_queue env TracingModule = env ''RABBITMQ_TRACING_QUEUE''"
| "consumed_queue env NotificationsAppModule = env ''RABBITMQ_NOTIFICATIONS_QUEUE''"

text \<open>The clients of a module by the name they are injected under.\<close>

definition gateway_clients :: "env \<Rightarrow> (string \<times> rmq_client_options) list" where
  "gateway_clients env =
     [(''AUTH_SERVICE'', registerRmq env (env ''RABBITMQ_AUTH_QUEUE'')),
      (''FARMS_SERVICE'', registerRmq env (env ''RABBITMQ_FARMS_QUEUE'')),
      (''TRACING_SERVICE'', registerRmq env (env ''RABBITMQ_TRACING_QUEUE''))]"

definition auth_clients :: "env \<Rightarrow> (string \<times> rmq_client_options) list" where
  "auth_clients env =
     [(''FARMS_SERVICE'', registerRmq env (env ''RABBITMQ_FARMS_QUEUE'')),
      (''NOTIFICATIONS_SERVICE'', registerRmq env (env ''RABBITMQ_NOTIFICATIONS_QUEUE''))]"

definition farms_clients :: "env \<Rightarrow> (string \<times> rmq_client_options) list" where
  "farms_clients env = [(''TRACING_SERVICE'', registerRmq env (env ''RABBITMQ_TRACING_QUEUE''))]"

fun clients :: "env \<Rightarrow> app \<Rightarrow> (string \<times> rmq_client_options) list" where
  "clients env GatewayModule = gateway_clients env"
| "clients env AuthModule = auth_clients env"
| "clients env FarmsModule = farms_clients env"
| "clients env _ = []"

text \<open>The services that take what is sent through a client: those that consume its queue at its broker.\<close>

definition reached :: "env \<Rightarrow> app \<Rightarrow> string \<Rightarrow> app list" where
  "reached env a name =
     (case map_of (clients env a) name of
        None \<Rightarrow> []
      | Some c \<Rightarrow> filter (\<lambda>b. consumed_queue env b \<noteq> None \<and> consumed_queue env b = rmq_queue c
          \<and> rmq_urls (getRmqOptions env (consumed_queue env b)) = rmq_urls c) all_apps)"

definition queue_names :: "env \<Rightarrow> string option list" where
  "queue_names env = map env [''RABBITMQ_AUTH_QUEUE'', ''RABBITMQ_FARMS_QUEUE'', ''RABBITMQ_TRACING_QUEUE'',
     ''RABBITMQ_NOTIFICATIONS_QUEUE'']"

section \<open>Patterns\<close>

text \<open>The \<open>@EventPattern\<close>s of the controllers a module lists.\<close>

fun event_patterns :: "app \<Rightarrow> string list" where
  "event_patterns FarmsModule = [''user.created'', ''user.updated'']"
| "event_patterns TracingModule = [''crop.initialized'', ''activity.created'', ''harvest.created'']"
| "event_patterns NotificationsAppModule = [''user.created'', ''user.password_reset_requested'']"
| "event_patterns _ = []"

text \<open>The \<open>@MessagePattern\<close>s, by their \<open>cmd\<close>.\<close>

fun message_patterns :: "app \<Rightarrow> string list" where
  "message_patterns AuthModule =
     [''register'', ''login'', ''verify-jwt'', ''refresh-token'', ''update-user'', ''user'', ''forgot-password'',
      ''reset-password'', ''user-image'', ''get-user-image'']"
| "message_patterns FarmsModule =
     [''farms'', ''farmsByUser'', ''updateFarm'', ''deleteFarm'', ''farm-image'', ''get-farm-image'',
      ''crops'', ''getCropById'', ''cropsByFarm'', ''updateCrop'', ''deleteCrop'', ''crop-photo'', ''get-crop-photo'',
      ''harvest'', ''harvestByCrop'', ''updateHarvest'', ''deleteHarvest'', ''harvest-photo'', ''get-harvest-photo'',
      ''activities'', ''activitiesByFarm'', ''updateActivity'', ''deleteActivity'', ''activity-photo'',
      ''get-activity-photo'', ''getAdminReport'', ''getFarmerReport'']"
| "message_patterns TracingModule = [''getTracingHistory'']"
| "message_patterns _ = []"

lemma patterns_have_handlers:
  "p \<in> set (event_patterns FarmsModule) \<longleftrightarrow> projection_controller R p d \<noteq> None"
  "p \<in> set (event_patterns TracingModule) \<longleftrightarrow> tracing_controller T p body \<noteq> None"
  "notifications_controller mailer frontend p body \<noteq> None \<Longrightarrow> p \<in> set (event_patterns NotificationsAppModule)"
  by (auto simp: projection_controller_def tracing_controller_def event_type_of_def notifications_controller_def
      split: if_splits)

section \<open>The gateway\<close>

text \<open>The pattern and the injected client of what a route of the gateway sends.\<close>

datatype gateway_call =
    FarmsCall route
  | ReportCall report_route
  | AuthCall auth_route
  | VerifyCall
  | HistoryCall

fun call_client :: "gateway_call \<Rightarrow> string" where
  "call_client (FarmsCall r) = ''FARMS_SERVICE''"
| "call_client (ReportCall r) = ''FARMS_SERVICE''"
| "call_client (AuthCall r) = ''AUTH_SERVICE''"
| "call_client VerifyCall = ''AUTH_SERVICE''"
| "call_client HistoryCall = ''TRACING_SERVICE''"

fun call_pattern :: "pipes \<Rightarrow> auth_pipes \<Rightarrow> http_request \<Rightarrow> claims option \<Rightarrow> gateway_call \<Rightarrow> exn + string" where
  "call_pattern P Q rq user (FarmsCall r) = and_then (gw_route P rq user r) (\<lambda>m. Inr (fst m))"
| "call_pattern P Q rq user (ReportCall r) = and_then (gw_report P rq user r) (\<lambda>m. Inr (fst m))"
| "call_pattern P Q rq user (AuthCall r) = and_then (gw_auth Q rq user r) (\<lambda>m. Inr (fst m))"
| "call_pattern P Q rq user VerifyCall = Inr ''verify-jwt''"
| "call_pattern P Q rq user HistoryCall = and_then (gw_history P rq user) (\<lambda>m. Inr (fst m))"

text \<open>A per-process limit: at most so many requests in so many milliseconds.\<close>

record 'n throttle =
  th_ttl :: 'n
  th_limit :: 'n

definition throttle_options :: "(string \<Rightarrow> 'n) \<Rightarrow> (int \<Rightarrow> 'n) \<Rightarrow> env \<Rightarrow> 'n throttle" where
  "throttle_options to_number num_of env =
     \<lparr>th_ttl = (case env ''THROTTLE_TTL_MS'' of None \<Rightarrow> num_of 60000 | Some s \<Rightarrow> to_number s),
      th_limit = (case env ''THROTTLE_LIMIT'' of None \<Rightarrow> num_of 100 | Some s \<Rightarrow> to_number s)\<rparr>"

text \<open>\<open>setGlobalPrefix\<close>: the path of a controller's route.\<close>

definition global_prefix :: "string \<Rightarrow> string" where
  "global_prefix path = (if path \<in> set [''health'', ''metrics''] then ''/'' @ path else ''/api/v1/'' @ path)"

section \<open>Databases\<close>

text \<open>\<open>PostgresDBModule.forApp\<close> and \<open>TypeOrmModule.forFeature\<close> of the two modules with a database.\<close>

definition auth_postgres :: "env \<Rightarrow> exn + migration list postgres_options" where
  "auth_postgres env = buildPostgresOptions auth_migrations ''AUTH_POSTGRES_URI'' env"

definition farms_postgres :: "env \<Rightarrow> exn + migration list postgres_options" where
  "farms_postgres env = buildPostgresOptions farms_migrations ''FARMS_POSTGRES_URI'' env"

definition auth_features :: "entity list" where
  "auth_features = [UserEntity, OutboxEntity]"

definition farms_features :: "entity list" where
  "farms_features = [FarmEntity, CropEntity, ActivitiesEntity, HarvestEntity, OutboxEntity, UserProjectionEntity]"

text \<open>A service that starts and the command line tool agree on the database and on what is in it.\<close>

definition agrees :: "migration list postgres_options \<Rightarrow> entity list \<Rightarrow> data_source \<Rightarrow> bool" where
  "agrees opts features ds \<longleftrightarrow>
     ds_url ds = Some (pg_url opts) \<and> ds_migrations ds = pg_migrations opts \<and> ds_entities ds = features
     \<and> ds_synchronize ds = pg_synchronize opts"

lemma service_and_tool_agree:
  "auth_postgres env = Inr opts \<Longrightarrow> agrees opts auth_features (auth_data_source env)"
  "farms_postgres env = Inr opts \<Longrightarrow> agrees opts farms_features (farms_data_source env)"
  by (auto simp: auth_postgres_def farms_postgres_def buildPostgresOptions_def agrees_def auth_data_source_def
      farms_data_source_def auth_features_def farms_features_def split: option.splits if_splits)

section \<open>Everything that is sent arrives\<close>

lemma reached_simps:
  assumes "env_valid is_uri env" and "distinct (queue_names env)"
  shows "reached env GatewayModule ''AUTH_SERVICE'' = [AuthModule]"
    and "reached env GatewayModule ''FARMS_SERVICE'' = [FarmsModule]"
    and "reached env GatewayModule ''TRACING_SERVICE'' = [TracingModule]"
    and "reached env AuthModule ''FARMS_SERVICE'' = [FarmsModule]"
    and "reached env AuthModule ''NOTIFICATIONS_SERVICE'' = [NotificationsAppModule]"
    and "reached env FarmsModule ''TRACING_SERVICE'' = [TracingModule]"
proof -
  have req: "(k, Text, Required) \<in> set envValidationSchema \<Longrightarrow> \<exists>s. env k = Some s" for k
    using valid_required [OF assms(1), of k Text] by auto
  have "(''RABBITMQ_AUTH_QUEUE'', Text, Required) \<in> set envValidationSchema"
    "(''RABBITMQ_FARMS_QUEUE'', Text, Required) \<in> set envValidationSchema"
    "(''RABBITMQ_TRACING_QUEUE'', Text, Required) \<in> set envValidationSchema"
    "(''RABBITMQ_NOTIFICATIONS_QUEUE'', Text, Required) \<in> set envValidationSchema"
    by (simp_all add: envValidationSchema_def)
  from this [THEN req] obtain a f t n where q: "env ''RABBITMQ_AUTH_QUEUE'' = Some a" "env ''RABBITMQ_FARMS_QUEUE'' = Some f"
    "env ''RABBITMQ_TRACING_QUEUE'' = Some t" "env ''RABBITMQ_NOTIFICATIONS_QUEUE'' = Some n" by blast
  note defs = reached_def gateway_clients_def auth_clients_def farms_clients_def registerRmq_def getRmqOptions_def all_apps_def
  show "reached env GatewayModule ''AUTH_SERVICE'' = [AuthModule]"
    "reached env GatewayModule ''FARMS_SERVICE'' = [FarmsModule]"
    "reached env GatewayModule ''TRACING_SERVICE'' = [TracingModule]"
    "reached env AuthModule ''FARMS_SERVICE'' = [FarmsModule]"
    "reached env AuthModule ''NOTIFICATIONS_SERVICE'' = [NotificationsAppModule]"
    "reached env FarmsModule ''TRACING_SERVICE'' = [TracingModule]"
    using assms(2) q by (auto simp: queue_names_def defs)
qed

text \<open>What the auth service and the farms service store in their outboxes.\<close>

definition auth_events :: "string list" where
  "auth_events = [''user.created'', ''user.updated'', ''user.password_reset_requested'']"

definition farms_events :: "string list" where
  "farms_events = [''crop.initialized'', ''activity.created'', ''harvest.created'']"

text \<open>
  With the queues named apart in a validated environment, an event of an outbox is emitted
  to exactly the services that subscribe to its pattern, each once.
\<close>

theorem events_reach_exactly_their_subscribers:
  assumes "env_valid is_uri env" and "distinct (queue_names env)"
  shows "p \<in> set auth_events \<Longrightarrow>
      concat (map (reached env AuthModule) (clientsFor (auth_targets ''FARMS_SERVICE'' ''NOTIFICATIONS_SERVICE'') p))
        = filter (\<lambda>a. p \<in> set (event_patterns a)) all_apps"
    and "p \<in> set farms_events \<Longrightarrow>
      concat (map (reached env FarmsModule) (clientsFor (farms_targets ''TRACING_SERVICE'') p))
        = filter (\<lambda>a. p \<in> set (event_patterns a)) all_apps"
  using reached_simps [OF assms]
  by (auto simp: auth_events_def farms_events_def auth_targets_def farms_targets_def clientsFor_def all_apps_def)

text \<open>Every message of a gateway route reaches one service, and that service has a handler for it.\<close>

theorem calls_reach_their_handlers:
  assumes "env_valid is_uri env" and "distinct (queue_names env)" and "call_pattern P Q rq user c = Inr p"
  shows "\<exists>a. reached env GatewayModule (call_client c) = [a] \<and> p \<in> set (message_patterns a)"
proof (cases c)
  case (FarmsCall r)
  obtain m where m: "gw_route P rq user r = Inr m" "p = fst m"
    using assms(3) FarmsCall by (auto simp: and_then_Inr)
  have "p \<in> set (message_patterns FarmsModule)"
  proof (cases r)
    case (FarmsRoute x)
    with m show ?thesis by (cases x) (auto simp: and_then_Inr elim!: send_idE send_photoE)
  next
    case (CropsRoute x)
    with m show ?thesis by (cases x) (auto simp: and_then_Inr elim!: send_idE send_photoE)
  next
    case (ActivitiesRoute x)
    with m show ?thesis by (cases x) (auto simp: and_then_Inr elim!: send_idE send_photoE)
  next
    case (HarvestsRoute x)
    with m show ?thesis by (cases x) (auto simp: and_then_Inr elim!: send_idE send_photoE)
  qed
  then show ?thesis using FarmsCall reached_simps [OF assms(1,2)] by simp
next
  case (ReportCall r)
  then show ?thesis
    using assms(3) reached_simps [OF assms(1,2)]
    by (cases r) (auto simp: and_then_Inr admin_message_def farmer_message_def)
next
  case (AuthCall r)
  then show ?thesis
    using assms(3) reached_simps [OF assms(1,2)] by (cases r) (auto simp: and_then_Inr)
next
  case VerifyCall
  then show ?thesis using assms(3) reached_simps [OF assms(1,2)] by simp
next
  case HistoryCall
  then show ?thesis
    using assms(3) reached_simps [OF assms(1,2)] by (auto simp: and_then_Inr gw_history_def)
qed

end
