(* ===== verification/Bootstrap.thy ===== *)
theory Bootstrap
  imports Wiring RmqLifecycle
begin

text \<open>
  How the services start (\<open>apps/*/src/main.ts\<close>), as programs over what NestJS and the broker
  offer: any step may fail or be the last one of the process. The name of the queue is given;
  a service without one in its environment is not modelled.
\<close>

section \<open>Starting\<close>

record 'w host =
  ho_create :: "app \<Rightarrow> ('w, unit) op"
  ho_declare :: "string \<Rightarrow> queue_decl \<Rightarrow> ('w, unit) op"
  ho_connect :: "rmq_client_options \<Rightarrow> rmq_options \<Rightarrow> ('w, unit) op"
  ho_start :: "('w, unit) op"
  ho_listen :: "string \<Rightarrow> ('w, unit) op"

text \<open>\<open>configureRmqMicroservice\<close>: the interceptor's options and the transport of the queue.\<close>

definition connect_microservice :: "'w host \<Rightarrow> env \<Rightarrow> string \<Rightarrow> rmq_options \<Rightarrow> ('w, unit) prog" where
  "connect_microservice H env queue reliability =
     atom (ho_connect H (getRmqOptions env (Some queue)) reliability)"

definition declare_topology :: "'w host \<Rightarrow> env \<Rightarrow> string \<Rightarrow> ('w, unit) prog" where
  "declare_topology H env queue =
     for_each (\<lambda>d. atom (ho_declare H (amqp_url env) d)) (assertRetryTopology queue RETRY_BACKOFF_MS)"

text \<open>The tracing and the notifications service.\<close>

definition bootstrap_consumer :: "'w host \<Rightarrow> env \<Rightarrow> app \<Rightarrow> string \<Rightarrow> ('w, unit) prog" where
  "bootstrap_consumer H env a queue =
     bind (atom (ho_create H a)) (\<lambda>_.
     bind (declare_topology H env queue) (\<lambda>_.
     bind (connect_microservice H env queue (event_service_options queue)) (\<lambda>_.
     bind (atom (ho_start H)) (\<lambda>_.
     atom (ho_listen H (health_port env))))))"

definition bootstrap_tracing :: "'w host \<Rightarrow> env \<Rightarrow> string \<Rightarrow> ('w, unit) prog" where
  "bootstrap_tracing H env queue = bootstrap_consumer H env TracingModule queue"

definition bootstrap_notifications :: "'w host \<Rightarrow> env \<Rightarrow> string \<Rightarrow> ('w, unit) prog" where
  "bootstrap_notifications H env queue = bootstrap_consumer H env NotificationsAppModule queue"

text \<open>The farms and the auth service take no options: their queues have no retry topology.\<close>

definition bootstrap_farms :: "'w host \<Rightarrow> env \<Rightarrow> string \<Rightarrow> ('w, unit) prog" where
  "bootstrap_farms H env queue =
     bind (atom (ho_create H FarmsModule)) (\<lambda>_.
     bind (connect_microservice H env queue rpc_service_options) (\<lambda>_.
     bind (atom (ho_start H)) (\<lambda>_.
     atom (ho_listen H (health_port env)))))"

text \<open>The auth service seeds its administrator when everything else is up.\<close>

definition bootstrap_auth :: "'w host \<Rightarrow> env \<Rightarrow> string \<Rightarrow> ('w, unit) prog \<Rightarrow> ('w, unit) prog" where
  "bootstrap_auth H env queue seed =
     bind (atom (ho_create H AuthModule)) (\<lambda>_.
     bind (connect_microservice H env queue rpc_service_options) (\<lambda>_.
     bind (atom (ho_start H)) (\<lambda>_.
     bind (atom (ho_listen H (health_port env))) (\<lambda>_.
     seed))))"

section \<open>What the calls do\<close>

text \<open>
  The queues declared at a broker, the consumer that is configured, and whether it has begun
  to consume. A consumer begins with the configuration it has.
\<close>

record boot_view =
  declared_at :: "(string \<times> queue_decl) list"
  consumer :: "(rmq_client_options \<times> rmq_options) option"
  consuming :: bool
  listening :: "string option"

definition boot_contract :: "('w \<Rightarrow> boot_view) \<Rightarrow> 'w host \<Rightarrow> bool" where
  "boot_contract view H \<longleftrightarrow>
     (\<forall>a. implements view (ho_create H a) (reads (\<lambda>_ _. True))) \<and>
     (\<forall>url d. implements view (ho_declare H url d)
        (\<lambda>v _ v'. v' = v\<lparr>declared_at := declared_at v @ [(url, d)]\<rparr>)) \<and>
     (\<forall>c opts. implements view (ho_connect H c opts) (\<lambda>v _ v'. v' = v\<lparr>consumer := Some (c, opts)\<rparr>)) \<and>
     implements view (ho_start H) (\<lambda>v _ v'. v' = v\<lparr>consuming := True\<rparr>) \<and>
     (\<forall>p. implements view (ho_listen H p) (\<lambda>v _ v'. v' = v\<lparr>listening := Some p\<rparr>))"

lemma boot_contractD:
  assumes "boot_contract view H"
  shows "implements view (ho_create H a) (reads (\<lambda>_ _. True))"
    and "implements view (ho_declare H url d) (\<lambda>v _ v'. v' = v\<lparr>declared_at := declared_at v @ [(url, d)]\<rparr>)"
    and "implements view (ho_connect H c opts) (\<lambda>v _ v'. v' = v\<lparr>consumer := Some (c, opts)\<rparr>)"
    and "implements view (ho_start H) (\<lambda>v _ v'. v' = v\<lparr>consuming := True\<rparr>)"
    and "implements view (ho_listen H p) (\<lambda>v _ v'. v' = v\<lparr>listening := Some p\<rparr>)"
  using assms by (simp_all add: boot_contract_def)

section \<open>No event is consumed before its queues are there\<close>

definition topology_there :: "env \<Rightarrow> string \<Rightarrow> boot_view \<Rightarrow> bool" where
  "topology_there env queue v \<longleftrightarrow>
     set (map (Pair (amqp_url env)) (assertRetryTopology queue RETRY_BACKOFF_MS)) \<subseteq> set (declared_at v)"

text \<open>While it consumes, a service does so from its queue, with all queues of its options declared.\<close>

definition consumes_safely :: "env \<Rightarrow> string \<Rightarrow> boot_view \<Rightarrow> bool" where
  "consumes_safely env queue v \<longleftrightarrow>
     (consuming v \<longrightarrow> topology_there env queue v
        \<and> consumer v = Some (getRmqOptions env (Some queue), event_service_options queue))"

lemma declare_topology_spec:
  assumes "boot_contract view H" and "\<not> consuming v"
  shows "vwp view (consumes_safely env queue) (declare_topology H env queue)
     (\<lambda>_ v'. \<not> consuming v' \<and> topology_there env queue v') (\<lambda>_ _. True) v"
  unfolding declare_topology_def
proof (rule vwp_for_each [where J = "\<lambda>ds v. \<not> consuming v \<and>
    (\<exists>done_decls. assertRetryTopology queue RETRY_BACKOFF_MS = done_decls @ ds
       \<and> set (map (Pair (amqp_url env)) done_decls) \<subseteq> set (declared_at v))"], goal_cases)
  case 1
  then show ?case using assms(2) by (auto intro: exI [of _ "[]"])
next
  case (2 v)
  then show ?case by (auto simp: topology_there_def consumes_safely_def)
next
  case (3 d ds v)
  then obtain pre where pre: "\<not> consuming v" "assertRetryTopology queue RETRY_BACKOFF_MS = pre @ d # ds"
    "set (map (Pair (amqp_url env)) pre) \<subseteq> set (declared_at v)" by blast
  show ?case
    by (rule vwp_atom [OF boot_contractD(2) [OF assms(1)]])
      (use pre in \<open>auto simp: consumes_safely_def intro!: exI [of _ "pre @ [d]"]\<close>)
qed

lemma bootstrap_consumer_spec:
  assumes "boot_contract view H" and "\<not> consuming v"
  shows "vwp view (consumes_safely env queue) (bootstrap_consumer H env a queue)
     (\<lambda>_ v'. consuming v' \<and> listening v' = Some (health_port env)) (\<lambda>_ _. True) v"
proof -
  note C = boot_contractD [OF assms(1)]
  have rest: "vwp view (consumes_safely env queue)
      (bind (connect_microservice H env queue (event_service_options queue)) (\<lambda>_.
       bind (atom (ho_start H)) (\<lambda>_. atom (ho_listen H (health_port env)))))
      (\<lambda>_ v'. consuming v' \<and> listening v' = Some (health_port env)) (\<lambda>_ _. True) u"
    if "\<not> consuming u" "topology_there env queue u" for u
    unfolding connect_microservice_def
    by (intro vwp_bind, rule vwp_atom [OF C(3)])
      (use that in \<open>auto simp: consumes_safely_def topology_there_def intro!: vwp_bind vwp_atom [OF C(4)] vwp_atom [OF C(5)]\<close>)
  have mid: "vwp view (consumes_safely env queue)
      (bind (declare_topology H env queue) (\<lambda>_.
       bind (connect_microservice H env queue (event_service_options queue)) (\<lambda>_.
       bind (atom (ho_start H)) (\<lambda>_. atom (ho_listen H (health_port env))))))
      (\<lambda>_ v'. consuming v' \<and> listening v' = Some (health_port env)) (\<lambda>_ _. True) v"
    by (rule vwp_bind, rule vwp_mono [OF declare_topology_spec [OF assms]]) (auto intro: rest)
  show ?thesis
    unfolding bootstrap_consumer_def
    by (rule vwp_bind, rule vwp_atom [OF C(1)]) (use assms(2) mid in \<open>auto simp: consumes_safely_def reads_def\<close>)
qed

text \<open>
  C38. A service of the event queues, wherever its start breaks off, never consumes before
  the topology is there: while it consumes, it does so from its own queue, one message at a
  time and with acknowledgements, every declaration of the retry topology has been made at
  the very broker it consumes from, and the queues its failed events are sent to are
  declared: the one for retries leads back to its own queue, the one for dead letters
  nowhere. A start that ends well consumes and answers the health probes.
\<close>

theorem consumption_waits_for_the_topology:
  assumes "boot_contract view H" and "\<not> consuming (view w)" and "run (bootstrap_consumer H env a queue) w = (r, w')"
  shows "(\<forall>n. let v = view (crash_after n (bootstrap_consumer H env a queue) w) in consuming v \<longrightarrow>
      (\<exists>c opts rq dq. consumer v = Some (c, opts) \<and> rmq_queue c = Some queue \<and> rmq_noAck c = Some False
         \<and> rmq_prefetchCount c = Some 1 \<and> retryQueue opts = Some rq \<and> deadLetterQueue opts = Some dq
         \<and> (\<forall>d \<in> set (assertRetryTopology queue RETRY_BACKOFF_MS). \<forall>url \<in> set (rmq_urls c). (url, d) \<in> set (declared_at v))
         \<and> queue_args_of (assertRetryTopology queue RETRY_BACKOFF_MS) dq = Some no_args
         \<and> expires_to (assertRetryTopology queue RETRY_BACKOFF_MS) rq = [queue]
         \<and> expires_to (assertRetryTopology queue RETRY_BACKOFF_MS) dq = []))
   \<and> (\<forall>x. r = Inr x \<longrightarrow> consuming (view w') \<and> listening (view w') = Some (health_port env))"
proof -
  note spec = bootstrap_consumer_spec [OF assms(1,2)]
  have "consumes_safely env queue (view (crash_after n (bootstrap_consumer H env a queue) w))" for n
    by (rule vwp_crash [OF spec])
  then show ?thesis
    using vwp_run [OF spec assms(3)]
    by (auto simp: consumes_safely_def Let_def topology_there_def event_service_options_def configureRmqMicroservice_def
        getRmqOptions_def expires_to_topology; auto simp: assertRetryTopology_def)
qed

section \<open>A start in memory\<close>

definition mem_host :: "boot_view host" where
  "mem_host =
     \<lparr>ho_create = (\<lambda>_ v. (Inr (), v)),
      ho_declare = (\<lambda>url d v. (Inr (), v\<lparr>declared_at := declared_at v @ [(url, d)]\<rparr>)),
      ho_connect = (\<lambda>c opts v. (Inr (), v\<lparr>consumer := Some (c, opts)\<rparr>)),
      ho_start = (\<lambda>v. (Inr (), v\<lparr>consuming := True\<rparr>)),
      ho_listen = (\<lambda>p v. (Inr (), v\<lparr>listening := Some p\<rparr>))\<rparr>"

lemma mem_boot_contract: "boot_contract id mem_host"
  by (simp add: boot_contract_def mem_host_def implements_def reads_def)

definition cold :: boot_view where
  "cold = \<lparr>declared_at = [], consumer = None, consuming = False, listening = None\<rparr>"

theorem consumption_waits_for_the_topology_witness:
  "\<exists>v c opts. run (bootstrap_consumer mem_host bare_env TracingModule ''tracing'') cold = (Inr (), v)
     \<and> consuming v \<and> listening v = Some ''3000''
     \<and> consuming (crash_after 8 (bootstrap_consumer mem_host bare_env TracingModule ''tracing'') cold)
     \<and> consumer (crash_after 8 (bootstrap_consumer mem_host bare_env TracingModule ''tracing'') cold) = Some (c, opts)
     \<and> retryQueue opts \<noteq> None"
proof -
  let ?p = "bootstrap_consumer mem_host bare_env TracingModule ''tracing''"
  obtain r v where run: "run ?p cold = (r, v)" by fastforce
  have "case fst (run ?p cold) of Inr x \<Rightarrow> True | Inl e \<Rightarrow> False" by code_simp
  then have r: "r = Inr ()" using run by (cases r) auto
  have "health_port bare_env = ''3000''" "consuming (crash_after 8 ?p cold)" by code_simp+
  moreover have "\<not> consuming (id cold)" by (simp add: cold_def)
  note consumption_waits_for_the_topology [OF mem_boot_contract this run]
  ultimately show ?thesis using run r by (auto simp: Let_def dest!: spec [of _ 8])
qed

end
