(* ===== verification/AuthResetOnce.thy ===== *)
theory AuthResetOnce
  imports AuthReset AuthRefresh
begin

text \<open>
  How long a used reset token stays refused: through every later command and crash of the
  service, until the address gets a stored token again. From then on it depends on the hash:
  bcrypt compares 72 bytes, and the tokens of one user begin alike.
\<close>

section \<open>No stored token for an address\<close>













section \<open>Every command keeps it\<close>









section \<open>Used up, until the next request\<close>







section \<open>A hash that reads 72 characters\<close>


















end
