(* ===== verification/Spec2Isabelle.thy ===== *)
theory Spec2Isabelle
  imports FarmsLimits RelayLiveness RmqTries FarmsGateway TraceFlow ReportSpec ReportCsv EventValidation ValidatedRoutes
    BaseRepository Bootstrap AuthResetOnce
begin

text \<open>
  HarvestLedger: a ledger of farms, crops, activities and harvests, as five NestJS services
  over RabbitMQ. This library models the services' own code in HOL and proves what they
  promise.

  \<^bold>\<open>The program.\<close> The gateway (\<open>apps/gateway\<close>) is the only HTTP surface: it checks the bearer
  token with the auth service, validates bodies and turns each request into a message. The
  farms service (\<open>apps/farms\<close>) owns the farms database and checks who owns a record; the auth
  service (\<open>apps/auth\<close>) owns the accounts and the tokens. Both write an event into an outbox
  table in the transaction of the change itself, and a relay publishes the pending rows
  later. The tracing service (\<open>apps/tracing\<close>) keeps the history of a crop, made of the farms
  service's events; the notifications service (\<open>apps/notifications\<close>) mails; the farms service
  keeps a projection of the accounts, which its reports use. \<open>libs/common\<close> holds what they
  share.

  \<^bold>\<open>How code is modelled.\<close> A method is a program over an unknown world (theory Effects): a
  sequence of atomic calls, each of which may throw and may change the world, so that a crash
  or another process can come between any two of them. Exceptions are the datatype of
  theory Exceptions: the \<open>HttpException\<close>s of the program, errors, and what a library throws.
  Databases, Redis, the broker, S3, bcrypt, the token library and the mailer are parameters:
  records of operations. What the code relies on is a contract over a view of the world
  (theory Contracts, and \<open>farms_contract\<close>, \<open>auth_contract\<close>, \<open>redis_contract\<close>,
  \<open>relay_contract\<close>, \<open>tracing_contract\<close>, \<open>report_contract\<close>): an operation either does what its
  documentation says or throws a library error and changes nothing that is committed. Each
  contract is instantiated in memory (FarmsMemory, AuthMemory and the \<open>mem_\<close> definitions), and the witnesses
  run the programs there. Programs are executed by \<open>run\<close> and, up to a crash after any
  number of calls, by \<open>crash_after\<close>; \<open>vwp\<close> is the weakest precondition with an invariant that
  has to hold at every crash point.

  \<^bold>\<open>The parts.\<close>
  \<^item> Prelude, Exceptions, Effects, Contracts: strings and JSON objects, errors, programs,
    and the rules for proofs about them.
  \<^item> Entities, Database, Outbox, FarmsStore: the rows and DTOs of
    \<open>libs/common/src/{entities,dtos}\<close>, repositories and transactions, the write side of the
    outbox (\<open>outbox.service.ts\<close>). Schema: the migrations as SQL statements on a catalogue, and
    the tables the entities are mapped to.
  \<^item> ObjectStore: \<open>s3.service.ts\<close> with base64 on 8-bit words.
  \<^item> Ownership, FarmsService, CropsService, ActivitiesService, HarvestsService: the services
    and controllers of \<open>apps/farms/src\<close>, each with its abstract specification (who is refused
    with what, and the effect of a command on the tables) and the refinement; FarmsSpec holds
    what a refinement is, FarmsApp composes the four. FarmsIsolation, FarmsReach, FarmsPhotos
    and FarmsLimits: users are isolated, the invariant of every reachable state, photos read
    back, and what the code does not guarantee (the race of two harvests, for every database
    that keeps its contract, and the rename).
  \<^item> OutboxRelay, RelaySafety, RelayLiveness: \<open>base-outbox-relay.service.ts\<close> and the two relays.
  \<^item> RmqReliability, RmqLifecycle, RmqEvents, RmqTries: the interceptor, the retry topology and the
    bootstraps of the consumers; a queue as a step relation with failures, expiry and crashes;
    its histories, in which the consumer may die at any moment, and the bounds on copies,
    tries and steps that count the publications and the deaths.
  \<^item> HttpErrors, Guards, FarmsGateway: the two exception filters, the guards, and the routes of
    the farms service from the HTTP request to the response.
  \<^item> Redis, Tracing, TracingOnce, TraceFlow: \<open>redis.service.ts\<close>, the tracing service, that an
    event is recorded once under concurrent deliveries, and the way of an event from the farms
    service's outbox into the history.
  \<^item> UserProjections, Reports, ReportSpec, ReportCsv, ReportRoutes: the projection, the two
    reports with their cache, and the files the gateway makes of them behind its guards.
  \<^item> AuthStore, AuthService, AuthRules, AuthMemory: \<open>auth.service.ts\<close>, the controller, the seed,
    and the rules for them; BaseRepository: the class the repositories extend. AuthAccounts, AuthTokens, AuthRefresh, AuthReset,
    AuthResetOnce: registration, login, refresh, the reset of a password, and for how long a used
    reset token stays refused. AuthGateway: the routes of the gateway, and
    its guard closed with the service that verifies the tokens.
  \<^item> Notifications: the mails, and the way of a registration and of a reset from the outbox to
    its consumers.
  \<^item> Validation: the \<open>ValidationPipe\<close> on the decorators of the DTOs. ValidatedRoutes puts it
    into the gateway's routes with a body, EventValidation before the consumers of the events.
  \<^item> Config, Platform: the environment, connection options, logging, tracing, metrics. Wiring:
    which service consumes which queue, and that every message and event reaches its handlers.
    Bootstrap: the order in which the services of \<open>apps/*/src/main.ts\<close> start.

  Three interfaces are locales: \<open>owned_resource\<close> (Ownership), what the four services rely on when
  a record is loaded and its owner checked, interpreted for farms, crops, activities and
  harvests; \<open>reversible\<close> (Schema), interpreted for single statements and for migrations; and
  \<open>event_channel\<close> (EventValidation), what a producer and the DTO of its consumers owe each other,
  interpreted for the events of crops, of activities and harvests, of users and of resets.

  \<^bold>\<open>Words, bounds and fuel.\<close> JavaScript numbers are \<open>int\<close>: the ids and amounts that occur are
  integers and no arithmetic of the code leaves the exact range. Bytes are 8-bit words. No
  definition needs fuel: loops are over lists; drains and deliveries, which repeat for ever,
  are step relations or iterated programs, with their termination and liveness proved:
  at most eleven steps for each publication and ten for each death of the consumer
  (\<open>event_queue_settles\<close>), and a backlog drained in enough drains (\<open>backlog_is_drained\<close>).

  \<^bold>\<open>Assumptions.\<close> Isolation of a transaction is that its changes become visible at commit, and a
  commit that violates a key or a foreign key fails; the constraints are those of the
  migrations. A verified token was signed with the key that verifies it, and a token has one
  payload. bcrypt's comparison accepts a password with each of its hashes, and its answer
  depends on the two alone; that it reads 72 bytes of the text is stated where it matters
  (\<open>bcrypt_prefix\<close>, AuthResetOnce). Queues are
  consumed one message at a time (\<open>prefetchCount: 1\<close>), and the broker delivers an unacknowledged
  message again. Postgres executes a statement of a migration as \<open>Schema.exec\<close> says, and TypeORM maps
  the decorators as \<open>Schema.table_column\<close> says.

  \<^bold>\<open>Not modelled.\<close> The injection of providers (\<open>*.module.ts\<close>) beyond queues, clients, patterns
  and databases; the start of the gateway; Swagger, helmet, the throttler's counting,
  passport; the writers of CSV, logs, metrics and traces; log lines; the texts of validation
  messages; the timestamps that the database keeps; the load tests and the end-to-end harness.
  The NestJS pipes are parameters of the gateway's routes: ValidatedRoutes takes pipes that
  validate for the routes of the farms service with a body; the others are proved for any pipes.
\<close>

end
